(* ===== verification/Prelude.thy ===== *)
theory Prelude
  imports Main "HOL-Library.Sublist" "HOL-Library.Char_ord"
begin

section \<open>Shared vocabulary: JavaScript strings, numbers and option values\<close>

text \<open>
  What the components share. A JavaScript string is a list of code units. The model keeps the
  code units below 256 (Latin-1), the type \<^typ>\<open>char\<close>; on those, case folding and
  trimming are what ECMAScript prescribes. A value that may be \<open>undefined\<close> or \<open>null\<close>
  is an option. The collections below feed the component proofs:
  \<open>js_simps\<close> rewrites string operations, \<open>page_defs\<close> unfolds the step functions of
  the pages.
\<close>

named_theorems js_simps "rewrite rules for the JavaScript string operations"
named_theorems page_defs "definitions of page operations, for the component proofs"

type_synonym js_string = string

subsection \<open>Characters\<close>

text \<open>The white space and line terminators that \<open>String.prototype.trim\<close> strips.\<close>

definition is_ws :: "char \<Rightarrow> bool" where
  "is_ws c \<longleftrightarrow> (of_char c :: nat) \<in> {9, 10, 11, 12, 13, 32, 160}"

definition is_digit :: "char \<Rightarrow> bool" where
  "is_digit c \<longleftrightarrow> 48 \<le> (of_char c :: nat) \<and> (of_char c :: nat) \<le> 57"

definition digit_val :: "char \<Rightarrow> nat" where
  "digit_val c = of_char c - 48"

text \<open>\<open>toLowerCase\<close> on one Latin-1 code unit; the multiplication sign 215 has no case.\<close>

definition lower_char :: "char \<Rightarrow> char" where
  "lower_char c =
     (let n = (of_char c :: nat)
      in if 65 \<le> n \<and> n \<le> 90 \<or> 192 \<le> n \<and> n \<le> 222 \<and> n \<noteq> 215 then char_of (n + 32) else c)"

lemma lower_char_idem [js_simps]: "lower_char (lower_char c) = lower_char c"
proof (cases "65 \<le> (of_char c :: nat) \<and> (of_char c :: nat) \<le> 90
              \<or> 192 \<le> (of_char c :: nat) \<and> (of_char c :: nat) \<le> 222 \<and> (of_char c :: nat) \<noteq> 215")
  case True
  then have n: "(of_char c :: nat) + 32 < 256" by auto
  have l: "lower_char c = char_of ((of_char c :: nat) + 32)"
    using True by (simp add: lower_char_def Let_def)
  have "of_char (lower_char c) = (of_char c :: nat) + 32"
    using n by (simp add: l)
  then show ?thesis
    using True by (auto simp add: lower_char_def [of "lower_char c"] Let_def)
next
  case False
  then have "lower_char c = c" by (auto simp add: lower_char_def Let_def)
  then show ?thesis by simp
qed

subsection \<open>Strings\<close>

definition js_trim :: "js_string \<Rightarrow> js_string" where
  "js_trim s = rev (dropWhile is_ws (rev (dropWhile is_ws s)))"

definition js_lower :: "js_string \<Rightarrow> js_string" where
  "js_lower s = map lower_char s"

text \<open>\<open>haystack.includes(needle)\<close>.\<close>

fun js_includes :: "js_string \<Rightarrow> js_string \<Rightarrow> bool" where
  "js_includes [] needle = (needle = [])"
| "js_includes (c # cs) needle = (take (length needle) (c # cs) = needle \<or> js_includes cs needle)"

definition js_starts_with :: "js_string \<Rightarrow> js_string \<Rightarrow> bool" where
  "js_starts_with s p \<longleftrightarrow> take (length p) s = p"

text \<open>\<open>s.split(d)\<close> for a one-unit separator: never the empty list.\<close>

fun js_split :: "char \<Rightarrow> js_string \<Rightarrow> js_string list" where
  "js_split d [] = [[]]"
| "js_split d (c # cs) =
     (if c = d then [] # js_split d cs
      else case js_split d cs of [] \<Rightarrow> [[c]] | p # ps \<Rightarrow> (c # p) # ps)"

fun js_join :: "js_string \<Rightarrow> js_string list \<Rightarrow> js_string" where
  "js_join sep [] = []"
| "js_join sep [p] = p"
| "js_join sep (p # q # ps) = p @ sep @ js_join sep (q # ps)"

text \<open>Truthiness of a string, and \<open>s || undefined\<close>.\<close>

definition truthy_str :: "js_string \<Rightarrow> bool" where
  "truthy_str s \<longleftrightarrow> s \<noteq> []"

definition or_undefined :: "js_string \<Rightarrow> js_string option" where
  "or_undefined s = (if truthy_str s then Some s else None)"

text \<open>
  \<open>text.split(",").map((v) => v.trim()).filter(Boolean)\<close>: how the forms read a
  comma-separated list, and the same for one value per line.
\<close>

definition split_values :: "char \<Rightarrow> js_string \<Rightarrow> js_string list" where
  "split_values d s = filter truthy_str (map js_trim (js_split d s))"

lemma js_includes_iff_sublist: "js_includes s t \<longleftrightarrow> sublist t s"
proof (induction s)
  case Nil
  then show ?case by simp
next
  case (Cons c cs)
  have "take (length t) (c # cs) = t \<longleftrightarrow> prefix t (c # cs)"
    by (metis append_eq_conv_conj append_take_drop_id prefix_def)
  with Cons show ?case by (simp add: sublist_Cons_right)
qed

lemma js_includes_refl [simp]: "js_includes s s"
  by (simp add: js_includes_iff_sublist)

lemma js_includes_Nil [simp]: "js_includes s []"
  by (simp add: js_includes_iff_sublist)

lemma js_split_not_Nil [simp]: "js_split d s \<noteq> []"
  by (induction s) (auto split: list.splits)

lemma js_split_append_sep:
  "d \<notin> set p \<Longrightarrow> js_split d (p @ d # rest) = p # js_split d rest"
  by (induction p) (auto split: list.splits)

lemma js_split_no_sep: "d \<notin> set p \<Longrightarrow> js_split d p = [p]"
  by (induction p) auto

lemma js_split_parts_no_sep: "p \<in> set (js_split d s) \<Longrightarrow> d \<notin> set p"
  by (induction s arbitrary: p) (fastforce split: list.splits if_splits)+

lemma js_split_join:
  "ps \<noteq> [] \<Longrightarrow> \<forall>p \<in> set ps. d \<notin> set p \<Longrightarrow> js_split d (js_join [d] ps) = ps"
  by (induction "[d]" ps rule: js_join.induct) (auto simp: js_split_append_sep js_split_no_sep)

lemma js_join_split: "js_join [d] (js_split d s) = s"
proof (induction s)
  case Nil
  then show ?case by simp
next
  case (Cons c cs)
  obtain p ps where ps: "js_split d cs = p # ps"
    by (cases "js_split d cs") auto
  with Cons show ?case
    by (cases ps) auto
qed

subsubsection \<open>Trimming\<close>

lemma js_trim_Nil [js_simps, simp]: "js_trim [] = []"
  by (simp add: js_trim_def)

text \<open>A string that neither starts nor ends with white space.\<close>

definition trimmed :: "js_string \<Rightarrow> bool" where
  "trimmed s \<longleftrightarrow> js_trim s = s"

lemma trimmed_iff: "trimmed s \<longleftrightarrow> s = [] \<or> \<not> is_ws (hd s) \<and> \<not> is_ws (last s)"
proof
  assume t: "trimmed s"
  show "s = [] \<or> \<not> is_ws (hd s) \<and> \<not> is_ws (last s)"
  proof (rule disjCI)
    assume "\<not> (\<not> is_ws (hd s) \<and> \<not> is_ws (last s))"
    then consider "is_ws (hd s)" | "is_ws (last s)" by blast
    then show "s = []"
    proof cases
      case 1
      have "length (js_trim s) \<le> length (dropWhile is_ws s)"
        by (simp add: js_trim_def length_dropWhile_le [THEN order_trans])
      with t have "length s \<le> length (dropWhile is_ws s)"
        by (simp add: trimmed_def)
      with 1 show ?thesis
        by (cases s) (auto dest!: le_trans [OF _ length_dropWhile_le])
    next
      case 2
      show ?thesis
      proof (rule ccontr)
        assume ne: "s \<noteq> []"
        have r: "rev s = dropWhile is_ws (rev (dropWhile is_ws s))"
          using t by (metis js_trim_def rev_rev_ident trimmed_def)
        from ne have "hd (rev s) = last s" by (simp add: hd_rev)
        moreover have "\<not> is_ws (hd (rev s))"
          using r ne by (metis hd_dropWhile rev_is_Nil_conv)
        ultimately show False using 2 by simp
      qed
    qed
  qed
next
  assume a: "s = [] \<or> \<not> is_ws (hd s) \<and> \<not> is_ws (last s)"
  show "trimmed s"
  proof (cases "s = []")
    case True
    then show ?thesis by (simp add: trimmed_def)
  next
    case False
    with a have h: "\<not> is_ws (hd s)" "\<not> is_ws (hd (rev s))"
      by (auto simp: hd_rev)
    have "dropWhile is_ws s = s" using h(1) by (cases s) auto
    moreover have "dropWhile is_ws (rev s) = rev s" using h(2) by (cases "rev s") auto
    ultimately show ?thesis by (simp add: trimmed_def js_trim_def)
  qed
qed

lemma js_trim_ws_prefix: "\<forall>c \<in> set w. is_ws c \<Longrightarrow> js_trim (w @ s) = js_trim s"
  by (simp add: js_trim_def dropWhile_append)

lemma trimmed_js_trim [simp]: "trimmed (js_trim s)"
proof (cases "js_trim s = []")
  case True
  then show ?thesis by (simp add: trimmed_iff)
next
  case False
  define u where "u = dropWhile is_ws s"
  define v where "v = dropWhile is_ws (rev u)"
  have js: "js_trim s = rev v" by (simp add: js_trim_def u_def v_def)
  with False have vne: "v \<noteq> []" by simp
  then have "\<not> is_ws (hd v)" unfolding v_def by (rule hd_dropWhile)
  moreover have "\<not> is_ws (last v)"
  proof -
    obtain w where w: "rev u = w @ v"
      unfolding v_def by (metis takeWhile_dropWhile_id)
    then have "u = rev v @ rev w" by (metis rev_append rev_rev_ident)
    then have "hd u = last v" and "u \<noteq> []" using vne by (auto simp: hd_rev hd_append)
    then show ?thesis unfolding u_def by (metis hd_dropWhile)
  qed
  ultimately show ?thesis using vne by (simp add: js trimmed_iff hd_rev last_rev)
qed

lemma js_trim_idem [js_simps, simp]: "js_trim (js_trim s) = js_trim s"
  using trimmed_js_trim [of s] by (simp add: trimmed_def)

lemma set_js_trim: "set (js_trim s) \<subseteq> set s"
  by (auto simp: js_trim_def dest!: set_dropWhileD)

lemma js_lower_idem [js_simps, simp]: "js_lower (js_lower s) = js_lower s"
  by (simp add: js_lower_def js_simps)

lemma is_ws_lower_char [simp]: "is_ws (lower_char c) = is_ws c"
proof (cases "65 \<le> (of_char c :: nat) \<and> (of_char c :: nat) \<le> 90
              \<or> 192 \<le> (of_char c :: nat) \<and> (of_char c :: nat) \<le> 222 \<and> (of_char c :: nat) \<noteq> 215")
  case True
  then have n: "(of_char c :: nat) + 32 < 256" by auto
  have l: "lower_char c = char_of ((of_char c :: nat) + 32)"
    using True by (simp add: lower_char_def Let_def)
  have "of_char (lower_char c) = (of_char c :: nat) + 32" using n by (simp add: l)
  then show ?thesis using True by (auto simp: is_ws_def)
next
  case False
  then have "lower_char c = c" by (auto simp: lower_char_def Let_def)
  then show ?thesis by simp
qed

lemma js_lower_eq_Nil [simp]: "js_lower s = [] \<longleftrightarrow> s = []"
  by (simp add: js_lower_def)

text \<open>A search for a text itself, trimmed and in lower case, finds it.\<close>

lemma js_includes_search [simp]: "js_includes (js_lower n) (js_lower (js_trim n))"
proof -
  have "sublist (js_trim n) n"
    unfolding js_trim_def
    by (metis dropWhile_eq_drop sublist_drop sublist_order.order_trans sublist_rev rev_rev_ident)
  then show ?thesis by (simp add: js_includes_iff_sublist js_lower_def map_mono_sublist)
qed

lemma trimmed_js_lower: "trimmed s \<Longrightarrow> trimmed (js_lower s)"
  by (auto simp: trimmed_iff js_lower_def hd_map last_map)

lemma js_trim_lower_trim [simp]: "js_trim (js_lower (js_trim s)) = js_lower (js_trim s)"
  using trimmed_js_lower [OF trimmed_js_trim [of s]] by (simp add: trimmed_def)

lemma truthy_str_simps [simp]: "truthy_str s \<longleftrightarrow> s \<noteq> []"
  by (simp add: truthy_str_def)

lemma split_values_trimmed: "v \<in> set (split_values d s) \<Longrightarrow> trimmed v \<and> v \<noteq> []"
  by (auto simp: split_values_def)

lemma split_values_no_sep: "v \<in> set (split_values d s) \<Longrightarrow> d \<notin> set v"
  using set_js_trim by (fastforce simp: split_values_def dest: js_split_parts_no_sep)

text \<open>
  The text a detail form shows for a list is its values joined with a comma and a space;
  reading that text back gives the values again.
\<close>

lemma js_split_join_space:
  "\<forall>p \<in> set (p # ps). d \<notin> set p \<Longrightarrow> d \<noteq> CHR '' '' \<Longrightarrow>
     js_split d (js_join [d, CHR '' ''] (p # ps)) = p # map (\<lambda>q. CHR '' '' # q) ps"
proof (induction ps arbitrary: p)
  case Nil
  then show ?case by (simp add: js_split_no_sep)
next
  case (Cons q qs)
  have "js_split d (js_join [d, CHR '' ''] (p # q # qs))
        = p # js_split d (CHR '' '' # js_join [d, CHR '' ''] (q # qs))"
    using Cons.prems by (simp add: js_split_append_sep)
  also have "\<dots> = p # (CHR '' '' # q) # map (\<lambda>q. CHR '' '' # q) qs"
    using Cons by simp
  finally show ?case by simp
qed

lemma split_values_join:
  assumes "\<forall>v \<in> set vs. trimmed v \<and> v \<noteq> [] \<and> d \<notin> set v" and "d \<noteq> CHR '' ''"
  shows "split_values d (js_join [d, CHR '' ''] vs) = vs"
proof (cases vs)
  case Nil
  then show ?thesis by (simp add: split_values_def)
next
  case (Cons p ps)
  have sp: "js_trim (CHR '' '' # q) = js_trim q" for q
    using js_trim_ws_prefix [of "[CHR '' '']" q] by (simp add: is_ws_def)
  have tr: "map js_trim (map (\<lambda>q. CHR '' '' # q) ps) = ps"
    using assms(1) Cons by (auto simp: sp trimmed_def intro: map_idI)
  have "filter truthy_str (p # ps) = p # ps"
    using assms(1) Cons by (intro filter_True) auto
  with assms Cons tr show ?thesis
    by (simp add: split_values_def js_split_join_space trimmed_def del: map_map)
qed

subsection \<open>Decimal numerals\<close>

fun nat_dec :: "nat \<Rightarrow> js_string" where
  "nat_dec n = (if n < 10 then [char_of (48 + n)] else nat_dec (n div 10) @ [char_of (48 + n mod 10)])"

declare nat_dec.simps [simp del]

definition int_dec :: "int \<Rightarrow> js_string" where
  "int_dec i = (if i < 0 then CHR ''-'' # nat_dec (nat (- i)) else nat_dec (nat i))"

definition dec_val :: "js_string \<Rightarrow> nat" where
  "dec_val s = foldl (\<lambda>n c. 10 * n + digit_val c) 0 s"

lemma is_digit_char_of [simp]: "(n::nat) < 10 \<Longrightarrow> is_digit (char_of (48 + n))"
  by (simp add: is_digit_def)

lemma digit_val_char_of [simp]: "(n::nat) < 10 \<Longrightarrow> digit_val (char_of (48 + n)) = n"
  by (simp add: digit_val_def)

lemma nat_dec_digits: "c \<in> set (nat_dec n) \<Longrightarrow> is_digit c"
proof (induction n rule: nat_dec.induct)
  case (1 n)
  then show ?case
    by (subst (asm) nat_dec.simps) (auto split: if_splits)
qed

lemma nat_dec_not_Nil [simp]: "nat_dec n \<noteq> []"
  by (subst nat_dec.simps) simp

lemma dec_val_snoc: "dec_val (s @ [c]) = 10 * dec_val s + digit_val c"
  by (simp add: dec_val_def)

lemma dec_val_nat_dec [simp]: "dec_val (nat_dec n) = n"
proof (induction n rule: nat_dec.induct)
  case (1 n)
  show ?case
  proof (cases "n < 10")
    case True
    then show ?thesis
      by (simp add: nat_dec.simps [of n] dec_val_def)
  next
    case False
    then have "dec_val (nat_dec n) = 10 * (n div 10) + n mod 10"
      using 1 by (simp add: nat_dec.simps [of n] dec_val_snoc)
    then show ?thesis by simp
  qed
qed

lemma nat_dec_hd_zero: "nat_dec n = CHR ''0'' # r \<Longrightarrow> n = 0 \<and> r = []"
proof (induction n arbitrary: r rule: nat_dec.induct)
  case (1 n)
  show ?case
  proof (cases "n < 10")
    case True
    have "(of_char (char_of (48 + n) :: char) :: nat) = 48 + n"
      using True by simp
    moreover have "char_of (48 + n) = CHR ''0''" and "r = []"
      using 1(2) True by (auto simp: nat_dec.simps [of n])
    ultimately show ?thesis by simp
  next
    case False
    have e: "nat_dec (n div 10) @ [char_of (48 + n mod 10)] = CHR ''0'' # r"
      using 1(2) False by (simp add: nat_dec.simps [of n])
    then obtain q where "nat_dec (n div 10) = CHR ''0'' # q"
      by (cases "nat_dec (n div 10)") auto
    with 1(1) [OF False] have "n div 10 = 0" by blast
    with False show ?thesis by simp
  qed
qed

subsection \<open>Objects used as dictionaries\<close>

text \<open>
  \<open>rows.reduce<Record<string, V>>((acc, row) => { acc[key(row)] = val(row); return acc; }, {})\<close>:
  a dictionary is a map, a later row overwrites an earlier one with the same key.
\<close>

definition lookup_table :: "('a \<Rightarrow> js_string) \<Rightarrow> ('a \<Rightarrow> 'v) \<Rightarrow> 'a list \<Rightarrow> (js_string \<rightharpoonup> 'v)" where
  "lookup_table key val rows = fold (\<lambda>r acc. acc(key r \<mapsto> val r)) rows Map.empty"

lemma lookup_table_fold:
  "fold (\<lambda>r acc. acc(key r \<mapsto> val r)) rows m k
   = (if k \<in> key ` set rows then Some (val (last (filter (\<lambda>r. key r = k) rows))) else m k)"
proof (induction rows arbitrary: m)
  case Nil
  then show ?case by simp
next
  case (Cons r rows)
  have "filter (\<lambda>r. key r = k) rows = [] \<longleftrightarrow> k \<notin> key ` set rows"
    by (auto simp: filter_empty_conv)
  with Cons show ?case by auto
qed

lemma lookup_table_Some_iff:
  "lookup_table key val rows k = Some v \<longleftrightarrow>
     k \<in> key ` set rows \<and> v = val (last (filter (\<lambda>r. key r = k) rows))"
  by (auto simp: lookup_table_def lookup_table_fold)

lemma lookup_table_None_iff: "lookup_table key val rows k = None \<longleftrightarrow> k \<notin> key ` set rows"
  by (simp add: lookup_table_def lookup_table_fold)

lemma lookup_table_distinct:
  "distinct (map key rows) \<Longrightarrow> r \<in> set rows \<Longrightarrow> lookup_table key val rows (key r) = Some (val r)"
proof -
  assume d: "distinct (map key rows)" and r: "r \<in> set rows"
  then have "filter (\<lambda>x. key x = key r) rows = [r]"
    by (induction rows) (auto simp: filter_empty_conv image_iff)
  with r show ?thesis by (auto simp: lookup_table_Some_iff)
qed

lemma lookup_table_find:
  "distinct (map key rows) \<Longrightarrow> lookup_table key val rows k = map_option val (find (\<lambda>r. key r = k) rows)"
proof (cases "find (\<lambda>r. key r = k) rows")
  case None
  then have "k \<notin> key ` set rows" by (auto simp: find_None_iff)
  then have "lookup_table key val rows k = None" by (simp add: lookup_table_None_iff)
  with None show ?thesis by simp
next
  case (Some r)
  assume d: "distinct (map key rows)"
  from Some have "r \<in> set rows" "key r = k" by (auto simp: find_Some_iff)
  with lookup_table_distinct [OF d, of r val] Some show ?thesis by auto
qed

lemma map_option_SomeE:
  "map_option f x = Some y \<Longrightarrow> (\<And>w. x = Some w \<Longrightarrow> f w = y \<Longrightarrow> P) \<Longrightarrow> P"
  by (cases x) auto

end
