(* ===== verification/Ip_Validation.thy ===== *)
theory Ip_Validation
  imports Prelude
begin

section \<open>IP address and CIDR validation (developer portal)\<close>

text \<open>
  Models \<open>lib/utils/ipValidation.ts\<close> of the developer portal. The regular expression of
  \<open>isValidIPv4\<close> is kept as a regular expression and matched by derivatives; the theorems relate
  it to the dotted-quad reading of an address, and say what \<open>isValidCIDR\<close> accepts.
\<close>

subsection \<open>Regular expressions over character classes\<close>

text \<open>A class is a closed range of code units.\<close>

datatype regex =
    RNone
  | REmpty
  | RClass nat nat
  | RAlt regex regex
  | RSeq regex regex

definition ROpt :: "regex \<Rightarrow> regex" where
  "ROpt r = RAlt REmpty r"

fun RCat :: "regex list \<Rightarrow> regex" where
  "RCat [] = REmpty"
| "RCat [r] = r"
| "RCat (r # rs) = RSeq r (RCat rs)"

fun r_nullable :: "regex \<Rightarrow> bool" where
  "r_nullable RNone = False"
| "r_nullable REmpty = True"
| "r_nullable (RClass a b) = False"
| "r_nullable (RAlt r s) = (r_nullable r \<or> r_nullable s)"
| "r_nullable (RSeq r s) = (r_nullable r \<and> r_nullable s)"

fun r_deriv :: "char \<Rightarrow> regex \<Rightarrow> regex" where
  "r_deriv c RNone = RNone"
| "r_deriv c REmpty = RNone"
| "r_deriv c (RClass a b) = (if a \<le> of_char c \<and> (of_char c :: nat) \<le> b then REmpty else RNone)"
| "r_deriv c (RAlt r s) = RAlt (r_deriv c r) (r_deriv c s)"
| "r_deriv c (RSeq r s) =
     (if r_nullable r then RAlt (RSeq (r_deriv c r) s) (r_deriv c s) else RSeq (r_deriv c r) s)"

text \<open>\<open>/^r$/.test(s)\<close>: the whole string matches.\<close>

fun r_test :: "regex \<Rightarrow> js_string \<Rightarrow> bool" where
  "r_test r [] = r_nullable r"
| "r_test r (c # cs) = r_test (r_deriv c r) cs"

lemma r_test_RNone [simp]: "\<not> r_test RNone s"
  by (induction s) auto

lemma r_test_REmpty [simp]: "r_test REmpty s \<longleftrightarrow> s = []"
  by (cases s) auto

lemma r_test_RClass [simp]:
  "r_test (RClass a b) s \<longleftrightarrow> (\<exists>c. s = [c] \<and> a \<le> of_char c \<and> (of_char c :: nat) \<le> b)"
  by (cases s) auto

lemma r_test_RAlt [simp]: "r_test (RAlt r q) s \<longleftrightarrow> r_test r s \<or> r_test q s"
  by (induction s arbitrary: r q) auto

lemma r_test_RSeq: "r_test (RSeq r q) s \<longleftrightarrow> (\<exists>u v. s = u @ v \<and> r_test r u \<and> r_test q v)"
proof (induction s arbitrary: r q)
  case Nil
  then show ?case by simp
next
  case (Cons c s)
  have split: "(\<exists>u v. c # s = u @ v \<and> r_test r u \<and> r_test q v) \<longleftrightarrow>
      r_nullable r \<and> r_test q (c # s)
      \<or> (\<exists>u v. s = u @ v \<and> r_test (r_deriv c r) u \<and> r_test q v)"
    by (auto simp: Cons_eq_append_conv intro: exI [of _ "[]"]) (metis append_Cons r_test.simps(2))
  show ?case
    unfolding split by (simp add: Cons.IH) blast
qed

lemma r_test_ROpt [simp]: "r_test (ROpt r) s \<longleftrightarrow> s = [] \<or> r_test r s"
  by (simp add: ROpt_def)

subsection \<open>isValidIPv4\<close>

abbreviation r_char :: "char \<Rightarrow> regex" where
  "r_char c \<equiv> RClass (of_char c) (of_char c)"

abbreviation r_range :: "char \<Rightarrow> char \<Rightarrow> regex" where
  "r_range a b \<equiv> RClass (of_char a) (of_char b)"

text \<open>\<open>25[0-5]|2[0-4][0-9]|[01]?[0-9][0-9]?\<close>.\<close>

definition octet_regex :: regex where
  "octet_regex =
     RAlt (RCat [r_char (CHR ''2''), r_char (CHR ''5''), r_range (CHR ''0'') (CHR ''5'')])
    (RAlt (RCat [r_char (CHR ''2''), r_range (CHR ''0'') (CHR ''4''), r_range (CHR ''0'') (CHR ''9'')])
          (RCat [ROpt (r_range (CHR ''0'') (CHR ''1'')), r_range (CHR ''0'') (CHR ''9''),
                 ROpt (r_range (CHR ''0'') (CHR ''9''))]))"

definition ipv4_regex :: regex where
  "ipv4_regex =
     RCat [octet_regex, r_char (CHR ''.''), octet_regex, r_char (CHR ''.''),
           octet_regex, r_char (CHR ''.''), octet_regex]"

definition isValidIPv4 :: "js_string \<Rightarrow> bool" where
  "isValidIPv4 ip = r_test ipv4_regex ip"

subsection \<open>isValidCIDR\<close>

text \<open>
  \<open>parseInt(s, 10)\<close>: leading white space and a sign are skipped, then the longest prefix
  of digits is read; no digit gives \<open>NaN\<close> (\<open>None\<close>), and what follows the digits is ignored.
  (A result beyond the safe integers is only compared with 32.)
\<close>

definition parseInt10 :: "js_string \<Rightarrow> int option" where
  "parseInt10 s =
     (let s1 = dropWhile is_ws s;
          neg = (s1 \<noteq> [] \<and> hd s1 = CHR ''-'');
          s2 = (if s1 \<noteq> [] \<and> (hd s1 = CHR ''-'' \<or> hd s1 = CHR ''+'') then tl s1 else s1);
          ds = takeWhile is_digit s2
      in if ds = [] then None
         else Some (if neg then - int (dec_val ds) else int (dec_val ds)))"

definition isValidCIDR :: "js_string \<Rightarrow> bool" where
  "isValidCIDR cidr =
     (let parts = js_split (CHR ''/'') cidr in
      if length parts \<noteq> 2 then False
      else
        let ip = parts ! 0; mask = parts ! 1
        in case parseInt10 mask of
             None \<Rightarrow> False
           | Some maskNum \<Rightarrow>
               (if maskNum < 0 \<or> maskNum > 32 then False else isValidIPv4 ip))"

subsection \<open>validateIPInput and validateIPList\<close>

datatype ip_type = IPv4 | CIDR | Invalid

record ip_result =
  isValid :: bool
  ip_kind :: ip_type
  ip_error :: "js_string option"

definition empty_message :: js_string where
  "empty_message = ''IP address cannot be empty''"

definition invalid_message :: js_string where
  "invalid_message =
     ''Invalid IP address or CIDR notation (e.g., 192.168.1.1 or 192.168.1.0/24)''"

definition validateIPInput :: "js_string \<Rightarrow> ip_result" where
  "validateIPInput input =
     (let trimmed_input = js_trim input in
      if \<not> truthy_str trimmed_input then
        \<lparr>isValid = False, ip_kind = Invalid, ip_error = Some empty_message\<rparr>
      else if isValidIPv4 trimmed_input then
        \<lparr>isValid = True, ip_kind = IPv4, ip_error = None\<rparr>
      else if isValidCIDR trimmed_input then
        \<lparr>isValid = True, ip_kind = CIDR, ip_error = None\<rparr>
      else
        \<lparr>isValid = False, ip_kind = Invalid, ip_error = Some invalid_message\<rparr>)"

record ip_list_result =
  valid_ips :: "js_string list"
  invalid_ips :: "(js_string \<times> js_string) list"

text \<open>The loop body of \<open>validateIPList\<close>; \<open>result.error || "Invalid IP address"\<close>.\<close>

definition validate_one :: "js_string \<Rightarrow> ip_list_result \<Rightarrow> ip_list_result" where
  "validate_one ip acc =
     (let result = validateIPInput ip in
      if isValid result then acc\<lparr>valid_ips := valid_ips acc @ [js_trim ip]\<rparr>
      else acc\<lparr>invalid_ips := invalid_ips acc @
        [(js_trim ip,
          case ip_error result of
            Some e \<Rightarrow> if truthy_str e then e else ''Invalid IP address''
          | None \<Rightarrow> ''Invalid IP address'')]\<rparr>)"

definition validateIPList :: "js_string list \<Rightarrow> ip_list_result" where
  "validateIPList ips = fold validate_one ips \<lparr>valid_ips = [], invalid_ips = []\<rparr>"

subsection \<open>Dotted quads\<close>

text \<open>A decimal octet: one to three digits with a value of at most 255.\<close>

definition is_octet :: "js_string \<Rightarrow> bool" where
  "is_octet s \<longleftrightarrow>
     s \<noteq> [] \<and> length s \<le> 3 \<and> list_all is_digit s \<and> dec_val s \<le> 255"

definition dotted_quad :: "js_string \<Rightarrow> bool" where
  "dotted_quad s \<longleftrightarrow>
     length (js_split (CHR ''.'') s) = 4 \<and> list_all is_octet (js_split (CHR ''.'') s)"

lemma dec_val_small:
  "dec_val [a] = digit_val a"
  "dec_val [a, b] = 10 * digit_val a + digit_val b"
  "dec_val [a, b, c] = 100 * digit_val a + 10 * digit_val b + digit_val c"
  by (simp_all add: dec_val_def)

lemma length_le3: "length s \<le> 3 \<longleftrightarrow> s = [] \<or> (\<exists>a. s = [a]) \<or> (\<exists>a b. s = [a, b]) \<or> (\<exists>a b c. s = [a, b, c])"
  by (auto simp: numeral_3_eq_3 le_Suc_eq length_Suc_conv)

lemma octet3:
  fixes a b c :: nat
  assumes "48 \<le> b" "b \<le> 57" "48 \<le> c" "c \<le> 57" "48 \<le> a" "a \<le> 57"
  shows "a = 50 \<and> b = 53 \<and> c \<le> 53 \<or> a = 50 \<and> b \<le> 52 \<or> a \<le> 49 \<longleftrightarrow>
    100 * (a - 48) + 10 * (b - 48) + (c - 48) \<le> 255"
proof -
  have d: "100 * (a - 48) + 10 * (b - 48) + (c - 48) + 5328 = 100 * a + 10 * b + c"
    using assms by simp
  consider "a \<le> 49" | "a = 50" "b \<le> 52" | "a = 50" "b = 53" | "a = 50" "b \<ge> 54" | "a \<ge> 51"
    by linarith
  then show ?thesis using d assms by cases linarith+
qed

lemma r_test_RSeq_unit:
  "r_test (RSeq REmpty r) s \<longleftrightarrow> r_test r s"
  "\<not> r_test (RSeq RNone r) s"
  by (simp_all add: r_test_RSeq)

lemma r_test_class_seq:
  "r_test (RSeq (RClass a b) r) s \<longleftrightarrow>
     (\<exists>c t. s = c # t \<and> a \<le> of_char c \<and> (of_char c :: nat) \<le> b \<and> r_test r t)"
  by (cases s) (auto simp: r_test_RSeq_unit)

lemma r_char_seq: "r_test (RSeq (r_char d) r) s \<longleftrightarrow> (\<exists>t. s = d # t \<and> r_test r t)"
  unfolding r_test_class_seq by (auto dest!: le_antisym)

lemma r_test_opt_seq:
  "r_test (RSeq (ROpt r) q) s \<longleftrightarrow> r_test q s \<or> r_test (RSeq r q) s"
  by (auto simp: r_test_RSeq)

lemma octet_regex_3:
  "r_test octet_regex [a, b, c] \<longleftrightarrow> is_digit a \<and> is_digit b \<and> is_digit c \<and>
     ((of_char a :: nat) = 50 \<and> (of_char b :: nat) = 53 \<and> (of_char c :: nat) \<le> 53
      \<or> (of_char a :: nat) = 50 \<and> (of_char b :: nat) \<le> 52 \<or> (of_char a :: nat) \<le> 49)"
  unfolding octet_regex_def RCat.simps r_test_RAlt r_test_opt_seq r_test_class_seq is_digit_def
  by simp presburger

lemma octet_regex_iff: "r_test octet_regex s \<longleftrightarrow> is_octet s"
proof -
  consider "s = []" | a where "s = [a]" | a b where "s = [a, b]" | a b c where "s = [a, b, c]"
    | "length s > 3" using length_le3 [of s] not_le [of "length s" 3] by blast
  then show ?thesis
  proof cases
    case 5
    then show ?thesis
      by (auto simp: octet_regex_def r_test_class_seq r_test_opt_seq is_octet_def)
  next
    case (4 a b c)
    have "is_octet s \<longleftrightarrow> is_digit a \<and> is_digit b \<and> is_digit c \<and>
        100 * (of_char a - 48) + 10 * (of_char b - 48) + (of_char c - 48) \<le> (255 :: nat)"
      by (simp add: 4 is_octet_def dec_val_small digit_val_def)
    then show ?thesis
      unfolding 4 octet_regex_3
      using octet3 [of "of_char b" "of_char c" "of_char a"] by (simp only: is_digit_def) blast
  qed (auto simp: octet_regex_def r_test_class_seq r_test_opt_seq is_octet_def is_digit_def
         dec_val_small digit_val_def simp del: r_test.simps(2))
qed

lemma is_octet_no_dot: "is_octet s \<Longrightarrow> CHR ''.'' \<notin> set s"
  by (auto simp: is_octet_def list_all_iff is_digit_def)

lemma ipv4_regex_iff:
  "r_test ipv4_regex s \<longleftrightarrow>
     (\<exists>a b c d. s = a @ ''.'' @ b @ ''.'' @ c @ ''.'' @ d
        \<and> is_octet a \<and> is_octet b \<and> is_octet c \<and> is_octet d)" (is "?l \<longleftrightarrow> ?r")
proof
  assume ?l
  then show ?r
    unfolding ipv4_regex_def RCat.simps r_test_RSeq [of octet_regex] r_char_seq octet_regex_iff
    by (elim exE conjE, hypsubst) (intro exI conjI; simp)
next
  assume ?r
  then obtain a b c d where s: "s = a @ CHR ''.'' # b @ CHR ''.'' # c @ CHR ''.'' # d"
      and o: "is_octet a" "is_octet b" "is_octet c" "is_octet d" by auto
  show ?l
    unfolding ipv4_regex_def RCat.simps r_test_RSeq [of octet_regex] r_char_seq octet_regex_iff s
    by (intro exI conjI, (rule refl o)+)
qed

lemma isValidIPv4_iff: "isValidIPv4 s \<longleftrightarrow> dotted_quad s"
proof
  assume "isValidIPv4 s"
  then obtain a b c d where s: "s = a @ ''.'' @ b @ ''.'' @ c @ ''.'' @ d"
      and o: "is_octet a" "is_octet b" "is_octet c" "is_octet d"
    by (auto simp: isValidIPv4_def ipv4_regex_iff)
  then show "dotted_quad s"
    by (simp add: dotted_quad_def js_split_append_sep js_split_no_sep is_octet_no_dot)
next
  assume "dotted_quad s"
  then obtain a b c d where sp: "js_split (CHR ''.'') s = [a, b, c, d]"
      and o: "is_octet a" "is_octet b" "is_octet c" "is_octet d"
    by (auto simp: dotted_quad_def numeral_eq_Suc length_Suc_conv)
  have "s = js_join ''.'' [a, b, c, d]" by (metis sp js_join_split)
  with o show "isValidIPv4 s" by (auto simp: isValidIPv4_def ipv4_regex_iff)
qed


subsection \<open>What isValidCIDR accepts\<close>

lemma isValidCIDR_iff:
  "isValidCIDR s \<longleftrightarrow>
     (\<exists>ip mask n. js_split (CHR ''/'') s = [ip, mask] \<and> isValidIPv4 ip
        \<and> parseInt10 mask = Some n \<and> 0 \<le> n \<and> n \<le> 32)"
  by (auto simp: isValidCIDR_def Let_def numeral_2_eq_2 length_Suc_conv split: option.splits if_splits)

lemma dotted_quad_no_slash: "dotted_quad s \<Longrightarrow> CHR ''/'' \<notin> set s"
proof
  assume q: "dotted_quad s" and "CHR ''/'' \<in> set s"
  have "set (js_join d ps) \<subseteq> set d \<union> (\<Union>p \<in> set ps. set p)" for d and ps :: "js_string list"
    by (induction d ps rule: js_join.induct) auto
  then have "set s \<subseteq> {CHR ''.''} \<union> (\<Union>p \<in> set (js_split (CHR ''.'') s). set p)"
    by (metis js_join_split list.set(1) list.set(2))
  with q \<open>CHR ''/'' \<in> set s\<close> show False
    by (fastforce simp: dotted_quad_def list_all_iff is_octet_def is_digit_def)
qed

lemma parseInt10_nat_dec:
  assumes "junk = [] \<or> \<not> is_digit (hd junk)"
  shows "parseInt10 (nat_dec n @ junk) = Some (int n)"
proof -
  obtain c cs where n: "nat_dec n = c # cs" by (cases "nat_dec n") auto
  then have c: "is_digit c" using nat_dec_digits [of c n] by simp
  then have "\<not> is_ws c" "c \<noteq> CHR ''-''" "c \<noteq> CHR ''+''"
    by (auto simp: is_digit_def is_ws_def)
  moreover have "takeWhile is_digit (nat_dec n @ junk) = nat_dec n"
    using assms nat_dec_digits [of _ n]
    by (cases junk) (auto simp: takeWhile_append)
  moreover have "hd (nat_dec n @ junk) = c" by (simp add: n)
  moreover have "dropWhile is_ws (nat_dec n @ junk) = nat_dec n @ junk"
    using \<open>\<not> is_ws c\<close> by (simp add: n)
  ultimately show ?thesis by (simp add: parseInt10_def)
qed

lemma nat_dec_no_slash: "CHR ''/'' \<notin> set (nat_dec n)"
  using nat_dec_digits [of "CHR ''/''" n] by (auto simp: is_digit_def)

lemma validateIPList_fold:
  "fold validate_one ips acc =
     \<lparr>valid_ips = valid_ips acc @ map js_trim (filter (isValid \<circ> validateIPInput) ips),
      invalid_ips = invalid_ips acc
        @ map (\<lambda>ip. (js_trim ip, if js_trim ip = [] then empty_message else invalid_message))
            (filter (Not \<circ> isValid \<circ> validateIPInput) ips)\<rparr>"
proof (induction ips arbitrary: acc)
  case Nil
  then show ?case by simp
next
  case (Cons ip ips)
  have "validate_one ip acc =
    (if isValid (validateIPInput ip) then acc\<lparr>valid_ips := valid_ips acc @ [js_trim ip]\<rparr>
     else acc\<lparr>invalid_ips := invalid_ips acc @
        [(js_trim ip, if js_trim ip = [] then empty_message else invalid_message)]\<rparr>)"
    by (auto simp: validate_one_def validateIPInput_def Let_def empty_message_def invalid_message_def)
  then show ?case by (simp add: Cons.IH)
qed

lemma validateIPInput_trim: "validateIPInput (js_trim s) = validateIPInput s"
  by (simp add: validateIPInput_def)

text \<open>
  CIDR notation as it is meant: a dotted quad, a slash and a decimal number of at most 32.
\<close>

definition cidr_notation :: "js_string \<Rightarrow> bool" where
  "cidr_notation s \<longleftrightarrow> (\<exists>q m. s = q @ ''/'' @ nat_dec m \<and> dotted_quad q \<and> m \<le> 32)"

text \<open>
  The texts that pass for CIDR notation, as a grammar: between the slash and the digits there may
  be white space and a sign, and after the digits anything may follow but a slash.
\<close>

definition mask_text :: "js_string \<Rightarrow> bool" where
  "mask_text t \<longleftrightarrow>
     (\<exists>w sign ds rest. t = w @ sign @ ds @ rest
        \<and> list_all is_ws w \<and> sign \<in> {[], ''+'', ''-''}
        \<and> ds \<noteq> [] \<and> list_all is_digit ds \<and> dec_val ds \<le> (if sign = ''-'' then 0 else 32)
        \<and> (rest = [] \<or> \<not> is_digit (hd rest)))"

definition lax_cidr :: "js_string \<Rightarrow> bool" where
  "lax_cidr s \<longleftrightarrow>
     (\<exists>q t. s = q @ ''/'' @ t \<and> dotted_quad q \<and> CHR ''/'' \<notin> set t \<and> mask_text t)"

lemma digit_not_ws: "is_digit c \<Longrightarrow> \<not> is_ws c"
  by (auto simp: is_digit_def is_ws_def)

lemma digit_no_sign: "is_digit c \<Longrightarrow> c \<noteq> CHR ''-'' \<and> c \<noteq> CHR ''+''"
  by (auto simp: is_digit_def)

lemma mask_textI:
  assumes "t = w @ sign @ ds @ rest" "list_all is_ws w" "sign \<in> {[], ''+'', ''-''}"
    "ds \<noteq> []" "list_all is_digit ds" "dec_val ds \<le> (if sign = ''-'' then 0 else 32)"
    "rest = [] \<or> \<not> is_digit (hd rest)"
  shows "mask_text t"
  unfolding mask_text_def using assms by blast

text \<open>What \<open>parseInt\<close> reads from a text of that form is its value, between 0 and 32; and no other text gives one.\<close>

lemma mask_text_parse:
  "mask_text t \<longleftrightarrow> (\<exists>n. parseInt10 t = Some n \<and> 0 \<le> n \<and> n \<le> 32)" (is "?l \<longleftrightarrow> ?r")
proof
  assume ?l
  then obtain w sign ds rest where t: "t = w @ sign @ ds @ rest"
    and w: "list_all is_ws w" and g: "sign \<in> {[], ''+'', ''-''}"
    and d: "ds \<noteq> []" "list_all is_digit ds" "dec_val ds \<le> (if sign = ''-'' then 0 else 32)"
    and r: "rest = [] \<or> \<not> is_digit (hd rest)"
    unfolding mask_text_def by blast
  obtain c cs where ds: "ds = c # cs" using d by (cases ds) auto
  have c: "is_digit c" using d ds by simp
  have "dropWhile is_ws (w @ sign @ ds @ rest) = sign @ ds @ rest"
    using w g digit_not_ws [OF c] by (auto simp: dropWhile_append list_all_iff ds is_ws_def)
  moreover have "takeWhile is_digit (ds @ rest) = ds"
    using d r by (cases rest) (auto simp: takeWhile_append list_all_iff)
  ultimately show ?r
    using g d digit_no_sign [OF c] by (auto simp: parseInt10_def t ds split: if_splits)
next
  assume ?r
  then obtain n where n: "parseInt10 t = Some n" "0 \<le> n" "n \<le> 32" by blast
  define w where "w = takeWhile is_ws t"
  define s1 where "s1 = dropWhile is_ws t"
  define sign where
    "sign = (if s1 \<noteq> [] \<and> (hd s1 = CHR ''-'' \<or> hd s1 = CHR ''+'') then [hd s1] else [])"
  define s2 where
    "s2 = (if s1 \<noteq> [] \<and> (hd s1 = CHR ''-'' \<or> hd s1 = CHR ''+'') then tl s1 else s1)"
  define ds where "ds = takeWhile is_digit s2"
  define rest where "rest = dropWhile is_digit s2"
  have t: "t = w @ sign @ ds @ rest"
    by (simp add: w_def s1_def sign_def s2_def ds_def rest_def)
  have "list_all is_ws w" "list_all is_digit ds"
    by (auto simp: w_def ds_def list_all_iff dest: set_takeWhileD)
  moreover have "sign \<in> {[], ''+'', ''-''}" by (auto simp: sign_def)
  moreover have "rest = [] \<or> \<not> is_digit (hd rest)"
    unfolding rest_def by (metis hd_dropWhile)
  moreover have ds: "ds \<noteq> []"
      "n = (if s1 \<noteq> [] \<and> hd s1 = CHR ''-'' then - int (dec_val ds) else int (dec_val ds))"
    using n(1) by (auto simp: parseInt10_def Let_def ds_def s2_def s1_def split: if_splits)
  moreover have "dec_val ds \<le> (if sign = ''-'' then 0 else 32)"
    using n ds(2) by (auto simp: sign_def split: if_splits)
  ultimately show ?l using t by (intro mask_textI)
qed

lemma isValidCIDR_lax: "isValidCIDR s \<longleftrightarrow> lax_cidr s"
proof
  assume "isValidCIDR s"
  then obtain ip m n where sp: "js_split (CHR ''/'') s = [ip, m]" and v: "dotted_quad ip"
      and n: "parseInt10 m = Some n" "0 \<le> n" "n \<le> 32"
    by (auto simp: isValidCIDR_iff isValidIPv4_iff)
  have "s = js_join ''/'' [ip, m]" by (metis sp js_join_split)
  moreover have "CHR ''/'' \<notin> set m"
    using js_split_parts_no_sep [of m "CHR ''/''" s] by (auto simp: sp)
  ultimately show "lax_cidr s"
    using v n by (auto simp: lax_cidr_def mask_text_parse)
next
  assume "lax_cidr s"
  then show "isValidCIDR s"
    by (auto simp: lax_cidr_def mask_text_parse isValidCIDR_iff isValidIPv4_iff
        js_split_append_sep js_split_no_sep dotted_quad_no_slash)
qed

lemma cidr_notation_lax: "cidr_notation s \<Longrightarrow> lax_cidr s"
  unfolding cidr_notation_def lax_cidr_def mask_text_parse
  using parseInt10_nat_dec [of "[]"] nat_dec_no_slash by fastforce

lemma slash_no_quad: "dotted_quad (q @ ''/'' @ t) \<Longrightarrow> False"
  using dotted_quad_no_slash [of "q @ ''/'' @ t"] by simp

lemma validateIPInput_exact:
  "validateIPInput s =
     (if js_trim s = [] then \<lparr>isValid = False, ip_kind = Invalid, ip_error = Some empty_message\<rparr>
      else if dotted_quad (js_trim s) then \<lparr>isValid = True, ip_kind = IPv4, ip_error = None\<rparr>
      else if lax_cidr (js_trim s) then \<lparr>isValid = True, ip_kind = CIDR, ip_error = None\<rparr>
      else \<lparr>isValid = False, ip_kind = Invalid, ip_error = Some invalid_message\<rparr>)"
  by (simp add: validateIPInput_def isValidIPv4_iff isValidCIDR_lax)

subsection \<open>Properties\<close>

text \<open>
  C27: \<open>validateIPInput\<close> on every input, against a grammar of the texts: the trimmed input is an
  IPv4 address exactly when it is a dotted quad (four groups of one to three digits, each at most
  255). It passes for a CIDR block exactly when it is a dotted quad, a slash, possibly white space
  and a sign, digits whose value is at most 32 (0 after a minus sign), and then any text that
  neither begins with a digit nor contains a slash. So every address in CIDR notation is accepted,
  but more than that: text behind the mask is not looked at, as the last conjunct shows for every
  address in CIDR notation. Anything else is rejected with one of the two messages.
\<close>

theorem validateIPInput_spec:
  "validateIPInput s =
     (if js_trim s = [] then \<lparr>isValid = False, ip_kind = Invalid, ip_error = Some empty_message\<rparr>
      else if dotted_quad (js_trim s) then \<lparr>isValid = True, ip_kind = IPv4, ip_error = None\<rparr>
      else if lax_cidr (js_trim s) then \<lparr>isValid = True, ip_kind = CIDR, ip_error = None\<rparr>
      else \<lparr>isValid = False, ip_kind = Invalid, ip_error = Some invalid_message\<rparr>)
   \<and> (cidr_notation (js_trim s) \<longrightarrow>
        validateIPInput s = \<lparr>isValid = True, ip_kind = CIDR, ip_error = None\<rparr>)
   \<and> (cidr_notation c \<and> trimmed c \<and> junk \<noteq> [] \<and> trimmed junk
        \<and> \<not> is_digit (hd junk) \<and> CHR ''/'' \<notin> set junk \<longrightarrow>
        validateIPInput (c @ junk) = \<lparr>isValid = True, ip_kind = CIDR, ip_error = None\<rparr>)"
proof (intro conjI impI)
  show "validateIPInput s = \<lparr>isValid = True, ip_kind = CIDR, ip_error = None\<rparr>"
    if "cidr_notation (js_trim s)"
    using cidr_notation_lax [OF that] that slash_no_quad
    by (auto simp: validateIPInput_exact cidr_notation_def)
next
  assume a: "cidr_notation c \<and> trimmed c \<and> junk \<noteq> [] \<and> trimmed junk
        \<and> \<not> is_digit (hd junk) \<and> CHR ''/'' \<notin> set junk"
  then obtain q m where c: "c = q @ ''/'' @ nat_dec m" and q: "dotted_quad q" and m: "m \<le> 32"
    by (auto simp: cidr_notation_def)
  have "mask_text (nat_dec m @ junk)"
    using a m by (auto simp: mask_text_parse parseInt10_nat_dec)
  then have "lax_cidr (c @ junk)"
    unfolding lax_cidr_def c using a q nat_dec_no_slash [of m]
    by (intro exI [of _ q] exI [of _ "nat_dec m @ junk"]) simp
  moreover have "js_trim (c @ junk) = c @ junk"
    using a by (auto simp: trimmed_iff c trimmed_def [symmetric] hd_append)
  moreover have "\<not> dotted_quad (c @ junk)"
    using slash_no_quad [of q "nat_dec m @ junk"] by (auto simp: c)
  ultimately show "validateIPInput (c @ junk) = \<lparr>isValid = True, ip_kind = CIDR, ip_error = None\<rparr>"
    using a by (simp add: validateIPInput_exact)
qed (rule validateIPInput_exact)

theorem validateIPInput_spec_witness:
  "validateIPInput '' 10.0.0.0/8 '' = \<lparr>isValid = True, ip_kind = CIDR, ip_error = None\<rparr>
   \<and> validateIPInput (''10.0.0.0/8'' @ ''abc'') = \<lparr>isValid = True, ip_kind = CIDR, ip_error = None\<rparr>"
proof -
  have n: "nat_dec 8 = ''8''" and q: "dotted_quad ''10.0.0.0''" by code_simp+
  have c: "cidr_notation ''10.0.0.0/8''"
    unfolding cidr_notation_def
    by (intro exI [of _ "''10.0.0.0''"] exI [of _ "8 :: nat"]) (simp add: n q)
  have t: "js_trim '' 10.0.0.0/8 '' = ''10.0.0.0/8''" by code_simp
  have j: "trimmed ''10.0.0.0/8''" "''abc'' \<noteq> []" "trimmed ''abc''" "\<not> is_digit (hd ''abc'')"
      "CHR ''/'' \<notin> set ''abc''"
    by (simp_all add: trimmed_def) code_simp+
  note spec = validateIPInput_spec [of "'' 10.0.0.0/8 ''" "''10.0.0.0/8''" "''abc''", unfolded t]
  show ?thesis
    using spec [THEN conjunct2, THEN conjunct1, rule_format, OF c]
      spec [THEN conjunct2, THEN conjunct2] c j by blast
qed

text \<open>
  C28: \<open>validateIPList\<close> splits the list: the valid entries in order, trimmed, and the invalid ones
  in order, trimmed, with the message that fits; and validating its valid entries again accepts
  all of them unchanged.
\<close>

theorem validateIPList_partition:
  "validateIPList ips =
     \<lparr>valid_ips = map js_trim (filter (isValid \<circ> validateIPInput) ips),
      invalid_ips = map (\<lambda>ip. (js_trim ip, if js_trim ip = [] then empty_message else invalid_message))
            (filter (Not \<circ> isValid \<circ> validateIPInput) ips)\<rparr>
   \<and> validateIPList (valid_ips (validateIPList ips))
     = \<lparr>valid_ips = valid_ips (validateIPList ips), invalid_ips = []\<rparr>"
  by (simp add: validateIPList_def validateIPList_fold filter_map o_def validateIPInput_trim
      filter_empty_conv)

end
