(* ===== verification/Js_Json.thy ===== *)
theory Js_Json
  imports Prelude
begin

section \<open>JSON: the values, \<open>JSON.stringify\<close> and \<open>JSON.parse\<close>\<close>

text \<open>
  The portals keep sessions in \<open>localStorage\<close> as JSON text and read lists that the
  management API stores as JSON text. This theory models the two library functions they use.
  A number is an integer in JavaScript's safe range (\<open>JInt\<close>) or the text of any other
  numeral (\<open>JDec\<close>); an object is an association list in insertion order. A text that
  \<open>JSON.parse\<close> rejects gives \<open>None\<close>; so does a \<open>\u\<close> escape above 00FF, which lies
  outside the modelled alphabet.
\<close>

datatype json =
    JNull
  | JBool bool
  | JInt int
  | JDec js_string
  | JStr js_string
  | JArr "json list"
  | JObj "(js_string \<times> json) list"

type_synonym json_object = "(js_string \<times> json) list"

subsection \<open>Property access\<close>

text \<open>\<open>v.k\<close> on a parsed value that is not null: \<open>None\<close> is \<open>undefined\<close>.\<close>

definition get_prop :: "json \<Rightarrow> js_string \<Rightarrow> json option" where
  "get_prop v k = (case v of JObj kvs \<Rightarrow> map_of kvs k | _ \<Rightarrow> None)"

text \<open>Assigning a property keeps the position of an existing one.\<close>

fun obj_put :: "js_string \<Rightarrow> json \<Rightarrow> json_object \<Rightarrow> json_object" where
  "obj_put k v [] = [(k, v)]"
| "obj_put k v ((k', v') # kvs) = (if k = k' then (k, v) # kvs else (k', v') # obj_put k v kvs)"

definition obj_of :: "(js_string \<times> json) list \<Rightarrow> json_object" where
  "obj_of kvs = fold (\<lambda>(k, v) ob. obj_put k v ob) kvs []"

lemma map_of_obj_put: "map_of (obj_put k v kvs) = (map_of kvs)(k \<mapsto> v)"
  by (induction k v kvs rule: obj_put.induct) (auto simp: fun_upd_twist)

lemma obj_put_new: "k \<notin> fst ` set kvs \<Longrightarrow> obj_put k v kvs = kvs @ [(k, v)]"
  by (induction k v kvs rule: obj_put.induct) auto

lemma fold_obj_put:
  "distinct (map fst (kvs @ kvs')) \<Longrightarrow> fold (\<lambda>(k, v) ob. obj_put k v ob) kvs' kvs = kvs @ kvs'"
proof (induction kvs' arbitrary: kvs)
  case Nil
  then show ?case by simp
next
  case (Cons kv kvs')
  obtain k v where kv: "kv = (k, v)" by (cases kv)
  have "obj_put k v kvs = kvs @ [(k, v)]"
    using Cons.prems kv by (intro obj_put_new) auto
  then show ?case
    using Cons.IH [of "kvs @ [kv]"] Cons.prems kv by simp
qed

lemma obj_of_distinct: "distinct (map fst kvs) \<Longrightarrow> obj_of kvs = kvs"
  using fold_obj_put [of "[]" kvs] by (simp add: obj_of_def)

text \<open>Truthiness of a parsed value (a numeral is falsy when all its digits are zero).\<close>

definition truthy :: "json option \<Rightarrow> bool" where
  "truthy v \<longleftrightarrow> (case v of
      None \<Rightarrow> False
    | Some JNull \<Rightarrow> False
    | Some (JBool b) \<Rightarrow> b
    | Some (JInt i) \<Rightarrow> i \<noteq> 0
    | Some (JDec t) \<Rightarrow>
        list_ex (\<lambda>c. is_digit c \<and> c \<noteq> CHR ''0'') (takeWhile (\<lambda>c. c \<noteq> CHR ''e'' \<and> c \<noteq> CHR ''E'') t)
    | Some (JStr s) \<Rightarrow> s \<noteq> []
    | Some _ \<Rightarrow> True)"

subsection \<open>\<open>JSON.stringify\<close>\<close>

definition hex_digit :: "nat \<Rightarrow> char" where
  "hex_digit n = (if n < 10 then char_of (48 + n) else char_of (87 + n))"

definition quote_char :: "char \<Rightarrow> js_string" where
  "quote_char c =
     (let n = (of_char c :: nat) in
      if n = 34 then [CHR 0x5C, CHR 0x22]
      else if n = 92 then [CHR 0x5C, CHR 0x5C]
      else if n = 8 then [CHR 0x5C, CHR ''b'']
      else if n = 12 then [CHR 0x5C, CHR ''f'']
      else if n = 10 then [CHR 0x5C, CHR ''n'']
      else if n = 13 then [CHR 0x5C, CHR ''r'']
      else if n = 9 then [CHR 0x5C, CHR ''t'']
      else if n < 32 then
        [CHR 0x5C, CHR ''u'', CHR ''0'', CHR ''0'', hex_digit (n div 16), hex_digit (n mod 16)]
      else [c])"

definition quote_string :: "js_string \<Rightarrow> js_string" where
  "quote_string s = CHR 0x22 # concat (map quote_char s) @ [CHR 0x22]"

fun json_stringify :: "json \<Rightarrow> js_string" where
  "json_stringify JNull = ''null''"
| "json_stringify (JBool b) = (if b then ''true'' else ''false'')"
| "json_stringify (JInt i) = int_dec i"
| "json_stringify (JDec t) = t"
| "json_stringify (JStr s) = quote_string s"
| "json_stringify (JArr vs) = CHR ''['' # js_join '','' (map json_stringify vs) @ '']''"
| "json_stringify (JObj kvs) =
     CHR ''{'' # js_join '','' (map (\<lambda>(k, v). quote_string k @ '':'' @ json_stringify v) kvs) @ ''}''"

subsection \<open>\<open>JSON.parse\<close>\<close>

definition is_json_ws :: "char \<Rightarrow> bool" where
  "is_json_ws c \<longleftrightarrow> (of_char c :: nat) \<in> {9, 10, 13, 32}"

abbreviation skip_ws :: "js_string \<Rightarrow> js_string" where
  "skip_ws \<equiv> dropWhile is_json_ws"

definition hex_val :: "char \<Rightarrow> nat option" where
  "hex_val c =
     (let n = (of_char c :: nat) in
      if 48 \<le> n \<and> n \<le> 57 then Some (n - 48)
      else if 97 \<le> n \<and> n \<le> 102 then Some (n - 87)
      else if 65 \<le> n \<and> n \<le> 70 then Some (n - 55)
      else None)"

definition hex4 :: "char \<Rightarrow> char \<Rightarrow> char \<Rightarrow> char \<Rightarrow> nat option" where
  "hex4 a b c d = (case (hex_val a, hex_val b, hex_val c, hex_val d) of
      (Some w, Some x, Some y, Some z) \<Rightarrow> Some (4096 * w + 256 * x + 16 * y + z)
    | _ \<Rightarrow> None)"

definition simple_escape :: "char \<Rightarrow> char option" where
  "simple_escape c =
     (if c = CHR 0x22 then Some (CHR 0x22) else if c = CHR 0x5C then Some (CHR 0x5C)
      else if c = CHR ''/'' then Some (CHR ''/'') else if c = CHR ''b'' then Some (CHR 0x08)
      else if c = CHR ''f'' then Some (CHR 0x0C) else if c = CHR ''n'' then Some (CHR 0x0A)
      else if c = CHR ''r'' then Some (CHR 0x0D) else if c = CHR ''t'' then Some (CHR 0x09)
      else None)"

text \<open>The rest of a string literal after its opening quote.\<close>

fun p_chars :: "js_string \<Rightarrow> (js_string \<times> js_string) option" where
  "p_chars [] = None"
| "p_chars (c # cs) =
     (if c = CHR 0x22 then Some ([], cs)
      else if c = CHR 0x5C then
        (case cs of
           [] \<Rightarrow> None
         | e # r \<Rightarrow>
             (if e = CHR ''u'' then
                (case r of
                   h1 # h2 # h3 # h4 # r' \<Rightarrow>
                     (case hex4 h1 h2 h3 h4 of
                        None \<Rightarrow> None
                      | Some n \<Rightarrow>
                          (if n < 256 then map_option (apfst ((#) (char_of n))) (p_chars r') else None))
                 | _ \<Rightarrow> None)
              else
                (case simple_escape e of
                   None \<Rightarrow> None
                 | Some ch \<Rightarrow> map_option (apfst ((#) ch)) (p_chars r))))
      else if (of_char c :: nat) < 32 then None
      else map_option (apfst ((#) c)) (p_chars cs))"

text \<open>A numeral: sign, integer part, optional fraction, optional exponent.\<close>

definition p_frac :: "js_string \<Rightarrow> js_string \<times> js_string" where
  "p_frac s = (case s of
      c # r \<Rightarrow> (if c = CHR ''.'' \<and> takeWhile is_digit r \<noteq> []
               then (c # takeWhile is_digit r, dropWhile is_digit r) else ([], s))
    | [] \<Rightarrow> ([], s))"

definition p_exp :: "js_string \<Rightarrow> js_string \<times> js_string" where
  "p_exp s = (case s of
      c # r \<Rightarrow>
        (let (sg, r') = (case r of d # r'' \<Rightarrow> if d = CHR ''+'' \<or> d = CHR ''-'' then ([d], r'') else ([], r)
                                 | [] \<Rightarrow> ([], r))
         in if (c = CHR ''e'' \<or> c = CHR ''E'') \<and> takeWhile is_digit r' \<noteq> []
            then (c # sg @ takeWhile is_digit r', dropWhile is_digit r') else ([], s))
    | [] \<Rightarrow> ([], s))"

definition max_safe_integer :: nat where
  "max_safe_integer = 9007199254740991"

definition p_number :: "js_string \<Rightarrow> (json \<times> js_string) option" where
  "p_number s =
     (let neg = (s \<noteq> [] \<and> hd s = CHR ''-'');
          s1 = (if neg then tl s else s);
          ds = takeWhile is_digit s1
      in if ds = [] then None
         else
           let ip = (if hd ds = CHR ''0'' then ''0'' else ds);
               r0 = drop (length ip) s1;
               (fr, r1) = p_frac r0;
               (ex, r2) = p_exp r1
           in if fr = [] \<and> ex = [] \<and> dec_val ip \<le> max_safe_integer
              then Some (JInt (if neg then - int (dec_val ip) else int (dec_val ip)), r2)
              else Some (JDec ((if neg then ''-'' else []) @ ip @ fr @ ex), r2))"

definition p_literal :: "js_string \<Rightarrow> json \<Rightarrow> js_string \<Rightarrow> (json \<times> js_string) option" where
  "p_literal w v s = (if take (length w) s = w then Some (v, drop (length w) s) else None)"

text \<open>
  The recursive part counts the calls it may still make; \<open>parse_fuel_enough\<close> below shows that
  \<open>json_parse\<close> never runs out, so \<open>None\<close> is always a syntax error.
\<close>

fun p_value :: "nat \<Rightarrow> js_string \<Rightarrow> (json \<times> js_string) option"
  and p_elems :: "nat \<Rightarrow> js_string \<Rightarrow> (json list \<times> js_string) option"
  and p_members :: "nat \<Rightarrow> js_string \<Rightarrow> ((js_string \<times> json) list \<times> js_string) option"
where
  "p_value 0 s = None"
| "p_value (Suc n) s =
     (case skip_ws s of
        [] \<Rightarrow> None
      | c # cs \<Rightarrow>
          (if c = CHR 0x22 then map_option (apfst JStr) (p_chars cs)
           else if c = CHR ''['' then
             (case skip_ws cs of
                [] \<Rightarrow> None
              | d # ds \<Rightarrow> (if d = CHR '']'' then Some (JArr [], ds)
                          else map_option (apfst JArr) (p_elems n cs)))
           else if c = CHR ''{'' then
             (case skip_ws cs of
                [] \<Rightarrow> None
              | d # ds \<Rightarrow> (if d = CHR ''}'' then Some (JObj [], ds)
                          else map_option (apfst (\<lambda>kvs. JObj (obj_of kvs))) (p_members n cs)))
           else if c = CHR ''n'' then p_literal ''null'' JNull (c # cs)
           else if c = CHR ''t'' then p_literal ''true'' (JBool True) (c # cs)
           else if c = CHR ''f'' then p_literal ''false'' (JBool False) (c # cs)
           else p_number (c # cs)))"
| "p_elems 0 s = None"
| "p_elems (Suc n) s =
     (case p_value n s of
        None \<Rightarrow> None
      | Some (v, r) \<Rightarrow>
          (case skip_ws r of
             [] \<Rightarrow> None
           | d # ds \<Rightarrow>
               (if d = CHR '','' then map_option (apfst ((#) v)) (p_elems n ds)
                else if d = CHR '']'' then Some ([v], ds) else None)))"
| "p_members 0 s = None"
| "p_members (Suc n) s =
     (case skip_ws s of
        [] \<Rightarrow> None
      | q # cs \<Rightarrow>
          (if q \<noteq> CHR 0x22 then None
           else case p_chars cs of
             None \<Rightarrow> None
           | Some (k, r) \<Rightarrow>
               (case skip_ws r of
                  [] \<Rightarrow> None
                | d # ds \<Rightarrow>
                    (if d \<noteq> CHR '':'' then None
                     else case p_value n ds of
                       None \<Rightarrow> None
                     | Some (v, r') \<Rightarrow>
                         (case skip_ws r' of
                            [] \<Rightarrow> None
                          | e # es \<Rightarrow>
                              (if e = CHR '','' then map_option (apfst ((#) (k, v))) (p_members n es)
                               else if e = CHR ''}'' then Some ([(k, v)], es) else None))))))"

definition json_parse :: "js_string \<Rightarrow> json option" where
  "json_parse s = (case p_value (2 * length s + 2) s of
      Some (v, r) \<Rightarrow> (if skip_ws r = [] then Some v else None)
    | None \<Rightarrow> None)"

declare p_value.simps [simp del] p_elems.simps [simp del] p_members.simps [simp del]

subsection \<open>Reading back what \<open>JSON.stringify\<close> wrote\<close>

lemma hex_digit_val: "n < 16 \<Longrightarrow> hex_val (hex_digit n) = Some n"
  by (auto simp: hex_val_def hex_digit_def Let_def)

lemma p_chars_plain:
  "c \<noteq> CHR 0x22 \<Longrightarrow> c \<noteq> CHR 0x5C \<Longrightarrow> \<not> (of_char c :: nat) < 32 \<Longrightarrow>
     p_chars (c # t) = map_option (apfst ((#) c)) (p_chars t)"
  by simp

lemma p_chars_quote_char: "p_chars (quote_char c @ t) = map_option (apfst ((#) c)) (p_chars t)"
proof -
  define n where "n = (of_char c :: nat)"
  have c: "c = char_of n" by (simp add: n_def)
  have ch: "c = d" if "n = of_char d" for d
    using that by (simp add: n_def)
  consider "c \<in> {CHR 0x22, CHR 0x5C, CHR 0x08, CHR 0x0C, CHR 0x0A, CHR 0x0D, CHR 0x09}"
    | "n < 32" "n \<noteq> 8" "n \<noteq> 12" "n \<noteq> 10" "n \<noteq> 13" "n \<noteq> 9" | "32 \<le> n" "n \<noteq> 34" "n \<noteq> 92"
  proof -
    have "c \<in> {CHR 0x22, CHR 0x5C, CHR 0x08, CHR 0x0C, CHR 0x0A, CHR 0x0D, CHR 0x09}"
      if "n \<in> {34, 92, 8, 12, 10, 13, 9}"
      using that ch [of "CHR 0x22"] ch [of "CHR 0x5C"] ch [of "CHR 0x08"] ch [of "CHR 0x0C"]
        ch [of "CHR 0x0A"] ch [of "CHR 0x0D"] ch [of "CHR 0x09"] by auto
    then show ?thesis using that by (cases "n < 32") auto
  qed
  then show ?thesis
  proof cases
    case 1
    then show ?thesis
      by (elim insertE) (simp_all add: quote_char_def simple_escape_def)
  next
    case 2
    have "n div 16 < 16" and "n mod 16 < 16" using 2(1) by auto
    moreover have "hex_val CHR ''0'' = Some 0" by (simp add: hex_val_def)
    moreover have "16 * (n div 16) + n mod 16 = n" by simp
    ultimately have "hex4 CHR ''0'' CHR ''0'' (hex_digit (n div 16)) (hex_digit (n mod 16)) = Some n"
      by (simp add: hex4_def hex_digit_val)
    moreover have "quote_char c = [CHR 0x5C, CHR ''u'', CHR ''0'', CHR ''0'', hex_digit (n div 16), hex_digit (n mod 16)]"
      using 2 by (simp add: quote_char_def n_def Let_def)
    ultimately show ?thesis using 2(1) c by simp
  next
    case 3
    then have "quote_char c = [c]" "c \<noteq> CHR 0x22" "c \<noteq> CHR 0x5C"
      by (auto simp: quote_char_def n_def Let_def)
    then show ?thesis using 3(1) n_def by simp
  qed
qed

lemma p_chars_quoted: "p_chars (concat (map quote_char s) @ CHR 0x22 # rest) = Some (s, rest)"
  by (induction s) (simp_all add: p_chars_quote_char)

text \<open>What may follow a numeral: not a digit, a point or an exponent.\<close>

definition ends_number :: "js_string \<Rightarrow> bool" where
  "ends_number r \<longleftrightarrow> r = [] \<or> \<not> is_digit (hd r) \<and> hd r \<notin> {CHR ''.'', CHR ''e'', CHR ''E''}"

lemma ends_number_simps [simp]:
  "ends_number []" "ends_number (CHR '','' # r)" "ends_number (CHR '']'' # r)" "ends_number (CHR ''}'' # r)"
  by (simp_all add: ends_number_def is_digit_def)

lemma takeWhile_digits: "\<forall>c \<in> set ds. is_digit c \<Longrightarrow> r = [] \<or> \<not> is_digit (hd r) \<Longrightarrow>
    takeWhile is_digit (ds @ r) = ds"
  by (cases r) (auto simp: takeWhile_append)

lemma p_number_dec:
  assumes "n \<le> max_safe_integer" and r: "ends_number r"
  shows "p_number ((if neg then ''-'' else []) @ nat_dec n @ r)
         = Some (JInt (if neg then - int n else int n), r)"
proof -
  let ?s = "nat_dec n @ r"
  have dig: "\<forall>c \<in> set (nat_dec n). is_digit c" using nat_dec_digits by blast
  then have hd_dig: "is_digit (hd (nat_dec n))" by (simp add: nat_dec_not_Nil)
  then have nm: "hd (nat_dec n) \<noteq> CHR ''-''" by (auto simp: is_digit_def)
  have ds: "takeWhile is_digit ?s = nat_dec n"
    using dig r by (intro takeWhile_digits) (auto simp: ends_number_def)
  have ip: "(if hd (nat_dec n) = CHR ''0'' then ''0'' else nat_dec n) = nat_dec n"
  proof (cases "hd (nat_dec n) = CHR ''0''")
    case True
    then obtain q where "nat_dec n = CHR ''0'' # q" by (metis list.collapse nat_dec_not_Nil)
    with nat_dec_hd_zero [of n q] show ?thesis by simp
  next
    case False
    then show ?thesis by simp
  qed
  have fr: "p_frac r = ([], r)" and ex: "p_exp r = ([], r)"
    using r by (auto simp: p_frac_def p_exp_def ends_number_def split: list.splits)
  obtain a l where al: "nat_dec n = a # l" by (cases "nat_dec n") auto
  moreover have "dec_val (a # l) = n" by (metis al dec_val_nat_dec)
  ultimately show ?thesis
    using assms(1) nm ds ip fr ex
    by (auto simp: p_number_def Let_def split del: if_split split: if_splits)
qed

fun json_ok :: "json \<Rightarrow> bool" where
  "json_ok JNull = True"
| "json_ok (JBool b) = True"
| "json_ok (JInt i) = (nat \<bar>i\<bar> \<le> max_safe_integer)"
| "json_ok (JDec t) = False"
| "json_ok (JStr s) = True"
| "json_ok (JArr vs) = (\<forall>v \<in> set vs. json_ok v)"
| "json_ok (JObj kvs) = (distinct (map fst kvs) \<and> (\<forall>kv \<in> set kvs. json_ok (snd kv)))"

lemma p_number_int:
  assumes "nat \<bar>i\<bar> \<le> max_safe_integer" and "ends_number r"
  shows "p_number (int_dec i @ r) = Some (JInt i, r)"
  using p_number_dec [OF assms, of "i < 0"] by (auto simp: int_dec_def)

lemma int_dec_Cons: "\<exists>c cs. int_dec i = c # cs \<and> (is_digit c \<or> c = CHR ''-'')"
proof (cases "i < 0")
  case True
  then show ?thesis by (simp add: int_dec_def)
next
  case False
  obtain c cs where "nat_dec (nat i) = c # cs" by (cases "nat_dec (nat i)") auto
  then show ?thesis using False nat_dec_digits [of c "nat i"] by (simp add: int_dec_def)
qed

lemma digit_not_json: "is_digit c \<or> c = CHR ''-'' \<Longrightarrow>
    \<not> is_json_ws c \<and> c \<notin> {CHR '']'', CHR ''}'', CHR 0x22, CHR ''['', CHR ''{'', CHR ''n'', CHR ''t'', CHR ''f''}"
  by (auto simp: is_digit_def is_json_ws_def)

lemma stringify_Cons:
  "json_ok v \<Longrightarrow> \<exists>c cs. json_stringify v = c # cs \<and> \<not> is_json_ws c \<and> c \<noteq> CHR '']'' \<and> c \<noteq> CHR ''}''"
proof (cases v)
  case (JInt i)
  then show ?thesis using int_dec_Cons [of i] digit_not_json by fastforce
qed (auto simp: quote_string_def is_json_ws_def)

lemma js_join_Cons: "js_join sep (p # ps) = p @ concat (map (\<lambda>q. sep @ q) ps)"
proof (induction ps arbitrary: p)
  case (Cons q ps)
  then show ?case by simp
qed simp

lemma json_punct_not_ws [simp]:
  "\<not> is_json_ws CHR '',''" "\<not> is_json_ws CHR '']''" "\<not> is_json_ws CHR ''}''" "\<not> is_json_ws CHR '':''"
  "\<not> is_json_ws CHR 0x22" "\<not> is_json_ws CHR ''[''" "\<not> is_json_ws CHR ''{''"
  by (simp_all add: is_json_ws_def)

text \<open>One element list, given that each of its elements reads back.\<close>

lemma p_elems_ok:
  assumes "vs \<noteq> []"
    and "\<And>v n r. v \<in> set vs \<Longrightarrow> ends_number r \<Longrightarrow> 2 * length (json_stringify v) < n \<Longrightarrow>
           p_value n (json_stringify v @ r) = Some (v, r)"
    and "2 * length (js_join '','' (map json_stringify vs)) + 2 \<le> n"
  shows "p_elems n (js_join '','' (map json_stringify vs) @ CHR '']'' # r) = Some (vs, r)"
  using assms
proof (induction vs arbitrary: n)
  case Nil
  then show ?case by simp
next
  case (Cons v vs)
  from Cons.prems(3) obtain m where n: "n = Suc m" by (cases n) auto
  show ?case
  proof (cases vs)
    case Nil
    have "p_value m (json_stringify v @ CHR '']'' # r) = Some (v, CHR '']'' # r)"
      using Cons.prems(3) n Nil by (intro Cons.prems(2)) auto
    then show ?thesis by (simp add: Nil n p_elems.simps)
  next
    case (Cons w ws)
    let ?rest = "js_join '','' (map json_stringify vs) @ CHR '']'' # r"
    have "p_value m (json_stringify v @ CHR '','' # ?rest) = Some (v, CHR '','' # ?rest)"
      using Cons.prems(3) n Cons by (intro Cons.prems(2)) (auto simp: js_join_Cons)
    moreover have "p_elems m ?rest = Some (vs, r)"
      using Cons.prems n Cons by (intro Cons.IH) (auto simp: js_join_Cons)
    ultimately show ?thesis by (simp add: Cons n p_elems.simps)
  qed
qed

lemma p_members_ok:
  assumes "kvs \<noteq> []"
    and "\<And>kv n r. kv \<in> set kvs \<Longrightarrow> ends_number r \<Longrightarrow> 2 * length (json_stringify (snd kv)) < n \<Longrightarrow>
           p_value n (json_stringify (snd kv) @ r) = Some (snd kv, r)"
    and "2 * length (js_join '','' (map (\<lambda>(k, v). quote_string k @ '':'' @ json_stringify v) kvs)) + 2 \<le> n"
  shows "p_members n (js_join '','' (map (\<lambda>(k, v). quote_string k @ '':'' @ json_stringify v) kvs)
           @ CHR ''}'' # r) = Some (kvs, r)"
  using assms
proof (induction kvs arbitrary: n)
  case Nil
  then show ?case by simp
next
  case (Cons kv kvs)
  obtain k v where kv: "kv = (k, v)" by (cases kv)
  from Cons.prems(3) obtain m where n: "n = Suc m" by (cases n) auto
  let ?pr = "\<lambda>(k, v). quote_string k @ '':'' @ json_stringify v"
  show ?case
  proof (cases kvs)
    case Nil
    have "p_value m (json_stringify v @ CHR ''}'' # r) = Some (v, CHR ''}'' # r)"
      using Cons.prems(2) [of kv "CHR ''}'' # r" m] Cons.prems(3) n Nil kv by auto
    then show ?thesis
      by (simp add: Nil n kv p_members.simps quote_string_def p_chars_quoted)
  next
    case (Cons w ws)
    let ?rest = "js_join '','' (map ?pr kvs) @ CHR ''}'' # r"
    have "p_value m (json_stringify v @ CHR '','' # ?rest) = Some (v, CHR '','' # ?rest)"
      using Cons.prems(2) [of kv "CHR '','' # ?rest" m] Cons.prems(3) n Cons kv
      by (auto simp: js_join_Cons)
    moreover have "p_members m ?rest = Some (kvs, r)"
      using Cons.prems n Cons kv by (intro Cons.IH) (auto simp: js_join_Cons quote_string_def)
    ultimately show ?thesis
      using Cons by (simp add: n kv p_members.simps quote_string_def p_chars_quoted)
  qed
qed

lemma p_value_stringify:
  "json_ok v \<Longrightarrow> ends_number r \<Longrightarrow> 2 * length (json_stringify v) < n \<Longrightarrow>
     p_value n (json_stringify v @ r) = Some (v, r)"
proof (induction v arbitrary: n r rule: json_stringify.induct)
  case 1
  then show ?case by (cases n) (simp_all add: p_value.simps is_json_ws_def p_literal_def)
next
  case (2 b)
  then show ?case by (cases n) (auto simp: p_value.simps is_json_ws_def p_literal_def)
next
  case (3 i)
  obtain c cs where "int_dec i = c # cs" "is_digit c \<or> c = CHR ''-''"
    using int_dec_Cons by blast
  with 3 p_number_int [of i r] digit_not_json [of c] show ?case
    by (cases n) (auto simp: p_value.simps)
next
  case (4 t)
  then show ?case by simp
next
  case (5 s)
  then show ?case by (cases n) (simp_all add: p_value.simps quote_string_def p_chars_quoted)
next
  case (6 vs)
  from 6(4) obtain m where n: "n = Suc m" by (cases n) auto
  show ?case
  proof (cases vs)
    case Nil
    then show ?thesis by (simp add: n p_value.simps)
  next
    case (Cons w ws)
    obtain c cs where c: "json_stringify w = c # cs" "\<not> is_json_ws c" "c \<noteq> CHR '']''"
      using stringify_Cons [of w] 6(2) Cons by auto
    let ?txt = "js_join '','' (map json_stringify vs) @ CHR '']'' # r"
    have "p_elems m ?txt = Some (vs, r)"
      using 6 n Cons by (intro p_elems_ok) auto
    moreover have "\<exists>ds. ?txt = c # ds" using c Cons by (simp add: js_join_Cons)
    ultimately show ?thesis using c by (auto simp: n p_value.simps)
  qed
next
  case (7 kvs)
  from 7(4) obtain m where n: "n = Suc m" by (cases n) auto
  show ?case
  proof (cases kvs)
    case Nil
    then show ?thesis by (simp add: n p_value.simps)
  next
    case (Cons w ws)
    let ?txt = "js_join '','' (map (\<lambda>(k, v). quote_string k @ '':'' @ json_stringify v) kvs) @ CHR ''}'' # r"
    have "p_value k (json_stringify (snd kv) @ r) = Some (snd kv, r)"
      if "kv \<in> set kvs" "ends_number r" "2 * length (json_stringify (snd kv)) < k" for kv k r
      using 7(1) [of kv "fst kv" "snd kv" r k] 7(2) that by auto
    then have "p_members m ?txt = Some (kvs, r)"
      using 7(2-4) n Cons by (intro p_members_ok) auto
    moreover have "\<exists>ds. ?txt = CHR 0x22 # ds"
      using Cons by (cases w) (simp add: js_join_Cons quote_string_def)
    ultimately show ?thesis using 7(2) by (auto simp: n p_value.simps obj_of_distinct)
  qed
qed

theorem json_parse_stringify: "json_ok v \<Longrightarrow> json_parse (json_stringify v) = Some v"
  using p_value_stringify [of v "[]" "2 * length (json_stringify v) + 2"]
  by (simp add: json_parse_def)

subsection \<open>The parser never runs out of fuel\<close>

lemma p_literal_shorter: "p_literal w v s = Some (x, r) \<Longrightarrow> w \<noteq> [] \<Longrightarrow> length r < length s"
  by (cases s) (auto simp: p_literal_def split: if_splits intro!: diff_less)

lemma p_chars_shorter: "p_chars s = Some (t, r) \<Longrightarrow> length r < length s"
  by (induction s arbitrary: t r rule: p_chars.induct)
     (fastforce split: if_splits list.splits option.splits)+

lemma length_skip_ws [simp]: "length (skip_ws s) \<le> length s"
  by (rule length_dropWhile_le)

lemma skip_ws_shorter: "skip_ws s = c # cs \<Longrightarrow> length cs < length s"
  using length_skip_ws [of s] by simp

lemma p_frac_shorter: "p_frac s = (x, r) \<Longrightarrow> length r \<le> length s"
  by (auto simp: p_frac_def split: list.splits if_splits intro: le_SucI length_dropWhile_le)

lemma p_exp_shorter: "p_exp s = (x, r) \<Longrightarrow> length r \<le> length s"
  by (auto simp: p_exp_def Let_def split: list.splits if_splits
      intro: le_SucI length_dropWhile_le)

lemma p_number_shorter:
  assumes "p_number s = Some (v, r)"
  shows "length r < length s"
proof -
  define s1 where "s1 = (if s \<noteq> [] \<and> hd s = CHR ''-'' then tl s else s)"
  define ds where "ds = takeWhile is_digit s1"
  define ip where "ip = (if hd ds = CHR ''0'' then ''0'' else ds)"
  obtain fr r1 where fr: "p_frac (drop (length ip) s1) = (fr, r1)" by fastforce
  obtain ex r2 where ex: "p_exp r1 = (ex, r2)" by fastforce
  have "ds \<noteq> []" and "r = r2"
    using assms fr ex by (auto simp: p_number_def Let_def s1_def ds_def ip_def split: if_splits)
  then have "s1 \<noteq> []" "ip \<noteq> []" by (auto simp: ds_def ip_def)
  then have "length (drop (length ip) s1) < length s1" by simp
  moreover have "length s1 \<le> length s" by (simp add: s1_def)
  ultimately show ?thesis
    using p_frac_shorter [OF fr] p_exp_shorter [OF ex] unfolding \<open>r = r2\<close> by linarith
qed

lemma parse_shorter:
  "(\<forall>s v r. p_value n s = Some (v, r) \<longrightarrow> length r < length s)
   \<and> (\<forall>s vs r. p_elems n s = Some (vs, r) \<longrightarrow> length r < length s)
   \<and> (\<forall>s kvs r. p_members n s = Some (kvs, r) \<longrightarrow> length r < length s)"
proof (induction n)
  case 0
  show ?case by (simp add: p_value.simps p_elems.simps p_members.simps)
next
  case (Suc n)
  have "length r < length s" if "p_value (Suc n) s = Some (v, r)" for s v r
    using that Suc by (fastforce simp: p_value.simps split: list.splits if_splits
        dest!: skip_ws_shorter p_chars_shorter dest: p_literal_shorter p_number_shorter)
  moreover have "length r < length s" if "p_elems (Suc n) s = Some (vs, r)" for s vs r
    using that Suc by (fastforce simp: p_elems.simps split: option.splits list.splits if_splits
        dest!: skip_ws_shorter)
  moreover have "length r < length s" if h: "p_members (Suc n) s = Some (kvs, r)" for s kvs r
  proof -
    obtain q cs k r1 d ds v r2 e es where
      s: "skip_ws s = q # cs" and r1: "p_chars cs = Some (k, r1)" and d: "skip_ws r1 = d # ds"
      and v: "p_value n ds = Some (v, r2)" and e: "skip_ws r2 = e # es"
      and r: "es = r \<or> (\<exists>kvs'. p_members n es = Some (kvs', r))"
      using h by (fastforce simp: p_members.simps split: option.splits list.splits if_splits)
    have "length r2 < length ds" using v Suc by blast
    moreover have "length r \<le> length es" using r Suc by (blast intro: less_imp_le)
    ultimately show ?thesis
      using skip_ws_shorter [OF s] p_chars_shorter [OF r1] skip_ws_shorter [OF d]
        skip_ws_shorter [OF e] by linarith
  qed
  ultimately show ?case by blast
qed

lemmas value_shorter = parse_shorter [THEN conjunct1, rule_format]

text \<open>
  One unfolding depends on the fuel only through the calls on shorter texts.
\<close>

lemma p_value_step:
  assumes "\<And>cs. length cs < length s \<Longrightarrow> p_elems m cs = p_elems n cs"
    and "\<And>cs. length cs < length s \<Longrightarrow> p_members m cs = p_members n cs"
  shows "p_value (Suc m) s = p_value (Suc n) s"
proof (cases "skip_ws s")
  case Nil
  then show ?thesis by (simp add: p_value.simps del: dropWhile_eq_Nil_conv)
next
  case (Cons c cs)
  with skip_ws_shorter [OF Cons] assms show ?thesis
    by (simp add: p_value.simps del: dropWhile_eq_Nil_conv split: list.split)
qed

lemma p_elems_step:
  assumes v: "p_value m s = p_value n s"
    and e: "\<And>ds. length ds < length s \<Longrightarrow> p_elems m ds = p_elems n ds"
  shows "p_elems (Suc m) s = p_elems (Suc n) s"
proof (cases "p_value n s")
  case None
  with v show ?thesis by (simp add: p_elems.simps)
next
  case vr: (Some vr)
  obtain x r where x: "vr = (x, r)" by (cases vr)
  show ?thesis
  proof (cases "skip_ws r")
    case Nil
    with v vr x show ?thesis by (simp add: p_elems.simps del: dropWhile_eq_Nil_conv)
  next
    case (Cons d ds)
    have "length ds < length s"
      using skip_ws_shorter [OF Cons] value_shorter [OF vr [unfolded x]] by simp
    with v vr x Cons show ?thesis by (simp add: p_elems.simps e)
  qed
qed

lemma p_members_step:
  assumes v: "\<And>ds. length ds < length s \<Longrightarrow> p_value m ds = p_value n ds"
    and e: "\<And>ds. length ds < length s \<Longrightarrow> p_members m ds = p_members n ds"
  shows "p_members (Suc m) s = p_members (Suc n) s"
proof -
  have after_value: "p_members m es = p_members n es"
    if "length ds < length s" "p_value n ds = Some (x, r)" "skip_ws r = c # es" for ds x r c es
    using that skip_ws_shorter [OF that(3)] value_shorter [OF that(2)] by (intro e) simp
  have after_key:
    "p_value m ds = p_value n ds \<and> length ds < length s"
    if "skip_ws s = q # cs" "p_chars cs = Some (k, r)" "skip_ws r = d # ds" for q cs k r d ds
    using skip_ws_shorter [OF that(1)] p_chars_shorter [OF that(2)] skip_ws_shorter [OF that(3)] v
    by simp
  show ?thesis
  proof (cases "skip_ws s")
    case s: (Cons q cs)
    show ?thesis
    proof (cases "p_chars cs")
      case kr: (Some kr)
      obtain k r where k: "kr = (k, r)" by (cases kr)
      show ?thesis
      proof (cases "skip_ws r")
        case d: (Cons d ds)
        note ds = after_key [OF s kr [unfolded k] d]
        show ?thesis
        proof (cases "p_value n ds")
          case vr: (Some vr)
          obtain x r' where x: "vr = (x, r')" by (cases vr)
          show ?thesis
            using s kr k d ds vr x after_value [OF ds [THEN conjunct2] vr [unfolded x]]
            by (cases "skip_ws r'") (simp_all add: p_members.simps del: dropWhile_eq_Nil_conv)
        qed (use s kr k d ds in \<open>simp add: p_members.simps\<close>)
      qed (use s kr k in \<open>simp add: p_members.simps del: dropWhile_eq_Nil_conv\<close>)
    qed (use s in \<open>simp add: p_members.simps\<close>)
  qed (simp add: p_members.simps del: dropWhile_eq_Nil_conv)
qed

lemma parse_fuel_mono:
  "(\<forall>s m. 2 * length s + 1 \<le> n \<longrightarrow> n \<le> m \<longrightarrow> p_value m s = p_value n s)
   \<and> (\<forall>s m. 2 * length s + 2 \<le> n \<longrightarrow> n \<le> m \<longrightarrow> p_elems m s = p_elems n s)
   \<and> (\<forall>s m. 2 * length s + 2 \<le> n \<longrightarrow> n \<le> m \<longrightarrow> p_members m s = p_members n s)"
proof (induction n)
  case 0
  show ?case by simp
next
  case (Suc n)
  have V: "p_value m s = p_value n s" if "2 * length s + 1 \<le> n" "n \<le> m" for s m
    using Suc that by blast
  have E: "p_elems m s = p_elems n s" if "2 * length s + 2 \<le> n" "n \<le> m" for s m
    using Suc that by blast
  have M: "p_members m s = p_members n s" if "2 * length s + 2 \<le> n" "n \<le> m" for s m
    using Suc that by blast
  have "p_value m s = p_value (Suc n) s" if "2 * length s + 1 \<le> Suc n" "Suc n \<le> m" for s m
    using that by (cases m) (auto intro!: p_value_step E M)
  moreover have "p_elems m s = p_elems (Suc n) s" if "2 * length s + 2 \<le> Suc n" "Suc n \<le> m" for s m
    using that by (cases m) (auto intro!: p_elems_step V E)
  moreover have "p_members m s = p_members (Suc n) s" if "2 * length s + 2 \<le> Suc n" "Suc n \<le> m" for s m
    using that by (cases m) (auto intro!: p_members_step V M)
  ultimately show ?case by blast
qed

lemma parse_fuel_enough:
  assumes "2 * length s + 2 \<le> n"
  shows "json_parse s
    = (case p_value n s of Some (v, r) \<Rightarrow> (if skip_ws r = [] then Some v else None) | None \<Rightarrow> None)"
proof -
  have "p_value n s = p_value (2 * length s + 2) s"
    using parse_fuel_mono [THEN conjunct1, rule_format, of s "2 * length s + 2" n] assms by simp
  then show ?thesis by (simp add: json_parse_def)
qed

end
