(* ===== verification/Http_Client.thy ===== *)
theory Http_Client
  imports Js_Json
begin

section \<open>The HTTP client of the admin portal\<close>

text \<open>
  Models \<open>lib/api/client.ts\<close>: requests as the axios instance sends them, what a promise of a
  response settles to, and the response interceptor. Axios itself is a library; used of it is
  that a property of \<open>params\<close> or of a JSON body that is \<open>undefined\<close> is left out, that a 2xx
  response resolves and any other one rejects with the status, and that the interceptor runs before
  the caller sees the outcome.
\<close>

datatype http_method = GET | POST | PUT | DELETE

record http_request =
  rmethod :: http_method
  url :: js_string
  params :: "(js_string \<times> json) list"
  body :: "json option"

text \<open>An object literal some of whose properties may be \<open>undefined\<close>.\<close>

definition defined_props :: "(js_string \<times> json option) list \<Rightarrow> (js_string \<times> json) list" where
  "defined_props kvs = concat (map (\<lambda>(k, v). case v of None \<Rightarrow> [] | Some x \<Rightarrow> [(k, x)]) kvs)"

definition http_get :: "js_string \<Rightarrow> (js_string \<times> json option) list \<Rightarrow> http_request" where
  "http_get u ps = \<lparr>rmethod = GET, url = u, params = defined_props ps, body = None\<rparr>"

definition http_post :: "js_string \<Rightarrow> json \<Rightarrow> http_request" where
  "http_post u b = \<lparr>rmethod = POST, url = u, params = [], body = Some b\<rparr>"

definition http_put :: "js_string \<Rightarrow> json \<Rightarrow> http_request" where
  "http_put u b = \<lparr>rmethod = PUT, url = u, params = [], body = Some b\<rparr>"

definition http_delete :: "js_string \<Rightarrow> http_request" where
  "http_delete u = \<lparr>rmethod = DELETE, url = u, params = [], body = None\<rparr>"

text \<open>A thrown value: an \<open>Error\<close> with its message, or anything else.\<close>

datatype thrown = ErrorObj js_string | OtherThrown

text \<open>\<open>err instanceof Error ? err.message : "..."\<close>.\<close>

definition message_of :: "js_string \<Rightarrow> thrown \<Rightarrow> js_string" where
  "message_of dflt t = (case t of ErrorObj m \<Rightarrow> m | OtherThrown \<Rightarrow> dflt)"

lemma message_of_simps [simp]:
  "message_of dflt (ErrorObj m) = m"
  "message_of dflt OtherThrown = dflt"
  by (simp_all add: message_of_def)

subsection \<open>The response interceptor\<close>

record browser =
  local_storage :: "js_string \<rightharpoonup> js_string"
  location_href :: js_string

text \<open>What a rejected axios promise carries: the thrown value and \<open>error.response.status\<close>.\<close>

record http_error =
  cause :: thrown
  status :: "int option"

definition session_key :: js_string where
  "session_key = ''gateway-portal-session''"

text \<open>
  The rejection handler; its first argument is \<open>typeof window !== "undefined"\<close>. The error is
  rejected again in every case.
\<close>

definition on_rejected :: "bool \<Rightarrow> http_error \<Rightarrow> browser \<Rightarrow> http_error \<times> browser" where
  "on_rejected has_window err b =
     (if status err = Some 401 \<or> status err = Some 403 then
        if has_window then
          (err, b\<lparr>local_storage := (local_storage b)(session_key := None),
                  location_href := ''/login''\<rparr>)
        else (err, b)
      else (err, b))"

datatype 'a outcome = Resolved 'a | Rejected http_error

text \<open>What the caller of \<open>apiClient\<close> sees, and the browser afterwards.\<close>

definition api_settle :: "bool \<Rightarrow> 'a outcome \<Rightarrow> browser \<Rightarrow> (thrown + 'a) \<times> browser" where
  "api_settle has_window r b =
     (case r of
        Resolved a \<Rightarrow> (Inr a, b)
      | Rejected err \<Rightarrow> (let (err', b') = on_rejected has_window err b in (Inl (cause err'), b')))"

end
