(* ===== verification/Management_Types.thy ===== *)
theory Management_Types
  imports Prelude
begin

section \<open>The entities of the management API\<close>

text \<open>
  The types of \<open>types/management.ts\<close> that the API answers with, one record per type with the
  fields of the source. Types are erased at run time and the portals do not validate what the API
  answers, so a record stands for an answer that has the declared shape. \<open>T | null\<close> and an
  optional property are both \<open>option\<close>: the code tells them apart nowhere. A \<open>number\<close> is an
  \<open>int\<close> (the fields are counts, durations and limits), except \<open>logSampling\<close>, kept as its text.
  Field names repeat between the records; a field is written with its record's name in front,
  as in \<open>ManagementProduct.name p\<close>. The property called \<open>id\<close> in the source is
  \<open>ident\<close> here, as \<open>id\<close> is the identity function.
\<close>

record ManagementProduct =
  ident :: js_string
  name :: js_string
  description :: js_string
  ownerTeam :: js_string
  isEnabled :: bool
  createdAt :: js_string
  updatedAt :: js_string

text \<open>
  \<open>environment: string\<close> of a service is what the portal declares and not what it gets: the backend answers
  with a number, and the pages pass the value on as it is. So it is kept as it arrives, a text or a
  number; \<open>None\<close> is \<open>undefined\<close> or \<open>null\<close>. \<open>env_string\<close> is \<open>String(value)\<close>.
\<close>

datatype env_value = EnvText js_string | EnvNumber int

fun env_truthy :: "env_value option \<Rightarrow> bool" where
  "env_truthy None = False"
| "env_truthy (Some (EnvText s)) = truthy_str s"
| "env_truthy (Some (EnvNumber n)) = (n \<noteq> 0)"

fun env_string :: "env_value \<Rightarrow> js_string" where
  "env_string (EnvText s) = s"
| "env_string (EnvNumber n) = int_dec n"

text \<open>Colour and text of the badge: \<open>v ? String(v).toLowerCase() : "dev"\<close>.\<close>

definition environment_badge :: "env_value option \<Rightarrow> js_string \<times> js_string" where
  "environment_badge v =
     (if env_truthy v then
        let t = js_lower (env_string (the v)) in (if t = ''prod'' then ''danger'' else ''info'', t)
      else (''info'', ''dev''))"

record ManagementService =
  ident :: js_string
  productId :: js_string
  serviceName :: js_string
  basePath :: js_string
  version :: js_string
  description :: js_string
  ownerTeam :: js_string
  isEnabled :: bool
  environment :: "env_value option"
  clusterId :: js_string
  destinations :: js_string
  loadBalancingPolicy :: js_string
  healthCheckEnabled :: bool
  healthCheckPath :: "js_string option"
  healthCheckIntervalSeconds :: int
  sessionAffinityEnabled :: bool
  sessionAffinityCookieName :: js_string
  sessionAffinityTtlSeconds :: int
  circuitBreakerEnabled :: bool
  circuitBreakerThreshold :: int
  circuitBreakerDurationSeconds :: int
  retryEnabled :: bool
  retryCount :: int
  retryDelayMs :: int
  connectionTimeoutSeconds :: int
  requestTimeoutSeconds :: int
  maxConnectionsPerDestination :: int
  passiveHealthCheckEnabled :: bool
  passiveHealthFailureThreshold :: int
  passiveHealthReactivationSeconds :: int
  enableTracing :: bool
  enableMetrics :: bool
  logSampling :: js_string
  requiresJwt :: bool
  requiredScopes :: "js_string option"
  allowedClients :: "js_string option"
  cacheEnabled :: bool
  cacheTtlSeconds :: int
  cacheKeyTemplate :: "js_string option"
  emitEvents :: bool
  topicPrefix :: "js_string option"
  eventSchemaVersion :: "js_string option"
  defaultCryptoAlgorithm :: js_string
  defaultKeySource :: js_string
  defaultIvSource :: js_string
  defaultEncoding :: js_string
  defaultRequireIv :: bool
  createdAt :: js_string
  updatedAt :: js_string

record ManagementEndpoint =
  ident :: js_string
  serviceId :: js_string
  endpointName :: js_string
  httpMethod :: js_string
  relativePath :: js_string
  upstreamPathTemplate :: "js_string option"
  isEnabled :: bool
  timeoutMs :: int
  maxRetries :: int
  idempotentOnly :: bool
  requestSizeLimitBytes :: int
  responseSizeLimitBytes :: int
  payloadExpectation :: js_string
  headersToAdd :: "js_string option"
  headersToRemove :: "js_string option"
  rateLimitPolicy :: "js_string option"
  cryptoAlgorithm :: "js_string option"
  keySource :: "js_string option"
  ivSource :: "js_string option"
  encoding :: "js_string option"
  requireIv :: "bool option"
  encryptRequest :: bool
  encryptResponse :: bool
  createdAt :: js_string
  updatedAt :: js_string

record ManagementServiceDestination =
  ident :: js_string
  serviceId :: js_string
  destinationName :: js_string
  address :: js_string
  weight :: int
  priority :: int
  isEnabled :: bool
  healthStatus :: js_string
  lastHealthCheck :: "js_string option"
  metadata :: "js_string option"
  createdAt :: js_string
  updatedAt :: js_string

record ManagementClient =
  ident :: js_string
  clientId :: js_string
  clientName :: js_string
  clientSecret :: js_string
  isEnabled :: bool
  allowedIpAddresses :: "js_string option"
  createdAt :: js_string
  updatedAt :: js_string
  lastAccessedAt :: "js_string option"

record ManagementClientPermission =
  ident :: js_string
  clientId :: js_string
  endpointId :: js_string
  isEnabled :: bool
  createdAt :: js_string
  expiresAt :: "js_string option"

record ManagementUserProfile =
  ident :: js_string
  userId :: js_string
  serviceId :: "js_string option"
  encryptionKey :: js_string
  encryptionIv :: "js_string option"
  isEnabled :: bool
  createdAt :: js_string
  updatedAt :: js_string

text \<open>The records are used through their fields only; two of them are equal when the fields are.\<close>

lemma ManagementProduct_ext:
  fixes p q :: ManagementProduct
  assumes "ManagementProduct.ident p = ManagementProduct.ident q"
    "ManagementProduct.name p = ManagementProduct.name q"
    "ManagementProduct.description p = ManagementProduct.description q"
    "ManagementProduct.ownerTeam p = ManagementProduct.ownerTeam q"
    "ManagementProduct.isEnabled p = ManagementProduct.isEnabled q"
    "ManagementProduct.createdAt p = ManagementProduct.createdAt q"
    "ManagementProduct.updatedAt p = ManagementProduct.updatedAt q"
  shows "p = q"
  using assms by (cases p, cases q) simp

end
