(* ===== verification/Admin_Api.thy ===== *)
theory Admin_Api
  imports Http_Client Management_Types
begin

section \<open>The management API of the admin portal\<close>

text \<open>
  Models \<open>lib/api/admin.ts\<close>. Each function builds one request and hands on the data of the
  answer; the function here is the request it builds. \<open>parseJsonArray\<close> reads the lists that the
  API returns as JSON text. Identifiers go into the path as they are: the source does not escape
  them.
\<close>

definition bool_param :: "bool \<Rightarrow> json option" where
  "bool_param b = Some (JBool b)"

definition str_param :: "js_string option \<Rightarrow> json option" where
  "str_param s = map_option JStr s"

definition getProducts :: "bool \<Rightarrow> http_request" where
  "getProducts enabledOnly = http_get ''/products'' [(''enabledOnly'', bool_param enabledOnly)]"

definition getProduct :: "js_string \<Rightarrow> http_request" where
  "getProduct i = http_get (''/products/'' @ i) []"

definition createProduct :: "json \<Rightarrow> http_request" where
  "createProduct payload = http_post ''/products'' payload"

definition updateProduct :: "js_string \<Rightarrow> json \<Rightarrow> http_request" where
  "updateProduct i payload = http_put (''/products/'' @ i) payload"

definition deleteProduct :: "js_string \<Rightarrow> http_request" where
  "deleteProduct i = http_delete (''/products/'' @ i)"

definition getServices :: "js_string option \<Rightarrow> bool option \<Rightarrow> http_request" where
  "getServices product enabledOnly =
     http_get ''/services''
       [(''productId'', str_param product), (''enabledOnly'', map_option JBool enabledOnly)]"

definition getService :: "js_string \<Rightarrow> http_request" where
  "getService i = http_get (''/services/'' @ i) []"

definition createService :: "json \<Rightarrow> http_request" where
  "createService payload = http_post ''/services'' payload"

definition updateService :: "js_string \<Rightarrow> json \<Rightarrow> http_request" where
  "updateService i payload = http_put (''/services/'' @ i) payload"

definition deleteService :: "js_string \<Rightarrow> http_request" where
  "deleteService i = http_delete (''/services/'' @ i)"

definition getEndpoints :: "js_string option \<Rightarrow> bool option \<Rightarrow> http_request" where
  "getEndpoints service enabledOnly =
     http_get ''/endpoints''
       [(''serviceId'', str_param service), (''enabledOnly'', map_option JBool enabledOnly)]"

definition getEndpoint :: "js_string \<Rightarrow> http_request" where
  "getEndpoint i = http_get (''/endpoints/'' @ i) []"

definition createEndpoint :: "json \<Rightarrow> http_request" where
  "createEndpoint payload = http_post ''/endpoints'' payload"

definition updateEndpoint :: "js_string \<Rightarrow> json \<Rightarrow> http_request" where
  "updateEndpoint i payload = http_put (''/endpoints/'' @ i) payload"

definition deleteEndpoint :: "js_string \<Rightarrow> http_request" where
  "deleteEndpoint i = http_delete (''/endpoints/'' @ i)"

definition getServiceDestinations :: "js_string \<Rightarrow> http_request" where
  "getServiceDestinations service =
     http_get ''/service-destinations'' [(''serviceId'', Some (JStr service))]"

definition createServiceDestination :: "json \<Rightarrow> http_request" where
  "createServiceDestination payload = http_post ''/service-destinations'' payload"

definition updateServiceDestination :: "js_string \<Rightarrow> json \<Rightarrow> http_request" where
  "updateServiceDestination i payload = http_put (''/service-destinations/'' @ i) payload"

definition deleteServiceDestination :: "js_string \<Rightarrow> http_request" where
  "deleteServiceDestination i = http_delete (''/service-destinations/'' @ i)"

definition getClients :: "bool option \<Rightarrow> http_request" where
  "getClients enabledOnly = http_get ''/clients'' [(''enabledOnly'', map_option JBool enabledOnly)]"

definition getClient :: "js_string \<Rightarrow> http_request" where
  "getClient i = http_get (''/clients/'' @ i) []"

definition createClient :: "json \<Rightarrow> http_request" where
  "createClient payload = http_post ''/clients'' payload"

definition updateClient :: "js_string \<Rightarrow> json \<Rightarrow> http_request" where
  "updateClient i payload = http_put (''/clients/'' @ i) payload"

definition deleteClient :: "js_string \<Rightarrow> http_request" where
  "deleteClient i = http_delete (''/clients/'' @ i)"

definition getClientPermissions :: "js_string option \<Rightarrow> http_request" where
  "getClientPermissions client = http_get ''/client-permissions'' [(''clientId'', str_param client)]"

definition createClientPermission :: "json \<Rightarrow> http_request" where
  "createClientPermission payload = http_post ''/client-permissions'' payload"

definition updateClientPermission :: "js_string \<Rightarrow> json \<Rightarrow> http_request" where
  "updateClientPermission i payload = http_put (''/client-permissions/'' @ i) payload"

definition deleteClientPermission :: "js_string \<Rightarrow> http_request" where
  "deleteClientPermission i = http_delete (''/client-permissions/'' @ i)"

definition getUserProfiles :: "js_string option \<Rightarrow> js_string option \<Rightarrow> http_request" where
  "getUserProfiles user service =
     http_get ''/user-profiles'' [(''userId'', str_param user), (''serviceId'', str_param service)]"

definition createUserProfile :: "json \<Rightarrow> http_request" where
  "createUserProfile payload = http_post ''/user-profiles'' payload"

definition updateUserProfile :: "js_string \<Rightarrow> json \<Rightarrow> http_request" where
  "updateUserProfile i payload = http_put (''/user-profiles/'' @ i) payload"

definition deleteUserProfile :: "js_string \<Rightarrow> http_request" where
  "deleteUserProfile i = http_delete (''/user-profiles/'' @ i)"

subsection \<open>parseJsonArray\<close>

text \<open>
  \<open>String(item)\<close>. The first argument renders a numeral that is not a safe integer; an array is
  its elements joined with commas, \<open>null\<close> as the empty string inside it; an object with a property
  of its own called \<open>toString\<close> makes the conversion throw (\<open>None\<close>).
\<close>

fun js_to_string :: "(js_string \<Rightarrow> js_string) \<Rightarrow> json \<Rightarrow> js_string option" where
  "js_to_string fmt JNull = Some ''null''"
| "js_to_string fmt (JBool b) = Some (if b then ''true'' else ''false'')"
| "js_to_string fmt (JInt i) = Some (int_dec i)"
| "js_to_string fmt (JDec t) = Some (fmt t)"
| "js_to_string fmt (JStr s) = Some s"
| "js_to_string fmt (JArr vs) =
     map_option (js_join '','')
       (those (map (\<lambda>v. if v = JNull then Some [] else js_to_string fmt v) vs))"
| "js_to_string fmt (JObj kvs) =
     (if ''toString'' \<in> fst ` set kvs then None else Some ''[object Object]'')"

definition parseJsonArray :: "(js_string \<Rightarrow> js_string) \<Rightarrow> js_string option \<Rightarrow> js_string list" where
  "parseJsonArray fmt val =
     (case val of
        None \<Rightarrow> []
      | Some s \<Rightarrow>
          (if \<not> truthy_str s then []
           else case json_parse s of
                  None \<Rightarrow> []
                | Some (JArr vs) \<Rightarrow>
                    (case those (map (js_to_string fmt) vs) of None \<Rightarrow> [] | Some ts \<Rightarrow> ts)
                | Some _ \<Rightarrow> []))"

lemma those_map_Some: "those (map (\<lambda>x. Some (f x)) xs) = Some (map f xs)"
  by (induction xs) auto

lemma stringify_array_not_Nil [simp]: "json_stringify (JArr vs) \<noteq> []"
  by simp

text \<open>A JSON text of a list of strings, however it is written, is read as that list.\<close>

lemma parseJsonArray_parse:
  assumes "json_parse s = Some (JArr (map JStr vs))"
  shows "parseJsonArray fmt (Some s) = vs"
proof -
  have "json_parse [] = None" by code_simp
  then have "truthy_str s" using assms by auto
  with assms show ?thesis by (simp add: parseJsonArray_def o_def those_map_Some)
qed

lemma parseJsonArray_stringify:
  "parseJsonArray fmt (Some (json_stringify (JArr (map JStr vs)))) = vs"
  by (rule parseJsonArray_parse, rule json_parse_stringify) auto

end
