(* ===== verification/Vdom.thy ===== *)
theory Vdom
  imports Prelude
begin

section \<open>Rendered pages and the events a user can cause on them\<close>

text \<open>
  A React component returns a tree of elements whose handlers are closures over the component's
  state. This theory has the trees the pages return (layout, class names and placeholders left
  out), and \<open>dispatch\<close>: which handlers an event of the browser reaches. A handler is a value of
  the page's own event type \<open>'e\<close>. The rules are those of the HTML elements used: a disabled
  control reaches no handler, a \<open>select\<close> offers its options only, a form is submitted only when
  its submit button is enabled and its required controls are filled in, the content of a closed
  dialog is not in the document. React runs the handlers of discrete events (clicks, typing,
  submits) against the state it last rendered and renders again before the next one, so a page's
  step is always taken on the tree of its current state.

  The shared components \<open>FormDialog\<close>, \<open>ConfirmDialog\<close>, \<open>SectionHeader\<close>, \<open>StatCard\<close> and
  \<open>EmptyState\<close> of \<open>components/common\<close> are functions that build such trees. The modal overlay of
  an open dialog is not modelled: the model lets a user reach what is behind it, so what is
  proved holds with and without it. A \<open>ConfirmDialog\<close> keeps its own open flag; the user can
  always open it first, so its content is always in reach.
\<close>

datatype 'e node =
    Txt js_string
  | El "'e node list"
  | Badge js_string js_string
  | Link js_string js_string
  | Btn js_string bool "'e option"
  | Field js_string js_string bool bool "js_string \<Rightarrow> 'e"
  | NumField js_string int "int option" bool "int \<Rightarrow> 'e"
  | Check js_string bool bool "bool \<Rightarrow> 'e"
  | Select js_string js_string bool bool "(js_string \<times> js_string) list" "js_string \<Rightarrow> 'e"
  | Form "'e node list" js_string bool "'e option"
  | Dialog bool "bool \<Rightarrow> 'e" "'e node list" "'e node list"
  | Uncontrolled js_string js_string "js_string list"

text \<open>
  \<^item> \<open>Btn label disabled onClick\<close>, \<open>Link href text\<close>, \<open>Badge variant text\<close>
  \<^item> \<open>Field id value required disabled onChange\<close> (a text input), \<open>NumField id value min disabled
    onChange\<close> (a number input), \<open>Check id checked disabled onChange\<close>
  \<^item> \<open>Select id value required disabled options onChange\<close>, an option being value and text
  \<^item> \<open>Form children submitLabel submitDisabled onSubmit\<close>
  \<^item> \<open>Dialog open onOpenChange trigger content\<close>, the controlled dialog of the Radix library
  \<^item> \<open>Uncontrolled id defaultValue options\<close>, an \<open>input\<close>, \<open>textarea\<close> or \<open>select\<close> without a handler, which keeps
    its value to itself and is not required
\<close>

abbreviation nothing :: "'e node" where
  "nothing \<equiv> El []"

text \<open>\<open>{cond && node}\<close> and \<open>{error && <div>{error}</div>}\<close>: an empty message shows nothing.\<close>

definition when_node :: "bool \<Rightarrow> 'e node \<Rightarrow> 'e node" where
  "when_node b n = (if b then n else nothing)"

definition show_error :: "js_string option \<Rightarrow> 'e node" where
  "show_error err = (case err of None \<Rightarrow> nothing | Some m \<Rightarrow> when_node (truthy_str m) (Txt m))"

datatype dom_event =
    Click js_string
  | TypeIn js_string js_string
  | EnterNum js_string int
  | Toggle js_string bool
  | Choose js_string js_string
  | SubmitForm
  | OpenChange bool

text \<open>
  Constraint validation of one control: \<open>required\<close> text must not be empty (blanks count as
  text), a \<open>required\<close> select needs an option with a non-empty value, a number respects \<open>min\<close>.
  A disabled control is barred from validation.
\<close>

primrec control_valid :: "'e node \<Rightarrow> bool" where
  "control_valid (Txt s) = True"
| "control_valid (El ns) = list_all id (map control_valid ns)"
| "control_valid (Badge v s) = True"
| "control_valid (Link h s) = True"
| "control_valid (Btn l dis h) = True"
| "control_valid (Field i v req dis h) = (req \<and> \<not> dis \<longrightarrow> v \<noteq> [])"
| "control_valid (NumField i v mn dis h) = (dis \<or> (case mn of None \<Rightarrow> True | Some m \<Rightarrow> m \<le> v))"
| "control_valid (Check i b dis h) = True"
| "control_valid (Select i v req dis opts h) = (req \<and> \<not> dis \<longrightarrow> v \<noteq> [] \<and> v \<in> fst ` set opts)"
| "control_valid (Form ns l dis h) = True"
| "control_valid (Dialog op h trig cont) = True"
| "control_valid (Uncontrolled i v opts) = True"

definition opt_list :: "'a option \<Rightarrow> 'a list" where
  "opt_list x = (case x of None \<Rightarrow> [] | Some a \<Rightarrow> [a])"

primrec dispatch :: "dom_event \<Rightarrow> 'e node \<Rightarrow> 'e list" where
  "dispatch d (Txt s) = []"
| "dispatch d (El ns) = concat (map (dispatch d) ns)"
| "dispatch d (Badge v s) = []"
| "dispatch d (Link h s) = []"
| "dispatch d (Btn l dis h) =
     (case d of Click l' \<Rightarrow> (if l = l' \<and> \<not> dis then opt_list h else []) | _ \<Rightarrow> [])"
| "dispatch d (Field i v req dis h) =
     (case d of TypeIn i' s \<Rightarrow> (if i = i' \<and> \<not> dis then [h s] else []) | _ \<Rightarrow> [])"
| "dispatch d (NumField i v mn dis h) =
     (case d of EnterNum i' n \<Rightarrow> (if i = i' \<and> \<not> dis then [h n] else []) | _ \<Rightarrow> [])"
| "dispatch d (Check i b dis h) =
     (case d of Toggle i' c \<Rightarrow> (if i = i' \<and> \<not> dis then [h c] else []) | _ \<Rightarrow> [])"
| "dispatch d (Select i v req dis opts h) =
     (case d of Choose i' s \<Rightarrow> (if i = i' \<and> \<not> dis \<and> s \<in> fst ` set opts then [h s] else []) | _ \<Rightarrow> [])"
| "dispatch d (Form ns l dis h) =
     concat (map (dispatch d) ns)
     @ (case d of SubmitForm \<Rightarrow> (if \<not> dis \<and> list_all id (map control_valid ns) then opt_list h else [])
        | _ \<Rightarrow> [])"
| "dispatch d (Dialog op h trig cont) =
     concat (map (dispatch d) trig)
     @ (if op then concat (map (dispatch d) cont) else [])
     @ (case d of OpenChange b \<Rightarrow> [h b] | _ \<Rightarrow> [])"
| "dispatch d (Uncontrolled i v opts) = []"

lemma opt_list_simps [simp]: "opt_list None = []" "opt_list (Some x) = [x]"
  by (simp_all add: opt_list_def)

lemma dispatch_when_node [simp]:
  "dispatch d (when_node b n) = (if b then dispatch d n else [])"
  by (simp add: when_node_def)

lemma dispatch_show_error [simp]: "dispatch d (show_error e) = []"
  by (simp add: show_error_def split: option.splits)

lemma control_valid_show_error [simp]: "control_valid (show_error e)"
  by (simp add: show_error_def when_node_def split: option.splits)

lemma dispatch_inert: "(\<And>n. n \<in> set ns \<Longrightarrow> dispatch d n = []) \<Longrightarrow> concat (map (dispatch d) ns) = []"
  by simp

subsection \<open>components/common\<close>

text \<open>The trigger of a dialog only opens it; the page's handler is \<open>onOpenChange\<close>.\<close>

definition FormDialog ::
  "js_string \<Rightarrow> js_string option \<Rightarrow> js_string \<Rightarrow> bool \<Rightarrow> (bool \<Rightarrow> 'e) \<Rightarrow> js_string \<Rightarrow> bool
     \<Rightarrow> 'e option \<Rightarrow> 'e node list \<Rightarrow> 'e node" where
  "FormDialog title description trigger open onOpenChange submitLabel submitDisabled onSubmit children =
     Dialog open onOpenChange
       [Btn trigger False (Some (onOpenChange (\<not> open)))]
       [Txt title,
        (case description of None \<Rightarrow> nothing | Some t \<Rightarrow> when_node (truthy_str t) (Txt t)),
        Form (children @ [Btn ''Cancel'' False (Some (onOpenChange False))])
          submitLabel submitDisabled onSubmit]"

definition ConfirmDialog ::
  "js_string \<Rightarrow> js_string option \<Rightarrow> js_string \<Rightarrow> js_string \<Rightarrow> 'e option \<Rightarrow> 'e node" where
  "ConfirmDialog title description trigger confirmLabel onConfirm =
     El [Btn trigger False None,
         El [Txt title,
             (case description of None \<Rightarrow> nothing | Some t \<Rightarrow> when_node (truthy_str t) (Txt t)),
             Btn ''Cancel'' False None,
             Btn confirmLabel False onConfirm]]"

datatype navigation = NavBack | NavPush js_string | NavReplace js_string

text \<open>\<open>handleBack\<close> of \<open>SectionHeader\<close>, given the length of the browser's history.\<close>

definition handleBack :: "nat \<Rightarrow> js_string option \<Rightarrow> navigation option" where
  "handleBack history_length backHref =
     (if history_length > 1 then Some NavBack
      else case backHref of
             None \<Rightarrow> None
           | Some h \<Rightarrow> (if truthy_str h then Some (NavPush h) else None))"

definition SectionHeader ::
  "js_string \<Rightarrow> js_string option \<Rightarrow> 'e node \<Rightarrow> (js_string \<times> 'e) option \<Rightarrow> js_string \<Rightarrow> 'e node" where
  "SectionHeader title description action back backLabel =
     El [El [(case back of None \<Rightarrow> nothing
              | Some (backHref, onBack) \<Rightarrow>
                  when_node (truthy_str backHref) (Btn backLabel False (Some onBack))),
             Txt title,
             (case description of None \<Rightarrow> nothing | Some t \<Rightarrow> when_node (truthy_str t) (Txt t))],
         action]"

definition StatCard ::
  "js_string \<Rightarrow> js_string \<Rightarrow> js_string option \<Rightarrow> js_string option \<Rightarrow> 'e node" where
  "StatCard title val description href =
     (let content = El [Txt title, Txt val,
                        (case description of None \<Rightarrow> nothing
                         | Some t \<Rightarrow> when_node (truthy_str t) (Txt t))]
      in case href of
           None \<Rightarrow> content
         | Some h \<Rightarrow> (if truthy_str h then El [Link h title, content] else content))"

definition EmptyState :: "js_string \<Rightarrow> js_string \<Rightarrow> js_string option \<Rightarrow> 'e option \<Rightarrow> 'e node" where
  "EmptyState title description actionLabel onAction =
     El [Txt title, Txt description,
         (case actionLabel of None \<Rightarrow> nothing
          | Some l \<Rightarrow> when_node (truthy_str l) (Btn l False onAction))]"

lemma dispatch_opt_txt [simp]:
  "dispatch d (case t of None \<Rightarrow> nothing | Some x \<Rightarrow> when_node (c x) (Txt x)) = []"
  by (simp split: option.splits)

lemma dispatch_FormDialog:
  "dispatch d (FormDialog title descr trigger op onOpenChange lbl dis onSubmit children) =
     (if d = Click trigger then [onOpenChange (\<not> op)] else [])
     @ (if op then
          concat (map (dispatch d) children)
          @ (if d = Click ''Cancel'' then [onOpenChange False] else [])
          @ (if d = SubmitForm \<and> \<not> dis \<and> list_all id (map control_valid children)
             then opt_list onSubmit else [])
        else [])
     @ (case d of OpenChange b \<Rightarrow> [onOpenChange b] | _ \<Rightarrow> [])"
  by (cases d) (auto simp: FormDialog_def)

lemma dispatch_ConfirmDialog:
  "dispatch d (ConfirmDialog title descr trigger confirmLabel onConfirm) =
     (if d = Click confirmLabel then opt_list onConfirm else [])"
  by (cases d) (auto simp: ConfirmDialog_def)

lemma dispatch_SectionHeader:
  "dispatch d (SectionHeader title descr action back backLabel) =
     (case back of None \<Rightarrow> []
      | Some (h, e) \<Rightarrow> if h \<noteq> [] \<and> d = Click backLabel then [e] else [])
     @ dispatch d action"
  by (cases d) (auto simp: SectionHeader_def split: option.splits prod.splits)

lemma dispatch_StatCard [simp]: "dispatch d (StatCard title val descr href) = []"
  by (cases d) (auto simp: StatCard_def Let_def split: option.splits)

subsection \<open>Which handlers an event can reach\<close>

text \<open>
  One rewrite rule per element, for goals of the form \<open>x \<in> set (dispatch d n)\<close>; the bundle
  \<open>fires\<close> reduces such a goal on a whole page to the controls that can cause \<open>x\<close>.
\<close>

lemma fires_Txt: "x \<in> set (dispatch d (Txt t)) \<longleftrightarrow> False"
  by simp

lemma fires_Badge: "x \<in> set (dispatch d (Badge v t)) \<longleftrightarrow> False"
  by simp

lemma fires_Link: "x \<in> set (dispatch d (Link h t)) \<longleftrightarrow> False"
  by simp

lemma fires_Uncontrolled: "x \<in> set (dispatch d (Uncontrolled i v opts)) \<longleftrightarrow> False"
  by simp

lemma fires_El: "x \<in> set (dispatch d (El ns)) \<longleftrightarrow> (\<exists>n \<in> set ns. x \<in> set (dispatch d n))"
  by simp

lemma fires_when_node: "x \<in> set (dispatch d (when_node b n)) \<longleftrightarrow> b \<and> x \<in> set (dispatch d n)"
  by simp

lemma fires_show_error: "x \<in> set (dispatch d (show_error e)) \<longleftrightarrow> False"
  by simp

lemma fires_Btn: "x \<in> set (dispatch d (Btn l dis h)) \<longleftrightarrow> d = Click l \<and> \<not> dis \<and> h = Some x"
  by (cases d; cases h) auto

lemma fires_Field:
  "x \<in> set (dispatch d (Field i v req dis h)) \<longleftrightarrow> (\<exists>s. d = TypeIn i s \<and> \<not> dis \<and> x = h s)"
  by (cases d) auto

lemma fires_NumField:
  "x \<in> set (dispatch d (NumField i v mn dis h)) \<longleftrightarrow> (\<exists>n. d = EnterNum i n \<and> \<not> dis \<and> x = h n)"
  by (cases d) auto

lemma fires_Check:
  "x \<in> set (dispatch d (Check i b dis h)) \<longleftrightarrow> (\<exists>c. d = Toggle i c \<and> \<not> dis \<and> x = h c)"
  by (cases d) auto

lemma fires_Select:
  "x \<in> set (dispatch d (Select i v req dis opts h)) \<longleftrightarrow>
     (\<exists>s. d = Choose i s \<and> \<not> dis \<and> s \<in> fst ` set opts \<and> x = h s)"
  by (cases d) auto

lemma fires_Form:
  "x \<in> set (dispatch d (Form ns l dis h)) \<longleftrightarrow>
     (\<exists>n \<in> set ns. x \<in> set (dispatch d n))
     \<or> d = SubmitForm \<and> \<not> dis \<and> (\<forall>n \<in> set ns. control_valid n) \<and> h = Some x"
  by (cases d; cases h) (auto simp: list_all_iff)

lemma fires_FormDialog:
  "x \<in> set (dispatch d (FormDialog title descr trigger op onOpenChange lbl dis onSubmit children)) \<longleftrightarrow>
     d = Click trigger \<and> x = onOpenChange (\<not> op)
     \<or> op \<and> ((\<exists>n \<in> set children. x \<in> set (dispatch d n))
             \<or> d = Click ''Cancel'' \<and> x = onOpenChange False
             \<or> d = SubmitForm \<and> \<not> dis \<and> (\<forall>n \<in> set children. control_valid n) \<and> onSubmit = Some x)
     \<or> (\<exists>b. d = OpenChange b \<and> x = onOpenChange b)"
  by (cases d; cases onSubmit) (auto simp: dispatch_FormDialog list_all_iff)

lemma fires_ConfirmDialog:
  "x \<in> set (dispatch d (ConfirmDialog title descr trigger confirmLabel onConfirm)) \<longleftrightarrow>
     d = Click confirmLabel \<and> onConfirm = Some x"
  by (cases onConfirm) (auto simp: dispatch_ConfirmDialog)

lemma fires_SectionHeader:
  "x \<in> set (dispatch d (SectionHeader title descr action back backLabel)) \<longleftrightarrow>
     (\<exists>h. back = Some (h, x) \<and> h \<noteq> [] \<and> d = Click backLabel) \<or> x \<in> set (dispatch d action)"
  by (auto simp: dispatch_SectionHeader split: option.splits)

lemma fires_StatCard: "x \<in> set (dispatch d (StatCard title v descr href)) \<longleftrightarrow> False"
  by simp

lemmas fires = fires_Txt fires_Badge fires_Link fires_El fires_when_node fires_show_error fires_Btn
  fires_Field fires_NumField fires_Check fires_Select fires_Form fires_FormDialog
  fires_ConfirmDialog fires_SectionHeader fires_StatCard fires_Uncontrolled

declare dispatch.simps [simp del] fires [simp]

text \<open>An element without controls reaches no handler.\<close>

lemma inert_simps [simp]:
  "dispatch d (Txt t) = []" "dispatch d (Badge v t) = []" "dispatch d (Link h t) = []"
  "dispatch d (Uncontrolled i v opts) = []"
  "dispatch d (El ns) = [] \<longleftrightarrow> (\<forall>n \<in> set ns. dispatch d n = [])"
  by (simp_all add: dispatch.simps)

subsection \<open>Texts shown\<close>

primrec texts :: "'e node \<Rightarrow> js_string list" where
  "texts (Txt s) = [s]"
| "texts (El ns) = concat (map texts ns)"
| "texts (Badge v s) = [s]"
| "texts (Link h s) = [s]"
| "texts (Btn l dis h) = [l]"
| "texts (Field i v req dis h) = []"
| "texts (NumField i v mn dis h) = []"
| "texts (Check i b dis h) = []"
| "texts (Select i v req dis opts h) = map snd opts"
| "texts (Form ns l dis h) = concat (map texts ns) @ [l]"
| "texts (Dialog op h trig cont) =
     concat (map texts trig) @ (if op then concat (map texts cont) else [])"
| "texts (Uncontrolled i v opts) = opts"

primrec links :: "'e node \<Rightarrow> js_string list" where
  "links (Txt s) = []"
| "links (El ns) = concat (map links ns)"
| "links (Badge v s) = []"
| "links (Link h s) = [h]"
| "links (Btn l dis h) = []"
| "links (Field i v req dis h) = []"
| "links (NumField i v mn dis h) = []"
| "links (Check i b dis h) = []"
| "links (Select i v req dis opts h) = []"
| "links (Form ns l dis h) = concat (map links ns)"
| "links (Dialog op h trig cont) =
     concat (map links trig) @ (if op then concat (map links cont) else [])"
| "links (Uncontrolled i v opts) = []"

end
