(* ===== verification/Route_Guards.thy ===== *)
theory Route_Guards
  imports Js_Json Vdom
begin

section \<open>Who may see and do what (admin portal)\<close>

text \<open>
  Models \<open>lib/auth/routeGuards.ts\<close>, the gates \<open>components/auth/AuthGate.tsx\<close> and
  \<open>PermissionGate.tsx\<close>, \<open>lib/constants/permissions.ts\<close>, \<open>lib/config/navigation.ts\<close> and the
  sidebar's choice of links. A user is the object that a session holds: it comes from JSON
  that nobody validates, so its properties are looked up in the object. Where the code would throw
  (the \<open>permissions\<close> of the user is a number or an object), the guard is \<open>None\<close>.
\<close>

type_synonym auth_user = json_object

text \<open>\<open>user.role === r\<close>.\<close>

definition role_is :: "auth_user \<Rightarrow> js_string \<Rightarrow> bool" where
  "role_is user r \<longleftrightarrow> map_of user ''role'' = Some (JStr r)"

text \<open>\<open>value?.includes(p)\<close>: on an array, on a string (a substring), else a \<open>TypeError\<close>.\<close>

definition includes_prop :: "json option \<Rightarrow> js_string \<Rightarrow> bool option" where
  "includes_prop v p =
     (case v of
        None \<Rightarrow> Some False
      | Some JNull \<Rightarrow> Some False
      | Some (JArr vs) \<Rightarrow> Some (JStr p \<in> set vs)
      | Some (JStr s) \<Rightarrow> Some (js_includes s p)
      | Some _ \<Rightarrow> None)"

definition canAccessPortal :: "auth_user option \<Rightarrow> bool" where
  "canAccessPortal user =
     (case user of
        None \<Rightarrow> False
      | Some u \<Rightarrow> role_is u ''admin'' \<or> role_is u ''owner'' \<or> role_is u ''auditor'')"

definition hasPermission :: "auth_user option \<Rightarrow> js_string \<Rightarrow> bool option" where
  "hasPermission user permission =
     (case user of
        None \<Rightarrow> Some False
      | Some u \<Rightarrow>
          (if role_is u ''owner'' then Some True
           else includes_prop (map_of u ''permissions'') permission))"

text \<open>\<open>permissions.some(...)\<close> stops at the first hit, and throws where a test before it throws.\<close>

fun some_included :: "json option \<Rightarrow> js_string list \<Rightarrow> bool option" where
  "some_included v [] = Some False"
| "some_included v (p # ps) =
     (case includes_prop v p of
        None \<Rightarrow> None
      | Some b \<Rightarrow> (if b then Some True else some_included v ps))"

definition hasAnyPermission :: "auth_user option \<Rightarrow> js_string list \<Rightarrow> bool option" where
  "hasAnyPermission user perms =
     (case user of
        None \<Rightarrow> Some False
      | Some u \<Rightarrow>
          (if role_is u ''owner'' then Some True
           else some_included (map_of u ''permissions'') perms))"

subsection \<open>The gates\<close>

text \<open>
  \<open>allowed\<close> of \<open>PermissionGate\<close>. When the guard throws, React takes the page down; the
  model renders the gate empty, so no child of it is reachable either way.
\<close>

definition gate_allowed :: "auth_user option \<Rightarrow> js_string option \<Rightarrow> js_string list option \<Rightarrow> bool option" where
  "gate_allowed user permission anyOf =
     (case permission of
        Some p \<Rightarrow>
          (if truthy_str p then hasPermission user p
           else case anyOf of None \<Rightarrow> Some True | Some ps \<Rightarrow> hasAnyPermission user ps)
      | None \<Rightarrow> (case anyOf of None \<Rightarrow> Some True | Some ps \<Rightarrow> hasAnyPermission user ps))"

definition PermissionGate ::
  "auth_user option \<Rightarrow> js_string option \<Rightarrow> js_string list option \<Rightarrow> 'e node \<Rightarrow> 'e node \<Rightarrow> 'e node" where
  "PermissionGate user permission anyOf fallback children =
     (case gate_allowed user permission anyOf of
        None \<Rightarrow> nothing
      | Some b \<Rightarrow> (if \<not> b then fallback else children))"

text \<open>The user holds the permission, as \<open>PermissionGate permission="p"\<close> tests it.\<close>

definition permitted :: "auth_user option \<Rightarrow> js_string \<Rightarrow> bool" where
  "permitted user p \<longleftrightarrow> gate_allowed user (Some p) None = Some True"

lemma dispatch_PermissionGate:
  "dispatch d (PermissionGate user (Some p) None nothing children) =
     (if permitted user p then dispatch d children else [])"
  by (auto simp: PermissionGate_def permitted_def dispatch.simps(2) split: option.splits)

lemma fires_PermissionGate [simp]:
  "x \<in> set (dispatch d (PermissionGate user (Some p) None nothing children)) \<longleftrightarrow>
     permitted user p \<and> x \<in> set (dispatch d children)"
  by (simp add: dispatch_PermissionGate)

text \<open>
  \<open>AuthGate\<close>: what it renders, and the effect that runs after each render whose \<open>loading\<close> or
  \<open>user\<close> changed.
\<close>

definition auth_gate_effect :: "bool \<Rightarrow> auth_user option \<Rightarrow> navigation option" where
  "auth_gate_effect loading user =
     (if \<not> loading \<and> \<not> canAccessPortal user then Some (NavReplace ''/login'') else None)"

datatype 'c gate_view = GateSkeleton | GateNothing | GateChildren 'c

definition auth_gate_render :: "bool \<Rightarrow> auth_user option \<Rightarrow> 'c \<Rightarrow> 'c gate_view" where
  "auth_gate_render loading user children =
     (if loading then GateSkeleton else if user = None then GateNothing else GateChildren children)"

subsection \<open>Permissions and navigation\<close>

definition all_permissions :: "js_string list" where
  "all_permissions =
     [''gateway.config.read'', ''gateway.config.write'', ''product.manage'', ''service.manage'',
      ''endpoint.manage'', ''destination.manage'', ''client.manage'', ''client.permission.manage'',
      ''user.profile.manage'', ''key.revoke'', ''key.rotate'', ''key.reveal'', ''user.manage'',
      ''role.manage'', ''group.manage'', ''sso.manage'', ''scim.manage'', ''audit.read'',
      ''observability.read'', ''alerts.manage'', ''spec.manage'', ''announcement.manage'',
      ''bulk.manage'', ''tenant.manage'']"

record nav_item =
  nav_label :: js_string
  nav_href :: js_string
  nav_permission :: "js_string option"

definition nav :: "js_string \<Rightarrow> js_string \<Rightarrow> js_string option \<Rightarrow> nav_item" where
  "nav l h p = \<lparr>nav_label = l, nav_href = h, nav_permission = p\<rparr>"

definition primary_navigation :: "nav_item list" where
  "primary_navigation =
     [nav ''Dashboard'' ''/dashboard'' None,
      nav ''Gateway Settings'' ''/settings'' (Some ''gateway.config.read''),
      nav ''Audit Logs'' ''/audit-logs'' (Some ''audit.read''),
      nav ''Users'' ''/admin/users'' (Some ''user.manage''),
      nav ''Roles'' ''/admin/roles'' (Some ''role.manage''),
      nav ''Groups'' ''/admin/groups'' (Some ''group.manage''),
      nav ''SSO Settings'' ''/admin/sso'' (Some ''sso.manage''),
      nav ''SCIM'' ''/admin/scim'' (Some ''scim.manage''),
      nav ''Products'' ''/admin/products'' (Some ''product.manage''),
      nav ''Services'' ''/admin/services'' (Some ''service.manage''),
      nav ''Endpoints'' ''/admin/endpoints'' (Some ''endpoint.manage''),
      nav ''Clients'' ''/admin/clients'' (Some ''client.manage''),
      nav ''Client Permissions'' ''/admin/client-permissions'' (Some ''client.permission.manage''),
      nav ''User Profiles'' ''/admin/user-profiles'' (Some ''user.profile.manage''),
      nav ''Test Console'' ''/console'' (Some ''endpoint.manage''),
      nav ''Keys'' ''/admin/keys'' (Some ''key.revoke''),
      nav ''Metrics'' ''/admin/metrics'' (Some ''observability.read''),
      nav ''Traces'' ''/admin/traces'' (Some ''observability.read''),
      nav ''Gateway Logs'' ''/logs'' (Some ''observability.read''),
      nav ''Alerts'' ''/admin/alerts'' (Some ''alerts.manage''),
      nav ''Specs'' ''/admin/specs'' (Some ''spec.manage''),
      nav ''Announcements'' ''/admin/announcements'' (Some ''announcement.manage''),
      nav ''Maintenance'' ''/admin/maintenance'' (Some ''gateway.config.write''),
      nav ''Bulk Ops'' ''/admin/bulk'' (Some ''bulk.manage''),
      nav ''Tenants'' ''/admin/tenants'' (Some ''tenant.manage'')]"

definition secondary_navigation :: "nav_item list" where
  "secondary_navigation = [nav ''Profile'' ''/profile'' None]"

text \<open>The filter of the sidebar; an item whose guard throws is left out.\<close>

definition nav_visible :: "auth_user option \<Rightarrow> nav_item \<Rightarrow> bool" where
  "nav_visible user item =
     (case nav_permission item of None \<Rightarrow> True | Some p \<Rightarrow> hasPermission user p = Some True)"

definition nav_active :: "js_string \<Rightarrow> nav_item \<Rightarrow> bool" where
  "nav_active pathname item \<longleftrightarrow>
     pathname = nav_href item \<or> js_starts_with pathname (nav_href item @ ''/'')"

datatype sidebar_ui = SignOutAndLeave

definition sidebar_view :: "auth_user option \<Rightarrow> js_string \<Rightarrow> sidebar_ui node" where
  "sidebar_view user pathname =
     (let entry = (\<lambda>item. El [when_node (nav_active pathname item) (Badge ''active'' []),
                              Link (nav_href item) (nav_label item)])
      in El [Txt ''Core'',
             El (map entry (filter (nav_visible user) primary_navigation)),
             Txt ''Account'',
             El (map entry (filter (nav_visible user) secondary_navigation)),
             Btn ''Sign out'' False (Some SignOutAndLeave)])"

subsection \<open>Facts about the guards\<close>

lemma hasPermission_owner: "role_is u ''owner'' \<Longrightarrow> hasPermission (Some u) p = Some True"
  by (simp add: hasPermission_def)

lemma hasPermission_array:
  "map_of u ''permissions'' = Some (JArr (map JStr ps)) \<Longrightarrow> \<not> role_is u ''owner'' \<Longrightarrow>
     hasPermission (Some u) p = Some (p \<in> set ps)"
  by (auto simp: hasPermission_def includes_prop_def)

lemma includes_prop_None_iff: "includes_prop v p = None \<longleftrightarrow> includes_prop v q = None"
  by (auto simp: includes_prop_def split: option.splits json.splits)

lemma some_included_True:
  "some_included v ps = Some True \<longleftrightarrow> (\<exists>p \<in> set ps. includes_prop v p = Some True)"
proof (induction ps)
  case (Cons p ps)
  then show ?case
    using includes_prop_None_iff [of v p] by (auto split: option.splits)
qed simp

text \<open>Every permission that the navigation asks for is one of the constant list.\<close>

lemma navigation_permissions:
  "\<forall>item \<in> set (primary_navigation @ secondary_navigation).
     case nav_permission item of None \<Rightarrow> True | Some p \<Rightarrow> p \<in> set all_permissions"
  unfolding primary_navigation_def secondary_navigation_def all_permissions_def nav_def by simp

lemma nav_visible_all:
  assumes "map_of u ''permissions'' = Some (JArr (map JStr all_permissions))"
    and "item \<in> set (primary_navigation @ secondary_navigation)"
  shows "nav_visible (Some u) item"
  using navigation_permissions [rule_format, OF assms(2)] assms(1)
    hasPermission_owner [of u] hasPermission_array [of u all_permissions]
  by (cases "role_is u ''owner''") (auto simp: nav_visible_def split: option.splits)

lemma links_when_badge [simp]: "links (when_node b (Badge v t)) = []"
  by (simp add: when_node_def)

lemma links_sidebar:
  "links (sidebar_view user pathname) =
     map nav_href (filter (nav_visible user) (primary_navigation @ secondary_navigation))"
  by (simp add: sidebar_view_def Let_def o_def)

text \<open>A user for examples: the owner may do everything.\<close>

definition owner_user :: auth_user where
  "owner_user = [(''role'', JStr ''owner'')]"

subsection \<open>Properties\<close>

text \<open>
  The sidebar links exactly to the navigation entries that the user may use, in their order:
  the entries without a permission, and those whose permission the user holds.
\<close>

theorem sidebar_links:
  "links (sidebar_view user pathname) =
     map nav_href (filter (\<lambda>item. case nav_permission item of None \<Rightarrow> True
                             | Some p \<Rightarrow> hasPermission user p = Some True)
                    (primary_navigation @ secondary_navigation))"
  by (simp add: links_sidebar nav_visible_def [abs_def])

text \<open>
  \<open>hasAnyPermission\<close> agrees with \<open>hasPermission\<close>: it grants exactly when one of the
  permissions is granted, or the user is the owner.
\<close>

theorem hasAnyPermission_iff:
  "hasAnyPermission user ps = Some True \<longleftrightarrow>
     (\<exists>p \<in> set ps. hasPermission user p = Some True)
     \<or> (\<exists>u. user = Some u \<and> role_is u ''owner'')"
  by (auto simp: hasAnyPermission_def hasPermission_def some_included_True split: option.splits)

text \<open>
  A signed-in user without access to the portal is sent to the login page, but the gate has
  rendered the protected children by then: it only asks whether there is a user.
\<close>

theorem auth_gate_leak:
  "\<not> canAccessPortal (Some u) \<Longrightarrow>
     auth_gate_render False (Some u) children = GateChildren children
     \<and> auth_gate_effect False (Some u) = Some (NavReplace ''/login'')"
  by (simp add: auth_gate_render_def auth_gate_effect_def)

theorem auth_gate_leak_witness:
  "auth_gate_render False (Some [(''role'', JStr ''viewer'')]) (7 :: nat) = GateChildren 7
   \<and> auth_gate_effect False (Some [(''role'', JStr ''viewer'')]) = Some (NavReplace ''/login'')"
  by (rule auth_gate_leak) (simp add: canAccessPortal_def role_is_def)

end
