(* ===== verification/Admin_Auth.thy ===== *)
theory Admin_Auth
  imports Http_Client Route_Guards
begin

section \<open>Signing in and out of the admin portal\<close>

text \<open>
  Models \<open>lib/auth/AuthProvider.tsx\<close>, the route handlers \<open>app/api/auth/login\<close>,
  \<open>oauth/[provider]\<close> and \<open>session\<close> that answer it, and how a rejected API call ends the session
  (\<open>lib/api/client.ts\<close>). The session lives twice: as JSON text in \<open>localStorage\<close> and as the user
  in the provider's state. The last part is the state machine of both, with reloads in between.
\<close>

subsection \<open>Route handlers\<close>

text \<open>\<open>now\<close> is \<open>new Date().toISOString()\<close>; an \<open>email\<close> that the body lacks is left out.\<close>

definition permissions_json :: json where
  "permissions_json = JArr (map JStr all_permissions)"

definition login_route :: "js_string \<Rightarrow> json \<Rightarrow> json option" where
  "login_route now b =
     (if b = JNull then None
      else Some (JObj
        [(''user'', JObj (defined_props
           [(''id'', Some (JStr ''user_1'')),
            (''name'', Some (JStr ''Alex Johnson'')),
            (''email'', get_prop b ''email''),
            (''role'', Some (JStr ''admin'')),
            (''permissions'', Some permissions_json),
            (''lastLoginAt'', Some (JStr now))])),
         (''token'', JStr ''dev-token-123'')]))"

definition providerName :: "js_string \<Rightarrow> js_string" where
  "providerName provider =
     (if provider = ''github'' then ''GitHub''
      else if provider = ''azure-ad'' then ''Microsoft''
      else if provider = ''apple'' then ''Apple''
      else ''Google'')"

definition providerEmail :: "js_string \<Rightarrow> js_string" where
  "providerEmail provider =
     (if provider = ''github'' then ''octo@github.dev''
      else if provider = ''azure-ad'' then ''admin@contoso.com''
      else if provider = ''apple'' then ''admin@icloud.com''
      else ''seabaas.dev@gmail.com'')"

definition oauth_route :: "js_string \<Rightarrow> js_string \<Rightarrow> json" where
  "oauth_route now provider =
     JObj [(''user'', JObj
              [(''id'', JStr (''user_'' @ provider)),
               (''name'', JStr (providerName provider @ '' User'')),
               (''email'', JStr (providerEmail provider)),
               (''role'', JStr ''admin''),
               (''permissions'', permissions_json),
               (''lastLoginAt'', JStr now)]),
           (''token'', JStr (''oauth-'' @ provider @ ''-token''))]"

definition session_route :: "js_string \<Rightarrow> json" where
  "session_route now =
     JObj [(''authenticated'', JBool True),
           (''user'', JObj
              [(''id'', JStr ''user_1''),
               (''name'', JStr ''Alex Johnson''),
               (''email'', JStr ''alex@gapeiro.dev''),
               (''role'', JStr ''admin''),
               (''permissions'', permissions_json),
               (''lastLoginAt'', JStr now)])]"

subsection \<open>AuthProvider\<close>

record auth_state =
  user :: "auth_user option"
  loading :: bool

definition auth_init :: auth_state where
  "auth_init = \<lparr>user = None, loading = True\<rparr>"

text \<open>The own enumerable properties that \<open>{...v}\<close> copies.\<close>

definition indexed :: "json list \<Rightarrow> json_object" where
  "indexed vs = map (\<lambda>(i, v). (nat_dec i, v)) (zip [0..<length vs] vs)"

definition spread :: "json \<Rightarrow> json_object" where
  "spread v =
     (case v of
        JObj kvs \<Rightarrow> kvs
      | JArr vs \<Rightarrow> indexed vs
      | JStr s \<Rightarrow> indexed (map (\<lambda>c. JStr [c]) s)
      | _ \<Rightarrow> [])"

text \<open>
  \<open>{ ...session.user, permissions: session.user.permissions ?? [] }\<close>; \<open>None\<close> is the \<open>TypeError\<close>
  of reading a property of \<open>null\<close> or \<open>undefined\<close>.
\<close>

definition session_user :: "json \<Rightarrow> auth_user option" where
  "session_user session =
     (if session = JNull then None
      else case get_prop session ''user'' of
             None \<Rightarrow> None
           | Some u \<Rightarrow>
               (if u = JNull then None
                else Some (obj_put ''permissions''
                  (case get_prop u ''permissions'' of
                     None \<Rightarrow> JArr []
                   | Some JNull \<Rightarrow> JArr []
                   | Some p \<Rightarrow> p) (spread u))))"

text \<open>The effect that runs when the provider is mounted.\<close>

definition auth_mount :: "browser \<Rightarrow> auth_state \<Rightarrow> browser \<times> auth_state" where
  "auth_mount b st =
     (let (b', st') =
        (case local_storage b session_key of
           None \<Rightarrow> (b, st)
         | Some raw \<Rightarrow>
             (if \<not> truthy_str raw then (b, st)
              else case Option.bind (json_parse raw) session_user of
                     Some u \<Rightarrow> (b, st\<lparr>user := Some u\<rparr>)
                   | None \<Rightarrow> (b\<lparr>local_storage := (local_storage b)(session_key := None)\<rparr>, st)))
      in (b', st'\<lparr>loading := False\<rparr>))"

text \<open>What \<open>fetch\<close> settles to; the body of a response may not be JSON.\<close>

datatype fetch_outcome = NetworkError thrown | Response bool "json option"

text \<open>The part that \<open>signIn\<close> and \<open>oauthSignIn\<close> share, after the request.\<close>

definition accept_session ::
  "js_string \<Rightarrow> fetch_outcome \<Rightarrow> browser \<Rightarrow> auth_state \<Rightarrow> (thrown + unit) \<times> browser \<times> auth_state" where
  "accept_session refusal r b st =
     (case r of
        NetworkError t \<Rightarrow> (Inl t, b, st)
      | Response ok bdy \<Rightarrow>
          (if \<not> ok then (Inl (ErrorObj refusal), b, st)
           else case bdy of
                  None \<Rightarrow> (Inl (ErrorObj ''Unexpected token''), b, st)
                | Some session \<Rightarrow>
                    (let b' = b\<lparr>local_storage :=
                                  (local_storage b)(session_key \<mapsto> json_stringify session)\<rparr>
                     in case session_user session of
                          None \<Rightarrow> (Inl (ErrorObj ''Cannot read properties of undefined''), b', st)
                        | Some u \<Rightarrow> (Inr (), b', st\<lparr>user := Some u\<rparr>))))"

definition signIn ::
  "fetch_outcome \<Rightarrow> browser \<Rightarrow> auth_state \<Rightarrow> (thrown + unit) \<times> browser \<times> auth_state" where
  "signIn r b st = accept_session ''Invalid credentials'' r b st"

definition signIn_body :: "js_string \<Rightarrow> js_string \<Rightarrow> json" where
  "signIn_body email password = JObj [(''email'', JStr email), (''password'', JStr password)]"

definition oauthSignIn ::
  "fetch_outcome \<Rightarrow> browser \<Rightarrow> auth_state \<Rightarrow> (thrown + unit) \<times> browser \<times> auth_state" where
  "oauthSignIn r b st = accept_session ''Unable to authenticate'' r b st"

definition signOut :: "browser \<Rightarrow> auth_state \<Rightarrow> browser \<times> auth_state" where
  "signOut b st =
     (b\<lparr>local_storage := (local_storage b)(session_key := None)\<rparr>, st\<lparr>user := None\<rparr>)"

subsection \<open>The session as a state machine\<close>

text \<open>
  What a route handler returns reaches the client as JSON text. A reload mounts the provider
  afresh; assigning \<open>window.location.href\<close> in the interceptor reloads too.
\<close>

definition over_the_wire :: "json \<Rightarrow> fetch_outcome" where
  "over_the_wire v = Response True (json_parse (json_stringify v))"

definition reload :: "browser \<Rightarrow> browser \<times> auth_state" where
  "reload b = auth_mount b auth_init"

datatype auth_event =
    SignIn js_string js_string js_string
  | OAuth js_string js_string
  | SignInFails thrown
  | SignOut
  | ApiRejected http_error
  | Reload

fun auth_step :: "auth_event \<Rightarrow> browser \<times> auth_state \<Rightarrow> browser \<times> auth_state" where
  "auth_step (SignIn now email password) (b, st) =
     (case login_route now (signIn_body email password) of
        None \<Rightarrow> snd (signIn (Response False None) b st)
      | Some v \<Rightarrow> snd (signIn (over_the_wire v) b st))"
| "auth_step (OAuth now provider) (b, st) =
     snd (oauthSignIn (over_the_wire (oauth_route now provider)) b st)"
| "auth_step (SignInFails t) (b, st) = snd (signIn (NetworkError t) b st)"
| "auth_step SignOut (b, st) = signOut b st"
| "auth_step (ApiRejected err) (b, st) =
     (let b' = snd (on_rejected True err b)
      in if status err = Some 401 \<or> status err = Some 403 then reload b' else (b', st))"
| "auth_step Reload (b, st) = reload b"

text \<open>The user that the stored session stands for: what a reload would find.\<close>

definition stored_user :: "browser \<Rightarrow> auth_user option" where
  "stored_user b = user (snd (reload b))"

lemma auth_mount_loading: "loading (snd (auth_mount b st)) = False"
  by (auto simp: auth_mount_def Let_def split: option.splits prod.splits)

lemma reload_eq: "snd (reload b) = \<lparr>user = stored_user b, loading = False\<rparr>"
  using auth_mount_loading [of b auth_init]
  by (cases "snd (reload b)") (simp add: stored_user_def reload_def)

lemma stored_user_reload: "stored_user (fst (reload b)) = stored_user b"
  by (auto simp: stored_user_def reload_def auth_mount_def Let_def auth_init_def
      split: option.splits)

lemma stored_user_None [simp]:
  "stored_user (b\<lparr>local_storage := (local_storage b)(session_key := None)\<rparr>) = None"
  by (simp add: stored_user_def reload_def auth_mount_def auth_init_def)

lemma stored_user_cleared:
  "stored_user (b\<lparr>local_storage := (local_storage b)(session_key := None), location_href := h\<rparr>) = None"
  by (simp add: stored_user_def reload_def auth_mount_def auth_init_def)

lemma json_stringify_not_Nil: "json_ok v \<Longrightarrow> json_stringify v \<noteq> []"
proof
  assume "json_ok v" and "json_stringify v = []"
  then have "json_parse [] = Some v" using json_parse_stringify [of v] by simp
  moreover have "json_parse [] = None" by code_simp
  ultimately show False by simp
qed

lemma stored_user_session:
  "json_ok session \<Longrightarrow>
     stored_user (b\<lparr>local_storage := (local_storage b)(session_key \<mapsto> json_stringify session)\<rparr>)
     = session_user session"
  by (auto simp: stored_user_def reload_def auth_mount_def auth_init_def json_parse_stringify
      json_stringify_not_Nil split: option.splits)

lemma accept_session_ok:
  "json_ok session \<Longrightarrow> session_user session = Some u \<Longrightarrow>
     accept_session m (over_the_wire session) b st =
       (Inr (), b\<lparr>local_storage := (local_storage b)(session_key \<mapsto> json_stringify session)\<rparr>,
        st\<lparr>user := Some u\<rparr>)"
  by (simp add: accept_session_def over_the_wire_def json_parse_stringify)

text \<open>A session the routes make: it is JSON, and its user is an administrator.\<close>

definition admin_user :: "auth_user \<Rightarrow> bool" where
  "admin_user u \<longleftrightarrow> role_is u ''admin'' \<and> map_of u ''permissions'' = Some permissions_json"

lemma permissions_json_ok: "json_ok permissions_json"
  by (auto simp: permissions_json_def)

lemma login_route_session:
  "\<exists>v u. login_route now (signIn_body email password) = Some v \<and> json_ok v
     \<and> session_user v = Some u \<and> admin_user u"
  by (simp add: login_route_def signIn_body_def get_prop_def defined_props_def session_user_def
      spread_def permissions_json_ok admin_user_def role_is_def, simp add: permissions_json_def)

lemma oauth_route_session:
  "json_ok (oauth_route now provider) \<and>
   (\<exists>u. session_user (oauth_route now provider) = Some u \<and> admin_user u)"
  by (simp add: oauth_route_def get_prop_def session_user_def
      spread_def permissions_json_ok admin_user_def role_is_def, simp add: permissions_json_def)

definition auth_inv :: "browser \<times> auth_state \<Rightarrow> bool" where
  "auth_inv w \<longleftrightarrow>
     loading (snd w) = False \<and> user (snd w) = stored_user (fst w)
     \<and> (\<forall>u. user (snd w) = Some u \<longrightarrow> admin_user u)"

lemma auth_inv_reload:
  "(\<forall>u. stored_user b = Some u \<longrightarrow> admin_user u) \<Longrightarrow> auth_inv (reload b)"
  by (simp add: auth_inv_def reload_eq stored_user_reload)

lemma auth_inv_accept:
  assumes "auth_inv (b, st)" and "json_ok v" and "session_user v = Some u" and "admin_user u"
  shows "auth_inv (snd (accept_session m (over_the_wire v) b st))"
  using assms by (simp add: accept_session_ok auth_inv_def stored_user_session)

lemma auth_inv_stored: "auth_inv (b, st) \<Longrightarrow> auth_inv (reload b)"
  by (rule auth_inv_reload) (simp add: auth_inv_def)

lemma auth_inv_sign_in:
  assumes "auth_inv (b, st)"
  shows "auth_inv (auth_step (SignIn now email password) (b, st))"
proof -
  obtain v u where "login_route now (signIn_body email password) = Some v" "json_ok v"
      and "session_user v = Some u" "admin_user u"
    using login_route_session by blast
  then show ?thesis using assms auth_inv_accept by (simp add: signIn_def)
qed

lemma auth_inv_rejected:
  assumes "auth_inv (b, st)"
  shows "auth_inv (auth_step (ApiRejected err) (b, st))"
proof (cases "status err = Some 401 \<or> status err = Some 403")
  case True
  then have "auth_step (ApiRejected err) (b, st)
      = reload (b\<lparr>local_storage := (local_storage b)(session_key := None), location_href := ''/login''\<rparr>)"
    by (simp add: on_rejected_def)
  then show ?thesis
    by (simp only:) (rule auth_inv_reload, simp add: stored_user_cleared)
next
  case False
  then show ?thesis using assms by (simp add: on_rejected_def)
qed

lemma auth_inv_step: "auth_inv w \<Longrightarrow> auth_inv (auth_step e w)"
proof (cases w)
  case (Pair b st)
  assume i: "auth_inv w"
  have o: "auth_inv (auth_step (OAuth now provider) (b, st))" for now provider
    using oauth_route_session [of now provider] i Pair auth_inv_accept
    by (auto simp: oauthSignIn_def)
  show ?thesis
  proof (cases e)
    case SignIn
    show ?thesis unfolding SignIn Pair using i Pair by (blast intro: auth_inv_sign_in)
  next
    case OAuth
    show ?thesis unfolding OAuth Pair by (rule o)
  next
    case SignInFails
    show ?thesis
      unfolding SignInFails Pair using i Pair by (simp add: signIn_def accept_session_def)
  next
    case SignOut
    show ?thesis unfolding SignOut Pair by (simp add: signOut_def) (use i Pair in \<open>simp add: auth_inv_def\<close>)
  next
    case ApiRejected
    show ?thesis unfolding ApiRejected Pair using i Pair by (blast intro: auth_inv_rejected)
  next
    case Reload
    show ?thesis unfolding Reload Pair auth_step.simps(6) using i Pair by (blast intro: auth_inv_stored)
  qed
qed

lemma auth_inv_run: "auth_inv w \<Longrightarrow> auth_inv (fold auth_step es w)"
proof (induction es arbitrary: w)
  case (Cons e es)
  from Cons.IH [OF auth_inv_step [OF Cons.prems]] show ?case by simp
qed simp

lemma admin_user_access:
  assumes "admin_user u"
  shows "canAccessPortal (Some u)" and "p \<in> set all_permissions \<Longrightarrow> hasPermission (Some u) p = Some True"
  using assms hasPermission_array [of u all_permissions p]
  by (auto simp: admin_user_def canAccessPortal_def role_is_def permissions_json_def)

lemma stored_user_no_session:
  "local_storage b session_key = None \<Longrightarrow> stored_user b = None"
  by (simp add: stored_user_def reload_def auth_mount_def auth_init_def)

subsection \<open>Properties\<close>

text \<open>
  C18: In a browser that starts without a session, after any sequence of sign-ins (by
  credentials or by a provider), failed sign-ins, sign-outs, rejected API calls and reloads,
  the portal is not loading, the user in memory is the one a reload would restore from
  \<open>localStorage\<close>, and a user there is may enter the portal and holds every permission.
\<close>

theorem session_consistent:
  "local_storage b session_key = None \<Longrightarrow>
     (case fold auth_step es (reload b) of (b', st) \<Rightarrow>
        \<not> loading st \<and> user st = user (snd (reload b'))
        \<and> (\<forall>u. user st = Some u \<longrightarrow>
              canAccessPortal (Some u) \<and> (\<forall>p \<in> set all_permissions. hasPermission (Some u) p = Some True)))"
proof -
  assume "local_storage b session_key = None"
  then have "auth_inv (fold auth_step es (reload b))"
    by (intro auth_inv_run auth_inv_reload) (simp add: stored_user_no_session)
  then show ?thesis
    by (cases "fold auth_step es (reload b)")
      (simp add: auth_inv_def admin_user_access stored_user_def)
qed

theorem session_consistent_witness:
  "case fold auth_step [SignIn ''t'' ''a@b.c'' ''pw'', Reload, SignOut]
          (reload \<lparr>local_storage = Map.empty, location_href = ''/''\<rparr>) of (b', st) \<Rightarrow>
     \<not> loading st \<and> user st = user (snd (reload b'))
     \<and> (\<forall>u. user st = Some u \<longrightarrow>
          canAccessPortal (Some u) \<and> (\<forall>p \<in> set all_permissions. hasPermission (Some u) p = Some True))"
  by (rule session_consistent) simp


text \<open>
  Whatever \<open>localStorage\<close> holds, mounting the provider ends the loading state; it signs in
  exactly the user of a well-formed stored session, and removes a non-empty stored text that is not one.
\<close>

theorem auth_mount_total:
  "(case reload b of (b', st) \<Rightarrow>
      \<not> loading st
      \<and> (case local_storage b session_key of
           None \<Rightarrow> user st = None \<and> b' = b
         | Some raw \<Rightarrow>
             (case Option.bind (json_parse raw) session_user of
                Some u \<Rightarrow> user st = Some u \<and> b' = b
              | None \<Rightarrow> user st = None
                        \<and> (raw = [] \<and> b' = b \<or> local_storage b' session_key = None))))"
proof -
  have "json_parse [] = None" by code_simp
  then show ?thesis
    by (auto simp: reload_def auth_mount_def auth_init_def Let_def split: option.splits)
qed

text \<open>
  A rejected API call with status 401 or 403 ends the session: it is gone from storage, the
  browser is at the login page and nobody is signed in after the reload; any other rejected call
  leaves session and user alone.
\<close>

theorem api_rejection_ends_session:
  "(case auth_step (ApiRejected err) (b, st) of (b', st') \<Rightarrow>
      if status err \<in> {Some 401, Some 403}
      then local_storage b' session_key = None \<and> location_href b' = ''/login'' \<and> user st' = None
           \<and> auth_gate_effect (loading st') (user st') = Some (NavReplace ''/login'')
      else b' = b \<and> st' = st)"
  by (auto simp: on_rejected_def reload_def auth_mount_def auth_init_def auth_gate_effect_def
      canAccessPortal_def)

end
