(* ===== verification/List_Page.thy ===== *)
theory List_Page
  imports Http_Client Vdom "HOL-Library.Multiset"
begin

section \<open>Pages that list rows and create new ones\<close>

text \<open>
  Seven pages of the admin portal share one shape: an effect loads the rows when the page is
  mounted, a dialog creates a row, and the answer is put in front of the rows. Here are the
  world such a page runs in (browser, network and server, as a step relation over an explicit
  state), the contract of its operations as a locale, and what follows from the contract. The
  theory of each page interprets the locale with the page's own operations.

  Requests are asynchronous: the server may answer a request at any time, an answer may arrive at
  any later time or be lost, and the page may be unmounted in between. The cleanup function of the
  effect clears \<open>mounted\<close>, after which an answer to the load is ignored; React ignores state
  updates of an unmounted component. The server answers a load with the rows it has then, and
  a create by storing a row with a fresh key. A failed create may have been stored or not.
\<close>

subsection \<open>The operations of a page\<close>

text \<open>
  \<open>op_view\<close> renders the state; \<open>op_ui\<close> is the handler of a user event, with the requests it
  sends; the other four are the continuations of the awaited requests.
\<close>

record ('s, 'u, 'row, 'aux) page_ops =
  op_view :: "'s \<Rightarrow> 'u node"
  op_ui :: "'s \<Rightarrow> 'u \<Rightarrow> 's \<times> http_request list"
  op_load_ok :: "'row list \<Rightarrow> 'aux \<Rightarrow> 's \<Rightarrow> 's"
  op_load_err :: "thrown \<Rightarrow> 's \<Rightarrow> 's"
  op_create_ok :: "'row \<Rightarrow> 's \<Rightarrow> 's"
  op_create_err :: "thrown \<Rightarrow> 's \<Rightarrow> 's"

subsection \<open>The world\<close>

datatype ('row, 'aux) load_state = Pending | Answered "'row list" 'aux | Loaded | LoadFailed

text \<open>
  \<open>creates\<close> holds the creates in flight: \<open>None\<close> before the server stored the row, \<open>Some r\<close>
  once it did and answered. \<open>lost\<close> holds stored rows whose answer never arrived.
\<close>

record ('s, 'row, 'aux) world =
  page :: 's
  mounted :: bool
  load :: "('row, 'aux) load_state"
  creates :: "'row option list"
  db :: "'row list"
  lost :: "'row list"
  sent :: "http_request list"

definition start_world :: "'s \<Rightarrow> 'row list \<Rightarrow> ('s, 'row, 'aux) world" where
  "start_world s0 rows0 =
     \<lparr>page = s0, mounted = True, load = Pending, creates = [], db = rows0, lost = [], sent = []\<rparr>"

definition remove_nth :: "nat \<Rightarrow> 'a list \<Rightarrow> 'a list" where
  "remove_nth i xs = take i xs @ drop (Suc i) xs"

inductive wstep ::
  "('s, 'u, 'row, 'aux) page_ops \<Rightarrow> ('row \<Rightarrow> js_string) \<Rightarrow>
     ('s, 'row, 'aux) world \<Rightarrow> ('s, 'row, 'aux) world \<Rightarrow> bool"
  for ops :: "('s, 'u, 'row, 'aux) page_ops" and key :: "'row \<Rightarrow> js_string"
where
  user: "mounted w \<Longrightarrow> u \<in> set (dispatch d (op_view ops (page w))) \<Longrightarrow>
     op_ui ops (page w) u = (s', reqs) \<Longrightarrow>
     wstep ops key w (w\<lparr>page := s', creates := creates w @ map (\<lambda>_. None) reqs,
                        sent := sent w @ reqs\<rparr>)"
| serve_load: "load w = Pending \<Longrightarrow> wstep ops key w (w\<lparr>load := Answered (db w) aux\<rparr>)"
| load_arrives: "load w = Answered rs aux \<Longrightarrow>
     wstep ops key w
       (w\<lparr>load := Loaded, page := (if mounted w then op_load_ok ops rs aux (page w) else page w)\<rparr>)"
| load_fails: "load w = Pending \<or> load w = Answered rs aux \<Longrightarrow>
     wstep ops key w
       (w\<lparr>load := LoadFailed, page := (if mounted w then op_load_err ops t (page w) else page w)\<rparr>)"
| serve_create: "i < length (creates w) \<Longrightarrow> creates w ! i = None \<Longrightarrow> key r \<notin> key ` set (db w) \<Longrightarrow>
     wstep ops key w (w\<lparr>creates := (creates w)[i := Some r], db := db w @ [r]\<rparr>)"
| create_arrives: "i < length (creates w) \<Longrightarrow> creates w ! i = Some r \<Longrightarrow>
     wstep ops key w
       (w\<lparr>creates := remove_nth i (creates w),
          page := (if mounted w then op_create_ok ops r (page w) else page w)\<rparr>)"
| create_fails: "i < length (creates w) \<Longrightarrow>
     wstep ops key w
       (w\<lparr>creates := remove_nth i (creates w),
          lost := (case creates w ! i of None \<Rightarrow> lost w | Some r \<Rightarrow> r # lost w),
          page := (if mounted w then op_create_err ops t (page w) else page w)\<rparr>)"
| unmount: "mounted w \<Longrightarrow> wstep ops key w (w\<lparr>mounted := False\<rparr>)"

inductive reachable ::
  "('s, 'u, 'row, 'aux) page_ops \<Rightarrow> ('row \<Rightarrow> js_string) \<Rightarrow>
     ('s, 'row, 'aux) world \<Rightarrow> ('s, 'row, 'aux) world \<Rightarrow> bool"
  for ops :: "('s, 'u, 'row, 'aux) page_ops" and key :: "'row \<Rightarrow> js_string"
    and w0 :: "('s, 'row, 'aux) world"
where
  here: "reachable ops key w0 w0"
| further: "reachable ops key w0 w \<Longrightarrow> wstep ops key w w' \<Longrightarrow> reachable ops key w0 w'"

lemma reachable_invariant:
  assumes "reachable ops key w0 w" and "P w0"
    and "\<And>w w'. P w \<Longrightarrow> wstep ops key w w' \<Longrightarrow> P w'"
  shows "P w"
  using assms(1) by induction (use assms(2,3) in auto)

text \<open>Everything a page sends has a property that each of its handlers guarantees.\<close>

lemma sent_invariant:
  fixes ops :: "('s, 'u, 'row, 'aux) page_ops"
  assumes "reachable ops key (start_world s0 rows0) w"
    and "\<And>s d u q. u \<in> set (dispatch d (op_view ops s)) \<Longrightarrow> q \<in> set (snd (op_ui ops s u)) \<Longrightarrow> Q q"
  shows "\<forall>q \<in> set (sent w). Q q"
  using assms(1)
proof (rule reachable_invariant)
  show "\<forall>q \<in> set (sent (start_world s0 rows0)). Q q" by (simp add: start_world_def)
next
  fix w w' :: "('s, 'row, 'aux) world"
  assume q: "\<forall>q \<in> set (sent w). Q q" and "wstep ops key w w'"
  from this(2) show "\<forall>q \<in> set (sent w'). Q q"
  proof cases
    case (user u d s' reqs)
    then show ?thesis using q assms(2) [OF user(3)] by auto
  qed (use q in auto)
qed

lemma remove_nth_single: "length xs \<le> 1 \<Longrightarrow> i < length xs \<Longrightarrow> remove_nth i xs = []"
  by (cases xs) (auto simp: remove_nth_def)

subsection \<open>Running a page\<close>

text \<open>
  The same steps as a function of named actions; \<open>UserDoes d n\<close> takes the handler that \<open>d\<close>
  reaches at position \<open>n\<close>. A run that the function accepts is one of the step relation.
\<close>

datatype ('row, 'aux) action =
    UserDoes dom_event nat
  | ServerLoads 'aux
  | LoadArrives
  | LoadFails thrown
  | ServerStores nat 'row
  | CreateArrives nat
  | CreateFails nat thrown
  | Leave

fun act ::
  "('s, 'u, 'row, 'aux) page_ops \<Rightarrow> ('row \<Rightarrow> js_string) \<Rightarrow> ('row, 'aux) action \<Rightarrow>
     ('s, 'row, 'aux) world \<Rightarrow> ('s, 'row, 'aux) world option" where
  "act ops key (UserDoes d n) w =
     (let us = dispatch d (op_view ops (page w)) in
      if mounted w \<and> n < length us then
        (case op_ui ops (page w) (us ! n) of (s', reqs) \<Rightarrow>
           Some (w\<lparr>page := s', creates := creates w @ map (\<lambda>_. None) reqs, sent := sent w @ reqs\<rparr>))
      else None)"
| "act ops key (ServerLoads aux) w =
     (case load w of Pending \<Rightarrow> Some (w\<lparr>load := Answered (db w) aux\<rparr>) | _ \<Rightarrow> None)"
| "act ops key LoadArrives w =
     (case load w of
        Answered rs aux \<Rightarrow>
          Some (w\<lparr>load := Loaded,
                  page := (if mounted w then op_load_ok ops rs aux (page w) else page w)\<rparr>)
      | _ \<Rightarrow> None)"
| "act ops key (LoadFails t) w =
     (case load w of
        Loaded \<Rightarrow> None
      | LoadFailed \<Rightarrow> None
      | _ \<Rightarrow> Some (w\<lparr>load := LoadFailed,
                   page := (if mounted w then op_load_err ops t (page w) else page w)\<rparr>))"
| "act ops key (ServerStores i r) w =
     (if i < length (creates w) \<and> creates w ! i = None \<and> key r \<notin> key ` set (db w) then
        Some (w\<lparr>creates := (creates w)[i := Some r], db := db w @ [r]\<rparr>)
      else None)"
| "act ops key (CreateArrives i) w =
     (if i < length (creates w) then
        (case creates w ! i of
           None \<Rightarrow> None
         | Some r \<Rightarrow>
             Some (w\<lparr>creates := remove_nth i (creates w),
                     page := (if mounted w then op_create_ok ops r (page w) else page w)\<rparr>))
      else None)"
| "act ops key (CreateFails i t) w =
     (if i < length (creates w) then
        Some (w\<lparr>creates := remove_nth i (creates w),
                lost := (case creates w ! i of None \<Rightarrow> lost w | Some r \<Rightarrow> r # lost w),
                page := (if mounted w then op_create_err ops t (page w) else page w)\<rparr>)
      else None)"
| "act ops key Leave w = (if mounted w then Some (w\<lparr>mounted := False\<rparr>) else None)"

fun run ::
  "('s, 'u, 'row, 'aux) page_ops \<Rightarrow> ('row \<Rightarrow> js_string) \<Rightarrow> ('row, 'aux) action list \<Rightarrow>
     ('s, 'row, 'aux) world \<Rightarrow> ('s, 'row, 'aux) world option" where
  "run ops key [] w = Some w"
| "run ops key (a # as) w = Option.bind (act ops key a w) (run ops key as)"

lemma act_wstep: "act ops key a w = Some w' \<Longrightarrow> wstep ops key w w'"
proof (induction ops key a w rule: act.induct)
  case (1 ops key d n w)
  let ?us = "dispatch d (op_view ops (page w))"
  obtain s' reqs where st: "op_ui ops (page w) (?us ! n) = (s', reqs)" by fastforce
  with 1 have n: "mounted w" "n < length ?us"
    and w': "w' = w\<lparr>page := s', creates := creates w @ map (\<lambda>_. None) reqs, sent := sent w @ reqs\<rparr>"
    by (auto simp: Let_def split: if_splits)
  show ?case unfolding w' by (rule wstep.user [OF n(1) nth_mem [OF n(2)] st])
next
  case (4 ops key t w)
  then show ?case
    using wstep.load_fails [of w _ _ ops key t] by (cases "load w") auto
next
  case (3 ops key w)
  then show ?case using wstep.load_arrives [of w _ _ ops key] by (cases "load w") auto
next
  case (6 ops key i w)
  then show ?case
    using wstep.create_arrives [of i w _ ops key] by (auto split: if_splits option.splits)
next
  case (7 ops key i t w)
  then show ?case using wstep.create_fails [of i w ops key t] by (simp split: if_splits)
qed (auto intro: wstep.intros split: load_state.splits option.splits if_splits)

lemma run_reachable:
  assumes "run ops key as w = Some w'" and "reachable ops key w0 w"
  shows "reachable ops key w0 w'"
  using assms
proof (induction "as" arbitrary: w)
  case Nil
  then show ?case by simp
next
  case (Cons a "as")
  then obtain v where "act ops key a w = Some v" and "run ops key as v = Some w'"
    by (auto simp: Option.bind_eq_Some_conv)
  with Cons act_wstep show ?case by (blast intro: reachable.further)
qed

lemma run_start:
  "run ops key as (start_world s0 rows0) = Some w \<Longrightarrow> reachable ops key (start_world s0 rows0) w"
  using run_reachable [OF _ reachable.here] .

subsection \<open>The contract of a page\<close>

locale list_page =
  fixes ops :: "('s, 'u, 'row, 'aux) page_ops"
    and key :: "'row \<Rightarrow> js_string"
    and shown :: "'s \<Rightarrow> 'row list"
    and busy :: "'s \<Rightarrow> bool"
    and s0 :: 's
    and allowed :: "http_request \<Rightarrow> bool"
  assumes start_shown: "shown s0 = []"
    and start_busy: "\<not> busy s0"
    and ui_shown: "u \<in> set (dispatch d (op_view ops s)) \<Longrightarrow> shown (fst (op_ui ops s u)) = shown s"
    and ui_sends: "u \<in> set (dispatch d (op_view ops s)) \<Longrightarrow>
      snd (op_ui ops s u) = [] \<and> busy (fst (op_ui ops s u)) = busy s
      \<or> (\<exists>q. snd (op_ui ops s u) = [q]) \<and> \<not> busy s \<and> busy (fst (op_ui ops s u))"
    and ui_allowed: "u \<in> set (dispatch d (op_view ops s)) \<Longrightarrow>
      q \<in> set (snd (op_ui ops s u)) \<Longrightarrow> allowed q"
    and load_ok_shown: "shown (op_load_ok ops rs aux s) = rs"
    and load_ok_busy: "busy (op_load_ok ops rs aux s) = busy s"
    and load_err_shown: "shown (op_load_err ops t s) = shown s"
    and load_err_busy: "busy (op_load_err ops t s) = busy s"
    and create_ok_shown: "shown (op_create_ok ops r s) = r # shown s"
    and create_ok_busy: "\<not> busy (op_create_ok ops r s)"
    and create_err_shown: "shown (op_create_err ops t s) = shown s"
    and create_err_busy: "\<not> busy (op_create_err ops t s)"
begin

lemmas laws = ui_shown ui_sends load_ok_shown load_ok_busy load_err_shown load_err_busy
  create_ok_shown create_ok_busy create_err_shown create_err_busy

text \<open>No two creates are ever in flight: the page is busy exactly while one is.\<close>

definition flight_inv :: "('s, 'row, 'aux) world \<Rightarrow> bool" where
  "flight_inv w \<longleftrightarrow> length (creates w) \<le> 1 \<and> (mounted w \<longrightarrow> (creates w \<noteq> []) = busy (page w))"

lemma flight_step:
  assumes "flight_inv w" and "wstep ops key w w'"
  shows "flight_inv w'"
  using assms(2)
proof cases
  case (user u d s' reqs)
  then show ?thesis
    using assms(1) ui_sends [OF user(3)] by (auto simp: flight_inv_def)
qed (use assms(1) in \<open>auto simp: flight_inv_def remove_nth_single laws
       le_Suc_eq length_Suc_conv\<close>)

lemma flight_reachable:
  "reachable ops key (start_world s0 rows0) w \<Longrightarrow> flight_inv w"
  by (erule reachable_invariant)
    (auto simp: flight_step, simp add: flight_inv_def start_world_def start_busy)

lemma at_most_one_create:
  "reachable ops key (start_world s0 rows0) w \<Longrightarrow> length (creates w) \<le> 1"
  by (drule flight_reachable) (simp add: flight_inv_def)

lemma safe_traffic:
  "reachable ops key (start_world s0 rows0) w \<Longrightarrow>
     length (creates w) \<le> 1 \<and> (\<forall>q \<in> set (sent w). allowed q)"
  by (rule conjI, erule at_most_one_create, erule sent_invariant, rule ui_allowed)

end

text \<open>
  A page that opens its form at once lets a create race the load. \<open>precedes\<close> says which of two actions
  of a run comes first.
\<close>

definition precedes :: "'a \<Rightarrow> 'a \<Rightarrow> 'a list \<Rightarrow> bool" where
  "precedes a b as \<longleftrightarrow> a \<in> set (takeWhile (\<lambda>x. x \<noteq> b) as)"

context list_page
begin

text \<open>
  Whatever the order in which the two are served and answered, the load replaces what was shown, and
  the answer to the create is put in front of what is shown.
\<close>

lemma create_races_load:
  assumes "as \<in> shuffles [ServerStores 0 r, CreateArrives 0] [ServerLoads aux, LoadArrives]"
    and "mounted w" and "load w = Pending" and "creates w = [None]" and "key r \<notin> key ` set (db w)"
  shows "\<exists>w'. run ops key as w = Some w' \<and> mounted w' \<and> load w' = Loaded \<and> creates w' = []
     \<and> lost w' = lost w \<and> db w' = db w @ [r]
     \<and> shown (page w') = (if precedes LoadArrives (CreateArrives 0) as then [r] else [])
          @ db w @ (if precedes (ServerStores 0 r) (ServerLoads aux) as then [r] else [])"
  using assms
  by (auto simp: precedes_def remove_nth_def load_ok_shown create_ok_shown)

end

text \<open>
  A page that opens its form only when the load has arrived: \<open>gate\<close> is closed at first,
  no user event opens it and nothing is sent through it.
\<close>

locale gated_list_page = list_page ops key shown busy s0 allowed
  for ops :: "('s, 'u, 'row, 'aux) page_ops" and key shown busy s0 allowed +
  fixes gate :: "'s \<Rightarrow> bool"
  assumes start_gate: "\<not> gate s0"
    and ui_gate: "u \<in> set (dispatch d (op_view ops s)) \<Longrightarrow> \<not> gate s \<Longrightarrow>
      \<not> gate (fst (op_ui ops s u)) \<and> snd (op_ui ops s u) = []"
    and load_err_gate: "\<not> gate s \<Longrightarrow> \<not> gate (op_load_err ops t s)"
begin

text \<open>
  Until the load has arrived nothing is in flight and no row is shown. Afterwards each stored row
  is shown once, is on its way to the page, or its answer was lost.
\<close>

definition rows_inv :: "('s, 'row, 'aux) world \<Rightarrow> bool" where
  "rows_inv w \<longleftrightarrow>
     flight_inv w \<and> distinct (map key (db w))
     \<and> (case load w of
          Pending \<Rightarrow> mounted w \<longrightarrow> \<not> gate (page w)
        | Answered rs aux \<Rightarrow> mounted w \<longrightarrow> \<not> gate (page w) \<and> rs = db w
        | LoadFailed \<Rightarrow> mounted w \<longrightarrow> \<not> gate (page w)
        | Loaded \<Rightarrow> mounted w \<longrightarrow>
            mset (db w) = mset (shown (page w)) + mset (concat (map opt_list (creates w))) + mset (lost w))
     \<and> (load w \<noteq> Loaded \<and> mounted w \<longrightarrow> shown (page w) = [] \<and> creates w = [] \<and> lost w = [])"

lemma rows_step_user:
  assumes inv: "rows_inv w" and m: "mounted w" and u: "u \<in> set (dispatch d (op_view ops (page w)))"
    and st: "op_ui ops (page w) u = (s', reqs)"
  shows "rows_inv (w\<lparr>page := s', creates := creates w @ map (\<lambda>_. None) reqs, sent := sent w @ reqs\<rparr>)"
proof -
  have "wstep ops key w (w\<lparr>page := s', creates := creates w @ map (\<lambda>_. None) reqs, sent := sent w @ reqs\<rparr>)"
    using m u st by (rule wstep.user)
  then have f: "flight_inv (w\<lparr>page := s', creates := creates w @ map (\<lambda>_. None) reqs, sent := sent w @ reqs\<rparr>)"
    using inv flight_step by (auto simp: rows_inv_def)
  have s: "shown s' = shown (page w)" using ui_shown [OF u] st by simp
  have g: "\<not> gate (page w) \<Longrightarrow> \<not> gate s' \<and> reqs = []" using ui_gate [OF u] st by simp
  have "concat (map opt_list (map (\<lambda>_. None) reqs)) = []" by simp
  then show ?thesis
    using inv m f s g by (auto simp: rows_inv_def split: load_state.splits)
qed

lemma rows_step_serve:
  assumes inv: "rows_inv w" and i: "i < length (creates w)" "creates w ! i = None"
    and k: "key r \<notin> key ` set (db w)"
  shows "rows_inv (w\<lparr>creates := (creates w)[i := Some r], db := db w @ [r]\<rparr>)"
proof -
  have f: "flight_inv (w\<lparr>creates := (creates w)[i := Some r], db := db w @ [r]\<rparr>)"
    using inv flight_step [OF _ wstep.serve_create [OF i k]] by (auto simp: rows_inv_def)
  have l: "length (creates w) \<le> 1" using inv by (simp add: rows_inv_def flight_inv_def)
  then have c: "creates w = [None]" "i = 0" using i by (cases "creates w"; auto)+
  show ?thesis
    using inv f k by (auto simp: rows_inv_def c split: load_state.splits)
qed

lemma rows_step_arrives:
  assumes inv: "rows_inv w" and i: "i < length (creates w)" "creates w ! i = Some r"
  shows "rows_inv (w\<lparr>creates := remove_nth i (creates w),
          page := (if mounted w then op_create_ok ops r (page w) else page w)\<rparr>)" (is "rows_inv ?w")
proof -
  have f: "flight_inv ?w"
    using inv flight_step [OF _ wstep.create_arrives [OF i]] by (auto simp: rows_inv_def)
  have l: "length (creates w) \<le> 1" using inv by (simp add: rows_inv_def flight_inv_def)
  then have c: "creates w = [Some r]" "i = 0" using i by (cases "creates w"; auto)+
  show ?thesis
    using inv f by (auto simp: rows_inv_def c remove_nth_def create_ok_shown split: load_state.splits)
qed

lemma rows_step_fails:
  assumes inv: "rows_inv w" and i: "i < length (creates w)"
  shows "rows_inv (w\<lparr>creates := remove_nth i (creates w),
          lost := (case creates w ! i of None \<Rightarrow> lost w | Some r \<Rightarrow> r # lost w),
          page := (if mounted w then op_create_err ops t (page w) else page w)\<rparr>)" (is "rows_inv ?w")
proof -
  have f: "flight_inv ?w"
    using inv flight_step [OF _ wstep.create_fails [OF i]] by (auto simp: rows_inv_def)
  have l: "length (creates w) \<le> 1" using inv by (simp add: rows_inv_def flight_inv_def)
  then obtain c where c: "creates w = [c]" "i = 0" using i by (cases "creates w"; auto)
  show ?thesis
    using inv f
    by (cases c) (auto simp: rows_inv_def c remove_nth_def create_err_shown split: load_state.splits)
qed

lemma rows_step:
  assumes inv: "rows_inv w" and "wstep ops key w w'"
  shows "rows_inv w'"
  using assms(2)
proof cases
  case user
  with rows_step_user [OF inv] show ?thesis by simp
next
  case serve_create
  with rows_step_serve [OF inv] show ?thesis by simp
next
  case create_arrives
  with rows_step_arrives [OF inv] show ?thesis by simp
next
  case create_fails
  with rows_step_fails [OF inv] show ?thesis by simp
next
  case (serve_load aux)
  with inv flight_step [OF _ assms(2)] show ?thesis by (auto simp: rows_inv_def)
next
  case (load_arrives rs aux)
  with inv flight_step [OF _ assms(2)] show ?thesis
    by (auto simp: rows_inv_def load_ok_shown opt_list_def)
next
  case (load_fails rs aux t)
  with inv flight_step [OF _ assms(2)] show ?thesis
    by (auto simp: rows_inv_def load_err_shown load_err_gate split: load_state.splits)
next
  case unmount
  with inv flight_step [OF _ assms(2)] show ?thesis
    by (auto simp: rows_inv_def split: load_state.splits)
qed

lemma rows_reachable:
  assumes "distinct (map key rows0)" and "reachable ops key (start_world s0 rows0) w"
  shows "rows_inv w"
  using assms(2)
proof (rule reachable_invariant)
  show "rows_inv (start_world s0 rows0)"
    using assms(1) flight_reachable [OF reachable.here, of rows0]
    by (simp add: rows_inv_def start_world_def start_gate start_shown)
qed (rule rows_step)

text \<open>What the user sees: no row twice, only rows that exist, and all of them once all is quiet.\<close>

lemma shown_rows:
  assumes "distinct (map key rows0)" and "reachable ops key (start_world s0 rows0) w" and "mounted w"
  shows "distinct (map key (shown (page w))) \<and> set (shown (page w)) \<subseteq> set (db w)
    \<and> (load w = Loaded \<and> creates w = [] \<and> lost w = [] \<longrightarrow> mset (shown (page w)) = mset (db w))"
proof (cases "load w = Loaded")
  case True
  have inv: "rows_inv w" using assms(1,2) by (rule rows_reachable)
  then have m: "mset (db w) = mset (shown (page w)) + mset (concat (map opt_list (creates w))) + mset (lost w)"
    and d: "distinct (map key (db w))"
    using True assms(3) by (auto simp: rows_inv_def)
  have "mset (map key (db w))
      = mset (map key (shown (page w) @ concat (map opt_list (creates w)) @ lost w))"
    by (simp add: m)
  then have "distinct (map key (shown (page w)))"
    using d by (metis distinct_append map_append mset_eq_imp_distinct_iff)
  moreover have "set (shown (page w)) \<subseteq> set (db w)"
    using arg_cong [OF m, of set_mset] by auto
  ultimately show ?thesis using m by simp
next
  case False
  then show ?thesis
    using rows_reachable [OF assms(1,2)] assms(3) by (auto simp: rows_inv_def)
qed

text \<open>Each stored row is in exactly one place: shown, answered and on its way, or lost.\<close>

lemma rows_accounted:
  "distinct (map key rows0) \<Longrightarrow> reachable ops key (start_world s0 rows0) w \<Longrightarrow> mounted w \<Longrightarrow> load w = Loaded \<Longrightarrow>
     mset (db w) = mset (shown (page w)) + mset (concat (map opt_list (creates w))) + mset (lost w)"
  using rows_reachable [of rows0 w] by (simp add: rows_inv_def)

end

end
