(* ===== verification/List_Progress.thy ===== *)
theory List_Progress
  imports List_Page
begin

section \<open>Progress of the pages that list rows, and the session they refine\<close>

text \<open>
  Two things follow from the contract of \<open>List_Page\<close>. First, the server and the network can act
  only a bounded number of times before the user has to act again, and when they have nothing left
  to do the page neither loads nor saves. Second, a page whose form is closed until the load
  has arrived behaves like a small machine, a session over the stored rows: a forward simulation
  maps each step of the browser, the network and the server to at most one step of it.
\<close>

subsection \<open>Steps of the server and the network\<close>

inductive env_step ::
  "('s, 'u, 'row, 'aux) page_ops \<Rightarrow> ('row \<Rightarrow> js_string) \<Rightarrow>
     ('s, 'row, 'aux) world \<Rightarrow> ('s, 'row, 'aux) world \<Rightarrow> bool"
  for ops :: "('s, 'u, 'row, 'aux) page_ops" and key :: "'row \<Rightarrow> js_string"
where
  env: "act ops key a w = Some w' \<Longrightarrow> (\<forall>d n. a \<noteq> UserDoes d n) \<Longrightarrow> a \<noteq> Leave \<Longrightarrow> env_step ops key w w'"

inductive env_run ::
  "('s, 'u, 'row, 'aux) page_ops \<Rightarrow> ('row \<Rightarrow> js_string) \<Rightarrow> nat \<Rightarrow>
     ('s, 'row, 'aux) world \<Rightarrow> ('s, 'row, 'aux) world \<Rightarrow> bool"
  for ops :: "('s, 'u, 'row, 'aux) page_ops" and key :: "'row \<Rightarrow> js_string"
where
  still: "env_run ops key 0 w w"
| onward: "env_step ops key w v \<Longrightarrow> env_run ops key n v w' \<Longrightarrow> env_run ops key (Suc n) w w'"

text \<open>How many answers are outstanding; one that the server has yet to give counts twice.\<close>

fun load_due :: "('row, 'aux) load_state \<Rightarrow> nat" where
  "load_due Pending = 2"
| "load_due (Answered rs aux) = 1"
| "load_due Loaded = 0"
| "load_due LoadFailed = 0"

definition create_due :: "'row option \<Rightarrow> nat" where
  "create_due c = (case c of None \<Rightarrow> 2 | Some r \<Rightarrow> 1)"

definition due :: "('s, 'row, 'aux) world \<Rightarrow> nat" where
  "due w = load_due (load w) + sum_list (map create_due (creates w))"

lemma create_due_pos [simp]: "0 < create_due c"
  by (cases c) (simp_all add: create_due_def)

lemma sum_list_split:
  fixes f :: "'a \<Rightarrow> nat"
  assumes "i < length xs"
  shows "sum_list (map f xs) = f (xs ! i) + sum_list (map f (remove_nth i xs))"
    and "sum_list (map f (xs[i := x])) = f x + sum_list (map f (remove_nth i xs))"
  using arg_cong [OF id_take_nth_drop [OF assms], of "\<lambda>ys. sum_list (map f ys)"]
  by (simp_all add: remove_nth_def upd_conv_take_nth_drop [OF assms])

lemma env_step_wstep: "env_step ops key w w' \<Longrightarrow> wstep ops key w w'"
  by (auto elim: env_step.cases intro: act_wstep)

lemma env_step_due: "env_step ops key w w' \<Longrightarrow> due w' < due w"
proof (erule env_step.cases)
  fix a v v'
  assume *: "w = v" "w' = v'" "act ops key a v = Some v'" "\<forall>d n. a \<noteq> UserDoes d n" "a \<noteq> Leave"
  then show "due w' < due w"
  proof (cases a)
    case (ServerStores i r)
    then show ?thesis
      using * by (auto simp: due_def sum_list_split [of i "creates v"] create_due_def split: if_splits)
  next
    case (CreateArrives i)
    then show ?thesis
      using * by (auto simp: due_def sum_list_split(1) [of i "creates v"] split: if_splits option.splits)
  next
    case (CreateFails i t)
    then show ?thesis
      using * by (auto simp: due_def sum_list_split(1) [of i "creates v"] split: if_splits)
  qed (use * in \<open>auto simp: due_def split: load_state.splits\<close>)
qed

lemma env_run_due: "env_run ops key n w w' \<Longrightarrow> n + due w' \<le> due w"
  by (induction rule: env_run.induct) (auto dest: env_step_due)

lemma env_run_reachable:
  "env_run ops key n w w' \<Longrightarrow> reachable ops key w0 w \<Longrightarrow> reachable ops key w0 w'"
  by (induction rule: env_run.induct) (auto intro: reachable.further env_step_wstep)

text \<open>Something can happen as long as something is due: a request can fail.\<close>

lemma env_step_possible: "0 < due w \<Longrightarrow> \<exists>w'. env_step ops key w w'"
proof (cases "creates w")
  case Nil
  assume "0 < due w"
  then have "load w = Pending \<or> (\<exists>rs aux. load w = Answered rs aux)"
    by (cases "load w") (auto simp: due_def Nil)
  then obtain w' where "act ops key (LoadFails (ErrorObj [])) w = Some w'" by auto
  then show ?thesis by (blast intro: env_step.env)
next
  case (Cons c cs)
  then obtain w' where "act ops key (CreateFails 0 (ErrorObj [])) w = Some w'" by auto
  then show ?thesis by (blast intro: env_step.env)
qed

lemma due_0_iff: "due w = 0 \<longleftrightarrow> (load w = Loaded \<or> load w = LoadFailed) \<and> creates w = []"
  by (cases "load w"; cases "creates w") (simp_all add: due_def)

lemma env_run_mounted: "env_run ops key n w w' \<Longrightarrow> mounted w' = mounted w"
proof (induction rule: env_run.induct)
  case (onward w v n w')
  have "mounted v = mounted w"
    using onward(1)
  proof (cases rule: env_step.cases)
    case (env a)
    then show ?thesis by (cases a) (auto split: load_state.splits if_splits option.splits)
  qed
  with onward.IH show ?case by simp
qed simp

text \<open>From every state a run of the environment ends, and it ends where nothing is due.\<close>

lemma env_run_settles: "\<exists>n w'. env_run ops key n w w' \<and> due w' = 0"
proof (induction "due w" arbitrary: w rule: less_induct)
  case less
  show ?case
  proof (cases "due w")
    case 0
    then show ?thesis using env_run.still by blast
  next
    case (Suc k)
    then obtain v where v: "env_step ops key w v" using env_step_possible [of w ops key] by auto
    with less [OF env_step_due] obtain n w' where "env_run ops key n v w' \<and> due w' = 0" by blast
    with v show ?thesis by (blast intro: env_run.onward)
  qed
qed

lemma stuck_due_0: "\<not> (\<exists>v. env_step ops key w v) \<Longrightarrow> due w = 0"
  using env_step_possible by (metis gr0I)

lemma due_0_stuck: "due w = 0 \<Longrightarrow> \<not> (\<exists>v. env_step ops key w v)"
  using env_step_due by fastforce

text \<open>A run of named actions none of which is the user's is a run of the environment.\<close>

fun env_action :: "('row, 'aux) action \<Rightarrow> bool" where
  "env_action (UserDoes d n) = False"
| "env_action Leave = False"
| "env_action _ = True"

lemma run_env_run:
  "run ops key as w = Some w' \<Longrightarrow> list_all env_action as \<Longrightarrow> env_run ops key (length as) w w'"
proof (induction "as" arbitrary: w)
  case (Cons a "as")
  then obtain v where v: "act ops key a w = Some v" and "run ops key as v = Some w'"
    by (auto simp: Option.bind_eq_Some_conv)
  with Cons have "env_run ops key (length as) v w'" by simp
  moreover have "env_step ops key w v"
    using v Cons.prems(2) by (intro env_step.env) auto
  ultimately show ?case by (auto intro: env_run.onward)
qed (simp add: env_run.still)

subsection \<open>Pages with a loading flag\<close>

locale settling_page = list_page ops key shown busy s0 allowed
  for ops :: "('s, 'u, 'row, 'aux) page_ops" and key shown busy s0 allowed +
  fixes waiting :: "'s \<Rightarrow> bool"
  assumes ui_waiting: "u \<in> set (dispatch d (op_view ops s)) \<Longrightarrow>
      waiting (fst (op_ui ops s u)) = waiting s"
    and start_waiting: "waiting s0"
    and load_ok_waiting: "\<not> waiting (op_load_ok ops rs aux s)"
    and load_err_waiting: "\<not> waiting (op_load_err ops t s)"
    and create_ok_waiting: "waiting (op_create_ok ops r s) = waiting s"
    and create_err_waiting: "waiting (op_create_err ops t s) = waiting s"
begin

text \<open>The flag tells exactly whether the load is outstanding.\<close>

definition waiting_inv :: "('s, 'row, 'aux) world \<Rightarrow> bool" where
  "waiting_inv w \<longleftrightarrow> (mounted w \<longrightarrow> waiting (page w) = (0 < load_due (load w)))"

lemma waiting_step:
  assumes "waiting_inv w" and "wstep ops key w w'"
  shows "waiting_inv w'"
  using assms(2)
proof cases
  case (user u d s' reqs)
  then show ?thesis using assms(1) ui_waiting [OF user(3)] by (auto simp: waiting_inv_def)
qed (use assms(1) in \<open>auto simp: waiting_inv_def load_ok_waiting load_err_waiting
       create_ok_waiting create_err_waiting\<close>)

lemma waiting_reachable: "reachable ops key (start_world s0 rows0) w \<Longrightarrow> waiting_inv w"
  by (erule reachable_invariant)
    (auto simp: waiting_step, simp add: waiting_inv_def start_world_def start_waiting)

lemma due_bound: "reachable ops key (start_world s0 rows0) w \<Longrightarrow> due w \<le> 4"
proof -
  assume "reachable ops key (start_world s0 rows0) w"
  then have "length (creates w) \<le> 1" by (rule at_most_one_create)
  then have "sum_list (map create_due (creates w)) \<le> 2"
    by (cases "creates w") (auto simp: create_due_def split: option.splits)
  moreover have "load_due (load w) \<le> 2" by (cases "load w") simp_all
  ultimately show ?thesis by (simp add: due_def)
qed

lemma run_bound:
  "reachable ops key (start_world s0 rows0) w \<Longrightarrow> env_run ops key n w w' \<Longrightarrow> n \<le> 4"
  using env_run_due [of ops key n w w'] due_bound [of rows0 w] by simp

lemma settled_quiet:
  assumes "reachable ops key (start_world s0 rows0) w" and "mounted w"
    and run: "env_run ops key n w v" and "due v = 0"
  shows "\<not> waiting (page v) \<and> \<not> busy (page v)"
proof -
  have r: "reachable ops key (start_world s0 rows0) v" using run assms(1) by (rule env_run_reachable)
  have m: "mounted v" using env_run_mounted [OF run] assms(2) by simp
  from flight_reachable [OF r] waiting_reachable [OF r] assms(4) m show ?thesis
    by (auto simp: flight_inv_def waiting_inv_def due_0_iff)
qed

text \<open>
  Without the user nothing goes on for ever: after at most four steps the server and the network
  have nothing left to do, and then the page neither loads nor saves.
\<close>

lemma terminates:
  assumes "reachable ops key (start_world s0 rows0) w" and "mounted w"
  shows "(\<forall>n v. env_run ops key n w v \<longrightarrow> n \<le> 4)
    \<and> (\<exists>n v. env_run ops key n w v \<and> \<not> (\<exists>v'. env_step ops key v v')
         \<and> \<not> waiting (page v) \<and> \<not> busy (page v))"
proof -
  obtain n v where "env_run ops key n w v" and "due v = 0" using env_run_settles by blast
  with settled_quiet [OF assms] due_0_stuck run_bound [OF assms(1)] show ?thesis by metis
qed

end

subsection \<open>The session a page refines\<close>

text \<open>
  The rows stored, and what the user has of them: nothing yet; nothing after a failed load; a view;
  a view and a row being saved; a view and a saved row that is not yet in it; the page is gone.
\<close>

datatype 'row session =
    Fetching
  | Unavailable
  | Viewing "'row list"
  | Saving "'row list"
  | Saved 'row "'row list"
  | Closed

inductive session_step ::
  "('row \<Rightarrow> js_string) \<Rightarrow> 'row list \<times> 'row session \<Rightarrow> 'row list \<times> 'row session \<Rightarrow> bool"
  for key :: "'row \<Rightarrow> js_string"
where
  fetched: "session_step key (D, Fetching) (D, Viewing D)"
| not_fetched: "session_step key (D, Fetching) (D, Unavailable)"
| submit: "session_step key (D, Viewing V) (D, Saving V)"
| refused: "session_step key (D, Saving V) (D, Viewing V)"
| stored: "key r \<notin> key ` set D \<Longrightarrow> session_step key (D, Saving V) (D @ [r], Saved r V)"
| confirmed: "session_step key (D, Saved r V) (D, Viewing (r # V))"
| unconfirmed: "session_step key (D, Saved r V) (D, Viewing V)"
| closed: "session_step key (D, S) (D, Closed)"
| stored_late: "key r \<notin> key ` set D \<Longrightarrow> session_step key (D, Closed) (D @ [r], Closed)"

definition session_of :: "('s \<Rightarrow> 'row list) \<Rightarrow> ('s, 'row, 'aux) world \<Rightarrow> 'row session" where
  "session_of rows w =
     (if \<not> mounted w then Closed
      else case load w of
        Loaded \<Rightarrow>
          (case creates w of
             [] \<Rightarrow> Viewing (rows (page w))
           | c # cs \<Rightarrow> (case c of None \<Rightarrow> Saving (rows (page w)) | Some r \<Rightarrow> Saved r (rows (page w))))
      | LoadFailed \<Rightarrow> Unavailable
      | _ \<Rightarrow> Fetching)"

context gated_list_page
begin

lemma one_create:
  assumes "rows_inv w" and "i < length (creates w)"
  obtains c where "creates w = [c]" and "i = 0"
  using assms by (cases "creates w") (auto simp: rows_inv_def flight_inv_def)

lemma session_user:
  assumes "rows_inv w" and "mounted w" and "u \<in> set (dispatch d (op_view ops (page w)))"
    and "op_ui ops (page w) u = (s', reqs)"
  defines "w' \<equiv> w\<lparr>page := s', creates := creates w @ map (\<lambda>_. None) reqs, sent := sent w @ reqs\<rparr>"
  shows "session_of shown w' = session_of shown w \<or> session_step key (D, session_of shown w) (D, session_of shown w')"
proof -
  have s: "shown s' = shown (page w)" using ui_shown [OF assms(3)] assms(4) by simp
  show ?thesis
  proof (cases "reqs = []")
    case True
    with s have "session_of shown w' = session_of shown w"
      by (simp add: w'_def session_of_def split: load_state.split list.split option.split)
    then show ?thesis ..
  next
    case False
    then obtain q where q: "reqs = [q]" and "\<not> busy (page w)"
      using ui_sends [OF assms(3)] assms(4) by auto
    with assms(1,2) have c: "creates w = []" by (simp add: rows_inv_def flight_inv_def)
    have g: "gate (page w)" using ui_gate [OF assms(3)] assms(4) q by auto
    with assms(1,2) have "load w = Loaded" by (auto simp: rows_inv_def split: load_state.splits)
    with s q c assms(2) show ?thesis by (simp add: w'_def session_of_def session_step.submit)
  qed
qed

lemma session_simulation:
  assumes inv: "rows_inv w" and st: "wstep ops key w w'"
  shows "(db w', session_of shown w') = (db w, session_of shown w)
    \<or> session_step key (db w, session_of shown w) (db w', session_of shown w')"
  using st
proof cases
  case (user u d s' reqs)
  with session_user [OF inv user(2-4), of "db w"] show ?thesis by simp
next
  case (serve_load aux)
  then show ?thesis by (auto simp: session_of_def)
next
  case (load_arrives rs aux)
  with inv show ?thesis
    by (auto simp: rows_inv_def session_of_def load_ok_shown intro: session_step.intros)
next
  case (load_fails rs aux t)
  then show ?thesis by (auto simp: session_of_def intro: session_step.intros)
next
  case (serve_create i r)
  obtain c where c: "creates w = [c]" "i = 0" using inv serve_create(2) by (rule one_create)
  with serve_create inv show ?thesis
    by (auto simp: session_of_def rows_inv_def split: load_state.splits
        intro: session_step.stored session_step.stored_late)
next
  case (create_arrives i r)
  obtain c where c: "creates w = [c]" "i = 0" using inv create_arrives(2) by (rule one_create)
  with create_arrives inv show ?thesis
    by (auto simp: session_of_def rows_inv_def remove_nth_def create_ok_shown split: load_state.splits
        intro: session_step.confirmed)
next
  case (create_fails i t)
  obtain c where c: "creates w = [c]" "i = 0" using inv create_fails(2) by (rule one_create)
  with create_fails inv show ?thesis
    by (cases c) (auto simp: session_of_def rows_inv_def remove_nth_def create_err_shown split: load_state.splits
        intro: session_step.refused session_step.unconfirmed)
next
  case unmount
  then show ?thesis by (auto simp: session_of_def intro: session_step.closed)
qed

lemma session_refinement:
  assumes "distinct (map key rows0)"
  shows "session_of shown (start_world s0 rows0) = Fetching
    \<and> (\<forall>w w'. reachable ops key (start_world s0 rows0) w \<longrightarrow> wstep ops key w w' \<longrightarrow>
         (db w', session_of shown w') = (db w, session_of shown w)
         \<or> session_step key (db w, session_of shown w) (db w', session_of shown w'))"
  using session_simulation [OF rows_reachable [OF assms]]
  by (auto simp: session_of_def start_world_def)

end

text \<open>
  What holds of every session carries over to the pages: a view never loses a row, and it grows only by
  a row that was saved.
\<close>

fun view_of :: "'row session \<Rightarrow> 'row list option" where
  "view_of (Viewing V) = Some V"
| "view_of (Saving V) = Some V"
| "view_of (Saved r V) = Some V"
| "view_of _ = None"

lemma session_view_grows:
  assumes "session_step key (D, S) (D', S')" and "view_of S = Some V" and "view_of S' = Some V'"
  shows "V' = V \<or> (\<exists>r. S = Saved r V \<and> V' = r # V)"
  using assms by cases auto

end
