(* ===== verification/Products_Page.thy ===== *)
theory Products_Page
  imports Admin_Api Route_Guards List_Progress
begin

section \<open>The products page\<close>

text \<open>
  Models \<open>app/(protected)/admin/products/page.tsx\<close>: the component's state, its memoised values,
  the continuations of \<open>load\<close> and \<open>handleSubmit\<close>, and what it renders. The properties are about
  the requests the page sends, and about a create that races the initial load.
\<close>

record product_form =
  name :: js_string
  description :: js_string
  ownerTeam :: js_string
  isEnabled :: bool

record products_page =
  products :: "ManagementProduct list"
  services :: "ManagementService list"
  searchTerm :: js_string
  loading :: bool
  submitting :: bool
  error :: "js_string option"
  isOpen :: bool
  formState :: product_form

definition empty_product_form :: product_form where
  "empty_product_form =
     \<lparr>product_form.name = [], product_form.description = [], product_form.ownerTeam = [],
      product_form.isEnabled = True\<rparr>"

definition products_init :: products_page where
  "products_init =
     \<lparr>products = [], services = [], searchTerm = [], loading = True, submitting = False,
      error = None, isOpen = False, formState = empty_product_form\<rparr>"

subsection \<open>Memoised values\<close>

definition servicesByProduct :: "ManagementService list \<Rightarrow> (js_string \<rightharpoonup> nat)" where
  "servicesByProduct svcs =
     fold (\<lambda>service acc.
             acc(productId service \<mapsto> (case acc (productId service) of None \<Rightarrow> 0 | Some n \<Rightarrow> n) + 1))
       svcs Map.empty"

definition filteredProducts :: "products_page \<Rightarrow> ManagementProduct list" where
  "filteredProducts s =
     (let trm = js_lower (js_trim (searchTerm s)) in
      if \<not> truthy_str trm then products s
      else filter (\<lambda>product.
             js_includes (js_lower (ManagementProduct.name product)) trm
             \<or> js_includes (js_lower (ManagementProduct.ownerTeam product)) trm
             \<or> js_includes (js_lower (ManagementProduct.description product)) trm) (products s))"

subsection \<open>load and handleSubmit\<close>

definition products_load_requests :: "http_request list" where
  "products_load_requests = [getProducts False, getServices None (Some False)]"

definition products_load_ok ::
  "ManagementProduct list \<Rightarrow> ManagementService list \<Rightarrow> products_page \<Rightarrow> products_page" where
  "products_load_ok productsData servicesData s =
     s\<lparr>products := productsData, services := servicesData, loading := False\<rparr>"

definition products_load_err :: "thrown \<Rightarrow> products_page \<Rightarrow> products_page" where
  "products_load_err err s =
     s\<lparr>error := Some (message_of ''Failed to load products.'' err), loading := False\<rparr>"

definition product_payload :: "product_form \<Rightarrow> json" where
  "product_payload f =
     JObj [(''name'', JStr (js_trim (product_form.name f))),
           (''description'', JStr (js_trim (product_form.description f))),
           (''ownerTeam'', JStr (js_trim (product_form.ownerTeam f))),
           (''isEnabled'', JBool (product_form.isEnabled f))]"

datatype products_ui =
    SetSearchTerm js_string
  | SetIsOpen bool
  | SetFormState "product_form \<Rightarrow> product_form"
  | HandleSubmit

fun products_handle :: "products_page \<Rightarrow> products_ui \<Rightarrow> products_page \<times> http_request list" where
  "products_handle s (SetSearchTerm v) = (s\<lparr>searchTerm := v\<rparr>, [])"
| "products_handle s (SetIsOpen b) = (s\<lparr>isOpen := b\<rparr>, [])"
| "products_handle s (SetFormState upd) = (s\<lparr>formState := upd (formState s)\<rparr>, [])"
| "products_handle s HandleSubmit =
     (s\<lparr>submitting := True, error := None\<rparr>, [createProduct (product_payload (formState s))])"

definition products_create_ok :: "ManagementProduct \<Rightarrow> products_page \<Rightarrow> products_page" where
  "products_create_ok created s =
     s\<lparr>products := created # products s, formState := empty_product_form, isOpen := False,
       submitting := False\<rparr>"

definition products_create_err :: "thrown \<Rightarrow> products_page \<Rightarrow> products_page" where
  "products_create_err err s =
     s\<lparr>error := Some (message_of ''Failed to create product.'' err), submitting := False\<rparr>"

subsection \<open>What is rendered\<close>

definition products_form_fields :: "products_page \<Rightarrow> products_ui node list" where
  "products_form_fields s =
     (let f = formState s in
      [Txt ''Product name'',
       Field ''product-name'' (product_form.name f) True False
         (\<lambda>v. SetFormState (\<lambda>prev. prev\<lparr>product_form.name := v\<rparr>)),
       Txt ''Owner team'',
       Field ''owner-team'' (product_form.ownerTeam f) True False
         (\<lambda>v. SetFormState (\<lambda>prev. prev\<lparr>product_form.ownerTeam := v\<rparr>)),
       Txt ''Description'',
       Field ''product-description'' (product_form.description f) True False
         (\<lambda>v. SetFormState (\<lambda>prev. prev\<lparr>product_form.description := v\<rparr>)),
       Check ''product-enabled'' (product_form.isEnabled f) False
         (\<lambda>b. SetFormState (\<lambda>prev. prev\<lparr>product_form.isEnabled := b\<rparr>)),
       Txt ''Enabled'',
       show_error (error s)])"

definition products_row :: "(js_string \<rightharpoonup> nat) \<Rightarrow> ManagementProduct \<Rightarrow> products_ui node" where
  "products_row counts product =
     El [Txt (ManagementProduct.name product),
         Txt (ManagementProduct.description product),
         Txt (ManagementProduct.ownerTeam product),
         Badge (if ManagementProduct.isEnabled product then ''success'' else ''neutral'')
           (if ManagementProduct.isEnabled product then ''active'' else ''disabled''),
         Txt (nat_dec (case counts (ManagementProduct.ident product) of None \<Rightarrow> 0 | Some n \<Rightarrow> n)),
         Link (''/admin/products/'' @ ManagementProduct.ident product) ''Manage'']"

definition products_table :: "products_page \<Rightarrow> products_ui node" where
  "products_table s =
     El [El (map Txt [''Product'', ''Owner'', ''Status'', ''Services'', ''Actions'']),
         (if loading s then Txt ''Loading products...''
          else if filteredProducts s = [] then Txt ''No products match your search.''
          else El (map (products_row (servicesByProduct (services s))) (filteredProducts s)))]"

definition products_view :: "auth_user option \<Rightarrow> products_page \<Rightarrow> products_ui node" where
  "products_view usr s =
     El [SectionHeader ''Products'' (Some ''Manage product lifecycles and owners.'')
           (PermissionGate usr (Some ''product.manage'') None nothing
             (FormDialog ''Create product'' (Some ''Add a new product and owner team.'')
               ''Create product'' (isOpen s) SetIsOpen
               (if submitting s then ''Creating...'' else ''Create product'')
               (submitting s) (Some HandleSubmit) (products_form_fields s)))
           None ''Back'',
         when_node (\<not> isOpen s) (show_error (error s)),
         Txt ''Search products'',
         Field ''products-search'' (searchTerm s) False False SetSearchTerm,
         products_table s]"

subsection \<open>Reaching the handlers\<close>

lemma products_row_inert [simp]: "dispatch d (products_row c p) = []"
  by (simp add: products_row_def)

lemma products_table_inert [simp]: "dispatch d (products_table s) = []"
  by (simp add: products_table_def)

text \<open>The form is submitted only by a user with the permission, not twice, and filled in.\<close>

lemma products_submit_reached:
  assumes "HandleSubmit \<in> set (dispatch d (products_view usr s))"
  shows "permitted usr ''product.manage'' \<and> isOpen s \<and> \<not> submitting s
    \<and> product_form.name (formState s) \<noteq> [] \<and> product_form.ownerTeam (formState s) \<noteq> []
    \<and> product_form.description (formState s) \<noteq> []"
  using assms
  by (simp add: products_view_def products_form_fields_def Let_def)

lemma products_handle_shown: "products (fst (products_handle s u)) = products s"
  by (cases u) simp_all

lemma products_handle_sends:
  "u \<in> set (dispatch d (products_view usr s)) \<Longrightarrow>
     snd (products_handle s u) = [] \<and> submitting (fst (products_handle s u)) = submitting s
     \<or> (\<exists>q. snd (products_handle s u) = [q]) \<and> \<not> submitting s
         \<and> submitting (fst (products_handle s u))"
  by (cases u) (auto dest: products_submit_reached)

definition products_ops ::
  "auth_user option \<Rightarrow> (products_page, products_ui, ManagementProduct, ManagementService list) page_ops" where
  "products_ops usr =
     \<lparr>op_view = products_view usr, op_ui = products_handle, op_load_ok = products_load_ok,
      op_load_err = products_load_err, op_create_ok = products_create_ok,
      op_create_err = products_create_err\<rparr>"

text \<open>A create that the page may send: by a permitted user, of a form that is filled in.\<close>

definition product_request :: "auth_user option \<Rightarrow> http_request \<Rightarrow> bool" where
  "product_request usr q \<longleftrightarrow>
     permitted usr ''product.manage''
     \<and> (\<exists>f. q = createProduct (product_payload f) \<and> product_form.name f \<noteq> []
            \<and> product_form.description f \<noteq> [] \<and> product_form.ownerTeam f \<noteq> [])"

lemma products_handle_request:
  "u \<in> set (dispatch d (products_view usr s)) \<Longrightarrow> q \<in> set (snd (products_handle s u)) \<Longrightarrow>
     product_request usr q"
  by (cases u) (auto simp: product_request_def dest: products_submit_reached)

interpretation products_list:
  list_page "products_ops usr" ManagementProduct.ident products submitting products_init
    "product_request usr" for usr
  by unfold_locales
    (simp_all add: products_ops_def products_init_def products_load_ok_def products_load_err_def
      products_create_ok_def products_create_err_def products_handle_shown products_handle_sends
      products_handle_request)

lemma products_handle_loading: "loading (fst (products_handle s u)) = loading s"
  by (cases u) simp_all

interpretation products_settling:
  settling_page "products_ops usr" ManagementProduct.ident products submitting products_init
    "product_request usr" loading for usr
  by unfold_locales
    (simp_all add: products_ops_def products_init_def products_load_ok_def products_load_err_def
      products_create_ok_def products_create_err_def products_handle_loading split: prod.splits)

lemma servicesByProduct_count:
  "(case servicesByProduct svcs p of None \<Rightarrow> 0 | Some n \<Rightarrow> n)
   = length (filter (\<lambda>service. productId service = p) svcs)"
proof -
  have "(case fold (\<lambda>service acc.
             acc(productId service \<mapsto> (case acc (productId service) of None \<Rightarrow> 0 | Some n \<Rightarrow> n) + 1))
       svcs m p of None \<Rightarrow> 0 | Some n \<Rightarrow> n)
     = (case m p of None \<Rightarrow> 0 | Some n \<Rightarrow> n) + length (filter (\<lambda>service. productId service = p) svcs)" for m
    by (induction svcs arbitrary: m) auto
  then show ?thesis by (simp add: servicesByProduct_def)
qed

subsection \<open>Properties\<close>


definition sample_product :: ManagementProduct where
  "sample_product =
     \<lparr>ManagementProduct.ident = ''p1'', name = ''N'', description = ''D'', ownerTeam = ''T'',
      isEnabled = True, createdAt = [], updatedAt = []\<rparr>"

definition create_product_actions :: "(ManagementProduct, ManagementService list) action list" where
  "create_product_actions =
     [UserDoes (Click ''Create product'') 0, UserDoes (TypeIn ''product-name'' ''N'') 0,
      UserDoes (TypeIn ''owner-team'' ''T'') 0, UserDoes (TypeIn ''product-description'' ''D'') 0,
      UserDoes SubmitForm 0]"


text \<open>
  C32: The dialog can be submitted before the initial load has arrived. Whatever the order in which load and
  create are then served and answered, with nothing lost and no other event between them, the list
  ends with the stored products and the created one as often as this: once more if the server stored it before
  it answered the load, and once more if the load arrives before the answer to the create. So it is shown
  twice if both hold and not at all if neither does, although no request failed.
\<close>

theorem products_create_races_load:
  assumes "as \<in> shuffles [ServerStores 0 r, CreateArrives 0] [ServerLoads aux, LoadArrives]"
    and "mounted w" and "load w = Pending" and "creates w = [None]"
    and "ManagementProduct.ident r \<notin> ManagementProduct.ident ` set (db w)"
  shows "\<exists>w'. run (products_ops usr) ManagementProduct.ident as w = Some w'
     \<and> mounted w' \<and> load w' = Loaded \<and> creates w' = [] \<and> lost w' = lost w \<and> db w' = db w @ [r]
     \<and> products (page w') = (if precedes LoadArrives (CreateArrives 0) as then [r] else [])
          @ db w @ (if precedes (ServerStores 0 r) (ServerLoads aux) as then [r] else [])"
  using assms by (rule products_list.create_races_load)

theorem products_create_races_load_witness:
  "\<exists>w. run (products_ops (Some owner_user)) ManagementProduct.ident create_product_actions
          (start_world products_init []) = Some w
     \<and> (\<exists>v. run (products_ops (Some owner_user)) ManagementProduct.ident
              [ServerStores 0 sample_product, ServerLoads [], LoadArrives, CreateArrives 0] w = Some v
            \<and> products (page v) = [sample_product, sample_product] \<and> db v = [sample_product])
     \<and> (\<exists>v. run (products_ops (Some owner_user)) ManagementProduct.ident
              [ServerLoads [], ServerStores 0 sample_product, CreateArrives 0, LoadArrives] w = Some v
            \<and> products (page v) = [] \<and> db v = [sample_product])
     \<and> (\<exists>v. run (products_ops (Some owner_user)) ManagementProduct.ident
              [ServerStores 0 sample_product, CreateArrives 0, ServerLoads [], LoadArrives] w = Some v
            \<and> products (page v) = [sample_product] \<and> db v = [sample_product])"
proof -
  have "map_option (\<lambda>w. (mounted w, load w = Pending, creates w, db w)) (run (products_ops (Some owner_user))
      ManagementProduct.ident create_product_actions (start_world products_init [])) = Some (True, True, [None], [])"
    by code_simp
  then obtain w where w: "run (products_ops (Some owner_user)) ManagementProduct.ident
      create_product_actions (start_world products_init []) = Some w"
      and s: "mounted w" "load w = Pending" "creates w = [None]" "db w = []"
    by auto
  have "ManagementProduct.ident sample_product \<notin> ManagementProduct.ident ` set (db w)" by (simp add: s)
  note race = products_create_races_load [OF _ s(1-3) this, where usr = "Some owner_user" and aux = "[]"]
  let ?twice = "[ServerStores 0 sample_product, ServerLoads [], LoadArrives, CreateArrives 0]"
  let ?never = "[ServerLoads [], ServerStores 0 sample_product, CreateArrives 0, LoadArrives]"
  let ?once = "[ServerStores 0 sample_product, CreateArrives 0, ServerLoads [], LoadArrives]"
  have "\<exists>v. run (products_ops (Some owner_user)) ManagementProduct.ident ?twice w = Some v
      \<and> products (page v) = [sample_product, sample_product] \<and> db v = [sample_product]"
    using race [of ?twice] by (simp add: s(4) precedes_def del: run.simps) blast
  moreover have "\<exists>v. run (products_ops (Some owner_user)) ManagementProduct.ident ?never w = Some v
      \<and> products (page v) = [] \<and> db v = [sample_product]"
    using race [of ?never] by (simp add: s(4) precedes_def del: run.simps) blast
  moreover have "\<exists>v. run (products_ops (Some owner_user)) ManagementProduct.ident ?once w = Some v
      \<and> products (page v) = [sample_product] \<and> db v = [sample_product]"
    using race [of ?once] by (simp add: s(4) precedes_def del: run.simps) blast
  ultimately show ?thesis using w by blast
qed

text \<open>
  The count beside a product is the number of loaded services that belong to it.
\<close>

theorem servicesByProduct_counts:
  "(case servicesByProduct svcs p of None \<Rightarrow> 0 | Some n \<Rightarrow> n)
   = length (filter (\<lambda>service. productId service = p) svcs)"
  by (rule servicesByProduct_count)

text \<open>
  C31: Whatever the user has done on the products page, if he does nothing more the server and the
  network can act at most four more times; some run of theirs ends, and where one ends the page
  neither loads nor saves.
\<close>

theorem products_terminates:
  "reachable (products_ops usr) ManagementProduct.ident (start_world products_init rows0) w \<Longrightarrow>
   mounted w \<Longrightarrow>
     (\<forall>n v. env_run (products_ops usr) ManagementProduct.ident n w v \<longrightarrow> n \<le> 4)
     \<and> (\<exists>n v. env_run (products_ops usr) ManagementProduct.ident n w v
          \<and> \<not> (\<exists>v'. env_step (products_ops usr) ManagementProduct.ident v v')
          \<and> \<not> loading (page v) \<and> \<not> submitting (page v))"
  by (rule products_settling.terminates)

theorem products_terminates_witness:
  "\<exists>w. run (products_ops (Some owner_user)) ManagementProduct.ident create_product_actions
          (start_world products_init []) = Some w
     \<and> loading (page w) \<and> submitting (page w)
     \<and> (\<forall>n v. env_run (products_ops (Some owner_user)) ManagementProduct.ident n w v \<longrightarrow> n \<le> 4)"
proof -
  have "map_option (\<lambda>w. (mounted w, loading (page w), submitting (page w)))
      (run (products_ops (Some owner_user)) ManagementProduct.ident
        create_product_actions (start_world products_init [])) = Some (True, True, True)"
    by code_simp
  then obtain w where w: "run (products_ops (Some owner_user)) ManagementProduct.ident
      create_product_actions (start_world products_init []) = Some w"
      and s: "mounted w" "loading (page w)" "submitting (page w)"
    by auto
  with products_terminates [OF run_start [OF w] s(1)] show ?thesis by blast
qed

end
