(* ===== verification/Services_Page.thy ===== *)
theory Services_Page
  imports Admin_Api Route_Guards List_Progress
begin

section \<open>The services page\<close>

text \<open>
  Models \<open>app/(protected)/admin/services/page.tsx\<close>. The form needs a product, and the products come
  with the load, so here a create cannot race the initial load; the properties say what the
  user sees, what is sent, and what the search shows.
\<close>

record service_form =
  productId :: js_string
  serviceName :: js_string
  basePath :: js_string
  version :: js_string
  description :: js_string
  ownerTeam :: js_string
  clusterId :: js_string
  destinations :: js_string
  environment :: js_string
  isEnabled :: bool

record services_page =
  services :: "ManagementService list"
  products :: "ManagementProduct list"
  searchTerm :: js_string
  loading :: bool
  submitting :: bool
  error :: "js_string option"
  isOpen :: bool
  formState :: service_form

definition empty_service_form :: service_form where
  "empty_service_form =
     \<lparr>service_form.productId = [], service_form.serviceName = [], service_form.basePath = [],
      service_form.version = ''v1'', service_form.description = [], service_form.ownerTeam = [],
      service_form.clusterId = ''primary'', service_form.destinations = [],
      service_form.environment = ''Dev'', service_form.isEnabled = True\<rparr>"

definition services_init :: services_page where
  "services_init =
     \<lparr>services = [], products = [], searchTerm = [], loading = True, submitting = False,
      error = None, isOpen = False, formState = empty_service_form\<rparr>"

subsection \<open>Memoised values\<close>

definition productLookup :: "ManagementProduct list \<Rightarrow> (js_string \<rightharpoonup> js_string)" where
  "productLookup ps = lookup_table ManagementProduct.ident ManagementProduct.name ps"

definition service_matches :: "(js_string \<rightharpoonup> js_string) \<Rightarrow> js_string \<Rightarrow> ManagementService \<Rightarrow> bool" where
  "service_matches names trm service \<longleftrightarrow>
     js_includes (js_lower (ManagementService.serviceName service)) trm
     \<or> js_includes (js_lower (ManagementService.basePath service)) trm
     \<or> js_includes (js_lower (ManagementService.version service)) trm
     \<or> js_includes (js_lower (ManagementService.ownerTeam service)) trm
     \<or> js_includes (js_lower (case names (ManagementService.productId service) of
                                None \<Rightarrow> [] | Some n \<Rightarrow> n)) trm"

definition filteredServices :: "services_page \<Rightarrow> ManagementService list" where
  "filteredServices s =
     (let trm = js_lower (js_trim (searchTerm s)) in
      if \<not> truthy_str trm then services s
      else filter (service_matches (productLookup (products s)) trm) (services s))"

subsection \<open>load and handleSubmit\<close>

definition services_load_requests :: "http_request list" where
  "services_load_requests = [getServices None (Some False), getProducts False]"

definition services_load_ok ::
  "ManagementService list \<Rightarrow> ManagementProduct list \<Rightarrow> services_page \<Rightarrow> services_page" where
  "services_load_ok servicesData productsData s =
     s\<lparr>services := servicesData, products := productsData, loading := False\<rparr>"

definition services_load_err :: "thrown \<Rightarrow> services_page \<Rightarrow> services_page" where
  "services_load_err err s =
     s\<lparr>error := Some (message_of ''Failed to load services.'' err), loading := False\<rparr>"

definition service_payload :: "service_form \<Rightarrow> json" where
  "service_payload f =
     (let dests = split_values (CHR '','') (service_form.destinations f) in
      JObj [(''productId'', JStr (service_form.productId f)),
            (''serviceName'', JStr (js_trim (service_form.serviceName f))),
            (''basePath'', JStr (js_trim (service_form.basePath f))),
            (''version'', JStr (js_trim (service_form.version f))),
            (''description'', JStr (js_trim (service_form.description f))),
            (''ownerTeam'', JStr (js_trim (service_form.ownerTeam f))),
            (''clusterId'', JStr (js_trim (service_form.clusterId f))),
            (''destinations'', JArr (map JStr dests)),
            (''environment'', JStr (service_form.environment f)),
            (''isEnabled'', JBool (service_form.isEnabled f))])"

datatype services_ui =
    SetSearchTerm js_string
  | SetIsOpen bool
  | SetFormState "service_form \<Rightarrow> service_form"
  | HandleSubmit

fun services_handle :: "services_page \<Rightarrow> services_ui \<Rightarrow> services_page \<times> http_request list" where
  "services_handle s (SetSearchTerm v) = (s\<lparr>searchTerm := v\<rparr>, [])"
| "services_handle s (SetIsOpen b) = (s\<lparr>isOpen := b\<rparr>, [])"
| "services_handle s (SetFormState upd) = (s\<lparr>formState := upd (formState s)\<rparr>, [])"
| "services_handle s HandleSubmit =
     (s\<lparr>submitting := True, error := None\<rparr>, [createService (service_payload (formState s))])"

definition services_create_ok :: "ManagementService \<Rightarrow> services_page \<Rightarrow> services_page" where
  "services_create_ok created s =
     s\<lparr>services := created # services s, formState := empty_service_form, isOpen := False,
       submitting := False\<rparr>"

definition services_create_err :: "thrown \<Rightarrow> services_page \<Rightarrow> services_page" where
  "services_create_err err s =
     s\<lparr>error := Some (message_of ''Failed to create service.'' err), submitting := False\<rparr>"

subsection \<open>What is rendered\<close>

definition services_form_fields :: "services_page \<Rightarrow> services_ui node list" where
  "services_form_fields s =
     (let f = formState s in
      [Txt ''Product'',
       Select ''service-product'' (service_form.productId f) True False
         (([], ''Select product'') # map (\<lambda>p. (ManagementProduct.ident p, ManagementProduct.name p)) (products s))
         (\<lambda>v. SetFormState (\<lambda>prev. prev\<lparr>service_form.productId := v\<rparr>)),
       Txt ''Service name'',
       Field ''service-name'' (service_form.serviceName f) True False
         (\<lambda>v. SetFormState (\<lambda>prev. prev\<lparr>service_form.serviceName := v\<rparr>)),
       Txt ''Base path'',
       Field ''service-base'' (service_form.basePath f) True False
         (\<lambda>v. SetFormState (\<lambda>prev. prev\<lparr>service_form.basePath := v\<rparr>)),
       Txt ''Version'',
       Field ''service-version'' (service_form.version f) True False
         (\<lambda>v. SetFormState (\<lambda>prev. prev\<lparr>service_form.version := v\<rparr>)),
       Txt ''Owner team'',
       Field ''service-owner'' (service_form.ownerTeam f) True False
         (\<lambda>v. SetFormState (\<lambda>prev. prev\<lparr>service_form.ownerTeam := v\<rparr>)),
       Txt ''Cluster ID'',
       Field ''service-cluster'' (service_form.clusterId f) True False
         (\<lambda>v. SetFormState (\<lambda>prev. prev\<lparr>service_form.clusterId := v\<rparr>)),
       Txt ''Description'',
       Field ''service-description'' (service_form.description f) True False
         (\<lambda>v. SetFormState (\<lambda>prev. prev\<lparr>service_form.description := v\<rparr>)),
       Txt ''Destinations (comma-separated URLs)'',
       Field ''service-destinations'' (service_form.destinations f) True False
         (\<lambda>v. SetFormState (\<lambda>prev. prev\<lparr>service_form.destinations := v\<rparr>)),
       Txt ''Environment'',
       Select ''service-environment'' (service_form.environment f) False False
         [(''Dev'', ''Dev''), (''Uat'', ''UAT''), (''Staging'', ''Staging''), (''Prod'', ''Prod'')]
         (\<lambda>v. SetFormState (\<lambda>prev. prev\<lparr>service_form.environment := v\<rparr>)),
       Check ''service-enabled'' (service_form.isEnabled f) False
         (\<lambda>b. SetFormState (\<lambda>prev. prev\<lparr>service_form.isEnabled := b\<rparr>)),
       Txt ''Enabled'',
       show_error (error s)])"

definition services_row ::
  "(js_string \<Rightarrow> js_string) \<Rightarrow> (js_string \<rightharpoonup> js_string) \<Rightarrow> ManagementService \<Rightarrow> services_ui node" where
  "services_row fmt names service =
     (let dests = parseJsonArray fmt (Some (ManagementService.destinations service));
          env = environment_badge (ManagementService.environment service)
      in El [Txt (ManagementService.serviceName service),
             Txt (case names (ManagementService.productId service) of None \<Rightarrow> ''Unknown'' | Some n \<Rightarrow> n),
             Txt (ManagementService.basePath service),
             Txt (ManagementService.version service),
             Badge (fst env) (snd env),
             Badge (if ManagementService.isEnabled service then ''success'' else ''neutral'')
               (if ManagementService.isEnabled service then ''active'' else ''disabled''),
             when_node (length dests > 0) (Txt (nat_dec (length dests) @ '' destinations'')),
             Link (''/admin/services/'' @ ManagementService.ident service) ''Manage''])"

definition services_table :: "(js_string \<Rightarrow> js_string) \<Rightarrow> services_page \<Rightarrow> services_ui node" where
  "services_table fmt s =
     El [El (map Txt [''Service'', ''Product'', ''Base path'', ''Version'', ''Env'', ''Status'', ''Actions'']),
         (if loading s then Txt ''Loading services...''
          else if filteredServices s = [] then Txt ''No services match your search.''
          else El (map (services_row fmt (productLookup (products s))) (filteredServices s)))]"

definition services_view ::
  "auth_user option \<Rightarrow> (js_string \<Rightarrow> js_string) \<Rightarrow> services_page \<Rightarrow> services_ui node" where
  "services_view usr fmt s =
     El [SectionHeader ''Services'' (Some ''Manage service configs, encryption, and lifecycle.'')
           (PermissionGate usr (Some ''service.manage'') None nothing
             (FormDialog ''Create service'' (Some ''Add a new service and upstream destinations.'')
               ''Create service'' (isOpen s) SetIsOpen
               (if submitting s then ''Creating...'' else ''Create service'')
               (submitting s \<or> \<not> truthy_str (service_form.productId (formState s)))
               (Some HandleSubmit) (services_form_fields s)))
           None ''Back'',
         when_node (\<not> isOpen s) (show_error (error s)),
         Txt ''Search services'',
         Field ''services-search'' (searchTerm s) False False SetSearchTerm,
         services_table fmt s]"

subsection \<open>Reaching the handlers\<close>

lemma services_row_inert [simp]: "dispatch d (services_row fmt c p) = []"
  by (simp add: services_row_def Let_def when_node_def)

lemma services_table_inert [simp]: "dispatch d (services_table fmt s) = []"
  by (simp add: services_table_def)

definition service_form_complete :: "ManagementProduct list \<Rightarrow> service_form \<Rightarrow> bool" where
  "service_form_complete ps f \<longleftrightarrow>
     service_form.productId f \<noteq> [] \<and> service_form.productId f \<in> ManagementProduct.ident ` set ps
     \<and> service_form.serviceName f \<noteq> [] \<and> service_form.basePath f \<noteq> []
     \<and> service_form.version f \<noteq> [] \<and> service_form.description f \<noteq> []
     \<and> service_form.ownerTeam f \<noteq> [] \<and> service_form.clusterId f \<noteq> []
     \<and> service_form.destinations f \<noteq> []"

lemma services_submit_reached:
  assumes "HandleSubmit \<in> set (dispatch d (services_view usr fmt s))"
  shows "permitted usr ''service.manage'' \<and> isOpen s \<and> \<not> submitting s
    \<and> service_form_complete (products s) (formState s)"
  using assms
  by (simp add: services_view_def services_form_fields_def Let_def service_form_complete_def)
    (auto simp: image_iff)

lemma services_handle_shown: "services (fst (services_handle s u)) = services s"
  by (cases u) simp_all

lemma services_handle_sends:
  "u \<in> set (dispatch d (services_view usr fmt s)) \<Longrightarrow>
     snd (services_handle s u) = [] \<and> submitting (fst (services_handle s u)) = submitting s
     \<or> (\<exists>q. snd (services_handle s u) = [q]) \<and> \<not> submitting s
         \<and> submitting (fst (services_handle s u))"
  by (cases u) (auto dest: services_submit_reached)

definition service_request :: "auth_user option \<Rightarrow> http_request \<Rightarrow> bool" where
  "service_request usr q \<longleftrightarrow>
     permitted usr ''service.manage''
     \<and> (\<exists>ps f. q = createService (service_payload f) \<and> service_form_complete ps f)"

lemma services_handle_request:
  "u \<in> set (dispatch d (services_view usr fmt s)) \<Longrightarrow> q \<in> set (snd (services_handle s u)) \<Longrightarrow>
     service_request usr q"
  by (cases u) (auto simp: service_request_def dest: services_submit_reached)

text \<open>Before products are there, no event can choose one.\<close>

definition services_gate :: "services_page \<Rightarrow> bool" where
  "services_gate s \<longleftrightarrow> products s \<noteq> [] \<or> service_form.productId (formState s) \<noteq> []"

lemma services_edit_product:
  assumes "SetFormState upd \<in> set (dispatch d (services_view usr fmt s))" and "products s = []"
  shows "service_form.productId (upd f) \<in> {[], service_form.productId f}"
  using assms by (auto simp: services_view_def services_form_fields_def Let_def)

lemma services_gate_closed:
  "u \<in> set (dispatch d (services_view usr fmt s)) \<Longrightarrow> \<not> services_gate s \<Longrightarrow>
     \<not> services_gate (fst (services_handle s u)) \<and> snd (services_handle s u) = []"
  using services_edit_product [of _ d usr fmt s "formState s"]
  by (cases u) (auto simp: services_gate_def service_form_complete_def dest: services_submit_reached)

definition services_ops ::
  "auth_user option \<Rightarrow> (js_string \<Rightarrow> js_string) \<Rightarrow>
     (services_page, services_ui, ManagementService, ManagementProduct list) page_ops" where
  "services_ops usr fmt =
     \<lparr>op_view = services_view usr fmt, op_ui = services_handle, op_load_ok = services_load_ok,
      op_load_err = services_load_err, op_create_ok = services_create_ok,
      op_create_err = services_create_err\<rparr>"

interpretation services_list:
  gated_list_page "services_ops usr fmt" ManagementService.ident services submitting services_init
    "service_request usr" services_gate for usr fmt
  by unfold_locales
    (simp_all add: services_ops_def services_init_def services_load_ok_def services_load_err_def
      services_create_ok_def services_create_err_def services_handle_shown services_handle_sends
      services_handle_request services_gate_closed,
     simp_all add: services_gate_def empty_service_form_def)

lemma services_handle_loading: "loading (fst (services_handle s u)) = loading s"
  by (cases u) simp_all

interpretation services_settling:
  settling_page "services_ops usr fmt" ManagementService.ident services submitting services_init
    "service_request usr" loading for usr fmt
  by unfold_locales
    (simp_all add: services_ops_def services_init_def services_load_ok_def services_load_err_def
      services_create_ok_def services_create_err_def services_handle_loading split: prod.splits)

subsection \<open>Properties\<close>

text \<open>
  C1: What the services page shows, at any time while it is mounted and in whatever order answers
  arrive: no service twice and only services the server has; and all of them as soon as the load has
  arrived, no create is in flight and no answer was lost.
\<close>

theorem services_shown:
  "distinct (map ManagementService.ident rows0) \<Longrightarrow>
   reachable (services_ops usr fmt) ManagementService.ident (start_world services_init rows0) w \<Longrightarrow>
   mounted w \<Longrightarrow>
     distinct (map ManagementService.ident (services (page w)))
     \<and> set (services (page w)) \<subseteq> set (db w)
     \<and> (load w = Loaded \<and> creates w = [] \<and> lost w = [] \<longrightarrow> mset (services (page w)) = mset (db w))"
  by (rule services_list.shown_rows)

definition sample_service :: "js_string \<Rightarrow> ManagementService" where
  "sample_service i =
     \<lparr>ManagementService.ident = i, productId = ''p1'', serviceName = ''S'', basePath = ''/s'',
      version = ''v1'', description = ''D'', ownerTeam = ''T'', isEnabled = True, environment = Some (EnvNumber 0),
      clusterId = ''primary'', destinations = ''[]'', loadBalancingPolicy = [],
      healthCheckEnabled = False, healthCheckPath = None, healthCheckIntervalSeconds = 0,
      sessionAffinityEnabled = False, sessionAffinityCookieName = [], sessionAffinityTtlSeconds = 0,
      circuitBreakerEnabled = False, circuitBreakerThreshold = 0, circuitBreakerDurationSeconds = 0,
      retryEnabled = False, retryCount = 0, retryDelayMs = 0, connectionTimeoutSeconds = 0,
      requestTimeoutSeconds = 0, maxConnectionsPerDestination = 0, passiveHealthCheckEnabled = False,
      passiveHealthFailureThreshold = 0, passiveHealthReactivationSeconds = 0, enableTracing = False,
      enableMetrics = False, logSampling = ''1'', requiresJwt = False, requiredScopes = None,
      allowedClients = None, cacheEnabled = False, cacheTtlSeconds = 0, cacheKeyTemplate = None,
      emitEvents = False, topicPrefix = None, eventSchemaVersion = None, defaultCryptoAlgorithm = [],
      defaultKeySource = [], defaultIvSource = [], defaultEncoding = [], defaultRequireIv = False,
      createdAt = [], updatedAt = []\<rparr>"

definition listed_product :: ManagementProduct where
  "listed_product =
     \<lparr>ManagementProduct.ident = ''p1'', name = ''N'', description = ''D'', ownerTeam = ''T'',
      isEnabled = True, createdAt = [], updatedAt = []\<rparr>"

text \<open>The page is loaded, then the form is filled in with the given name and destinations.\<close>

definition create_service_actions ::
  "js_string \<Rightarrow> js_string \<Rightarrow> (ManagementService, ManagementProduct list) action list" where
  "create_service_actions nm dests =
     [ServerLoads [listed_product], LoadArrives,
      UserDoes (Click ''Create service'') 0, UserDoes (Choose ''service-product'' ''p1'') 0,
      UserDoes (TypeIn ''service-name'' nm) 0, UserDoes (TypeIn ''service-base'' ''/s'') 0,
      UserDoes (TypeIn ''service-owner'' ''T'') 0, UserDoes (TypeIn ''service-description'' ''D'') 0,
      UserDoes (TypeIn ''service-destinations'' dests) 0, UserDoes SubmitForm 0]"

definition run_services ::
  "(ManagementService, ManagementProduct list) action list \<Rightarrow> ManagementService list \<Rightarrow>
     (services_page, ManagementService, ManagementProduct list) world option" where
  "run_services as rows0 =
     run (services_ops (Some owner_user) id) ManagementService.ident as (start_world services_init rows0)"

lemma run_services_reachable:
  "run_services as rows0 = Some w \<Longrightarrow>
     reachable (services_ops (Some owner_user) id) ManagementService.ident
       (start_world services_init rows0) w"
  unfolding run_services_def by (rule run_start)

theorem services_shown_witness:
  "\<exists>w. run_services (create_service_actions ''S'' ''u, v'' @ [ServerStores 0 (sample_service ''s2''), CreateArrives 0])
          [sample_service ''s1''] = Some w
     \<and> services (page w) = [sample_service ''s2'', sample_service ''s1'']
     \<and> mset (services (page w)) = mset (db w)"
proof -
  have "map_option (\<lambda>w. (mounted w, load w = Loaded, creates w, lost w, services (page w)))
      (run_services (create_service_actions ''S'' ''u, v''
         @ [ServerStores 0 (sample_service ''s2''), CreateArrives 0]) [sample_service ''s1''])
    = Some (True, True, [], [], [sample_service ''s2'', sample_service ''s1''])"
    by code_simp
  then obtain w where w: "run_services (create_service_actions ''S'' ''u, v''
         @ [ServerStores 0 (sample_service ''s2''), CreateArrives 0]) [sample_service ''s1''] = Some w"
      and s: "mounted w" "load w = Loaded" "creates w = []" "lost w = []"
        "services (page w) = [sample_service ''s2'', sample_service ''s1'']"
    by auto
  have "distinct (map ManagementService.ident [sample_service ''s1''])" by simp
  from services_shown [OF this run_services_reachable [OF w] s(1)] s w show ?thesis by auto
qed

text \<open>
  C2: Never more than one create is in flight, and every request the page sends is a create by a user
  with \<open>service.manage\<close>, for a product, with destinations that are not empty, have no
  blanks around them and contain no comma.
\<close>

theorem services_requests:
  "reachable (services_ops usr fmt) ManagementService.ident (start_world services_init rows0) w \<Longrightarrow>
     length (creates w) \<le> 1
     \<and> (\<forall>q \<in> set (sent w). permitted usr ''service.manage'' \<and> rmethod q = POST \<and> url q = ''/services''
          \<and> (\<exists>b pid ds. body q = Some b
               \<and> get_prop b ''productId'' = Some (JStr pid) \<and> pid \<noteq> []
               \<and> get_prop b ''destinations'' = Some (JArr (map JStr ds))
               \<and> (\<forall>v \<in> set ds. trimmed v \<and> v \<noteq> [] \<and> CHR '','' \<notin> set v)))"
proof -
  assume r: "reachable (services_ops usr fmt) ManagementService.ident (start_world services_init rows0) w"
  have "permitted usr ''service.manage'' \<and> rmethod q = POST \<and> url q = ''/services''
          \<and> (\<exists>b pid ds. body q = Some b
               \<and> get_prop b ''productId'' = Some (JStr pid) \<and> pid \<noteq> []
               \<and> get_prop b ''destinations'' = Some (JArr (map JStr ds))
               \<and> (\<forall>v \<in> set ds. trimmed v \<and> v \<noteq> [] \<and> CHR '','' \<notin> set v))"
    if q: "service_request usr q" for q
  proof -
    from q obtain ps f where "q = createService (service_payload f)" "service_form_complete ps f"
        and "permitted usr ''service.manage''"
      by (auto simp: service_request_def)
    then show ?thesis
      by (auto simp: createService_def http_post_def service_payload_def Let_def get_prop_def
          service_form_complete_def dest: split_values_trimmed split_values_no_sep
          intro!: exI [of _ "split_values (CHR '','') (service_form.destinations f)"])
  qed
  with services_list.safe_traffic [OF r] show ?thesis by blast
qed

theorem services_requests_witness:
  "\<exists>w. run_services (create_service_actions ''S'' ''u, v'') [] = Some w \<and> length (sent w) = 1
     \<and> length (creates w) \<le> 1 \<and> (\<forall>q \<in> set (sent w). url q = ''/services'')"
proof -
  have "map_option (\<lambda>w. length (sent w)) (run_services (create_service_actions ''S'' ''u, v'') []) = Some 1"
    by code_simp
  then obtain w where w: "run_services (create_service_actions ''S'' ''u, v'') [] = Some w"
      and "length (sent w) = 1" by auto
  with services_requests [OF run_services_reachable [OF w]] show ?thesis by blast
qed

text \<open>
  The required fields are checked before they are trimmed: a user can create a service with
  an empty name and without any destination.
\<close>

theorem services_blank_required_fields:
  "\<exists>w q b. reachable (services_ops (Some owner_user) id) ManagementService.ident
             (start_world services_init []) w
     \<and> q \<in> set (sent w) \<and> body q = Some b
     \<and> get_prop b ''serviceName'' = Some (JStr []) \<and> get_prop b ''destinations'' = Some (JArr [])"
proof -
  have "map_option (\<lambda>w. map (\<lambda>q. map_option (\<lambda>b. (get_prop b ''serviceName'', get_prop b ''destinations''))
                              (body q)) (sent w))
      (run_services (create_service_actions '' '' '' , '') [])
    = Some [Some (Some (JStr []), Some (JArr []))]"
    by code_simp
  then obtain w where w: "run_services (create_service_actions '' '' '' , '') [] = Some w"
      and "map (\<lambda>q. map_option (\<lambda>b. (get_prop b ''serviceName'', get_prop b ''destinations'')) (body q)) (sent w)
           = [Some (Some (JStr []), Some (JArr []))]"
    by auto
  then obtain q where "sent w = [q]"
      and "map_option (\<lambda>b. (get_prop b ''serviceName'', get_prop b ''destinations'')) (body q)
           = Some (Some (JStr []), Some (JArr []))"
    by auto
  then show ?thesis using run_services_reachable [OF w] by auto
qed

text \<open>
  The search ignores case and the blanks around the term; a blank term shows every service;
  what is shown is in the order of the list; and a service is found by the name of its
  product.
\<close>

theorem services_search:
  "filteredServices (s\<lparr>searchTerm := t\<rparr>) = filteredServices (s\<lparr>searchTerm := js_lower (js_trim t)\<rparr>)
   \<and> (js_trim t = [] \<longrightarrow> filteredServices (s\<lparr>searchTerm := t\<rparr>) = services s)
   \<and> subseq (filteredServices s) (services s)
   \<and> (service \<in> set (services s) \<and> p \<in> set (products s) \<and> distinct (map ManagementProduct.ident (products s))
        \<and> ManagementService.productId service = ManagementProduct.ident p
      \<longrightarrow> service \<in> set (filteredServices (s\<lparr>searchTerm := ManagementProduct.name p\<rparr>)))"
proof -
  have "lookup_table ManagementProduct.ident ManagementProduct.name (products s)
      (ManagementProduct.ident p) = Some (ManagementProduct.name p)"
    if "p \<in> set (products s)" "distinct (map ManagementProduct.ident (products s))"
    using that by (intro lookup_table_distinct)
  then show ?thesis
    by (auto simp: filteredServices_def Let_def service_matches_def productLookup_def)
qed

theorem services_search_witness:
  "filteredServices (services_init\<lparr>services := [sample_service ''s1''], products := [listed_product],
      searchTerm := ''N''\<rparr>) = [sample_service ''s1'']"
proof -
  let ?s = "services_init\<lparr>services := [sample_service ''s1''], products := [listed_product]\<rparr>"
  have "sample_service ''s1'' \<in> set (filteredServices (?s\<lparr>searchTerm := ManagementProduct.name listed_product\<rparr>))"
    using services_search [where s = ?s and t = "[]" and service = "sample_service ''s1''" and p = listed_product]
    by (simp add: sample_service_def listed_product_def)
  moreover have "subseq (filteredServices (?s\<lparr>searchTerm := ''N''\<rparr>)) [sample_service ''s1'']"
    using services_search [where s = "?s\<lparr>searchTerm := ''N''\<rparr>" and t = "[]"] by simp
  then have "length (filteredServices (?s\<lparr>searchTerm := ''N''\<rparr>)) \<le> 1"
    by (auto dest: list_emb_length)
  ultimately show ?thesis
    by (cases "filteredServices (?s\<lparr>searchTerm := ''N''\<rparr>)") (auto simp: listed_product_def)
qed

text \<open>
  C4: Once the server and the network have nothing left to do, and that is after at most four steps
  of theirs, the services page neither loads nor saves, and if the load arrived and no answer was lost
  it shows exactly the services that are stored.
\<close>

theorem services_settle:
  assumes "distinct (map ManagementService.ident rows0)"
    and "reachable (services_ops usr fmt) ManagementService.ident (start_world services_init rows0) w"
    and "mounted w"
    and "env_run (services_ops usr fmt) ManagementService.ident n w v"
    and "\<not> (\<exists>v'. env_step (services_ops usr fmt) ManagementService.ident v v')"
  shows "n \<le> 4 \<and> \<not> loading (page v) \<and> \<not> submitting (page v)
    \<and> (load v = Loaded \<and> lost v = [] \<longrightarrow> mset (services (page v)) = mset (db v))"
proof -
  have z: "due v = 0" using assms(5) by (rule stuck_due_0)
  have r: "reachable (services_ops usr fmt) ManagementService.ident (start_world services_init rows0) v"
    using assms(4,2) by (rule env_run_reachable)
  have "mounted v" using env_run_mounted [OF assms(4)] assms(3) by simp
  with services_list.shown_rows [OF assms(1) r] services_settling.settled_quiet [OF assms(2-4) z]
    services_settling.run_bound [OF assms(2,4)] z show ?thesis
    by (simp add: due_0_iff)
qed

theorem services_settle_witness:
  "\<exists>w v. run_services (create_service_actions ''S'' ''u, v'') [sample_service ''s1''] = Some w
     \<and> run (services_ops (Some owner_user) id) ManagementService.ident
         [ServerStores 0 (sample_service ''s2''), CreateArrives 0] w = Some v
     \<and> \<not> loading (page v) \<and> \<not> submitting (page v) \<and> mset (services (page v)) = mset (db v)"
proof -
  let ?run = "run (services_ops (Some owner_user) id) ManagementService.ident
    [ServerStores 0 (sample_service ''s2''), CreateArrives 0]"
  have "Option.bind (run_services (create_service_actions ''S'' ''u, v'') [sample_service ''s1''])
      (\<lambda>w. map_option (\<lambda>v. (mounted w, due v, load v = Loaded, lost v)) (?run w)) = Some (True, 0, True, [])"
    by code_simp
  then obtain w v where w: "run_services (create_service_actions ''S'' ''u, v'') [sample_service ''s1''] = Some w"
      and v: "?run w = Some v" and s: "mounted w" "due v = 0" "load v = Loaded" "lost v = []"
    by (auto simp: Option.bind_eq_Some_conv)
  have e: "env_run (services_ops (Some owner_user) id) ManagementService.ident 2 w v"
    using run_env_run [OF v] by (simp add: numeral_2_eq_2)
  have "distinct (map ManagementService.ident [sample_service ''s1''])" by simp
  from services_settle [OF this run_services_reachable [OF w] s(1) e due_0_stuck [OF s(2)]] w v s
  show ?thesis by blast
qed

text \<open>
  C3: The services page refines a session over the stored services: it fetches them once, shows them,
  and saves one at a time, which is in the view when the answer arrives. Each step of the browser, the
  network and the server is at most one step of the session.
\<close>

theorem services_refine_session:
  "distinct (map ManagementService.ident rows0) \<Longrightarrow>
     session_of services (start_world services_init rows0) = Fetching
     \<and> (\<forall>w w'. reachable (services_ops usr fmt) ManagementService.ident (start_world services_init rows0) w \<longrightarrow>
          wstep (services_ops usr fmt) ManagementService.ident w w' \<longrightarrow>
            (db w', session_of services w') = (db w, session_of services w)
            \<or> session_step ManagementService.ident (db w, session_of services w) (db w', session_of services w'))"
  by (rule services_list.session_refinement)

theorem services_refine_session_witness:
  "\<exists>w. run_services (create_service_actions ''S'' ''u, v'') [sample_service ''s1''] = Some w
     \<and> session_of services w = Saving [sample_service ''s1'']
     \<and> (\<forall>w'. wstep (services_ops (Some owner_user) id) ManagementService.ident w w' \<longrightarrow>
          (db w', session_of services w') = (db w, session_of services w)
          \<or> session_step ManagementService.ident (db w, session_of services w) (db w', session_of services w'))"
proof -
  have "map_option (session_of services) (run_services (create_service_actions ''S'' ''u, v'') [sample_service ''s1''])
      = Some (Saving [sample_service ''s1''])"
    by code_simp
  then obtain w where w: "run_services (create_service_actions ''S'' ''u, v'') [sample_service ''s1''] = Some w"
      and "session_of services w = Saving [sample_service ''s1'']"
    by auto
  moreover have "distinct (map ManagementService.ident [sample_service ''s1''])" by simp
  ultimately show ?thesis
    using services_refine_session [of "[sample_service ''s1'']" "Some owner_user" id]
      run_services_reachable [OF w] by blast
qed

end
