(* ===== verification/Endpoints_Page.thy ===== *)
theory Endpoints_Page
  imports Admin_Api Route_Guards List_Progress
begin

section \<open>The endpoints page\<close>

text \<open>
  Models \<open>app/(protected)/admin/endpoints/page.tsx\<close>: two filters over the list, and a form that
  needs a service from the load.
\<close>

record endpoint_form =
  serviceId :: js_string
  endpointName :: js_string
  httpMethod :: js_string
  relativePath :: js_string
  upstreamPathTemplate :: js_string
  isEnabled :: bool

record endpoints_page =
  endpoints :: "ManagementEndpoint list"
  services :: "ManagementService list"
  loading :: bool
  submitting :: bool
  error :: "js_string option"
  isOpen :: bool
  searchTerm :: js_string
  selectedServiceId :: js_string
  formState :: endpoint_form

definition empty_endpoint_form :: endpoint_form where
  "empty_endpoint_form =
     \<lparr>endpoint_form.serviceId = [], endpoint_form.endpointName = [], endpoint_form.httpMethod = ''POST'',
      endpoint_form.relativePath = [], endpoint_form.upstreamPathTemplate = [],
      endpoint_form.isEnabled = True\<rparr>"

definition endpoints_init :: endpoints_page where
  "endpoints_init =
     \<lparr>endpoints = [], services = [], loading = True, submitting = False, error = None,
      isOpen = False, searchTerm = [], selectedServiceId = [], formState = empty_endpoint_form\<rparr>"

subsection \<open>Memoised values\<close>

definition serviceLookup :: "ManagementService list \<Rightarrow> (js_string \<rightharpoonup> js_string)" where
  "serviceLookup svcs = lookup_table ManagementService.ident serviceName svcs"

definition endpoint_visible :: "endpoints_page \<Rightarrow> ManagementEndpoint \<Rightarrow> bool" where
  "endpoint_visible s endpoint =
     (let trm = js_lower (js_trim (searchTerm s)) in
      if truthy_str (selectedServiceId s) \<and> ManagementEndpoint.serviceId endpoint \<noteq> selectedServiceId s
      then False
      else if \<not> truthy_str trm then True
      else
        let svc = js_lower (case serviceLookup (services s) (ManagementEndpoint.serviceId endpoint) of
                              None \<Rightarrow> [] | Some n \<Rightarrow> n)
        in js_includes (js_lower (ManagementEndpoint.endpointName endpoint)) trm
           \<or> js_includes (js_lower (ManagementEndpoint.httpMethod endpoint)) trm
           \<or> js_includes (js_lower (ManagementEndpoint.relativePath endpoint)) trm
           \<or> js_includes svc trm)"

definition filteredEndpoints :: "endpoints_page \<Rightarrow> ManagementEndpoint list" where
  "filteredEndpoints s = filter (endpoint_visible s) (endpoints s)"

subsection \<open>load and handleSubmit\<close>

definition endpoints_load_requests :: "http_request list" where
  "endpoints_load_requests = [getEndpoints None (Some False), getServices None (Some False)]"

definition endpoints_load_ok ::
  "ManagementEndpoint list \<Rightarrow> ManagementService list \<Rightarrow> endpoints_page \<Rightarrow> endpoints_page" where
  "endpoints_load_ok endpointsData servicesData s =
     s\<lparr>endpoints := endpointsData, services := servicesData, loading := False\<rparr>"

definition endpoints_load_err :: "thrown \<Rightarrow> endpoints_page \<Rightarrow> endpoints_page" where
  "endpoints_load_err err s =
     s\<lparr>error := Some (message_of ''Failed to load endpoints.'' err), loading := False\<rparr>"

definition endpoint_payload :: "endpoint_form \<Rightarrow> json" where
  "endpoint_payload f =
     JObj (defined_props
       [(''serviceId'', Some (JStr (endpoint_form.serviceId f))),
        (''endpointName'', Some (JStr (js_trim (endpoint_form.endpointName f)))),
        (''httpMethod'', Some (JStr (js_trim (endpoint_form.httpMethod f)))),
        (''relativePath'', Some (JStr (js_trim (endpoint_form.relativePath f)))),
        (''upstreamPathTemplate'',
           map_option JStr (or_undefined (js_trim (endpoint_form.upstreamPathTemplate f)))),
        (''isEnabled'', Some (JBool (endpoint_form.isEnabled f)))])"

datatype endpoints_ui =
    SetSearchTerm js_string
  | SetSelectedServiceId js_string
  | SetIsOpen bool
  | SetFormState "endpoint_form \<Rightarrow> endpoint_form"
  | HandleSubmit

fun endpoints_handle :: "endpoints_page \<Rightarrow> endpoints_ui \<Rightarrow> endpoints_page \<times> http_request list" where
  "endpoints_handle s (SetSearchTerm v) = (s\<lparr>searchTerm := v\<rparr>, [])"
| "endpoints_handle s (SetSelectedServiceId v) = (s\<lparr>selectedServiceId := v\<rparr>, [])"
| "endpoints_handle s (SetIsOpen b) = (s\<lparr>isOpen := b\<rparr>, [])"
| "endpoints_handle s (SetFormState upd) = (s\<lparr>formState := upd (formState s)\<rparr>, [])"
| "endpoints_handle s HandleSubmit =
     (s\<lparr>submitting := True, error := None\<rparr>, [createEndpoint (endpoint_payload (formState s))])"

definition endpoints_create_ok :: "ManagementEndpoint \<Rightarrow> endpoints_page \<Rightarrow> endpoints_page" where
  "endpoints_create_ok created s =
     s\<lparr>endpoints := created # endpoints s, formState := empty_endpoint_form, isOpen := False,
       submitting := False\<rparr>"

definition endpoints_create_err :: "thrown \<Rightarrow> endpoints_page \<Rightarrow> endpoints_page" where
  "endpoints_create_err err s =
     s\<lparr>error := Some (message_of ''Failed to create endpoint.'' err), submitting := False\<rparr>"

subsection \<open>What is rendered\<close>

definition service_options :: "js_string \<Rightarrow> endpoints_page \<Rightarrow> (js_string \<times> js_string) list" where
  "service_options placeholder s =
     ([], placeholder) # map (\<lambda>v. (ManagementService.ident v, serviceName v)) (services s)"

definition endpoints_form_fields :: "endpoints_page \<Rightarrow> endpoints_ui node list" where
  "endpoints_form_fields s =
     (let f = formState s in
      [Txt ''Service'',
       Select ''endpoint-service'' (endpoint_form.serviceId f) True False
         (service_options ''Select service'' s)
         (\<lambda>v. SetFormState (\<lambda>prev. prev\<lparr>endpoint_form.serviceId := v\<rparr>)),
       Txt ''Endpoint name'',
       Field ''endpoint-name'' (endpoint_form.endpointName f) True False
         (\<lambda>v. SetFormState (\<lambda>prev. prev\<lparr>endpoint_form.endpointName := v\<rparr>)),
       Txt ''Method'',
       Select ''endpoint-method'' (endpoint_form.httpMethod f) True False
         (map (\<lambda>m. (m, m)) [''GET'', ''POST'', ''PUT'', ''PATCH'', ''DELETE''])
         (\<lambda>v. SetFormState (\<lambda>prev. prev\<lparr>endpoint_form.httpMethod := v\<rparr>)),
       Txt ''Relative path'',
       Field ''endpoint-path'' (endpoint_form.relativePath f) True False
         (\<lambda>v. SetFormState (\<lambda>prev. prev\<lparr>endpoint_form.relativePath := v\<rparr>)),
       Txt ''Upstream path template (optional)'',
       Field ''endpoint-upstream'' (endpoint_form.upstreamPathTemplate f) False False
         (\<lambda>v. SetFormState (\<lambda>prev. prev\<lparr>endpoint_form.upstreamPathTemplate := v\<rparr>)),
       Check ''endpoint-enabled'' (endpoint_form.isEnabled f) False
         (\<lambda>b. SetFormState (\<lambda>prev. prev\<lparr>endpoint_form.isEnabled := b\<rparr>)),
       Txt ''Enabled'',
       show_error (error s)])"

definition endpoints_row ::
  "(js_string \<rightharpoonup> js_string) \<Rightarrow> ManagementEndpoint \<Rightarrow> endpoints_ui node" where
  "endpoints_row names endpoint =
     El [Txt (ManagementEndpoint.endpointName endpoint),
         Txt (ManagementEndpoint.httpMethod endpoint),
         Txt (ManagementEndpoint.relativePath endpoint),
         Txt (case names (ManagementEndpoint.serviceId endpoint) of None \<Rightarrow> ''Unknown'' | Some n \<Rightarrow> n),
         Txt (int_dec (timeoutMs endpoint) @ '' ms''),
         Badge (if ManagementEndpoint.isEnabled endpoint then ''success'' else ''neutral'')
           (if ManagementEndpoint.isEnabled endpoint then ''active'' else ''disabled''),
         Link (''/admin/endpoints/'' @ ManagementEndpoint.ident endpoint) ''Manage'']"

definition endpoints_table :: "endpoints_page \<Rightarrow> endpoints_ui node" where
  "endpoints_table s =
     El [El (map Txt [''Endpoint'', ''Method'', ''Route'', ''Service'', ''Timeout'', ''Status'', ''Actions'']),
         (if loading s then Txt ''Loading endpoints...''
          else if filteredEndpoints s = [] then
            Txt (if truthy_str (selectedServiceId s)
                 then ''No endpoints for this service match your filters.''
                 else if truthy_str (searchTerm s) then ''No endpoints match your search.''
                 else ''No endpoints yet. Create the first endpoint above.'')
          else El (map (endpoints_row (serviceLookup (services s))) (filteredEndpoints s)))]"

definition endpoints_filters :: "endpoints_page \<Rightarrow> endpoints_ui node" where
  "endpoints_filters s =
     El [Txt ''Search endpoints'',
         Field ''endpoints-search'' (searchTerm s) False False SetSearchTerm,
         Txt ''Filter by service'',
         Select ''endpoint-service-filter'' (selectedServiceId s) False False
           (service_options ''All services'' s) SetSelectedServiceId,
         when_node (truthy_str (selectedServiceId s))
           (Btn ''Clear filter'' False (Some (SetSelectedServiceId [])))]"

definition endpoints_view :: "auth_user option \<Rightarrow> endpoints_page \<Rightarrow> endpoints_ui node" where
  "endpoints_view usr s =
     El [SectionHeader ''Endpoints'' (Some ''Manage routes, security, and policies across services.'')
           (PermissionGate usr (Some ''endpoint.manage'') None nothing
             (FormDialog ''Create endpoint'' (Some ''Add a new endpoint to a service.'')
               ''Create endpoint'' (isOpen s) SetIsOpen
               (if submitting s then ''Creating...'' else ''Create endpoint'')
               (submitting s \<or> \<not> truthy_str (endpoint_form.serviceId (formState s)))
               (Some HandleSubmit) (endpoints_form_fields s)))
           None ''Back'',
         when_node (\<not> isOpen s) (show_error (error s)),
         endpoints_filters s,
         endpoints_table s]"

subsection \<open>Reaching the handlers\<close>

lemma endpoints_row_inert [simp]: "dispatch d (endpoints_row c p) = []"
  by (simp add: endpoints_row_def)

lemma endpoints_table_inert [simp]: "dispatch d (endpoints_table s) = []"
  by (simp add: endpoints_table_def)

definition endpoint_form_complete :: "ManagementService list \<Rightarrow> endpoint_form \<Rightarrow> bool" where
  "endpoint_form_complete svcs f \<longleftrightarrow>
     endpoint_form.serviceId f \<noteq> [] \<and> endpoint_form.serviceId f \<in> ManagementService.ident ` set svcs
     \<and> endpoint_form.endpointName f \<noteq> [] \<and> endpoint_form.relativePath f \<noteq> []
     \<and> endpoint_form.httpMethod f \<in> {''GET'', ''POST'', ''PUT'', ''PATCH'', ''DELETE''}"

lemma endpoints_submit_reached:
  assumes "HandleSubmit \<in> set (dispatch d (endpoints_view usr s))"
  shows "permitted usr ''endpoint.manage'' \<and> isOpen s \<and> \<not> submitting s
    \<and> endpoint_form_complete (services s) (formState s)"
  using assms
  by (simp add: endpoints_view_def endpoints_form_fields_def endpoints_filters_def Let_def
        endpoint_form_complete_def service_options_def)
    (auto simp: image_iff)

lemma endpoints_handle_shown: "endpoints (fst (endpoints_handle s u)) = endpoints s"
  by (cases u) simp_all

lemma endpoints_handle_sends:
  "u \<in> set (dispatch d (endpoints_view usr s)) \<Longrightarrow>
     snd (endpoints_handle s u) = [] \<and> submitting (fst (endpoints_handle s u)) = submitting s
     \<or> (\<exists>q. snd (endpoints_handle s u) = [q]) \<and> \<not> submitting s
         \<and> submitting (fst (endpoints_handle s u))"
  by (cases u) (auto dest: endpoints_submit_reached)

definition endpoint_request :: "auth_user option \<Rightarrow> http_request \<Rightarrow> bool" where
  "endpoint_request usr q \<longleftrightarrow>
     permitted usr ''endpoint.manage''
     \<and> (\<exists>svcs f. q = createEndpoint (endpoint_payload f) \<and> endpoint_form_complete svcs f)"

lemma endpoints_handle_request:
  "u \<in> set (dispatch d (endpoints_view usr s)) \<Longrightarrow> q \<in> set (snd (endpoints_handle s u)) \<Longrightarrow>
     endpoint_request usr q"
  by (cases u) (auto simp: endpoint_request_def dest: endpoints_submit_reached)

definition endpoints_gate :: "endpoints_page \<Rightarrow> bool" where
  "endpoints_gate s \<longleftrightarrow> services s \<noteq> [] \<or> endpoint_form.serviceId (formState s) \<noteq> []"

lemma endpoints_edit_service:
  assumes "SetFormState upd \<in> set (dispatch d (endpoints_view usr s))" and "services s = []"
  shows "endpoint_form.serviceId (upd f) \<in> {[], endpoint_form.serviceId f}"
  using assms
  by (auto simp: endpoints_view_def endpoints_form_fields_def endpoints_filters_def Let_def
      service_options_def)

lemma endpoints_gate_closed:
  "u \<in> set (dispatch d (endpoints_view usr s)) \<Longrightarrow> \<not> endpoints_gate s \<Longrightarrow>
     \<not> endpoints_gate (fst (endpoints_handle s u)) \<and> snd (endpoints_handle s u) = []"
  using endpoints_edit_service [of _ d usr s "formState s"]
  by (cases u) (auto simp: endpoints_gate_def endpoint_form_complete_def dest: endpoints_submit_reached)

definition endpoints_ops ::
  "auth_user option \<Rightarrow> (endpoints_page, endpoints_ui, ManagementEndpoint, ManagementService list) page_ops" where
  "endpoints_ops usr =
     \<lparr>op_view = endpoints_view usr, op_ui = endpoints_handle, op_load_ok = endpoints_load_ok,
      op_load_err = endpoints_load_err, op_create_ok = endpoints_create_ok,
      op_create_err = endpoints_create_err\<rparr>"

interpretation endpoints_list:
  gated_list_page "endpoints_ops usr" ManagementEndpoint.ident endpoints submitting endpoints_init
    "endpoint_request usr" endpoints_gate for usr
  by unfold_locales
    (simp_all add: endpoints_ops_def endpoints_init_def endpoints_load_ok_def endpoints_load_err_def
      endpoints_create_ok_def endpoints_create_err_def endpoints_handle_shown endpoints_handle_sends
      endpoints_handle_request endpoints_gate_closed,
     simp_all add: endpoints_gate_def empty_endpoint_form_def)

lemma endpoints_handle_loading: "loading (fst (endpoints_handle s u)) = loading s"
  by (cases u) simp_all

interpretation endpoints_settling:
  settling_page "endpoints_ops usr" ManagementEndpoint.ident endpoints submitting endpoints_init
    "endpoint_request usr" loading for usr
  by unfold_locales
    (simp_all add: endpoints_ops_def endpoints_init_def endpoints_load_ok_def endpoints_load_err_def
      endpoints_create_ok_def endpoints_create_err_def endpoints_handle_loading split: prod.splits)

subsection \<open>Properties\<close>

text \<open>
  C14: The endpoints page shows, at any time while it is mounted, no endpoint twice and only
  endpoints the server has, and all of them once the load has arrived, no create is in flight
  and no answer was lost.
\<close>

theorem endpoints_shown:
  "distinct (map ManagementEndpoint.ident rows0) \<Longrightarrow>
   reachable (endpoints_ops usr) ManagementEndpoint.ident (start_world endpoints_init rows0) w \<Longrightarrow>
   mounted w \<Longrightarrow>
     distinct (map ManagementEndpoint.ident (endpoints (page w)))
     \<and> set (endpoints (page w)) \<subseteq> set (db w)
     \<and> (load w = Loaded \<and> creates w = [] \<and> lost w = [] \<longrightarrow> mset (endpoints (page w)) = mset (db w))"
  by (rule endpoints_list.shown_rows)

definition sample_endpoint :: ManagementEndpoint where
  "sample_endpoint =
     \<lparr>ManagementEndpoint.ident = ''e1'', serviceId = ''s1'', endpointName = ''Create transfer'',
      httpMethod = ''POST'', relativePath = ''/transfers'', upstreamPathTemplate = None,
      isEnabled = True, timeoutMs = 1000, maxRetries = 0, idempotentOnly = False,
      requestSizeLimitBytes = 0, responseSizeLimitBytes = 0, payloadExpectation = [],
      headersToAdd = None, headersToRemove = None, rateLimitPolicy = None, cryptoAlgorithm = None,
      keySource = None, ivSource = None, encoding = None, requireIv = None, encryptRequest = False,
      encryptResponse = False, createdAt = [], updatedAt = []\<rparr>"

theorem endpoints_shown_witness:
  "\<exists>w. run (endpoints_ops None) ManagementEndpoint.ident [ServerLoads [], LoadArrives]
         (start_world endpoints_init [sample_endpoint]) = Some w
     \<and> endpoints (page w) = [sample_endpoint] \<and> mset (endpoints (page w)) = mset (db w)"
proof -
  obtain w where w: "run (endpoints_ops None) ManagementEndpoint.ident [ServerLoads [], LoadArrives]
         (start_world endpoints_init [sample_endpoint]) = Some w"
      and s: "mounted w" "load w = Loaded" "creates w = []" "lost w = []" "endpoints (page w) = [sample_endpoint]"
    by (simp add: start_world_def endpoints_ops_def endpoints_load_ok_def)
  have "distinct (map ManagementEndpoint.ident [sample_endpoint])" by simp
  from endpoints_shown [OF this run_start [OF w] s(1)] s w show ?thesis by auto
qed

text \<open>
  The two filters of the page together: with a service selected only its endpoints are shown,
  with a blank search term all of those, and selecting no service and searching for an endpoint's own
  name, method or path shows it.
\<close>

theorem endpoints_filters_meet:
  "set (filteredEndpoints s)
     = {e \<in> set (endpoints s).
          (selectedServiceId s \<noteq> [] \<longrightarrow> ManagementEndpoint.serviceId e = selectedServiceId s)
          \<and> endpoint_visible (s\<lparr>selectedServiceId := []\<rparr>) e}
   \<and> (js_trim (searchTerm s) = [] \<longrightarrow> endpoint_visible (s\<lparr>selectedServiceId := []\<rparr>) e)
   \<and> (searchTerm s \<in> {ManagementEndpoint.endpointName e, ManagementEndpoint.httpMethod e,
                       ManagementEndpoint.relativePath e}
        \<longrightarrow> endpoint_visible (s\<lparr>selectedServiceId := []\<rparr>) e)"
  by (auto simp: filteredEndpoints_def endpoint_visible_def Let_def)

theorem endpoints_filters_meet_witness:
  "endpoint_visible (endpoints_init\<lparr>searchTerm := ManagementEndpoint.httpMethod sample_endpoint\<rparr>) sample_endpoint"
  using endpoints_filters_meet [where s = "endpoints_init\<lparr>searchTerm := ManagementEndpoint.httpMethod sample_endpoint\<rparr>"
      and e = sample_endpoint]
  by (simp add: endpoints_init_def)

end
