(* ===== verification/Clients_Page.thy ===== *)
theory Clients_Page
  imports Admin_Api Route_Guards List_Progress
begin

section \<open>The clients page\<close>

text \<open>
  Models \<open>app/(protected)/admin/clients/page.tsx\<close>. \<open>locale_date\<close> stands for
  \<open>new Date(x).toLocaleString()\<close>, which depends on the browser's locale and time zone.
\<close>

record client_form =
  clientId :: js_string
  clientName :: js_string
  clientSecret :: js_string
  allowedIpAddresses :: js_string
  isEnabled :: bool

record clients_page =
  clients :: "ManagementClient list"
  loading :: bool
  submitting :: bool
  error :: "js_string option"
  isOpen :: bool
  formState :: client_form

definition empty_client_form :: client_form where
  "empty_client_form =
     \<lparr>client_form.clientId = [], client_form.clientName = [], client_form.clientSecret = [],
      client_form.allowedIpAddresses = [], client_form.isEnabled = True\<rparr>"

definition clients_init :: clients_page where
  "clients_init =
     \<lparr>clients = [], loading = True, submitting = False, error = None, isOpen = False,
      formState = empty_client_form\<rparr>"

subsection \<open>load and handleSubmit\<close>

definition clients_load_requests :: "http_request list" where
  "clients_load_requests = [getClients (Some False)]"

definition clients_load_ok :: "ManagementClient list \<Rightarrow> unit \<Rightarrow> clients_page \<Rightarrow> clients_page" where
  "clients_load_ok data aux s = s\<lparr>clients := data, loading := False\<rparr>"

definition clients_load_err :: "thrown \<Rightarrow> clients_page \<Rightarrow> clients_page" where
  "clients_load_err err s =
     s\<lparr>error := Some (message_of ''Failed to load clients.'' err), loading := False\<rparr>"

definition client_payload :: "client_form \<Rightarrow> json" where
  "client_payload f =
     (let allowedIps = split_values (CHR '','') (client_form.allowedIpAddresses f) in
      JObj (defined_props
        [(''clientId'', Some (JStr (js_trim (client_form.clientId f)))),
         (''clientName'', Some (JStr (js_trim (client_form.clientName f)))),
         (''clientSecret'', Some (JStr (js_trim (client_form.clientSecret f)))),
         (''allowedIpAddresses'',
            if allowedIps \<noteq> [] then Some (JArr (map JStr allowedIps)) else None),
         (''isEnabled'', Some (JBool (client_form.isEnabled f)))]))"

datatype clients_ui =
    SetIsOpen bool
  | SetFormState "client_form \<Rightarrow> client_form"
  | HandleSubmit

fun clients_handle :: "clients_page \<Rightarrow> clients_ui \<Rightarrow> clients_page \<times> http_request list" where
  "clients_handle s (SetIsOpen b) = (s\<lparr>isOpen := b\<rparr>, [])"
| "clients_handle s (SetFormState upd) = (s\<lparr>formState := upd (formState s)\<rparr>, [])"
| "clients_handle s HandleSubmit =
     (s\<lparr>submitting := True, error := None\<rparr>, [createClient (client_payload (formState s))])"

definition clients_create_ok :: "ManagementClient \<Rightarrow> clients_page \<Rightarrow> clients_page" where
  "clients_create_ok created s =
     s\<lparr>clients := created # clients s, formState := empty_client_form, isOpen := False,
       submitting := False\<rparr>"

definition clients_create_err :: "thrown \<Rightarrow> clients_page \<Rightarrow> clients_page" where
  "clients_create_err err s =
     s\<lparr>error := Some (message_of ''Failed to create client.'' err), submitting := False\<rparr>"

subsection \<open>What is rendered\<close>

definition clients_form_fields :: "clients_page \<Rightarrow> clients_ui node list" where
  "clients_form_fields s =
     (let f = formState s in
      [Txt ''Client ID'',
       Field ''client-id'' (client_form.clientId f) True False
         (\<lambda>v. SetFormState (\<lambda>prev. prev\<lparr>client_form.clientId := v\<rparr>)),
       Txt ''Client name'',
       Field ''client-name'' (client_form.clientName f) True False
         (\<lambda>v. SetFormState (\<lambda>prev. prev\<lparr>client_form.clientName := v\<rparr>)),
       Txt ''Client secret'',
       Field ''client-secret'' (client_form.clientSecret f) True False
         (\<lambda>v. SetFormState (\<lambda>prev. prev\<lparr>client_form.clientSecret := v\<rparr>)),
       Txt ''Allowed IPs (comma-separated)'',
       Field ''client-ips'' (client_form.allowedIpAddresses f) False False
         (\<lambda>v. SetFormState (\<lambda>prev. prev\<lparr>client_form.allowedIpAddresses := v\<rparr>)),
       Check ''client-enabled'' (client_form.isEnabled f) False
         (\<lambda>b. SetFormState (\<lambda>prev. prev\<lparr>client_form.isEnabled := b\<rparr>)),
       Txt ''Enabled'',
       show_error (error s)])"

definition clients_row ::
  "(js_string \<Rightarrow> js_string) \<Rightarrow> (js_string \<Rightarrow> js_string) \<Rightarrow> ManagementClient \<Rightarrow> clients_ui node" where
  "clients_row fmt locale_date client =
     (let allowlist = parseJsonArray fmt (ManagementClient.allowedIpAddresses client) in
      El [Txt (ManagementClient.clientName client),
          Txt (ManagementClient.clientId client),
          Txt (if allowlist \<noteq> [] then js_join '', '' allowlist else ''-''),
          Badge (if ManagementClient.isEnabled client then ''success'' else ''neutral'')
            (if ManagementClient.isEnabled client then ''Active'' else ''Disabled''),
          Txt (case lastAccessedAt client of
                 None \<Rightarrow> ''-''
               | Some t \<Rightarrow> if truthy_str t then locale_date t else ''-'')])"

definition clients_table ::
  "(js_string \<Rightarrow> js_string) \<Rightarrow> (js_string \<Rightarrow> js_string) \<Rightarrow> clients_page \<Rightarrow> clients_ui node" where
  "clients_table fmt locale_date s =
     El [El (map Txt [''Client'', ''Allowlist'', ''Status'', ''Last access'']),
         (if loading s then Txt ''Loading clients...''
          else if clients s = [] then Txt ''No clients yet. Create one above.''
          else El (map (clients_row fmt locale_date) (clients s)))]"

definition clients_view ::
  "auth_user option \<Rightarrow> (js_string \<Rightarrow> js_string) \<Rightarrow> (js_string \<Rightarrow> js_string) \<Rightarrow>
     clients_page \<Rightarrow> clients_ui node" where
  "clients_view usr fmt locale_date s =
     El [SectionHeader ''Clients'' (Some ''Register API clients and manage allowlists.'')
           (PermissionGate usr (Some ''client.manage'') None nothing
             (FormDialog ''Create client'' (Some ''Register a new client and secret.'')
               ''Create client'' (isOpen s) SetIsOpen
               (if submitting s then ''Creating...'' else ''Create client'')
               (submitting s) (Some HandleSubmit) (clients_form_fields s)))
           None ''Back'',
         when_node (\<not> isOpen s) (show_error (error s)),
         clients_table fmt locale_date s]"

subsection \<open>Reaching the handlers\<close>

lemma clients_row_inert [simp]: "dispatch d (clients_row fmt ld p) = []"
  by (simp add: clients_row_def Let_def)

lemma clients_table_inert [simp]: "dispatch d (clients_table fmt ld s) = []"
  by (simp add: clients_table_def)

lemma clients_submit_reached:
  assumes "HandleSubmit \<in> set (dispatch d (clients_view usr fmt ld s))"
  shows "permitted usr ''client.manage'' \<and> isOpen s \<and> \<not> submitting s
    \<and> client_form.clientId (formState s) \<noteq> [] \<and> client_form.clientName (formState s) \<noteq> []
    \<and> client_form.clientSecret (formState s) \<noteq> []"
  using assms by (simp add: clients_view_def clients_form_fields_def Let_def)

lemma clients_handle_shown: "clients (fst (clients_handle s u)) = clients s"
  by (cases u) simp_all

lemma clients_handle_sends:
  "u \<in> set (dispatch d (clients_view usr fmt ld s)) \<Longrightarrow>
     snd (clients_handle s u) = [] \<and> submitting (fst (clients_handle s u)) = submitting s
     \<or> (\<exists>q. snd (clients_handle s u) = [q]) \<and> \<not> submitting s
         \<and> submitting (fst (clients_handle s u))"
  by (cases u) (auto dest: clients_submit_reached)

definition client_request :: "auth_user option \<Rightarrow> http_request \<Rightarrow> bool" where
  "client_request usr q \<longleftrightarrow>
     permitted usr ''client.manage'' \<and> (\<exists>f. q = createClient (client_payload f))"

lemma clients_handle_request:
  "u \<in> set (dispatch d (clients_view usr fmt ld s)) \<Longrightarrow> q \<in> set (snd (clients_handle s u)) \<Longrightarrow>
     client_request usr q"
  by (cases u) (auto simp: client_request_def dest: clients_submit_reached)

definition clients_ops ::
  "auth_user option \<Rightarrow> (js_string \<Rightarrow> js_string) \<Rightarrow> (js_string \<Rightarrow> js_string) \<Rightarrow>
     (clients_page, clients_ui, ManagementClient, unit) page_ops" where
  "clients_ops usr fmt ld =
     \<lparr>op_view = clients_view usr fmt ld, op_ui = clients_handle, op_load_ok = clients_load_ok,
      op_load_err = clients_load_err, op_create_ok = clients_create_ok,
      op_create_err = clients_create_err\<rparr>"

interpretation clients_list:
  list_page "clients_ops usr fmt ld" ManagementClient.ident clients submitting clients_init
    "client_request usr" for usr fmt ld
  by unfold_locales
    (simp_all add: clients_ops_def clients_init_def clients_load_ok_def clients_load_err_def
      clients_create_ok_def clients_create_err_def clients_handle_shown clients_handle_sends
      clients_handle_request)

lemma clients_handle_loading: "loading (fst (clients_handle s u)) = loading s"
  by (cases u) simp_all

interpretation clients_settling:
  settling_page "clients_ops usr fmt ld" ManagementClient.ident clients submitting clients_init
    "client_request usr" loading for usr fmt ld
  by unfold_locales
    (simp_all add: clients_ops_def clients_init_def clients_load_ok_def clients_load_err_def
      clients_create_ok_def clients_create_err_def clients_handle_loading split: prod.splits)

lemma client_payload_ips:
  "get_prop (client_payload f) ''allowedIpAddresses'' = None
   \<or> (\<exists>ips. get_prop (client_payload f) ''allowedIpAddresses'' = Some (JArr (map JStr ips)) \<and> ips \<noteq> []
         \<and> (\<forall>v \<in> set ips. trimmed v \<and> v \<noteq> [] \<and> CHR '','' \<notin> set v))"
proof (cases "split_values (CHR '','') (client_form.allowedIpAddresses f) = []")
  case True
  then show ?thesis by (simp add: client_payload_def Let_def get_prop_def defined_props_def)
next
  case False
  then show ?thesis
    by (intro disjI2 exI [of _ "split_values (CHR '','') (client_form.allowedIpAddresses f)"])
      (auto simp: client_payload_def Let_def get_prop_def defined_props_def
        dest: split_values_trimmed split_values_no_sep)
qed

subsection \<open>Properties\<close>

text \<open>
  C33: The clients page has at most one create in flight, and all it sends are creates of clients by
  a user with \<open>client.manage\<close>; the list of allowed addresses is left out of a create or
  holds at least one address, each trimmed, not empty and without a comma.
\<close>

theorem clients_requests:
  "reachable (clients_ops usr fmt ld) ManagementClient.ident (start_world clients_init rows0) w \<Longrightarrow>
     length (creates w) \<le> 1
     \<and> (\<forall>q \<in> set (sent w). permitted usr ''client.manage'' \<and> rmethod q = POST \<and> url q = ''/clients''
          \<and> (\<exists>b. body q = Some b
               \<and> (get_prop b ''allowedIpAddresses'' = None
                  \<or> (\<exists>ips. get_prop b ''allowedIpAddresses'' = Some (JArr (map JStr ips)) \<and> ips \<noteq> []
                        \<and> (\<forall>v \<in> set ips. trimmed v \<and> v \<noteq> [] \<and> CHR '','' \<notin> set v)))))"
proof -
  assume r: "reachable (clients_ops usr fmt ld) ManagementClient.ident (start_world clients_init rows0) w"
  have "permitted usr ''client.manage'' \<and> rmethod q = POST \<and> url q = ''/clients''
          \<and> (\<exists>b. body q = Some b
               \<and> (get_prop b ''allowedIpAddresses'' = None
                  \<or> (\<exists>ips. get_prop b ''allowedIpAddresses'' = Some (JArr (map JStr ips)) \<and> ips \<noteq> []
                        \<and> (\<forall>v \<in> set ips. trimmed v \<and> v \<noteq> [] \<and> CHR '','' \<notin> set v))))"
    if "client_request usr q" for q
    using that client_payload_ips by (auto simp: client_request_def createClient_def http_post_def)
  with clients_list.safe_traffic [OF r] show ?thesis by blast
qed

definition create_client_actions :: "(ManagementClient, unit) action list" where
  "create_client_actions =
     [UserDoes (Click ''Create client'') 0, UserDoes (TypeIn ''client-id'' ''c'') 0,
      UserDoes (TypeIn ''client-name'' ''C'') 0, UserDoes (TypeIn ''client-secret'' ''x'') 0,
      UserDoes (TypeIn ''client-ips'' ''10.0.0.1, '') 0, UserDoes SubmitForm 0]"

theorem clients_requests_witness:
  "\<exists>w. run (clients_ops (Some owner_user) id id) ManagementClient.ident create_client_actions
          (start_world clients_init []) = Some w
     \<and> length (sent w) = 1 \<and> length (creates w) \<le> 1 \<and> (\<forall>q \<in> set (sent w). url q = ''/clients'')"
proof -
  have "map_option (\<lambda>w. length (sent w)) (run (clients_ops (Some owner_user) id id)
      ManagementClient.ident create_client_actions (start_world clients_init [])) = Some 1"
    by code_simp
  then obtain w where w: "run (clients_ops (Some owner_user) id id) ManagementClient.ident
      create_client_actions (start_world clients_init []) = Some w" and "length (sent w) = 1"
    by auto
  with clients_requests [OF run_start [OF w]] show ?thesis by blast
qed

end
