(* ===== verification/Client_Permissions_Page.thy ===== *)
theory Client_Permissions_Page
  imports Admin_Api Route_Guards List_Progress
begin

section \<open>The client permissions page\<close>

text \<open>
  Models \<open>app/(protected)/admin/client-permissions/page.tsx\<close>: a grant needs a client and an endpoint,
  both chosen among those of the load.
\<close>

record permission_form =
  clientId :: js_string
  endpointId :: js_string
  expiresAt :: js_string
  isEnabled :: bool

record permissions_page =
  permissions :: "ManagementClientPermission list"
  clients :: "ManagementClient list"
  endpoints :: "ManagementEndpoint list"
  loading :: bool
  submitting :: bool
  error :: "js_string option"
  isOpen :: bool
  formState :: permission_form

definition empty_permission_form :: permission_form where
  "empty_permission_form =
     \<lparr>permission_form.clientId = [], permission_form.endpointId = [], permission_form.expiresAt = [],
      permission_form.isEnabled = True\<rparr>"

definition permissions_init :: permissions_page where
  "permissions_init =
     \<lparr>permissions = [], clients = [], endpoints = [], loading = True, submitting = False,
      error = None, isOpen = False, formState = empty_permission_form\<rparr>"

subsection \<open>Memoised values\<close>

definition clientLookup :: "ManagementClient list \<Rightarrow> (js_string \<rightharpoonup> js_string)" where
  "clientLookup cs = lookup_table ManagementClient.ident ManagementClient.clientName cs"

definition route_text :: "ManagementEndpoint \<Rightarrow> js_string" where
  "route_text endpoint = httpMethod endpoint @ '' '' @ relativePath endpoint"

definition endpointLookup :: "ManagementEndpoint list \<Rightarrow> (js_string \<rightharpoonup> js_string)" where
  "endpointLookup es = lookup_table ManagementEndpoint.ident route_text es"

subsection \<open>load and handleSubmit\<close>

definition permissions_load_requests :: "http_request list" where
  "permissions_load_requests =
     [getClientPermissions None, getClients (Some False), getEndpoints None (Some False)]"

definition permissions_load_ok ::
  "ManagementClientPermission list \<Rightarrow> ManagementClient list \<times> ManagementEndpoint list \<Rightarrow>
     permissions_page \<Rightarrow> permissions_page" where
  "permissions_load_ok permissionsData aux s =
     (case aux of (clientsData, endpointsData) \<Rightarrow>
        s\<lparr>permissions := permissionsData, clients := clientsData, endpoints := endpointsData,
          loading := False\<rparr>)"

definition permissions_load_err :: "thrown \<Rightarrow> permissions_page \<Rightarrow> permissions_page" where
  "permissions_load_err err s =
     s\<lparr>error := Some (message_of ''Failed to load client permissions.'' err), loading := False\<rparr>"

definition permission_payload :: "permission_form \<Rightarrow> json" where
  "permission_payload f =
     JObj (defined_props
       [(''clientId'', Some (JStr (permission_form.clientId f))),
        (''endpointId'', Some (JStr (permission_form.endpointId f))),
        (''isEnabled'', Some (JBool (permission_form.isEnabled f))),
        (''expiresAt'', map_option JStr (or_undefined (permission_form.expiresAt f)))])"

datatype permissions_ui =
    SetIsOpen bool
  | SetFormState "permission_form \<Rightarrow> permission_form"
  | HandleSubmit

fun permissions_handle ::
  "permissions_page \<Rightarrow> permissions_ui \<Rightarrow> permissions_page \<times> http_request list" where
  "permissions_handle s (SetIsOpen b) = (s\<lparr>isOpen := b\<rparr>, [])"
| "permissions_handle s (SetFormState upd) = (s\<lparr>formState := upd (formState s)\<rparr>, [])"
| "permissions_handle s HandleSubmit =
     (s\<lparr>submitting := True, error := None\<rparr>,
      [createClientPermission (permission_payload (formState s))])"

definition permissions_create_ok ::
  "ManagementClientPermission \<Rightarrow> permissions_page \<Rightarrow> permissions_page" where
  "permissions_create_ok created s =
     s\<lparr>permissions := created # permissions s, formState := empty_permission_form, isOpen := False,
       submitting := False\<rparr>"

definition permissions_create_err :: "thrown \<Rightarrow> permissions_page \<Rightarrow> permissions_page" where
  "permissions_create_err err s =
     s\<lparr>error := Some (message_of ''Failed to create client permission.'' err), submitting := False\<rparr>"

subsection \<open>What is rendered\<close>

definition permissions_form_fields :: "permissions_page \<Rightarrow> permissions_ui node list" where
  "permissions_form_fields s =
     (let f = formState s in
      [Txt ''Client'',
       Select ''permission-client'' (permission_form.clientId f) True False
         (([], ''Select client'')
            # map (\<lambda>c. (ManagementClient.ident c, ManagementClient.clientName c)) (clients s))
         (\<lambda>v. SetFormState (\<lambda>prev. prev\<lparr>permission_form.clientId := v\<rparr>)),
       Txt ''Endpoint'',
       Select ''permission-endpoint'' (permission_form.endpointId f) True False
         (([], ''Select endpoint'') # map (\<lambda>e. (ManagementEndpoint.ident e, route_text e)) (endpoints s))
         (\<lambda>v. SetFormState (\<lambda>prev. prev\<lparr>permission_form.endpointId := v\<rparr>)),
       Txt ''Expires at (optional)'',
       Field ''permission-expiry'' (permission_form.expiresAt f) False False
         (\<lambda>v. SetFormState (\<lambda>prev. prev\<lparr>permission_form.expiresAt := v\<rparr>)),
       Check ''permission-enabled'' (permission_form.isEnabled f) False
         (\<lambda>b. SetFormState (\<lambda>prev. prev\<lparr>permission_form.isEnabled := b\<rparr>)),
       Txt ''Enabled'',
       show_error (error s)])"

definition permissions_row ::
  "(js_string \<Rightarrow> js_string) \<Rightarrow> (js_string \<rightharpoonup> js_string) \<Rightarrow> (js_string \<rightharpoonup> js_string) \<Rightarrow>
     ManagementClientPermission \<Rightarrow> permissions_ui node" where
  "permissions_row locale_date client_names endpoint_names permission =
     El [Txt (case client_names (ManagementClientPermission.clientId permission) of
                None \<Rightarrow> ManagementClientPermission.clientId permission | Some n \<Rightarrow> n),
         Txt (case endpoint_names (ManagementClientPermission.endpointId permission) of
                None \<Rightarrow> ManagementClientPermission.endpointId permission | Some n \<Rightarrow> n),
         Badge (if ManagementClientPermission.isEnabled permission then ''success'' else ''neutral'')
           (if ManagementClientPermission.isEnabled permission then ''Active'' else ''Disabled''),
         Txt (case ManagementClientPermission.expiresAt permission of
                None \<Rightarrow> ''-''
              | Some t \<Rightarrow> if truthy_str t then locale_date t else ''-'')]"

definition permissions_table ::
  "(js_string \<Rightarrow> js_string) \<Rightarrow> permissions_page \<Rightarrow> permissions_ui node" where
  "permissions_table locale_date s =
     El [El (map Txt [''Client'', ''Endpoint'', ''Status'', ''Expires'']),
         (if loading s then Txt ''Loading client permissions...''
          else if permissions s = [] then Txt ''No permissions yet. Grant access above.''
          else El (map (permissions_row locale_date (clientLookup (clients s)) (endpointLookup (endpoints s)))
                 (permissions s)))]"

definition permissions_view ::
  "auth_user option \<Rightarrow> (js_string \<Rightarrow> js_string) \<Rightarrow> permissions_page \<Rightarrow> permissions_ui node" where
  "permissions_view usr locale_date s =
     El [SectionHeader ''Client permissions'' (Some ''Grant clients access to specific endpoints.'')
           (PermissionGate usr (Some ''client.permission.manage'') None nothing
             (FormDialog ''Grant client access'' (Some ''Choose a client and endpoint to authorize.'')
               ''Add permission'' (isOpen s) SetIsOpen
               (if submitting s then ''Granting...'' else ''Grant access'')
               (submitting s \<or> \<not> truthy_str (permission_form.clientId (formState s))
                \<or> \<not> truthy_str (permission_form.endpointId (formState s)))
               (Some HandleSubmit) (permissions_form_fields s)))
           None ''Back'',
         when_node (\<not> isOpen s) (show_error (error s)),
         permissions_table locale_date s]"

subsection \<open>Reaching the handlers\<close>

lemma permissions_row_inert [simp]: "dispatch d (permissions_row ld cn en p) = []"
  by (simp add: permissions_row_def)

lemma permissions_table_inert [simp]: "dispatch d (permissions_table ld s) = []"
  by (simp add: permissions_table_def)

text \<open>A grant names a client and an endpoint of the lists that were loaded.\<close>

definition grant_known :: "permissions_page \<Rightarrow> bool" where
  "grant_known s \<longleftrightarrow>
     permission_form.clientId (formState s) \<in> ManagementClient.ident ` set (clients s) - {[]}
     \<and> permission_form.endpointId (formState s) \<in> ManagementEndpoint.ident ` set (endpoints s) - {[]}"

lemma permissions_submit_reached:
  assumes "HandleSubmit \<in> set (dispatch d (permissions_view usr ld s))"
  shows "permitted usr ''client.permission.manage'' \<and> isOpen s \<and> \<not> submitting s \<and> grant_known s"
  using assms
  by (simp add: permissions_view_def permissions_form_fields_def Let_def grant_known_def)
    (auto simp: image_iff)

lemma permissions_handle_shown: "permissions (fst (permissions_handle s u)) = permissions s"
  by (cases u) simp_all

lemma permissions_handle_sends:
  "u \<in> set (dispatch d (permissions_view usr ld s)) \<Longrightarrow>
     snd (permissions_handle s u) = [] \<and> submitting (fst (permissions_handle s u)) = submitting s
     \<or> (\<exists>q. snd (permissions_handle s u) = [q]) \<and> \<not> submitting s
         \<and> submitting (fst (permissions_handle s u))"
  by (cases u) (auto dest: permissions_submit_reached)

definition permission_request :: "auth_user option \<Rightarrow> http_request \<Rightarrow> bool" where
  "permission_request usr q \<longleftrightarrow>
     permitted usr ''client.permission.manage''
     \<and> (\<exists>f. q = createClientPermission (permission_payload f)
            \<and> permission_form.clientId f \<noteq> [] \<and> permission_form.endpointId f \<noteq> [])"

lemma permissions_handle_request:
  "u \<in> set (dispatch d (permissions_view usr ld s)) \<Longrightarrow> q \<in> set (snd (permissions_handle s u)) \<Longrightarrow>
     permission_request usr q"
  using permissions_submit_reached [of d usr ld s]
  by (cases u) (auto simp: permission_request_def grant_known_def intro!: exI [of _ "formState s"])

definition permissions_gate :: "permissions_page \<Rightarrow> bool" where
  "permissions_gate s \<longleftrightarrow> clients s \<noteq> []"

lemma permissions_gate_closed:
  "u \<in> set (dispatch d (permissions_view usr ld s)) \<Longrightarrow> \<not> permissions_gate s \<Longrightarrow>
     \<not> permissions_gate (fst (permissions_handle s u)) \<and> snd (permissions_handle s u) = []"
  by (cases u) (auto simp: permissions_gate_def grant_known_def dest: permissions_submit_reached)

definition permissions_ops ::
  "auth_user option \<Rightarrow> (js_string \<Rightarrow> js_string) \<Rightarrow>
     (permissions_page, permissions_ui, ManagementClientPermission,
      ManagementClient list \<times> ManagementEndpoint list) page_ops" where
  "permissions_ops usr ld =
     \<lparr>op_view = permissions_view usr ld, op_ui = permissions_handle, op_load_ok = permissions_load_ok,
      op_load_err = permissions_load_err, op_create_ok = permissions_create_ok,
      op_create_err = permissions_create_err\<rparr>"

interpretation permissions_list:
  gated_list_page "permissions_ops usr ld" ManagementClientPermission.ident permissions submitting
    permissions_init "permission_request usr" permissions_gate for usr ld
  by unfold_locales
    (simp_all add: permissions_ops_def permissions_init_def permissions_load_ok_def
      permissions_load_err_def permissions_create_ok_def permissions_create_err_def
      permissions_handle_shown permissions_handle_sends permissions_handle_request
      permissions_gate_closed split: prod.splits,
     simp_all add: permissions_gate_def)

lemma permissions_handle_loading: "loading (fst (permissions_handle s u)) = loading s"
  by (cases u) simp_all

interpretation permissions_settling:
  settling_page "permissions_ops usr ld" ManagementClientPermission.ident permissions submitting
    permissions_init "permission_request usr" loading for usr ld
  by unfold_locales
    (simp_all add: permissions_ops_def permissions_init_def permissions_load_ok_def permissions_load_err_def
      permissions_create_ok_def permissions_create_err_def permissions_handle_loading split: prod.splits)

subsection \<open>Properties\<close>

text \<open>
  C12: The client permissions page never has two grants in flight, sends only grants of a chosen
  client and endpoint by a user with \<open>client.permission.manage\<close>, and shows no grant twice and none that
  the server has not stored. Once the load has arrived each stored grant is shown, or its answer is on the
  way, or its answer was lost, and only one of these; so all of them are shown exactly once when
  nothing is in flight and nothing was lost.
\<close>

theorem permissions_page_correct:
  "distinct (map ManagementClientPermission.ident rows0) \<Longrightarrow>
   reachable (permissions_ops usr ld) ManagementClientPermission.ident
     (start_world permissions_init rows0) w \<Longrightarrow> mounted w \<Longrightarrow>
     length (creates w) \<le> 1 \<and> (\<forall>q \<in> set (sent w). permission_request usr q)
     \<and> distinct (map ManagementClientPermission.ident (permissions (page w)))
     \<and> set (permissions (page w)) \<subseteq> set (db w)
     \<and> (load w = Loaded \<longrightarrow>
          mset (db w) = mset (permissions (page w)) + mset (concat (map opt_list (creates w))) + mset (lost w))
     \<and> (load w = Loaded \<and> creates w = [] \<and> lost w = [] \<longrightarrow> mset (permissions (page w)) = mset (db w))"
  using permissions_list.shown_rows permissions_list.safe_traffic permissions_list.rows_accounted by blast

definition sample_permission :: ManagementClientPermission where
  "sample_permission =
     \<lparr>ManagementClientPermission.ident = ''g1'', clientId = ''c1'', endpointId = ''e1'', isEnabled = True,
      createdAt = [], expiresAt = None\<rparr>"

definition calling_client :: ManagementClient where
  "calling_client =
     \<lparr>ManagementClient.ident = ''c1'', clientId = ''caller'', clientName = ''Caller'', clientSecret = ''s'',
      isEnabled = True, allowedIpAddresses = None, createdAt = [], updatedAt = [], lastAccessedAt = None\<rparr>"

definition called_endpoint :: ManagementEndpoint where
  "called_endpoint =
     \<lparr>ManagementEndpoint.ident = ''e1'', serviceId = ''s1'', endpointName = ''Create transfer'',
      httpMethod = ''POST'', relativePath = ''/transfers'', upstreamPathTemplate = None,
      isEnabled = True, timeoutMs = 1000, maxRetries = 0, idempotentOnly = False,
      requestSizeLimitBytes = 0, responseSizeLimitBytes = 0, payloadExpectation = [],
      headersToAdd = None, headersToRemove = None, rateLimitPolicy = None, cryptoAlgorithm = None,
      keySource = None, ivSource = None, encoding = None, requireIv = None, encryptRequest = False,
      encryptResponse = False, createdAt = [], updatedAt = []\<rparr>"

definition grant_actions ::
  "(ManagementClientPermission, ManagementClient list \<times> ManagementEndpoint list) action list" where
  "grant_actions =
     [ServerLoads ([calling_client], [called_endpoint]), LoadArrives, UserDoes (Click ''Add permission'') 0,
      UserDoes (Choose ''permission-client'' ''c1'') 0, UserDoes (Choose ''permission-endpoint'' ''e1'') 0,
      UserDoes SubmitForm 0, ServerStores 0 sample_permission, CreateArrives 0]"

theorem permissions_page_correct_witness:
  "\<exists>w. run (permissions_ops (Some owner_user) id) ManagementClientPermission.ident grant_actions
          (start_world permissions_init []) = Some w
     \<and> length (sent w) = 1 \<and> (\<forall>q \<in> set (sent w). permission_request (Some owner_user) q)
     \<and> permissions (page w) = [sample_permission] \<and> mset (permissions (page w)) = mset (db w)"
proof -
  have "map_option (\<lambda>w. (mounted w, load w = Loaded, creates w, lost w, length (sent w), permissions (page w)))
     (run (permissions_ops (Some owner_user) id) ManagementClientPermission.ident grant_actions
          (start_world permissions_init []))
     = Some (True, True, [], [], 1, [sample_permission])"
    by code_simp
  then obtain w where w: "run (permissions_ops (Some owner_user) id) ManagementClientPermission.ident
          grant_actions (start_world permissions_init []) = Some w"
      and s: "mounted w" "load w = Loaded" "creates w = []" "lost w = []" "length (sent w) = 1"
        "permissions (page w) = [sample_permission]"
    by auto
  have "distinct (map ManagementClientPermission.ident [])" by simp
  from permissions_page_correct [OF this run_start [OF w] s(1)] s w show ?thesis by auto
qed

text \<open>
  In the table a grant shows the name of its client and the method and path of its endpoint,
  when these were loaded; otherwise the bare identifiers.
\<close>

theorem permission_row_names:
  "distinct (map ManagementClient.ident cs) \<Longrightarrow> distinct (map ManagementEndpoint.ident es) \<Longrightarrow>
     take 2 (texts (permissions_row ld (clientLookup cs) (endpointLookup es) p)) =
       [case find (\<lambda>c. ManagementClient.ident c = ManagementClientPermission.clientId p) cs of
          None \<Rightarrow> ManagementClientPermission.clientId p | Some c \<Rightarrow> ManagementClient.clientName c,
        case find (\<lambda>e. ManagementEndpoint.ident e = ManagementClientPermission.endpointId p) es of
          None \<Rightarrow> ManagementClientPermission.endpointId p
        | Some e \<Rightarrow> httpMethod e @ '' '' @ relativePath e]"
  by (simp add: permissions_row_def clientLookup_def endpointLookup_def lookup_table_find route_text_def
      split: option.splits)

theorem permission_row_names_witness:
  "take 2 (texts (permissions_row id (clientLookup []) (endpointLookup []) sample_permission))
     = [''c1'', ''e1'']"
  using permission_row_names [of "[]" "[]" id sample_permission] by (simp add: sample_permission_def)

end
