(* ===== verification/User_Profiles_Page.thy ===== *)
theory User_Profiles_Page
  imports Admin_Api Route_Guards List_Progress
begin

section \<open>The user profiles page\<close>

text \<open>
  Models \<open>app/(protected)/admin/user-profiles/page.tsx\<close>. Its form needs nothing from the load, so
  as on the products and clients pages a create may be sent before the load has arrived.
\<close>

record profile_form =
  userId :: js_string
  serviceId :: js_string
  encryptionKey :: js_string
  encryptionIv :: js_string
  isEnabled :: bool

record profiles_page =
  profiles :: "ManagementUserProfile list"
  services :: "ManagementService list"
  loading :: bool
  submitting :: bool
  error :: "js_string option"
  isOpen :: bool
  formState :: profile_form

definition empty_profile_form :: profile_form where
  "empty_profile_form =
     \<lparr>profile_form.userId = [], profile_form.serviceId = [], profile_form.encryptionKey = [],
      profile_form.encryptionIv = [], profile_form.isEnabled = True\<rparr>"

definition profiles_init :: profiles_page where
  "profiles_init =
     \<lparr>profiles = [], services = [], loading = True, submitting = False, error = None,
      isOpen = False, formState = empty_profile_form\<rparr>"

definition profile_serviceLookup :: "ManagementService list \<Rightarrow> (js_string \<rightharpoonup> js_string)" where
  "profile_serviceLookup svcs = lookup_table ManagementService.ident serviceName svcs"

subsection \<open>load and handleSubmit\<close>

definition profiles_load_requests :: "http_request list" where
  "profiles_load_requests = [getUserProfiles None None, getServices None (Some False)]"

definition profiles_load_ok ::
  "ManagementUserProfile list \<Rightarrow> ManagementService list \<Rightarrow> profiles_page \<Rightarrow> profiles_page" where
  "profiles_load_ok profilesData servicesData s =
     s\<lparr>profiles := profilesData, services := servicesData, loading := False\<rparr>"

definition profiles_load_err :: "thrown \<Rightarrow> profiles_page \<Rightarrow> profiles_page" where
  "profiles_load_err err s =
     s\<lparr>error := Some (message_of ''Failed to load user profiles.'' err), loading := False\<rparr>"

definition profile_payload :: "profile_form \<Rightarrow> json" where
  "profile_payload f =
     JObj (defined_props
       [(''userId'', Some (JStr (js_trim (profile_form.userId f)))),
        (''serviceId'', map_option JStr (or_undefined (profile_form.serviceId f))),
        (''encryptionKey'', Some (JStr (js_trim (profile_form.encryptionKey f)))),
        (''encryptionIv'', map_option JStr (or_undefined (js_trim (profile_form.encryptionIv f)))),
        (''isEnabled'', Some (JBool (profile_form.isEnabled f)))])"

datatype profiles_ui =
    SetIsOpen bool
  | SetFormState "profile_form \<Rightarrow> profile_form"
  | HandleSubmit

fun profiles_handle :: "profiles_page \<Rightarrow> profiles_ui \<Rightarrow> profiles_page \<times> http_request list" where
  "profiles_handle s (SetIsOpen b) = (s\<lparr>isOpen := b\<rparr>, [])"
| "profiles_handle s (SetFormState upd) = (s\<lparr>formState := upd (formState s)\<rparr>, [])"
| "profiles_handle s HandleSubmit =
     (s\<lparr>submitting := True, error := None\<rparr>, [createUserProfile (profile_payload (formState s))])"

definition profiles_create_ok :: "ManagementUserProfile \<Rightarrow> profiles_page \<Rightarrow> profiles_page" where
  "profiles_create_ok created s =
     s\<lparr>profiles := created # profiles s, formState := empty_profile_form, isOpen := False,
       submitting := False\<rparr>"

definition profiles_create_err :: "thrown \<Rightarrow> profiles_page \<Rightarrow> profiles_page" where
  "profiles_create_err err s =
     s\<lparr>error := Some (message_of ''Failed to create user profile.'' err), submitting := False\<rparr>"

subsection \<open>What is rendered\<close>

definition profiles_form_fields :: "profiles_page \<Rightarrow> profiles_ui node list" where
  "profiles_form_fields s =
     (let f = formState s in
      [Txt ''User ID'',
       Field ''profile-user'' (profile_form.userId f) True False
         (\<lambda>v. SetFormState (\<lambda>prev. prev\<lparr>profile_form.userId := v\<rparr>)),
       Txt ''Service (optional)'',
       Select ''profile-service'' (profile_form.serviceId f) False False
         (([], ''All services'') # map (\<lambda>v. (ManagementService.ident v, serviceName v)) (services s))
         (\<lambda>v. SetFormState (\<lambda>prev. prev\<lparr>profile_form.serviceId := v\<rparr>)),
       Txt ''Encryption key (Base64)'',
       Field ''profile-key'' (profile_form.encryptionKey f) True False
         (\<lambda>v. SetFormState (\<lambda>prev. prev\<lparr>profile_form.encryptionKey := v\<rparr>)),
       Txt ''Encryption IV (Base64, optional)'',
       Field ''profile-iv'' (profile_form.encryptionIv f) False False
         (\<lambda>v. SetFormState (\<lambda>prev. prev\<lparr>profile_form.encryptionIv := v\<rparr>)),
       Check ''profile-enabled'' (profile_form.isEnabled f) False
         (\<lambda>b. SetFormState (\<lambda>prev. prev\<lparr>profile_form.isEnabled := b\<rparr>)),
       Txt ''Enabled'',
       show_error (error s)])"

definition profiles_row ::
  "(js_string \<Rightarrow> js_string) \<Rightarrow> (js_string \<rightharpoonup> js_string) \<Rightarrow> ManagementUserProfile \<Rightarrow> profiles_ui node" where
  "profiles_row locale_date names profile =
     El [Txt (ManagementUserProfile.userId profile),
         Txt (case ManagementUserProfile.serviceId profile of
                None \<Rightarrow> ''All services''
              | Some i \<Rightarrow> if truthy_str i then (case names i of None \<Rightarrow> i | Some n \<Rightarrow> n)
                          else ''All services''),
         Badge (if ManagementUserProfile.isEnabled profile then ''success'' else ''neutral'')
           (if ManagementUserProfile.isEnabled profile then ''Active'' else ''Disabled''),
         Txt (if truthy_str (ManagementUserProfile.updatedAt profile)
              then locale_date (ManagementUserProfile.updatedAt profile) else ''-'')]"

definition profiles_table :: "(js_string \<Rightarrow> js_string) \<Rightarrow> profiles_page \<Rightarrow> profiles_ui node" where
  "profiles_table locale_date s =
     El [El (map Txt [''User'', ''Service'', ''Status'', ''Updated'']),
         (if loading s then Txt ''Loading user profiles...''
          else if profiles s = [] then Txt ''No profiles yet. Create one above.''
          else El (map (profiles_row locale_date (profile_serviceLookup (services s))) (profiles s)))]"

definition profiles_view ::
  "auth_user option \<Rightarrow> (js_string \<Rightarrow> js_string) \<Rightarrow> profiles_page \<Rightarrow> profiles_ui node" where
  "profiles_view usr locale_date s =
     El [SectionHeader ''User profiles'' (Some ''Store per-user crypto keys and optional service scoping.'')
           (PermissionGate usr (Some ''user.profile.manage'') None nothing
             (FormDialog ''Create user profile'' (Some ''Add a user profile and crypto keys.'')
               ''Create profile'' (isOpen s) SetIsOpen
               (if submitting s then ''Creating...'' else ''Create profile'')
               (submitting s) (Some HandleSubmit) (profiles_form_fields s)))
           None ''Back'',
         when_node (\<not> isOpen s) (show_error (error s)),
         profiles_table locale_date s]"

subsection \<open>Reaching the handlers\<close>

lemma profiles_row_inert [simp]: "dispatch d (profiles_row ld c p) = []"
  by (simp add: profiles_row_def)

lemma profiles_table_inert [simp]: "dispatch d (profiles_table ld s) = []"
  by (simp add: profiles_table_def)

lemma profiles_submit_reached:
  assumes "HandleSubmit \<in> set (dispatch d (profiles_view usr ld s))"
  shows "permitted usr ''user.profile.manage'' \<and> isOpen s \<and> \<not> submitting s
    \<and> profile_form.userId (formState s) \<noteq> [] \<and> profile_form.encryptionKey (formState s) \<noteq> []"
  using assms by (simp add: profiles_view_def profiles_form_fields_def Let_def)

lemma profiles_handle_shown: "profiles (fst (profiles_handle s u)) = profiles s"
  by (cases u) simp_all

lemma profiles_handle_sends:
  "u \<in> set (dispatch d (profiles_view usr ld s)) \<Longrightarrow>
     snd (profiles_handle s u) = [] \<and> submitting (fst (profiles_handle s u)) = submitting s
     \<or> (\<exists>q. snd (profiles_handle s u) = [q]) \<and> \<not> submitting s
         \<and> submitting (fst (profiles_handle s u))"
  by (cases u) (auto dest: profiles_submit_reached)

definition profile_request :: "auth_user option \<Rightarrow> http_request \<Rightarrow> bool" where
  "profile_request usr q \<longleftrightarrow>
     permitted usr ''user.profile.manage''
     \<and> (\<exists>f. q = createUserProfile (profile_payload f)
            \<and> profile_form.userId f \<noteq> [] \<and> profile_form.encryptionKey f \<noteq> [])"

lemma profiles_handle_request:
  "u \<in> set (dispatch d (profiles_view usr ld s)) \<Longrightarrow> q \<in> set (snd (profiles_handle s u)) \<Longrightarrow>
     profile_request usr q"
  by (cases u) (auto simp: profile_request_def dest: profiles_submit_reached)

definition profiles_ops ::
  "auth_user option \<Rightarrow> (js_string \<Rightarrow> js_string) \<Rightarrow>
     (profiles_page, profiles_ui, ManagementUserProfile, ManagementService list) page_ops" where
  "profiles_ops usr ld =
     \<lparr>op_view = profiles_view usr ld, op_ui = profiles_handle, op_load_ok = profiles_load_ok,
      op_load_err = profiles_load_err, op_create_ok = profiles_create_ok,
      op_create_err = profiles_create_err\<rparr>"

interpretation profiles_list:
  list_page "profiles_ops usr ld" ManagementUserProfile.ident profiles submitting profiles_init
    "profile_request usr" for usr ld
  by unfold_locales
    (simp_all add: profiles_ops_def profiles_init_def profiles_load_ok_def profiles_load_err_def
      profiles_create_ok_def profiles_create_err_def profiles_handle_shown profiles_handle_sends
      profiles_handle_request)

lemma profiles_handle_loading: "loading (fst (profiles_handle s u)) = loading s"
  by (cases u) simp_all

interpretation profiles_settling:
  settling_page "profiles_ops usr ld" ManagementUserProfile.ident profiles submitting profiles_init
    "profile_request usr" loading for usr ld
  by unfold_locales
    (simp_all add: profiles_ops_def profiles_init_def profiles_load_ok_def profiles_load_err_def
      profiles_create_ok_def profiles_create_err_def profiles_handle_loading split: prod.splits)

subsection \<open>Properties\<close>

text \<open>
  C34: The user profiles page has at most one create in flight and sends only creates by a user with
  \<open>user.profile.manage\<close>; in such a create an optional property that is present is not the empty
  text: no service means all services, a blank initialisation vector means none.
\<close>

theorem profiles_requests:
  "reachable (profiles_ops usr ld) ManagementUserProfile.ident (start_world profiles_init rows0) w \<Longrightarrow>
     length (creates w) \<le> 1
     \<and> (\<forall>q \<in> set (sent w). permitted usr ''user.profile.manage'' \<and> rmethod q = POST
          \<and> url q = ''/user-profiles''
          \<and> (\<exists>b. body q = Some b \<and> get_prop b ''serviceId'' \<noteq> Some (JStr [])
                 \<and> get_prop b ''encryptionIv'' \<noteq> Some (JStr [])))"
proof -
  assume r: "reachable (profiles_ops usr ld) ManagementUserProfile.ident (start_world profiles_init rows0) w"
  have "permitted usr ''user.profile.manage'' \<and> rmethod q = POST \<and> url q = ''/user-profiles''
          \<and> (\<exists>b. body q = Some b \<and> get_prop b ''serviceId'' \<noteq> Some (JStr [])
                 \<and> get_prop b ''encryptionIv'' \<noteq> Some (JStr []))"
    if "profile_request usr q" for q
    using that
    by (auto simp: profile_request_def createUserProfile_def http_post_def profile_payload_def
        get_prop_def defined_props_def or_undefined_def)
  with profiles_list.safe_traffic [OF r] show ?thesis by blast
qed

definition create_profile_actions ::
  "(ManagementUserProfile, ManagementService list) action list" where
  "create_profile_actions =
     [UserDoes (Click ''Create profile'') 0, UserDoes (TypeIn ''profile-user'' ''u'') 0,
      UserDoes (TypeIn ''profile-key'' ''k'') 0, UserDoes (TypeIn ''profile-iv'' '' '') 0,
      UserDoes SubmitForm 0]"

theorem profiles_requests_witness:
  "\<exists>w. run (profiles_ops (Some owner_user) id) ManagementUserProfile.ident create_profile_actions
          (start_world profiles_init []) = Some w
     \<and> length (sent w) = 1 \<and> length (creates w) \<le> 1 \<and> (\<forall>q \<in> set (sent w). url q = ''/user-profiles'')"
proof -
  have "map_option (\<lambda>w. length (sent w)) (run (profiles_ops (Some owner_user) id)
      ManagementUserProfile.ident create_profile_actions (start_world profiles_init [])) = Some 1"
    by code_simp
  then obtain w where w: "run (profiles_ops (Some owner_user) id) ManagementUserProfile.ident
      create_profile_actions (start_world profiles_init []) = Some w" and "length (sent w) = 1"
    by auto
  with profiles_requests [OF run_start [OF w]] show ?thesis by blast
qed

end
