(* ===== verification/Destinations_Page.thy ===== *)
theory Destinations_Page
  imports Admin_Api Route_Guards List_Progress
begin

section \<open>The destinations page of an endpoint\<close>

text \<open>
  Models \<open>app/(protected)/admin/endpoints/[id]/destinations/page.tsx\<close>. The load is two requests, one
  after the other: the endpoint, then the destinations of its service. A destination can be added
  once the endpoint is there. Numbers are integers here: a browser lets neither number input
  be submitted with a fraction, as their steps are whole.
\<close>

record destination_form =
  destinationName :: js_string
  address :: js_string
  weight :: int
  priority :: int
  isEnabled :: bool

record destinations_page =
  endpointId :: "js_string option"
  endpoint :: "ManagementEndpoint option"
  destinations :: "ManagementServiceDestination list"
  loading :: bool
  submitting :: bool
  error :: "js_string option"
  isOpen :: bool
  formState :: destination_form

definition empty_destination_form :: destination_form where
  "empty_destination_form =
     \<lparr>destination_form.destinationName = [], destination_form.address = [], destination_form.weight = 1,
      destination_form.priority = 0, destination_form.isEnabled = True\<rparr>"

definition destinations_init :: "js_string option \<Rightarrow> destinations_page" where
  "destinations_init eid =
     \<lparr>endpointId = eid, endpoint = None, destinations = [], loading = True, submitting = False,
      error = None, isOpen = False, formState = empty_destination_form\<rparr>"

subsection \<open>load and handleSubmit\<close>

text \<open>The first request of the load, when the route has an identifier, and the one that follows it.\<close>

definition destinations_load_first :: "js_string option \<Rightarrow> http_request list" where
  "destinations_load_first eid =
     (case eid of None \<Rightarrow> [] | Some i \<Rightarrow> (if truthy_str i then [getEndpoint i] else []))"

definition destinations_load_second :: "ManagementEndpoint \<Rightarrow> http_request" where
  "destinations_load_second endpointData =
     getServiceDestinations (ManagementEndpoint.serviceId endpointData)"

definition destinations_load_ok ::
  "ManagementServiceDestination list \<Rightarrow> ManagementEndpoint \<Rightarrow> destinations_page \<Rightarrow> destinations_page" where
  "destinations_load_ok destinationsData endpointData s =
     s\<lparr>endpoint := Some endpointData, destinations := destinationsData, loading := False\<rparr>"

definition destinations_load_err :: "thrown \<Rightarrow> destinations_page \<Rightarrow> destinations_page" where
  "destinations_load_err err s =
     s\<lparr>error := Some (message_of ''Failed to load destinations.'' err), loading := False\<rparr>"

definition destination_payload :: "ManagementEndpoint \<Rightarrow> destination_form \<Rightarrow> json" where
  "destination_payload e f =
     JObj [(''serviceId'', JStr (ManagementEndpoint.serviceId e)),
           (''destinationName'', JStr (js_trim (destination_form.destinationName f))),
           (''address'', JStr (js_trim (destination_form.address f))),
           (''weight'', JInt (destination_form.weight f)),
           (''priority'', JInt (destination_form.priority f)),
           (''isEnabled'', JBool (destination_form.isEnabled f))]"

datatype destinations_ui =
    SetIsOpen bool
  | SetFormState "destination_form \<Rightarrow> destination_form"
  | HandleSubmit
  | HandleBack

fun destinations_handle ::
  "destinations_page \<Rightarrow> destinations_ui \<Rightarrow> destinations_page \<times> http_request list" where
  "destinations_handle s (SetIsOpen b) = (s\<lparr>isOpen := b\<rparr>, [])"
| "destinations_handle s (SetFormState upd) = (s\<lparr>formState := upd (formState s)\<rparr>, [])"
| "destinations_handle s HandleSubmit =
     (case endpoint s of
        None \<Rightarrow> (s, [])
      | Some e \<Rightarrow>
          (s\<lparr>submitting := True, error := None\<rparr>,
           [createServiceDestination (destination_payload e (formState s))]))"
| "destinations_handle s HandleBack = (s, [])"

definition destinations_create_ok ::
  "ManagementServiceDestination \<Rightarrow> destinations_page \<Rightarrow> destinations_page" where
  "destinations_create_ok created s =
     s\<lparr>destinations := created # destinations s, formState := empty_destination_form,
       isOpen := False, submitting := False\<rparr>"

definition destinations_create_err :: "thrown \<Rightarrow> destinations_page \<Rightarrow> destinations_page" where
  "destinations_create_err err s =
     s\<lparr>error := Some (message_of ''Failed to create destination.'' err), submitting := False\<rparr>"

subsection \<open>What is rendered\<close>

definition destinations_back_href :: "js_string option \<Rightarrow> js_string" where
  "destinations_back_href eid =
     (case eid of
        None \<Rightarrow> ''/admin/endpoints''
      | Some i \<Rightarrow> if truthy_str i then ''/admin/endpoints/'' @ i else ''/admin/endpoints'')"

definition destinations_form_fields :: "destinations_page \<Rightarrow> destinations_ui node list" where
  "destinations_form_fields s =
     (let f = formState s in
      [Txt ''Destination name'',
       Field ''destination-name'' (destination_form.destinationName f) True False
         (\<lambda>v. SetFormState (\<lambda>prev. prev\<lparr>destination_form.destinationName := v\<rparr>)),
       Txt ''Address'',
       Field ''destination-address'' (destination_form.address f) True False
         (\<lambda>v. SetFormState (\<lambda>prev. prev\<lparr>destination_form.address := v\<rparr>)),
       Txt ''Weight'',
       NumField ''destination-weight'' (destination_form.weight f) (Some 1) False
         (\<lambda>n. SetFormState (\<lambda>prev. prev\<lparr>destination_form.weight := n\<rparr>)),
       Txt ''Priority'',
       NumField ''destination-priority'' (destination_form.priority f) (Some 0) False
         (\<lambda>n. SetFormState (\<lambda>prev. prev\<lparr>destination_form.priority := n\<rparr>)),
       Check ''destination-enabled'' (destination_form.isEnabled f) False
         (\<lambda>b. SetFormState (\<lambda>prev. prev\<lparr>destination_form.isEnabled := b\<rparr>)),
       Txt ''Enabled'',
       show_error (error s)])"

definition destinations_row :: "ManagementServiceDestination \<Rightarrow> destinations_ui node" where
  "destinations_row destination =
     El [Txt (ManagementServiceDestination.address destination),
         Txt (ManagementServiceDestination.destinationName destination),
         Txt (int_dec (ManagementServiceDestination.weight destination)),
         Txt (int_dec (ManagementServiceDestination.priority destination)),
         Badge (if ManagementServiceDestination.isEnabled destination then ''success'' else ''neutral'')
           (if ManagementServiceDestination.isEnabled destination then ''Active'' else ''Disabled''),
         Txt (healthStatus destination)]"

definition destinations_table :: "destinations_page \<Rightarrow> destinations_ui node" where
  "destinations_table s =
     El [El (map Txt [''Destination'', ''Weight'', ''Priority'', ''Status'', ''Health'']),
         (if loading s then Txt ''Loading destinations...''
          else if destinations s = [] then Txt ''No destinations yet. Add one above.''
          else El (map destinations_row (destinations s)))]"

definition destinations_view :: "auth_user option \<Rightarrow> destinations_page \<Rightarrow> destinations_ui node" where
  "destinations_view usr s =
     El [SectionHeader ''Endpoint destinations'' (Some ''Weighted routing, failover, and health checks.'')
           (PermissionGate usr (Some ''destination.manage'') None nothing
             (FormDialog ''Add destination'' (Some ''Add a weighted destination for this service.'')
               ''Add destination'' (isOpen s) SetIsOpen
               (if submitting s then ''Adding...'' else ''Add destination'')
               (submitting s \<or> endpoint s = None)
               (Some HandleSubmit) (destinations_form_fields s)))
           (Some (destinations_back_href (endpointId s), HandleBack)) ''Back to endpoint'',
         when_node (\<not> isOpen s) (show_error (error s)),
         destinations_table s,
         Txt (case endpoint s of
                None \<Rightarrow> ''Configure routing weights per destination.''
              | Some e \<Rightarrow> ''Destinations for '' @ ManagementEndpoint.endpointName e
                  @ ''. Update weights to shift traffic gradually.'')]"

subsection \<open>Reaching the handlers\<close>

lemma destinations_row_inert [simp]: "dispatch d (destinations_row p) = []"
  by (simp add: destinations_row_def)

lemma destinations_table_inert [simp]: "dispatch d (destinations_table s) = []"
  by (simp add: destinations_table_def)

lemma destinations_submit_reached:
  assumes "HandleSubmit \<in> set (dispatch d (destinations_view usr s))"
  shows "permitted usr ''destination.manage'' \<and> isOpen s \<and> \<not> submitting s \<and> endpoint s \<noteq> None
    \<and> destination_form.destinationName (formState s) \<noteq> []
    \<and> destination_form.address (formState s) \<noteq> []
    \<and> destination_form.weight (formState s) \<ge> 1 \<and> destination_form.priority (formState s) \<ge> 0"
  using assms by (simp add: destinations_view_def destinations_form_fields_def Let_def)

lemma destinations_handle_shown: "destinations (fst (destinations_handle s u)) = destinations s"
  by (cases u) (simp_all split: option.splits)

lemma destinations_handle_sends:
  "u \<in> set (dispatch d (destinations_view usr s)) \<Longrightarrow>
     snd (destinations_handle s u) = [] \<and> submitting (fst (destinations_handle s u)) = submitting s
     \<or> (\<exists>q. snd (destinations_handle s u) = [q]) \<and> \<not> submitting s
         \<and> submitting (fst (destinations_handle s u))"
  by (cases u) (auto dest: destinations_submit_reached split: option.splits)

definition destination_request :: "auth_user option \<Rightarrow> http_request \<Rightarrow> bool" where
  "destination_request usr q \<longleftrightarrow>
     permitted usr ''destination.manage''
     \<and> (\<exists>e f. q = createServiceDestination (destination_payload e f)
            \<and> destination_form.weight f \<ge> 1 \<and> destination_form.priority f \<ge> 0)"

lemma destinations_handle_request:
  "u \<in> set (dispatch d (destinations_view usr s)) \<Longrightarrow> q \<in> set (snd (destinations_handle s u)) \<Longrightarrow>
     destination_request usr q"
  by (cases u)
    (auto simp: destination_request_def dest: destinations_submit_reached split: option.splits)

definition destinations_gate :: "destinations_page \<Rightarrow> bool" where
  "destinations_gate s \<longleftrightarrow> endpoint s \<noteq> None"

lemma destinations_gate_closed:
  "u \<in> set (dispatch d (destinations_view usr s)) \<Longrightarrow> \<not> destinations_gate s \<Longrightarrow>
     \<not> destinations_gate (fst (destinations_handle s u)) \<and> snd (destinations_handle s u) = []"
  by (cases u) (auto simp: destinations_gate_def dest: destinations_submit_reached)

definition destinations_ops ::
  "auth_user option \<Rightarrow>
     (destinations_page, destinations_ui, ManagementServiceDestination, ManagementEndpoint) page_ops" where
  "destinations_ops usr =
     \<lparr>op_view = destinations_view usr, op_ui = destinations_handle, op_load_ok = destinations_load_ok,
      op_load_err = destinations_load_err, op_create_ok = destinations_create_ok,
      op_create_err = destinations_create_err\<rparr>"

interpretation destinations_list:
  gated_list_page "destinations_ops usr" ManagementServiceDestination.ident destinations submitting
    "destinations_init eid" "destination_request usr" destinations_gate for usr eid
  by unfold_locales
    (simp_all add: destinations_ops_def destinations_init_def destinations_load_ok_def
      destinations_load_err_def destinations_create_ok_def destinations_create_err_def
      destinations_handle_shown destinations_handle_sends destinations_handle_request
      destinations_gate_closed,
     simp_all add: destinations_gate_def)

lemma destinations_handle_loading: "loading (fst (destinations_handle s u)) = loading s"
  by (cases u) (simp_all split: option.splits)

interpretation destinations_settling:
  settling_page "destinations_ops usr" ManagementServiceDestination.ident destinations submitting
    "destinations_init eid" "destination_request usr" loading for usr eid
  by unfold_locales
    (simp_all add: destinations_ops_def destinations_init_def destinations_load_ok_def destinations_load_err_def
      destinations_create_ok_def destinations_create_err_def destinations_handle_loading split: prod.splits)

subsection \<open>Properties\<close>

text \<open>
  C13: The destinations page never has two creates in flight; what it sends are destinations of weight
  at least 1 and priority at least 0 by a user with \<open>destination.manage\<close>; it shows no
  destination twice and none that the server has not stored. Once the load has arrived each stored
  destination is shown, or its answer is on the way, or its answer was lost, and only one of these; so all
  of them are shown exactly once when nothing is in flight and nothing was lost.
\<close>

theorem destinations_page_correct:
  "distinct (map ManagementServiceDestination.ident rows0) \<Longrightarrow>
   reachable (destinations_ops usr) ManagementServiceDestination.ident
     (start_world (destinations_init eid) rows0) w \<Longrightarrow> mounted w \<Longrightarrow>
     length (creates w) \<le> 1 \<and> (\<forall>q \<in> set (sent w). destination_request usr q)
     \<and> distinct (map ManagementServiceDestination.ident (destinations (page w)))
     \<and> set (destinations (page w)) \<subseteq> set (db w)
     \<and> (load w = Loaded \<longrightarrow>
          mset (db w) = mset (destinations (page w)) + mset (concat (map opt_list (creates w))) + mset (lost w))
     \<and> (load w = Loaded \<and> creates w = [] \<and> lost w = [] \<longrightarrow> mset (destinations (page w)) = mset (db w))"
  using destinations_list.shown_rows destinations_list.safe_traffic destinations_list.rows_accounted by blast

definition routed_endpoint :: ManagementEndpoint where
  "routed_endpoint =
     \<lparr>ManagementEndpoint.ident = ''e1'', serviceId = ''s1'', endpointName = ''Create transfer'',
      httpMethod = ''POST'', relativePath = ''/transfers'', upstreamPathTemplate = None,
      isEnabled = True, timeoutMs = 1000, maxRetries = 0, idempotentOnly = False,
      requestSizeLimitBytes = 0, responseSizeLimitBytes = 0, payloadExpectation = [],
      headersToAdd = None, headersToRemove = None, rateLimitPolicy = None, cryptoAlgorithm = None,
      keySource = None, ivSource = None, encoding = None, requireIv = None, encryptRequest = False,
      encryptResponse = False, createdAt = [], updatedAt = []\<rparr>"

definition sample_destination :: ManagementServiceDestination where
  "sample_destination =
     \<lparr>ManagementServiceDestination.ident = ''d1'', serviceId = ''s1'', destinationName = ''Primary'',
      address = ''https://a'', weight = 1, priority = 0, isEnabled = True, healthStatus = ''Healthy'',
      lastHealthCheck = None, metadata = None, createdAt = [], updatedAt = []\<rparr>"

definition add_destination_actions ::
  "(ManagementServiceDestination, ManagementEndpoint) action list" where
  "add_destination_actions =
     [ServerLoads routed_endpoint, LoadArrives, UserDoes (Click ''Add destination'') 0,
      UserDoes (TypeIn ''destination-name'' ''Primary'') 0,
      UserDoes (TypeIn ''destination-address'' ''https://a'') 0,
      UserDoes (EnterNum ''destination-weight'' 5) 0, UserDoes SubmitForm 0,
      ServerStores 0 sample_destination, CreateArrives 0]"

theorem destinations_page_correct_witness:
  "\<exists>w. run (destinations_ops (Some owner_user)) ManagementServiceDestination.ident add_destination_actions
          (start_world (destinations_init (Some ''e1'')) []) = Some w
     \<and> length (sent w) = 1 \<and> (\<forall>q \<in> set (sent w). destination_request (Some owner_user) q)
     \<and> destinations (page w) = [sample_destination] \<and> mset (destinations (page w)) = mset (db w)"
proof -
  have "map_option (\<lambda>w. (mounted w, load w = Loaded, creates w, lost w, length (sent w), destinations (page w)))
     (run (destinations_ops (Some owner_user)) ManagementServiceDestination.ident add_destination_actions
          (start_world (destinations_init (Some ''e1'')) []))
     = Some (True, True, [], [], 1, [sample_destination])"
    by code_simp
  then obtain w where w: "run (destinations_ops (Some owner_user)) ManagementServiceDestination.ident
          add_destination_actions (start_world (destinations_init (Some ''e1'')) []) = Some w"
      and s: "mounted w" "load w = Loaded" "creates w = []" "lost w = []" "length (sent w) = 1"
        "destinations (page w) = [sample_destination]"
    by auto
  have "distinct (map ManagementServiceDestination.ident [])" by simp
  from destinations_page_correct [OF this run_start [OF w] s(1)] s w show ?thesis by auto
qed

end
