(* ===== verification/Detail_Page.thy ===== *)
theory Detail_Page
  imports Http_Client Vdom
begin

section \<open>Pages that show one entity and save changes to it\<close>

text \<open>
  The detail pages of the admin portal share this shape: an effect loads the entity named by the
  route and fills a form from it, a button saves the form, another one deletes the entity and
  leaves. Here are the world such a page runs in and the contract of its operations. The route
  keeps its identifier while the page is mounted (the router mounts a page anew for another one).
  As on the list pages, answers come late, in any order, or not at all.
\<close>

text \<open>\<open>'d\<close> is what the load answers, \<open>'e\<close> the entity.\<close>

record ('s, 'u, 'd, 'e) detail_ops =
  dop_view :: "'s \<Rightarrow> 'u node"
  dop_ui :: "'s \<Rightarrow> 'u \<Rightarrow> 's \<times> http_request list"
  dop_load_ok :: "'d \<Rightarrow> 's \<Rightarrow> 's"
  dop_load_err :: "thrown \<Rightarrow> 's \<Rightarrow> 's"
  dop_save_ok :: "'e \<Rightarrow> 's \<Rightarrow> 's"
  dop_save_err :: "thrown \<Rightarrow> 's \<Rightarrow> 's"
  dop_delete_ok :: "navigation"
  dop_delete_err :: "thrown \<Rightarrow> 's \<Rightarrow> 's"

datatype load_phase = Waiting | Arrived | Broken

record 's detail_world =
  dpage :: 's
  dmounted :: bool
  phase :: load_phase
  saves :: "http_request list"
  deletes :: "http_request list"
  dsent :: "http_request list"
  went :: "navigation list"

definition start_detail :: "'s \<Rightarrow> 's detail_world" where
  "start_detail s0 =
     \<lparr>dpage = s0, dmounted = True, phase = Waiting, saves = [], deletes = [], dsent = [], went = []\<rparr>"

definition is_put :: "http_request \<Rightarrow> bool" where
  "is_put q \<longleftrightarrow> rmethod q = PUT"

definition is_delete :: "http_request \<Rightarrow> bool" where
  "is_delete q \<longleftrightarrow> rmethod q = DELETE"

inductive dstep ::
  "('s, 'u, 'd, 'e) detail_ops \<Rightarrow> 's detail_world \<Rightarrow> 's detail_world \<Rightarrow> bool"
  for ops :: "('s, 'u, 'd, 'e) detail_ops"
where
  d_user: "dmounted w \<Longrightarrow> u \<in> set (dispatch d (dop_view ops (dpage w))) \<Longrightarrow>
     dop_ui ops (dpage w) u = (s', reqs) \<Longrightarrow>
     dstep ops w (w\<lparr>dpage := s', saves := saves w @ filter is_put reqs,
                    deletes := deletes w @ filter is_delete reqs, dsent := dsent w @ reqs\<rparr>)"
| d_load_arrives: "phase w = Waiting \<Longrightarrow>
     dstep ops w
       (w\<lparr>phase := Arrived, dpage := (if dmounted w then dop_load_ok ops x (dpage w) else dpage w)\<rparr>)"
| d_load_fails: "phase w = Waiting \<Longrightarrow>
     dstep ops w
       (w\<lparr>phase := Broken, dpage := (if dmounted w then dop_load_err ops t (dpage w) else dpage w)\<rparr>)"
| d_save_arrives: "q \<in> set (saves w) \<Longrightarrow>
     dstep ops w
       (w\<lparr>saves := remove1 q (saves w),
          dpage := (if dmounted w then dop_save_ok ops e (dpage w) else dpage w)\<rparr>)"
| d_save_fails: "q \<in> set (saves w) \<Longrightarrow>
     dstep ops w
       (w\<lparr>saves := remove1 q (saves w),
          dpage := (if dmounted w then dop_save_err ops t (dpage w) else dpage w)\<rparr>)"
| d_delete_arrives: "q \<in> set (deletes w) \<Longrightarrow>
     dstep ops w (w\<lparr>deletes := remove1 q (deletes w), went := went w @ [dop_delete_ok ops]\<rparr>)"
| d_delete_fails: "q \<in> set (deletes w) \<Longrightarrow>
     dstep ops w
       (w\<lparr>deletes := remove1 q (deletes w),
          dpage := (if dmounted w then dop_delete_err ops t (dpage w) else dpage w)\<rparr>)"
| d_unmount: "dmounted w \<Longrightarrow> dstep ops w (w\<lparr>dmounted := False\<rparr>)"

inductive dreachable ::
  "('s, 'u, 'd, 'e) detail_ops \<Rightarrow> 's detail_world \<Rightarrow> 's detail_world \<Rightarrow> bool"
  for ops :: "('s, 'u, 'd, 'e) detail_ops" and w0 :: "'s detail_world"
where
  d_here: "dreachable ops w0 w0"
| d_further: "dreachable ops w0 w \<Longrightarrow> dstep ops w w' \<Longrightarrow> dreachable ops w0 w'"

lemma dreachable_invariant:
  assumes "dreachable ops w0 w" and "P w0" and "\<And>w w'. P w \<Longrightarrow> dstep ops w w' \<Longrightarrow> P w'"
  shows "P w"
  using assms(1) by induction (use assms(2,3) in auto)

subsection \<open>Running a detail page\<close>

datatype ('d, 'e) daction =
    DUser dom_event nat
  | DLoads 'd
  | DLoadFails thrown
  | DSaves nat 'e
  | DSaveFails nat thrown

fun dact ::
  "('s, 'u, 'd, 'e) detail_ops \<Rightarrow> ('d, 'e) daction \<Rightarrow> 's detail_world \<Rightarrow> 's detail_world option" where
  "dact ops (DUser d n) w =
     (let us = dispatch d (dop_view ops (dpage w)) in
      if dmounted w \<and> n < length us then
        (case dop_ui ops (dpage w) (us ! n) of (s', reqs) \<Rightarrow>
           Some (w\<lparr>dpage := s', saves := saves w @ filter is_put reqs,
                   deletes := deletes w @ filter is_delete reqs, dsent := dsent w @ reqs\<rparr>))
      else None)"
| "dact ops (DLoads x) w =
     (if phase w = Waiting then
        Some (w\<lparr>phase := Arrived, dpage := (if dmounted w then dop_load_ok ops x (dpage w) else dpage w)\<rparr>)
      else None)"
| "dact ops (DLoadFails t) w =
     (if phase w = Waiting then
        Some (w\<lparr>phase := Broken, dpage := (if dmounted w then dop_load_err ops t (dpage w) else dpage w)\<rparr>)
      else None)"
| "dact ops (DSaves i e) w =
     (if i < length (saves w) then
        Some (w\<lparr>saves := remove1 (saves w ! i) (saves w),
                dpage := (if dmounted w then dop_save_ok ops e (dpage w) else dpage w)\<rparr>)
      else None)"
| "dact ops (DSaveFails i t) w =
     (if i < length (saves w) then
        Some (w\<lparr>saves := remove1 (saves w ! i) (saves w),
                dpage := (if dmounted w then dop_save_err ops t (dpage w) else dpage w)\<rparr>)
      else None)"

fun drun ::
  "('s, 'u, 'd, 'e) detail_ops \<Rightarrow> ('d, 'e) daction list \<Rightarrow> 's detail_world \<Rightarrow> 's detail_world option" where
  "drun ops [] w = Some w"
| "drun ops (a # as) w = Option.bind (dact ops a w) (drun ops as)"

lemma dact_dstep: "dact ops a w = Some w' \<Longrightarrow> dstep ops w w'"
proof (induction ops a w rule: dact.induct)
  case (1 ops d n w)
  let ?us = "dispatch d (dop_view ops (dpage w))"
  obtain s' reqs where st: "dop_ui ops (dpage w) (?us ! n) = (s', reqs)" by fastforce
  with 1 have n: "dmounted w" "n < length ?us"
    and w': "w' = w\<lparr>dpage := s', saves := saves w @ filter is_put reqs,
                   deletes := deletes w @ filter is_delete reqs, dsent := dsent w @ reqs\<rparr>"
    by (auto simp: Let_def split: if_splits)
  show ?case unfolding w' by (rule d_user [OF n(1) nth_mem [OF n(2)] st])
next
  case (2 ops x w)
  then show ?case using d_load_arrives [of w ops x] by (auto split: if_splits)
next
  case (3 ops t w)
  then show ?case using d_load_fails [of w ops t] by (auto split: if_splits)
next
  case (4 ops i e w)
  then show ?case using d_save_arrives [of "saves w ! i" w ops e] by (auto split: if_splits)
next
  case (5 ops i t w)
  then show ?case using d_save_fails [of "saves w ! i" w ops t] by (auto split: if_splits)
qed

lemma drun_reachable:
  assumes "drun ops as w = Some w'" and "dreachable ops w0 w"
  shows "dreachable ops w0 w'"
  using assms
proof (induction "as" arbitrary: w)
  case (Cons a "as")
  then obtain v where "dact ops a w = Some v" and "drun ops as v = Some w'"
    by (auto simp: Option.bind_eq_Some_conv)
  with Cons dact_dstep show ?case by (blast intro: dreachable.d_further)
qed simp

lemma drun_start: "drun ops as (start_detail s0) = Some w \<Longrightarrow> dreachable ops (start_detail s0) w"
  using drun_reachable [OF _ d_here] .

subsection \<open>The contract of a detail page\<close>

locale detail_page =
  fixes ops :: "('s, 'u, 'd, 'e) detail_ops"
    and entity :: "'s \<Rightarrow> 'e option"
    and busy :: "'s \<Rightarrow> bool"
    and form :: "'s \<Rightarrow> 'f"
    and s0 :: 's
    and allowed :: "http_request \<Rightarrow> bool"
  assumes start_entity: "entity s0 = None"
    and start_busy: "\<not> busy s0"
    and ui_entity: "u \<in> set (dispatch d (dop_view ops s)) \<Longrightarrow> entity (fst (dop_ui ops s u)) = entity s"
    and ui_save: "u \<in> set (dispatch d (dop_view ops s)) \<Longrightarrow>
      filter is_put (snd (dop_ui ops s u)) = [] \<and> busy (fst (dop_ui ops s u)) = busy s
      \<or> (\<exists>q. filter is_put (snd (dop_ui ops s u)) = [q]) \<and> \<not> busy s \<and> entity s \<noteq> None
          \<and> busy (fst (dop_ui ops s u))"
    and ui_allowed: "u \<in> set (dispatch d (dop_view ops s)) \<Longrightarrow>
      q \<in> set (snd (dop_ui ops s u)) \<Longrightarrow> allowed q"
    and load_ok_busy: "busy (dop_load_ok ops x s) = busy s"
    and load_err_entity: "entity (dop_load_err ops t s) = entity s"
    and load_err_busy: "busy (dop_load_err ops t s) = busy s"
    and save_ok: "entity (dop_save_ok ops e s) = Some e" "\<not> busy (dop_save_ok ops e s)"
      "form (dop_save_ok ops e s) = form s"
    and save_err: "entity (dop_save_err ops t s) = entity s" "\<not> busy (dop_save_err ops t s)"
      "form (dop_save_err ops t s) = form s"
    and delete_err: "entity (dop_delete_err ops t s) = entity s" "busy (dop_delete_err ops t s) = busy s"
      "form (dop_delete_err ops t s) = form s"
begin

text \<open>
  One save at a time, none before the load has arrived; so the load never overwrites what a save
  has shown.
\<close>

definition saves_inv :: "'s detail_world \<Rightarrow> bool" where
  "saves_inv w \<longleftrightarrow>
     length (saves w) \<le> 1
     \<and> (dmounted w \<longrightarrow> (saves w \<noteq> []) = busy (dpage w)
          \<and> (phase w \<noteq> Arrived \<longrightarrow> entity (dpage w) = None))
     \<and> (phase w \<noteq> Arrived \<longrightarrow> filter is_put (dsent w) = [])
     \<and> (\<forall>q \<in> set (dsent w). allowed q)
     \<and> (phase w \<noteq> Arrived \<longrightarrow> saves w = [])"

lemma saves_inv_step:
  assumes inv: "saves_inv w" and "dstep ops w w'"
  shows "saves_inv w'"
  using assms(2)
proof cases
  case (d_user u d s' reqs)
  have e: "entity s' = entity (dpage w)" using ui_entity [OF d_user(3)] d_user(4) by simp
  have a: "\<forall>q \<in> set reqs. allowed q" using ui_allowed [OF d_user(3)] d_user(4) by auto
  from ui_save [OF d_user(3)] d_user(4)
  consider "filter is_put reqs = []" "busy s' = busy (dpage w)"
    | q where "filter is_put reqs = [q]" "\<not> busy (dpage w)" "entity (dpage w) \<noteq> None" "busy s'"
    by auto
  then show ?thesis
    using inv d_user e a by cases (auto simp: saves_inv_def)
next
  case (d_save_arrives q e)
  then have "saves w = [q]" using inv by (cases "saves w") (auto simp: saves_inv_def)
  then show ?thesis using inv d_save_arrives save_ok by (auto simp: saves_inv_def)
next
  case (d_save_fails q t)
  then have "saves w = [q]" using inv by (cases "saves w") (auto simp: saves_inv_def)
  then show ?thesis using inv d_save_fails save_err by (auto simp: saves_inv_def)
qed (use inv in \<open>auto simp: saves_inv_def load_ok_busy load_err_entity load_err_busy delete_err\<close>)

lemma saves_reachable: "dreachable ops (start_detail s0) w \<Longrightarrow> saves_inv w"
  by (erule dreachable_invariant)
    (simp_all add: saves_inv_step, simp add: saves_inv_def start_detail_def start_entity start_busy)

lemma saves_safe:
  "dreachable ops (start_detail s0) w \<Longrightarrow>
     length (saves w) \<le> 1 \<and> (\<forall>q \<in> set (dsent w). allowed q)
     \<and> (phase w \<noteq> Arrived \<longrightarrow> filter is_put (dsent w) = [])"
  by (drule saves_reachable) (simp add: saves_inv_def)

text \<open>No answer to a save or a delete touches the form: what the user types meanwhile stays.\<close>

lemma form_kept:
  "form (dop_save_ok ops e s) = form s \<and> form (dop_save_err ops t s) = form s
   \<and> form (dop_delete_err ops t s) = form s"
  by (simp add: save_ok save_err delete_err)

end

end
