(* ===== verification/Product_Detail.thy ===== *)
theory Product_Detail
  imports Admin_Api Route_Guards Detail_Page
begin

section \<open>The product detail page\<close>

text \<open>
  Models \<open>app/(protected)/admin/products/[id]/page.tsx\<close>. The properties: which updates and deletes
  the page sends, and that saving an unchanged form changes nothing.
\<close>

record product_form =
  name :: js_string
  description :: js_string
  ownerTeam :: js_string
  isEnabled :: bool

record product_detail =
  activeTab :: js_string
  productId :: "js_string option"
  product :: "ManagementProduct option"
  services :: "ManagementService list"
  loading :: bool
  saving :: bool
  error :: "js_string option"
  formState :: product_form

definition product_tabs :: "js_string list" where
  "product_tabs = [''Overview'', ''Services'', ''Metadata'', ''Owners'']"

definition product_detail_init :: "js_string option \<Rightarrow> product_detail" where
  "product_detail_init pid =
     \<lparr>activeTab = ''Overview'', productId = pid, product = None, services = [], loading = True,
      saving = False, error = None,
      formState = \<lparr>product_form.name = [], product_form.description = [], product_form.ownerTeam = [],
                   product_form.isEnabled = True\<rparr>\<rparr>"

subsection \<open>load, handleSave and handleDelete\<close>

definition product_detail_load_requests :: "js_string option \<Rightarrow> http_request list" where
  "product_detail_load_requests pid =
     (case pid of
        None \<Rightarrow> []
      | Some i \<Rightarrow> (if truthy_str i then [getProduct i, getServices (Some i) (Some False)] else []))"

definition product_form_of :: "ManagementProduct \<Rightarrow> product_form" where
  "product_form_of productData =
     \<lparr>product_form.name = ManagementProduct.name productData,
      product_form.description = ManagementProduct.description productData,
      product_form.ownerTeam = ManagementProduct.ownerTeam productData,
      product_form.isEnabled = ManagementProduct.isEnabled productData\<rparr>"

definition product_detail_load_ok ::
  "ManagementProduct \<times> ManagementService list \<Rightarrow> product_detail \<Rightarrow> product_detail" where
  "product_detail_load_ok answer s =
     (case answer of (productData, servicesData) \<Rightarrow>
        s\<lparr>product := Some productData, services := servicesData,
          formState := product_form_of productData, loading := False\<rparr>)"

definition product_detail_load_err :: "thrown \<Rightarrow> product_detail \<Rightarrow> product_detail" where
  "product_detail_load_err err s =
     s\<lparr>error := Some (message_of ''Failed to load product.'' err), loading := False\<rparr>"

definition product_update_payload :: "product_form \<Rightarrow> json" where
  "product_update_payload f =
     JObj [(''name'', JStr (js_trim (product_form.name f))),
           (''description'', JStr (js_trim (product_form.description f))),
           (''ownerTeam'', JStr (js_trim (product_form.ownerTeam f))),
           (''isEnabled'', JBool (product_form.isEnabled f))]"

datatype product_detail_ui =
    SetActiveTab js_string
  | SetFormState "product_form \<Rightarrow> product_form"
  | HandleSave
  | HandleDelete
  | HandleBack

fun product_detail_handle ::
  "product_detail \<Rightarrow> product_detail_ui \<Rightarrow> product_detail \<times> http_request list" where
  "product_detail_handle s (SetActiveTab tab) = (s\<lparr>activeTab := tab\<rparr>, [])"
| "product_detail_handle s (SetFormState upd) = (s\<lparr>formState := upd (formState s)\<rparr>, [])"
| "product_detail_handle s HandleSave =
     (case productId s of
        None \<Rightarrow> (s, [])
      | Some pid \<Rightarrow>
          (if \<not> truthy_str pid then (s, [])
           else (s\<lparr>saving := True, error := None\<rparr>,
                 [updateProduct pid (product_update_payload (formState s))])))"
| "product_detail_handle s HandleDelete =
     (case productId s of
        None \<Rightarrow> (s, [])
      | Some pid \<Rightarrow>
          (if \<not> truthy_str pid then (s, [])
           else (s\<lparr>error := None\<rparr>, [deleteProduct pid])))"
| "product_detail_handle s HandleBack = (s, [])"

definition product_detail_save_ok :: "ManagementProduct \<Rightarrow> product_detail \<Rightarrow> product_detail" where
  "product_detail_save_ok updated s = s\<lparr>product := Some updated, saving := False\<rparr>"

definition product_detail_save_err :: "thrown \<Rightarrow> product_detail \<Rightarrow> product_detail" where
  "product_detail_save_err err s =
     s\<lparr>error := Some (message_of ''Failed to update product.'' err), saving := False\<rparr>"

definition product_detail_delete_err :: "thrown \<Rightarrow> product_detail \<Rightarrow> product_detail" where
  "product_detail_delete_err err s = s\<lparr>error := Some (message_of ''Failed to delete product.'' err)\<rparr>"

subsection \<open>What is rendered\<close>

definition product_actions_node :: "auth_user option \<Rightarrow> product_detail \<Rightarrow> product_detail_ui node" where
  "product_actions_node usr s =
     El [PermissionGate usr (Some ''product.manage'') None nothing
           (Btn (if saving s then ''Saving...'' else ''Save changes'')
              (saving s \<or> loading s \<or> product s = None) (Some HandleSave)),
         PermissionGate usr (Some ''product.manage'') None nothing
           (ConfirmDialog ''Delete product?''
              (Some ''This marks the product as deleted (disabled) and it will no longer appear in the developer portal.'')
              ''Delete'' ''Delete'' (Some HandleDelete))]"

definition product_overview_node ::
  "(js_string \<Rightarrow> js_string) \<Rightarrow> product_detail \<Rightarrow> product_detail_ui node" where
  "product_overview_node locale_date s =
     (let f = formState s;
          enabled = (case product s of None \<Rightarrow> False | Some p \<Rightarrow> ManagementProduct.isEnabled p);
          date = (\<lambda>get. case product s of None \<Rightarrow> ''-''
                        | Some p \<Rightarrow> if truthy_str (get p) then locale_date (get p) else ''-'')
      in El [Txt (case product s of None \<Rightarrow> ''Loading...'' | Some p \<Rightarrow> ManagementProduct.name p),
             Txt ''Status'',
             Badge (if enabled then ''success'' else ''neutral'') (if enabled then ''Active'' else ''Disabled''),
             Txt ''Owner team'',
             Txt (case product s of None \<Rightarrow> ''-'' | Some p \<Rightarrow> ManagementProduct.ownerTeam p),
             Txt ''Created'', Txt (date ManagementProduct.createdAt),
             Txt ''Updated'', Txt (date ManagementProduct.updatedAt),
             Txt ''Name'',
             Field ''product-name'' (product_form.name f) False (loading s)
               (\<lambda>v. SetFormState (\<lambda>prev. prev\<lparr>product_form.name := v\<rparr>)),
             Txt ''Owner team'',
             Field ''product-owner'' (product_form.ownerTeam f) False (loading s)
               (\<lambda>v. SetFormState (\<lambda>prev. prev\<lparr>product_form.ownerTeam := v\<rparr>)),
             Txt ''Description'',
             Field ''product-description'' (product_form.description f) False (loading s)
               (\<lambda>v. SetFormState (\<lambda>prev. prev\<lparr>product_form.description := v\<rparr>)),
             Check ''product-enabled'' (product_form.isEnabled f) (loading s)
               (\<lambda>b. SetFormState (\<lambda>prev. prev\<lparr>product_form.isEnabled := b\<rparr>)),
             Txt ''Enabled''])"

text \<open>The middle dot that separates the parts of a line.\<close>

definition dot_separator :: js_string where
  "dot_separator = [CHR '' '', CHR 0xB7, CHR '' '']"

definition product_services_node :: "product_detail \<Rightarrow> product_detail_ui node" where
  "product_services_node s =
     El [Txt ''Services'',
         (if loading s then Txt ''Loading services...''
          else if services s = [] then Txt ''No services yet.''
          else El (map (\<lambda>v. Txt (serviceName v @ dot_separator @ version v @ dot_separator
                 @ (if ManagementService.isEnabled v then ''Active'' else ''Disabled''))) (services s)))]"

definition product_detail_view ::
  "auth_user option \<Rightarrow> (js_string \<Rightarrow> js_string) \<Rightarrow> product_detail \<Rightarrow> product_detail_ui node" where
  "product_detail_view usr locale_date s =
     El [SectionHeader ''Product detail'' (Some ''Lifecycle status, services, and governance notes.'')
           (product_actions_node usr s) (Some (''/admin/products'', HandleBack)) ''Back'',
         show_error (error s),
         El (map (\<lambda>tab. Btn tab False (Some (SetActiveTab tab))) product_tabs),
         when_node (activeTab s = ''Overview'') (product_overview_node locale_date s),
         when_node (activeTab s = ''Services'') (product_services_node s),
         when_node (activeTab s = ''Metadata'')
           (El [Txt ''Metadata'', Txt ''Add business metadata in a future release.'']),
         when_node (activeTab s = ''Owners'')
           (El [Txt ''Owners & approvers'', Txt ''Ownership contacts managed outside this portal.''])]"

subsection \<open>Reaching the handlers\<close>

lemma product_services_inert [simp]: "dispatch d (product_services_node s) = []"
  by (simp add: product_services_node_def)

lemma product_save_reached:
  assumes "HandleSave \<in> set (dispatch d (product_detail_view usr ld s))"
  shows "permitted usr ''product.manage'' \<and> \<not> saving s \<and> \<not> loading s \<and> product s \<noteq> None"
  using assms
  by (auto simp: product_detail_view_def product_actions_node_def product_overview_node_def Let_def)

lemma product_delete_reached:
  assumes "HandleDelete \<in> set (dispatch d (product_detail_view usr ld s))"
  shows "permitted usr ''product.manage''"
  using assms
  by (auto simp: product_detail_view_def product_actions_node_def product_overview_node_def Let_def)

text \<open>What the page may send: an update or a delete of the product of its route.\<close>

definition product_detail_request :: "auth_user option \<Rightarrow> http_request \<Rightarrow> bool" where
  "product_detail_request usr q \<longleftrightarrow>
     permitted usr ''product.manage''
     \<and> (\<exists>pid. pid \<noteq> [] \<and> (q = deleteProduct pid \<or> (\<exists>f. q = updateProduct pid (product_update_payload f))))"

lemma product_handle_request:
  "u \<in> set (dispatch d (product_detail_view usr ld s)) \<Longrightarrow>
   q \<in> set (snd (product_detail_handle s u)) \<Longrightarrow> product_detail_request usr q"
  by (cases u)
    (auto simp: product_detail_request_def dest: product_save_reached product_delete_reached
      split: option.splits if_splits)

lemma product_handle_entity: "product (fst (product_detail_handle s u)) = product s"
  by (cases u) (simp_all split: option.splits)

lemma product_put_delete [simp]:
  "is_put (updateProduct i b)" "\<not> is_put (deleteProduct i)"
  by (simp_all add: is_put_def updateProduct_def deleteProduct_def http_put_def http_delete_def)

lemma product_handle_save:
  "u \<in> set (dispatch d (product_detail_view usr ld s)) \<Longrightarrow>
     filter is_put (snd (product_detail_handle s u)) = [] \<and> saving (fst (product_detail_handle s u)) = saving s
     \<or> (\<exists>q. filter is_put (snd (product_detail_handle s u)) = [q]) \<and> \<not> saving s \<and> product s \<noteq> None
         \<and> saving (fst (product_detail_handle s u))"
  by (cases u) (auto dest: product_save_reached split: option.splits)

definition product_detail_ops ::
  "auth_user option \<Rightarrow> (js_string \<Rightarrow> js_string) \<Rightarrow>
     (product_detail, product_detail_ui, ManagementProduct \<times> ManagementService list, ManagementProduct) detail_ops" where
  "product_detail_ops usr ld =
     \<lparr>dop_view = product_detail_view usr ld, dop_ui = product_detail_handle,
      dop_load_ok = product_detail_load_ok, dop_load_err = product_detail_load_err,
      dop_save_ok = product_detail_save_ok, dop_save_err = product_detail_save_err,
      dop_delete_ok = NavPush ''/admin/products'', dop_delete_err = product_detail_delete_err\<rparr>"

interpretation product_page:
  detail_page "product_detail_ops usr ld" product saving formState "product_detail_init pid"
    "product_detail_request usr" for usr ld pid
proof (unfold_locales, goal_cases)
  case (4 u d s)
  then show ?case using product_handle_save by (simp add: product_detail_ops_def)
next
  case (5 u d s q)
  then show ?case using product_handle_request by (simp add: product_detail_ops_def)
qed (simp_all add: product_detail_ops_def product_detail_init_def product_detail_load_ok_def
      product_detail_load_err_def product_detail_save_ok_def product_detail_save_err_def
      product_detail_delete_err_def product_handle_entity split: prod.splits)

subsection \<open>Properties\<close>

text \<open>
  C35: On the product detail page no two saves are ever in flight, no update is sent before the
  product has been loaded, and all it sends are updates and deletes by a user with
  \<open>product.manage\<close>.
\<close>

theorem product_detail_safe:
  "dreachable (product_detail_ops usr ld) (start_detail (product_detail_init pid)) w \<Longrightarrow>
     length (saves w) \<le> 1 \<and> (\<forall>q \<in> set (dsent w). product_detail_request usr q)
     \<and> (phase w \<noteq> Arrived \<longrightarrow> filter is_put (dsent w) = [])"
  by (rule product_page.saves_safe)

definition shown_product :: ManagementProduct where
  "shown_product =
     \<lparr>ManagementProduct.ident = ''p1'', name = ''N'', description = ''D'', ownerTeam = ''T'',
      isEnabled = True, createdAt = [], updatedAt = []\<rparr>"

theorem product_detail_safe_witness:
  "\<exists>w. drun (product_detail_ops (Some owner_user) id)
          [DLoads (shown_product, []), DUser (TypeIn ''product-name'' ''M'') 0, DUser (Click ''Save changes'') 0]
          (start_detail (product_detail_init (Some ''p1''))) = Some w
     \<and> length (saves w) = 1 \<and> (\<forall>q \<in> set (dsent w). product_detail_request (Some owner_user) q)"
proof -
  have "map_option (\<lambda>w. length (saves w)) (drun (product_detail_ops (Some owner_user) id)
          [DLoads (shown_product, []), DUser (TypeIn ''product-name'' ''M'') 0, DUser (Click ''Save changes'') 0]
          (start_detail (product_detail_init (Some ''p1'')))) = Some 1"
    by code_simp
  then obtain w where w: "drun (product_detail_ops (Some owner_user) id)
          [DLoads (shown_product, []), DUser (TypeIn ''product-name'' ''M'') 0, DUser (Click ''Save changes'') 0]
          (start_detail (product_detail_init (Some ''p1''))) = Some w" and "length (saves w) = 1"
    by auto
  with product_detail_safe [OF drun_start [OF w]] show ?thesis by blast
qed

end
