(* ===== verification/Service_Detail.thy ===== *)
theory Service_Detail
  imports Admin_Api Route_Guards Detail_Page
begin

section \<open>The service detail page\<close>

text \<open>
  Models \<open>app/(protected)/admin/services/[id]/page.tsx\<close>. The list of destinations goes through three
  forms: JSON text in the entity, comma-separated text in the form, a list in the update; the
  properties say when the list survives that, and when it does not.
\<close>

record service_form =
  serviceName :: js_string
  basePath :: js_string
  version :: js_string
  description :: js_string
  ownerTeam :: js_string
  clusterId :: js_string
  environment :: env_value
  destinations :: js_string
  isEnabled :: bool

record service_detail =
  activeTab :: js_string
  serviceId :: "js_string option"
  service :: "ManagementService option"
  endpoints :: "ManagementEndpoint list"
  loading :: bool
  saving :: bool
  error :: "js_string option"
  formState :: service_form

definition service_tabs :: "js_string list" where
  "service_tabs = [''Overview'', ''Endpoints'', ''Config'']"

definition service_detail_init :: "js_string option \<Rightarrow> service_detail" where
  "service_detail_init sid =
     \<lparr>activeTab = ''Overview'', serviceId = sid, service = None, endpoints = [], loading = True,
      saving = False, error = None,
      formState = \<lparr>service_form.serviceName = [], service_form.basePath = [], service_form.version = [],
                   service_form.description = [], service_form.ownerTeam = [], service_form.clusterId = [],
                   service_form.environment = EnvText ''Dev'', service_form.destinations = [],
                   service_form.isEnabled = True\<rparr>\<rparr>"

subsection \<open>load, handleSave and handleDelete\<close>

definition service_detail_load_requests :: "js_string option \<Rightarrow> http_request list" where
  "service_detail_load_requests sid =
     (case sid of
        None \<Rightarrow> []
      | Some i \<Rightarrow> (if truthy_str i then [getService i, getEndpoints (Some i) (Some False)] else []))"

text \<open>\<open>serviceData.environment ?? "Dev"\<close>.\<close>

definition loaded_environment :: "env_value option \<Rightarrow> env_value" where
  "loaded_environment v = (case v of None \<Rightarrow> EnvText ''Dev'' | Some x \<Rightarrow> x)"

definition service_form_of :: "(js_string \<Rightarrow> js_string) \<Rightarrow> ManagementService \<Rightarrow> service_form" where
  "service_form_of fmt serviceData =
     \<lparr>service_form.serviceName = ManagementService.serviceName serviceData,
      service_form.basePath = ManagementService.basePath serviceData,
      service_form.version = ManagementService.version serviceData,
      service_form.description = ManagementService.description serviceData,
      service_form.ownerTeam = ManagementService.ownerTeam serviceData,
      service_form.clusterId = ManagementService.clusterId serviceData,
      service_form.environment = loaded_environment (ManagementService.environment serviceData),
      service_form.destinations =
        js_join '', '' (parseJsonArray fmt (Some (ManagementService.destinations serviceData))),
      service_form.isEnabled = ManagementService.isEnabled serviceData\<rparr>"

definition service_detail_load_ok ::
  "(js_string \<Rightarrow> js_string) \<Rightarrow> ManagementService \<times> ManagementEndpoint list \<Rightarrow> service_detail \<Rightarrow>
     service_detail" where
  "service_detail_load_ok fmt answer s =
     (case answer of (serviceData, endpointsData) \<Rightarrow>
        s\<lparr>service := Some serviceData, endpoints := endpointsData,
          formState := service_form_of fmt serviceData, loading := False\<rparr>)"

definition service_detail_load_err :: "thrown \<Rightarrow> service_detail \<Rightarrow> service_detail" where
  "service_detail_load_err err s =
     s\<lparr>error := Some (message_of ''Failed to load service.'' err), loading := False\<rparr>"

text \<open>The value in the body of a request.\<close>

fun env_json :: "env_value \<Rightarrow> json" where
  "env_json (EnvText s) = JStr s"
| "env_json (EnvNumber n) = JInt n"

definition service_update_payload :: "service_form \<Rightarrow> json" where
  "service_update_payload f =
     (let dests = split_values (CHR '','') (service_form.destinations f) in
      JObj [(''serviceName'', JStr (js_trim (service_form.serviceName f))),
            (''basePath'', JStr (js_trim (service_form.basePath f))),
            (''version'', JStr (js_trim (service_form.version f))),
            (''description'', JStr (js_trim (service_form.description f))),
            (''ownerTeam'', JStr (js_trim (service_form.ownerTeam f))),
            (''clusterId'', JStr (js_trim (service_form.clusterId f))),
            (''environment'', env_json (service_form.environment f)),
            (''destinations'', JArr (map JStr dests)),
            (''isEnabled'', JBool (service_form.isEnabled f))])"

datatype service_detail_ui =
    SetActiveTab js_string
  | SetFormState "service_form \<Rightarrow> service_form"
  | HandleSave
  | HandleDelete
  | HandleBack

fun service_detail_handle ::
  "service_detail \<Rightarrow> service_detail_ui \<Rightarrow> service_detail \<times> http_request list" where
  "service_detail_handle s (SetActiveTab tab) = (s\<lparr>activeTab := tab\<rparr>, [])"
| "service_detail_handle s (SetFormState upd) = (s\<lparr>formState := upd (formState s)\<rparr>, [])"
| "service_detail_handle s HandleSave =
     (case serviceId s of
        None \<Rightarrow> (s, [])
      | Some sid \<Rightarrow>
          (if \<not> truthy_str sid then (s, [])
           else (s\<lparr>saving := True, error := None\<rparr>,
                 [updateService sid (service_update_payload (formState s))])))"
| "service_detail_handle s HandleDelete =
     (case serviceId s of
        None \<Rightarrow> (s, [])
      | Some sid \<Rightarrow>
          (if \<not> truthy_str sid then (s, [])
           else (s\<lparr>error := None\<rparr>, [deleteService sid])))"
| "service_detail_handle s HandleBack = (s, [])"

definition service_detail_save_ok :: "ManagementService \<Rightarrow> service_detail \<Rightarrow> service_detail" where
  "service_detail_save_ok updated s = s\<lparr>service := Some updated, saving := False\<rparr>"

definition service_detail_save_err :: "thrown \<Rightarrow> service_detail \<Rightarrow> service_detail" where
  "service_detail_save_err err s =
     s\<lparr>error := Some (message_of ''Failed to update service.'' err), saving := False\<rparr>"

definition service_detail_delete_err :: "thrown \<Rightarrow> service_detail \<Rightarrow> service_detail" where
  "service_detail_delete_err err s = s\<lparr>error := Some (message_of ''Failed to delete service.'' err)\<rparr>"

subsection \<open>What is rendered\<close>

definition service_actions_node :: "auth_user option \<Rightarrow> service_detail \<Rightarrow> service_detail_ui node" where
  "service_actions_node usr s =
     El [PermissionGate usr (Some ''service.manage'') None nothing
           (Btn (if saving s then ''Saving...'' else ''Save changes'')
              (saving s \<or> loading s \<or> service s = None) (Some HandleSave)),
         PermissionGate usr (Some ''service.manage'') None nothing
           (ConfirmDialog ''Delete service?''
              (Some ''This marks the service as deleted (disabled). Its endpoints will no longer be shown in the developer portal.'')
              ''Delete'' ''Delete'' (Some HandleDelete))]"

definition service_overview_node :: "service_detail \<Rightarrow> service_detail_ui node" where
  "service_overview_node s =
     (let enabled = (case service s of None \<Rightarrow> False | Some v \<Rightarrow> ManagementService.isEnabled v);
          env = environment_badge (Option.bind (service s) ManagementService.environment)
      in El [Txt (case service s of
                    None \<Rightarrow> ''Loading...''
                  | Some v \<Rightarrow> ManagementService.serviceName v @ '' '' @ ManagementService.version v),
             Txt ''Status'',
             Badge (if enabled then ''success'' else ''neutral'') (if enabled then ''Active'' else ''Disabled''),
             Txt ''Base path'',
             Txt (case service s of None \<Rightarrow> ''-'' | Some v \<Rightarrow> ManagementService.basePath v),
             Txt ''Version'',
             Txt (case service s of None \<Rightarrow> ''-'' | Some v \<Rightarrow> ManagementService.version v),
             Txt ''Environment'',
             Badge (fst env) (snd env)])"

definition service_endpoints_node :: "service_detail \<Rightarrow> service_detail_ui node" where
  "service_endpoints_node s =
     El [Txt ''Endpoints'',
         (if loading s then Txt ''Loading endpoints...''
          else if endpoints s = [] then Txt ''No endpoints configured yet.''
          else El (map (\<lambda>e. Txt (httpMethod e @ '' '' @ relativePath e @ [CHR '' '', CHR 0xB7, CHR '' '']
                 @ (if ManagementEndpoint.isEnabled e then ''Active'' else ''Disabled''))) (endpoints s))),
         Link ''/admin/endpoints'' ''Manage endpoints'']"

definition service_config_node :: "service_detail \<Rightarrow> service_detail_ui node" where
  "service_config_node s =
     (let f = formState s in
      El [Txt ''Service configuration'',
          Txt ''Service name'',
          Field ''service-name'' (service_form.serviceName f) False (loading s)
            (\<lambda>v. SetFormState (\<lambda>prev. prev\<lparr>service_form.serviceName := v\<rparr>)),
          Txt ''Base path'',
          Field ''service-base'' (service_form.basePath f) False (loading s)
            (\<lambda>v. SetFormState (\<lambda>prev. prev\<lparr>service_form.basePath := v\<rparr>)),
          Txt ''Version'',
          Field ''service-version'' (service_form.version f) False (loading s)
            (\<lambda>v. SetFormState (\<lambda>prev. prev\<lparr>service_form.version := v\<rparr>)),
          Txt ''Environment'',
          Select ''service-env'' (env_string (service_form.environment f)) False False
            [(''Dev'', ''Dev''), (''Uat'', ''UAT''), (''Staging'', ''Staging''), (''Prod'', ''Prod'')]
            (\<lambda>v. SetFormState (\<lambda>prev. prev\<lparr>service_form.environment := EnvText v\<rparr>)),
          Txt ''Owner team'',
          Field ''service-owner'' (service_form.ownerTeam f) False (loading s)
            (\<lambda>v. SetFormState (\<lambda>prev. prev\<lparr>service_form.ownerTeam := v\<rparr>)),
          Txt ''Cluster ID'',
          Field ''service-cluster'' (service_form.clusterId f) False (loading s)
            (\<lambda>v. SetFormState (\<lambda>prev. prev\<lparr>service_form.clusterId := v\<rparr>)),
          Txt ''Description'',
          Field ''service-description'' (service_form.description f) False (loading s)
            (\<lambda>v. SetFormState (\<lambda>prev. prev\<lparr>service_form.description := v\<rparr>)),
          Txt ''Destinations (comma-separated URLs)'',
          Field ''service-destinations'' (service_form.destinations f) False (loading s)
            (\<lambda>v. SetFormState (\<lambda>prev. prev\<lparr>service_form.destinations := v\<rparr>)),
          Check ''service-enabled'' (service_form.isEnabled f) (loading s)
            (\<lambda>b. SetFormState (\<lambda>prev. prev\<lparr>service_form.isEnabled := b\<rparr>)),
          Txt ''Enabled''])"

definition service_detail_view :: "auth_user option \<Rightarrow> service_detail \<Rightarrow> service_detail_ui node" where
  "service_detail_view usr s =
     El [SectionHeader ''Service detail'' (Some ''Configure base path, crypto, and resilience policies.'')
           (service_actions_node usr s) (Some (''/admin/services'', HandleBack)) ''Back'',
         show_error (error s),
         El (map (\<lambda>tab. Btn tab False (Some (SetActiveTab tab))) service_tabs),
         when_node (activeTab s = ''Overview'') (service_overview_node s),
         when_node (activeTab s = ''Endpoints'') (service_endpoints_node s),
         when_node (activeTab s = ''Config'') (service_config_node s)]"

subsection \<open>Reaching the handlers\<close>

lemma service_overview_inert [simp]: "dispatch d (service_overview_node s) = []"
  by (simp add: service_overview_node_def Let_def)

lemma service_endpoints_inert [simp]: "dispatch d (service_endpoints_node s) = []"
  by (simp add: service_endpoints_node_def)

lemma service_save_reached:
  assumes "HandleSave \<in> set (dispatch d (service_detail_view usr s))"
  shows "permitted usr ''service.manage'' \<and> \<not> saving s \<and> \<not> loading s \<and> service s \<noteq> None"
  using assms
  by (auto simp: service_detail_view_def service_actions_node_def service_config_node_def Let_def)

lemma service_delete_reached:
  assumes "HandleDelete \<in> set (dispatch d (service_detail_view usr s))"
  shows "permitted usr ''service.manage''"
  using assms
  by (auto simp: service_detail_view_def service_actions_node_def service_config_node_def Let_def)

definition service_detail_request :: "auth_user option \<Rightarrow> http_request \<Rightarrow> bool" where
  "service_detail_request usr q \<longleftrightarrow>
     permitted usr ''service.manage''
     \<and> (\<exists>sid. sid \<noteq> [] \<and> (q = deleteService sid \<or> (\<exists>f. q = updateService sid (service_update_payload f))))"

lemma service_handle_request:
  "u \<in> set (dispatch d (service_detail_view usr s)) \<Longrightarrow>
   q \<in> set (snd (service_detail_handle s u)) \<Longrightarrow> service_detail_request usr q"
  by (cases u)
    (auto simp: service_detail_request_def dest: service_save_reached service_delete_reached
      split: option.splits if_splits)

lemma service_handle_entity: "service (fst (service_detail_handle s u)) = service s"
  by (cases u) (simp_all split: option.splits)

lemma service_put_delete [simp]:
  "is_put (updateService i b)" "\<not> is_put (deleteService i)"
  by (simp_all add: is_put_def updateService_def deleteService_def http_put_def http_delete_def)

lemma service_handle_save:
  "u \<in> set (dispatch d (service_detail_view usr s)) \<Longrightarrow>
     filter is_put (snd (service_detail_handle s u)) = [] \<and> saving (fst (service_detail_handle s u)) = saving s
     \<or> (\<exists>q. filter is_put (snd (service_detail_handle s u)) = [q]) \<and> \<not> saving s \<and> service s \<noteq> None
         \<and> saving (fst (service_detail_handle s u))"
  by (cases u) (auto dest: service_save_reached split: option.splits)

definition service_detail_ops ::
  "auth_user option \<Rightarrow> (js_string \<Rightarrow> js_string) \<Rightarrow>
     (service_detail, service_detail_ui, ManagementService \<times> ManagementEndpoint list, ManagementService) detail_ops" where
  "service_detail_ops usr fmt =
     \<lparr>dop_view = service_detail_view usr, dop_ui = service_detail_handle,
      dop_load_ok = service_detail_load_ok fmt, dop_load_err = service_detail_load_err,
      dop_save_ok = service_detail_save_ok, dop_save_err = service_detail_save_err,
      dop_delete_ok = NavPush ''/admin/services'', dop_delete_err = service_detail_delete_err\<rparr>"

interpretation service_page:
  detail_page "service_detail_ops usr fmt" service saving formState "service_detail_init sid"
    "service_detail_request usr" for usr fmt sid
proof (unfold_locales, goal_cases)
  case (4 u d s)
  then show ?case using service_handle_save by (simp add: service_detail_ops_def)
next
  case (5 u d s q)
  then show ?case using service_handle_request by (simp add: service_detail_ops_def)
qed (simp_all add: service_detail_ops_def service_detail_init_def service_detail_load_ok_def
      service_detail_load_err_def service_detail_save_ok_def service_detail_save_err_def
      service_detail_delete_err_def service_handle_entity split: prod.splits)

subsection \<open>Properties\<close>

text \<open>
  C16: On the service detail page no two saves are in flight, no update is sent before the
  service has been loaded, and all it sends are updates and deletes by a user with
  \<open>service.manage\<close>.
\<close>

theorem service_detail_safe:
  "dreachable (service_detail_ops usr fmt) (start_detail (service_detail_init sid)) w \<Longrightarrow>
     length (saves w) \<le> 1 \<and> (\<forall>q \<in> set (dsent w). service_detail_request usr q)
     \<and> (phase w \<noteq> Arrived \<longrightarrow> filter is_put (dsent w) = [])"
  by (rule service_page.saves_safe)

definition plain_service :: "js_string list \<Rightarrow> ManagementService" where
  "plain_service dests =
     \<lparr>ManagementService.ident = ''s1'', productId = ''p1'', serviceName = ''S'', basePath = ''/s'',
      version = ''v1'', description = ''D'', ownerTeam = ''T'', isEnabled = True, environment = Some (EnvNumber 2),
      clusterId = ''primary'', destinations = json_stringify (JArr (map JStr dests)),
      loadBalancingPolicy = [], healthCheckEnabled = False, healthCheckPath = None,
      healthCheckIntervalSeconds = 0, sessionAffinityEnabled = False, sessionAffinityCookieName = [],
      sessionAffinityTtlSeconds = 0, circuitBreakerEnabled = False, circuitBreakerThreshold = 0,
      circuitBreakerDurationSeconds = 0, retryEnabled = False, retryCount = 0, retryDelayMs = 0,
      connectionTimeoutSeconds = 0, requestTimeoutSeconds = 0, maxConnectionsPerDestination = 0,
      passiveHealthCheckEnabled = False, passiveHealthFailureThreshold = 0,
      passiveHealthReactivationSeconds = 0, enableTracing = False, enableMetrics = False,
      logSampling = ''1'', requiresJwt = False, requiredScopes = None, allowedClients = None,
      cacheEnabled = False, cacheTtlSeconds = 0, cacheKeyTemplate = None, emitEvents = False,
      topicPrefix = None, eventSchemaVersion = None, defaultCryptoAlgorithm = [],
      defaultKeySource = [], defaultIvSource = [], defaultEncoding = [], defaultRequireIv = False,
      createdAt = [], updatedAt = []\<rparr>"

theorem service_detail_safe_witness:
  "\<exists>w. drun (service_detail_ops (Some owner_user) id)
          [DLoads (plain_service [''u''], []), DUser (Click ''Save changes'') 0]
          (start_detail (service_detail_init (Some ''s1''))) = Some w
     \<and> length (saves w) = 1 \<and> (\<forall>q \<in> set (dsent w). service_detail_request (Some owner_user) q)"
proof -
  have "map_option (\<lambda>w. length (saves w)) (drun (service_detail_ops (Some owner_user) id)
          [DLoads (plain_service [''u''], []), DUser (Click ''Save changes'') 0]
          (start_detail (service_detail_init (Some ''s1'')))) = Some 1"
    by code_simp
  then obtain w where w: "drun (service_detail_ops (Some owner_user) id)
          [DLoads (plain_service [''u''], []), DUser (Click ''Save changes'') 0]
          (start_detail (service_detail_init (Some ''s1''))) = Some w" and "length (saves w) = 1"
    by auto
  with service_detail_safe [OF drun_start [OF w]] show ?thesis by blast
qed

text \<open>
  C15: For a service whose destinations are stored as a JSON list of texts, however that is written, saving what
  was loaded keeps the list if and only if each destination is not empty and has no blanks around it and
  no comma in it; otherwise another list is sent, although nothing was edited.
\<close>

theorem service_destinations_round_trip:
  assumes "json_parse (ManagementService.destinations v) = Some (JArr (map JStr dests))"
  shows "get_prop (service_update_payload (service_form_of fmt v)) ''destinations'' = Some (JArr (map JStr dests))
     \<longleftrightarrow> (\<forall>x \<in> set dests. trimmed x \<and> x \<noteq> [] \<and> CHR '','' \<notin> set x)"
proof -
  let ?kept = "split_values (CHR '','') (js_join '', '' dests)"
  have "service_form.destinations (service_form_of fmt v) = js_join '', '' dests"
    by (simp add: service_form_of_def parseJsonArray_parse [OF assms])
  then have "get_prop (service_update_payload (service_form_of fmt v)) ''destinations'' = Some (JArr (map JStr ?kept))"
    by (simp add: service_update_payload_def Let_def get_prop_def)
  moreover have "(map JStr ?kept = map JStr dests) = (?kept = dests)"
    by (rule inj_map_eq_map) (simp add: inj_def)
  moreover have "?kept = dests" if "\<forall>x \<in> set dests. trimmed x \<and> x \<noteq> [] \<and> CHR '','' \<notin> set x"
    using that by (rule split_values_join) simp
  moreover have "\<forall>x \<in> set dests. trimmed x \<and> x \<noteq> [] \<and> CHR '','' \<notin> set x" if "?kept = dests"
    using split_values_trimmed split_values_no_sep that by metis
  ultimately show ?thesis by (metis json.inject(4) option.inject json.inject(5))
qed

definition spaced_list :: js_string where
  "spaced_list = ''['' @ [CHR 0x22] @ ''https://a'' @ [CHR 0x22] @ '', '' @ [CHR 0x22] @ ''https://b'' @ [CHR 0x22] @ '']''"

theorem service_destinations_round_trip_witness:
  "get_prop (service_update_payload (service_form_of id
       ((plain_service [])\<lparr>ManagementService.destinations := spaced_list\<rparr>))) ''destinations''
     = Some (JArr [JStr ''https://a'', JStr ''https://b''])
   \<and> get_prop (service_update_payload (service_form_of id (plain_service [''http://h/?a=1,2'']))) ''destinations''
     \<noteq> Some (JArr [JStr ''http://h/?a=1,2''])"
proof
  have p: "json_parse spaced_list = Some (JArr (map JStr [''https://a'', ''https://b'']))"
    by code_simp
  have "trimmed ''https://a''" "trimmed ''https://b''" by code_simp+
  then show "get_prop (service_update_payload (service_form_of id
       ((plain_service [])\<lparr>ManagementService.destinations := spaced_list\<rparr>))) ''destinations''
     = Some (JArr [JStr ''https://a'', JStr ''https://b''])"
    using service_destinations_round_trip [of "(plain_service [])\<lparr>ManagementService.destinations := spaced_list\<rparr>"
        "[''https://a'', ''https://b'']" id] p
    by simp
next
  have "json_parse (ManagementService.destinations (plain_service [''http://h/?a=1,2'']))
      = Some (JArr (map JStr [''http://h/?a=1,2'']))"
    unfolding plain_service_def by code_simp
  from service_destinations_round_trip [OF this, of id]
  show "get_prop (service_update_payload (service_form_of id (plain_service [''http://h/?a=1,2'']))) ''destinations''
     \<noteq> Some (JArr [JStr ''http://h/?a=1,2''])"
    by simp
qed

text \<open>
  A destination with a comma in it does not survive: loading and saving without any edit sends
  its two halves as two destinations.
\<close>

theorem service_destinations_comma_split:
  "\<exists>w. dreachable (service_detail_ops (Some owner_user) id) (start_detail (service_detail_init (Some ''s1''))) w
     \<and> service (dpage w) = Some (plain_service [''http://h/?a=1,2''])
     \<and> map (\<lambda>q. Option.bind (body q) (\<lambda>b. get_prop b ''destinations'')) (dsent w)
       = [Some (JArr [JStr ''http://h/?a=1'', JStr ''2''])]"
proof -
  have "map_option (\<lambda>w. (service (dpage w),
        map (\<lambda>q. Option.bind (body q) (\<lambda>b. get_prop b ''destinations'')) (dsent w)))
      (drun (service_detail_ops (Some owner_user) id)
          [DLoads (plain_service [''http://h/?a=1,2''], []), DUser (Click ''Save changes'') 0]
          (start_detail (service_detail_init (Some ''s1''))))
    = Some (Some (plain_service [''http://h/?a=1,2'']), [Some (JArr [JStr ''http://h/?a=1'', JStr ''2''])])"
    by code_simp
  then obtain w where w: "drun (service_detail_ops (Some owner_user) id)
          [DLoads (plain_service [''http://h/?a=1,2''], []), DUser (Click ''Save changes'') 0]
          (start_detail (service_detail_init (Some ''s1''))) = Some w"
      and "(service (dpage w), map (\<lambda>q. Option.bind (body q) (\<lambda>b. get_prop b ''destinations'')) (dsent w))
        = (Some (plain_service [''http://h/?a=1,2'']), [Some (JArr [JStr ''http://h/?a=1'', JStr ''2''])])"
    by (rule map_option_SomeE)
  with drun_start [OF w] show ?thesis by auto
qed

text \<open>
  Deleting is guarded neither against a second click nor against a save in flight.
\<close>

theorem service_delete_unguarded:
  "\<exists>w. dreachable (service_detail_ops (Some owner_user) id) (start_detail (service_detail_init (Some ''s1''))) w
     \<and> length (deletes w) = 2 \<and> length (saves w) = 1"
proof -
  let ?run = "drun (service_detail_ops (Some owner_user) id)
          [DLoads (plain_service [], []), DUser (Click ''Save changes'') 0, DUser (Click ''Delete'') 0,
           DUser (Click ''Delete'') 0] (start_detail (service_detail_init (Some ''s1'')))"
  have "map_option (\<lambda>w. (length (deletes w), length (saves w))) ?run = Some (2, 1)"
    by code_simp
  then obtain w where w: "?run = Some w" and "(length (deletes w), length (saves w)) = (2, 1)"
    by (rule map_option_SomeE)
  with drun_start [OF w] show ?thesis by auto
qed

end
