(* ===== verification/Endpoint_Detail.thy ===== *)
theory Endpoint_Detail
  imports Admin_Api Route_Guards Detail_Page
begin

section \<open>The endpoint detail page\<close>

text \<open>
  Models \<open>app/(protected)/admin/endpoints/[id]/page.tsx\<close>. The load is the endpoint, then its service
  and the service's destinations. There is no delete. Number inputs without bounds yield integers
  here; a fraction typed into them is not modelled.
\<close>

record endpoint_form =
  endpointName :: js_string
  httpMethod :: js_string
  relativePath :: js_string
  upstreamPathTemplate :: js_string
  timeoutMs :: int
  maxRetries :: int
  isEnabled :: bool

record endpoint_detail =
  activeTab :: js_string
  endpointId :: "js_string option"
  endpoint :: "ManagementEndpoint option"
  service :: "ManagementService option"
  destinations :: "ManagementServiceDestination list"
  loading :: bool
  saving :: bool
  error :: "js_string option"
  formState :: endpoint_form

definition endpoint_tabs :: "js_string list" where
  "endpoint_tabs = [''Overview'', ''Security & Policies'', ''Destinations'', ''Observability'']"

definition endpoint_detail_init :: "js_string option \<Rightarrow> endpoint_detail" where
  "endpoint_detail_init eid =
     \<lparr>activeTab = ''Overview'', endpointId = eid, endpoint = None, service = None, destinations = [],
      loading = True, saving = False, error = None,
      formState = \<lparr>endpoint_form.endpointName = [], endpoint_form.httpMethod = ''POST'',
                   endpoint_form.relativePath = [], endpoint_form.upstreamPathTemplate = [],
                   endpoint_form.timeoutMs = 30000, endpoint_form.maxRetries = 0,
                   endpoint_form.isEnabled = True\<rparr>\<rparr>"

subsection \<open>load and handleSave\<close>

definition endpoint_detail_load_first :: "js_string option \<Rightarrow> http_request list" where
  "endpoint_detail_load_first eid =
     (case eid of None \<Rightarrow> [] | Some i \<Rightarrow> (if truthy_str i then [getEndpoint i] else []))"

definition endpoint_detail_load_second :: "ManagementEndpoint \<Rightarrow> http_request list" where
  "endpoint_detail_load_second endpointData =
     [getService (ManagementEndpoint.serviceId endpointData),
      getServiceDestinations (ManagementEndpoint.serviceId endpointData)]"

definition endpoint_form_of :: "ManagementEndpoint \<Rightarrow> endpoint_form" where
  "endpoint_form_of endpointData =
     \<lparr>endpoint_form.endpointName = ManagementEndpoint.endpointName endpointData,
      endpoint_form.httpMethod = ManagementEndpoint.httpMethod endpointData,
      endpoint_form.relativePath = ManagementEndpoint.relativePath endpointData,
      endpoint_form.upstreamPathTemplate =
        (case ManagementEndpoint.upstreamPathTemplate endpointData of None \<Rightarrow> [] | Some t \<Rightarrow> t),
      endpoint_form.timeoutMs = ManagementEndpoint.timeoutMs endpointData,
      endpoint_form.maxRetries = ManagementEndpoint.maxRetries endpointData,
      endpoint_form.isEnabled = ManagementEndpoint.isEnabled endpointData\<rparr>"

definition endpoint_detail_load_ok ::
  "ManagementEndpoint \<times> ManagementService \<times> ManagementServiceDestination list \<Rightarrow>
     endpoint_detail \<Rightarrow> endpoint_detail" where
  "endpoint_detail_load_ok answer s =
     (case answer of (endpointData, serviceData, destinationsData) \<Rightarrow>
        s\<lparr>endpoint := Some endpointData, service := Some serviceData,
          destinations := destinationsData, formState := endpoint_form_of endpointData,
          loading := False\<rparr>)"

definition endpoint_detail_load_err :: "thrown \<Rightarrow> endpoint_detail \<Rightarrow> endpoint_detail" where
  "endpoint_detail_load_err err s =
     s\<lparr>error := Some (message_of ''Failed to load endpoint.'' err), loading := False\<rparr>"

definition endpoint_update_payload :: "endpoint_form \<Rightarrow> json" where
  "endpoint_update_payload f =
     JObj (defined_props
       [(''endpointName'', Some (JStr (js_trim (endpoint_form.endpointName f)))),
        (''httpMethod'', Some (JStr (js_trim (endpoint_form.httpMethod f)))),
        (''relativePath'', Some (JStr (js_trim (endpoint_form.relativePath f)))),
        (''upstreamPathTemplate'',
           map_option JStr (or_undefined (js_trim (endpoint_form.upstreamPathTemplate f)))),
        (''timeoutMs'', Some (JInt (endpoint_form.timeoutMs f))),
        (''maxRetries'', Some (JInt (endpoint_form.maxRetries f))),
        (''isEnabled'', Some (JBool (endpoint_form.isEnabled f)))])"

datatype endpoint_detail_ui =
    SetActiveTab js_string
  | SetFormState "endpoint_form \<Rightarrow> endpoint_form"
  | HandleSave
  | HandleBack

fun endpoint_detail_handle ::
  "endpoint_detail \<Rightarrow> endpoint_detail_ui \<Rightarrow> endpoint_detail \<times> http_request list" where
  "endpoint_detail_handle s (SetActiveTab tab) = (s\<lparr>activeTab := tab\<rparr>, [])"
| "endpoint_detail_handle s (SetFormState upd) = (s\<lparr>formState := upd (formState s)\<rparr>, [])"
| "endpoint_detail_handle s HandleSave =
     (case endpointId s of
        None \<Rightarrow> (s, [])
      | Some eid \<Rightarrow>
          (if \<not> truthy_str eid then (s, [])
           else (s\<lparr>saving := True, error := None\<rparr>,
                 [updateEndpoint eid (endpoint_update_payload (formState s))])))"
| "endpoint_detail_handle s HandleBack = (s, [])"

definition endpoint_detail_save_ok :: "ManagementEndpoint \<Rightarrow> endpoint_detail \<Rightarrow> endpoint_detail" where
  "endpoint_detail_save_ok updated s = s\<lparr>endpoint := Some updated, saving := False\<rparr>"

definition endpoint_detail_save_err :: "thrown \<Rightarrow> endpoint_detail \<Rightarrow> endpoint_detail" where
  "endpoint_detail_save_err err s =
     s\<lparr>error := Some (message_of ''Failed to update endpoint.'' err), saving := False\<rparr>"

subsection \<open>What is rendered\<close>

definition endpoint_overview_node :: "endpoint_detail \<Rightarrow> endpoint_detail_ui node" where
  "endpoint_overview_node s =
     (let enabled = (case endpoint s of None \<Rightarrow> False | Some e \<Rightarrow> ManagementEndpoint.isEnabled e);
          text_of = (\<lambda>get. case endpoint s of None \<Rightarrow> ''-'' | Some e \<Rightarrow> get e);
          num_of = (\<lambda>get. case endpoint s of None \<Rightarrow> 0 | Some e \<Rightarrow> get e)
      in El [Txt (case endpoint s of
                    None \<Rightarrow> ''Loading...''
                  | Some e \<Rightarrow> ManagementEndpoint.httpMethod e @ '' '' @ ManagementEndpoint.relativePath e),
             Txt ''Name'', Txt (text_of ManagementEndpoint.endpointName),
             Txt ''Service'',
             Txt (case service s of None \<Rightarrow> ''-'' | Some v \<Rightarrow> serviceName v),
             Txt ''Method'', Txt (text_of ManagementEndpoint.httpMethod),
             Txt ''Route'', Txt (text_of ManagementEndpoint.relativePath),
             Txt ''Timeout'', Txt (int_dec (num_of ManagementEndpoint.timeoutMs) @ '' ms''),
             Txt ''Retries'', Txt (int_dec (num_of ManagementEndpoint.maxRetries)),
             Txt ''Status'',
             Badge (if enabled then ''success'' else ''neutral'')
               (if enabled then ''Active'' else ''Disabled'')])"

definition endpoint_policies_node :: "endpoint_detail \<Rightarrow> endpoint_detail_ui node" where
  "endpoint_policies_node s =
     (let f = formState s in
      El [Txt ''Security & policies'',
          Txt ''Endpoint name'',
          Field ''endpoint-name'' (endpoint_form.endpointName f) False (loading s)
            (\<lambda>v. SetFormState (\<lambda>prev. prev\<lparr>endpoint_form.endpointName := v\<rparr>)),
          Txt ''HTTP method'',
          Select ''endpoint-method'' (endpoint_form.httpMethod f) False (loading s)
            (map (\<lambda>m. (m, m)) [''GET'', ''POST'', ''PUT'', ''PATCH'', ''DELETE''])
            (\<lambda>v. SetFormState (\<lambda>prev. prev\<lparr>endpoint_form.httpMethod := v\<rparr>)),
          Txt ''Timeout (ms)'',
          NumField ''endpoint-timeout'' (endpoint_form.timeoutMs f) None (loading s)
            (\<lambda>n. SetFormState (\<lambda>prev. prev\<lparr>endpoint_form.timeoutMs := n\<rparr>)),
          Txt ''Retries'',
          NumField ''endpoint-retries'' (endpoint_form.maxRetries f) None (loading s)
            (\<lambda>n. SetFormState (\<lambda>prev. prev\<lparr>endpoint_form.maxRetries := n\<rparr>)),
          Txt ''Relative path'',
          Field ''endpoint-path'' (endpoint_form.relativePath f) False (loading s)
            (\<lambda>v. SetFormState (\<lambda>prev. prev\<lparr>endpoint_form.relativePath := v\<rparr>)),
          Txt ''Upstream path template'',
          Field ''endpoint-upstream'' (endpoint_form.upstreamPathTemplate f) False (loading s)
            (\<lambda>v. SetFormState (\<lambda>prev. prev\<lparr>endpoint_form.upstreamPathTemplate := v\<rparr>)),
          Check ''endpoint-enabled'' (endpoint_form.isEnabled f) (loading s)
            (\<lambda>b. SetFormState (\<lambda>prev. prev\<lparr>endpoint_form.isEnabled := b\<rparr>)),
          Txt ''Enabled''])"

definition endpoint_destinations_node :: "endpoint_detail \<Rightarrow> endpoint_detail_ui node" where
  "endpoint_destinations_node s =
     El [Txt ''Destinations'',
         (if loading s then Txt ''Loading destinations...''
          else if destinations s = [] then Txt ''No destinations configured yet.''
          else El (map (\<lambda>x. Txt (address x @ [CHR '' '', CHR 0xB7, CHR '' ''] @ ''Weight '' @ int_dec (weight x)))
                 (destinations s))),
         Link (''/admin/endpoints/'' @ (case endpointId s of None \<Rightarrow> ''undefined'' | Some i \<Rightarrow> i) @ ''/destinations'')
           ''Manage destinations'']"

definition endpoint_detail_view :: "auth_user option \<Rightarrow> endpoint_detail \<Rightarrow> endpoint_detail_ui node" where
  "endpoint_detail_view usr s =
     El [SectionHeader ''Endpoint detail'' (Some ''Review routing, auth, and resilience settings.'')
           (PermissionGate usr (Some ''endpoint.manage'') None nothing
              (Btn (if saving s then ''Saving...'' else ''Save changes'')
                 (saving s \<or> loading s \<or> endpoint s = None) (Some HandleSave)))
           (Some (''/admin/endpoints'', HandleBack)) ''Back'',
         show_error (error s),
         El (map (\<lambda>tab. Btn tab False (Some (SetActiveTab tab))) endpoint_tabs),
         when_node (activeTab s = ''Overview'') (endpoint_overview_node s),
         when_node (activeTab s = ''Security & Policies'') (endpoint_policies_node s),
         when_node (activeTab s = ''Destinations'') (endpoint_destinations_node s),
         when_node (activeTab s = ''Observability'')
           (El (map Txt [''Observability'', ''p95 latency: 210ms'', ''Error rate: 0.3%'', ''Traffic: 820 rps'']))]"

subsection \<open>Reaching the handlers\<close>

lemma endpoint_overview_inert [simp]: "dispatch d (endpoint_overview_node s) = []"
  by (simp add: endpoint_overview_node_def Let_def)

lemma endpoint_destinations_inert [simp]: "dispatch d (endpoint_destinations_node s) = []"
  by (simp add: endpoint_destinations_node_def)

lemma endpoint_save_reached:
  assumes "HandleSave \<in> set (dispatch d (endpoint_detail_view usr s))"
  shows "permitted usr ''endpoint.manage'' \<and> \<not> saving s \<and> \<not> loading s \<and> endpoint s \<noteq> None"
  using assms by (auto simp: endpoint_detail_view_def endpoint_policies_node_def Let_def)

definition endpoint_detail_request :: "auth_user option \<Rightarrow> http_request \<Rightarrow> bool" where
  "endpoint_detail_request usr q \<longleftrightarrow>
     permitted usr ''endpoint.manage''
     \<and> (\<exists>eid f. eid \<noteq> [] \<and> q = updateEndpoint eid (endpoint_update_payload f))"

lemma endpoint_handle_request:
  "u \<in> set (dispatch d (endpoint_detail_view usr s)) \<Longrightarrow>
   q \<in> set (snd (endpoint_detail_handle s u)) \<Longrightarrow> endpoint_detail_request usr q"
  by (cases u)
    (auto simp: endpoint_detail_request_def dest: endpoint_save_reached split: option.splits if_splits)

lemma endpoint_handle_entity: "endpoint (fst (endpoint_detail_handle s u)) = endpoint s"
  by (cases u) (simp_all split: option.splits)

lemma endpoint_put [simp]: "is_put (updateEndpoint i b)"
  by (simp add: is_put_def updateEndpoint_def http_put_def)

lemma endpoint_handle_save:
  "u \<in> set (dispatch d (endpoint_detail_view usr s)) \<Longrightarrow>
     filter is_put (snd (endpoint_detail_handle s u)) = [] \<and> saving (fst (endpoint_detail_handle s u)) = saving s
     \<or> (\<exists>q. filter is_put (snd (endpoint_detail_handle s u)) = [q]) \<and> \<not> saving s \<and> endpoint s \<noteq> None
         \<and> saving (fst (endpoint_detail_handle s u))"
  by (cases u) (auto dest: endpoint_save_reached split: option.splits)

text \<open>The page has no delete; the fields of the contract for it are never used.\<close>

definition endpoint_detail_ops ::
  "auth_user option \<Rightarrow>
     (endpoint_detail, endpoint_detail_ui,
      ManagementEndpoint \<times> ManagementService \<times> ManagementServiceDestination list,
      ManagementEndpoint) detail_ops" where
  "endpoint_detail_ops usr =
     \<lparr>dop_view = endpoint_detail_view usr, dop_ui = endpoint_detail_handle,
      dop_load_ok = endpoint_detail_load_ok, dop_load_err = endpoint_detail_load_err,
      dop_save_ok = endpoint_detail_save_ok, dop_save_err = endpoint_detail_save_err,
      dop_delete_ok = NavBack, dop_delete_err = (\<lambda>t s. s)\<rparr>"

interpretation endpoint_page:
  detail_page "endpoint_detail_ops usr" endpoint saving formState "endpoint_detail_init eid"
    "endpoint_detail_request usr" for usr eid
proof (unfold_locales, goal_cases)
  case (4 u d s)
  then show ?case using endpoint_handle_save by (simp add: endpoint_detail_ops_def)
next
  case (5 u d s q)
  then show ?case using endpoint_handle_request by (simp add: endpoint_detail_ops_def)
qed (simp_all add: endpoint_detail_ops_def endpoint_detail_init_def endpoint_detail_load_ok_def
      endpoint_detail_load_err_def endpoint_detail_save_ok_def endpoint_detail_save_err_def
      endpoint_handle_entity split: prod.splits)

subsection \<open>Properties\<close>

definition detail_endpoint :: ManagementEndpoint where
  "detail_endpoint =
     \<lparr>ManagementEndpoint.ident = ''e1'', serviceId = ''s1'', endpointName = ''Create transfer'',
      httpMethod = ''POST'', relativePath = ''/transfers'', upstreamPathTemplate = Some ''/api/v2'',
      isEnabled = True, timeoutMs = 1000, maxRetries = 2, idempotentOnly = False,
      requestSizeLimitBytes = 0, responseSizeLimitBytes = 0, payloadExpectation = [],
      headersToAdd = None, headersToRemove = None, rateLimitPolicy = None, cryptoAlgorithm = None,
      keySource = None, ivSource = None, encoding = None, requireIv = None, encryptRequest = False,
      encryptResponse = False, createdAt = [], updatedAt = []\<rparr>"

text \<open>
  Saving an endpoint as it was loaded sends its own values back: every property of the
  update is the endpoint's, and the upstream path template is left out exactly when the endpoint has none.
\<close>

theorem endpoint_save_unchanged:
  "trimmed (ManagementEndpoint.endpointName e) \<Longrightarrow> trimmed (ManagementEndpoint.relativePath e) \<Longrightarrow>
   trimmed (ManagementEndpoint.httpMethod e) \<Longrightarrow>
   (\<And>t. ManagementEndpoint.upstreamPathTemplate e = Some t \<Longrightarrow> trimmed t \<and> t \<noteq> []) \<Longrightarrow>
     (let get = get_prop (endpoint_update_payload (endpoint_form_of e)) in
        get ''endpointName'' = Some (JStr (ManagementEndpoint.endpointName e))
        \<and> get ''httpMethod'' = Some (JStr (ManagementEndpoint.httpMethod e))
        \<and> get ''relativePath'' = Some (JStr (ManagementEndpoint.relativePath e))
        \<and> get ''upstreamPathTemplate'' = map_option JStr (ManagementEndpoint.upstreamPathTemplate e)
        \<and> get ''timeoutMs'' = Some (JInt (ManagementEndpoint.timeoutMs e))
        \<and> get ''maxRetries'' = Some (JInt (ManagementEndpoint.maxRetries e))
        \<and> get ''isEnabled'' = Some (JBool (ManagementEndpoint.isEnabled e)))"
  by (cases "ManagementEndpoint.upstreamPathTemplate e")
    (simp_all add: endpoint_update_payload_def endpoint_form_of_def get_prop_def defined_props_def
      or_undefined_def trimmed_def)

theorem endpoint_save_unchanged_witness:
  "get_prop (endpoint_update_payload (endpoint_form_of detail_endpoint)) ''upstreamPathTemplate''
   = Some (JStr ''/api/v2'')"
proof -
  have "trimmed ''Create transfer''" "trimmed ''/transfers''" "trimmed ''POST''" "trimmed ''/api/v2''"
    by code_simp+
  then show ?thesis
    using endpoint_save_unchanged [of detail_endpoint] by (simp add: detail_endpoint_def Let_def)
qed

text \<open>
  An upstream path template that the endpoint has cannot be removed: after the user has cleared the
  field the update still says nothing about the template, just as for an endpoint without one, and
  the API keeps what an update leaves out.
\<close>

theorem endpoint_template_not_cleared:
  "\<exists>w q b. dreachable (endpoint_detail_ops (Some owner_user)) (start_detail (endpoint_detail_init (Some ''e1''))) w
     \<and> endpoint (dpage w) = Some detail_endpoint
     \<and> endpoint_form.upstreamPathTemplate (formState (dpage w)) = []
     \<and> dsent w = [q] \<and> is_put q \<and> body q = Some b \<and> get_prop b ''upstreamPathTemplate'' = None"
proof -
  let ?summary = "\<lambda>w. (endpoint (dpage w), endpoint_form.upstreamPathTemplate (formState (dpage w)),
     map (\<lambda>q. (is_put q, map_option (\<lambda>b. get_prop b ''upstreamPathTemplate'') (body q))) (dsent w))"
  let ?run = "drun (endpoint_detail_ops (Some owner_user))
     [DLoads (detail_endpoint, undefined, []), DUser (Click ''Security & Policies'') 0,
      DUser (TypeIn ''endpoint-upstream'' []) 0, DUser (Click ''Save changes'') 0]
     (start_detail (endpoint_detail_init (Some ''e1'')))"
  have "map_option ?summary ?run = Some (Some detail_endpoint, [], [(True, Some None)])"
    by code_simp
  then obtain w where w: "?run = Some w" and "?summary w = (Some detail_endpoint, [], [(True, Some None)])"
    by (rule map_option_SomeE)
  with drun_start [OF w] show ?thesis by (auto simp: map_eq_Cons_conv)
qed

end
