(* ===== verification/Dashboard_Page.thy ===== *)
theory Dashboard_Page
  imports Admin_Api Vdom
begin

section \<open>The dashboard of the admin portal\<close>

text \<open>
  Models \<open>app/(protected)/dashboard/page.tsx\<close>: five requests at once, then one request for the
  destinations of each service, where a failure counts as no destinations. A settled promise
  is \<open>Inr\<close> its value or \<open>Inl\<close> the thrown value.
\<close>

type_synonym 'a settled = "thrown + 'a"

record dashboard_page =
  products :: "ManagementProduct list"
  services :: "ManagementService list"
  endpoints :: "ManagementEndpoint list"
  clients :: "ManagementClient list"
  profiles :: "ManagementUserProfile list"
  destinations :: "ManagementServiceDestination list"
  loading :: bool

definition dashboard_init :: dashboard_page where
  "dashboard_init =
     \<lparr>products = [], services = [], endpoints = [], clients = [], profiles = [], destinations = [],
      loading = True\<rparr>"

definition dashboard_first_requests :: "http_request list" where
  "dashboard_first_requests =
     [getProducts False, getServices None (Some False), getEndpoints None (Some False),
      getClients (Some False), getUserProfiles None None]"

definition dashboard_second_requests :: "ManagementService list \<Rightarrow> http_request list" where
  "dashboard_second_requests servicesData =
     map (\<lambda>service. getServiceDestinations (ManagementService.ident service)) servicesData"

text \<open>The answers to the five requests, in their order.\<close>

record first_answers =
  productsData :: "ManagementProduct list settled"
  servicesData :: "ManagementService list settled"
  endpointsData :: "ManagementEndpoint list settled"
  clientsData :: "ManagementClient list settled"
  profilesData :: "ManagementUserProfile list settled"

text \<open>\<open>getServiceDestinations(...).catch(() => [])\<close>.\<close>

definition or_empty :: "'a list settled \<Rightarrow> 'a list" where
  "or_empty r = (case r of Inl t \<Rightarrow> [] | Inr xs \<Rightarrow> xs)"

text \<open>
  The effect's \<open>load\<close> once everything it waits for has settled; \<open>dests\<close> gives the answer for the
  identifier of a service. There is no \<open>catch\<close>: a rejected request only ends the loading state.
\<close>

definition dashboard_load ::
  "first_answers \<Rightarrow> (js_string \<Rightarrow> ManagementServiceDestination list settled) \<Rightarrow>
     dashboard_page \<Rightarrow> dashboard_page" where
  "dashboard_load a dests s =
     (case (productsData a, servicesData a, endpointsData a, clientsData a, profilesData a) of
        (Inr ps, Inr svcs, Inr es, Inr cs, Inr us) \<Rightarrow>
          s\<lparr>products := ps, services := svcs, endpoints := es, clients := cs, profiles := us,
            destinations := concat (map (\<lambda>service. or_empty (dests (ManagementService.ident service))) svcs),
            loading := False\<rparr>
      | _ \<Rightarrow> s\<lparr>loading := False\<rparr>)"

subsection \<open>What is rendered\<close>

definition stat :: "bool \<Rightarrow> js_string \<Rightarrow> nat \<Rightarrow> nat \<Rightarrow> js_string \<Rightarrow> js_string option \<Rightarrow> unit node" where
  "stat ld title count active word href =
     StatCard title (if ld then ''...'' else nat_dec count)
       (Some (if ld then ''Loading'' else nat_dec active @ '' '' @ word)) href"

definition recentChanges :: "(js_string \<times> js_string \<times> js_string) list" where
  "recentChanges =
     [(''Updated global rate limits for production'', ''A. Johnson'', ''2026-02-08T08:12:00Z''),
      (''Published PayHub v2 endpoint policies'', ''L. Chen'', ''2026-02-08T07:40:00Z''),
      (''Disabled stale destination in staging'', ''S. Rivera'', ''2026-02-08T07:05:00Z'')]"

definition dashboard_stats :: "dashboard_page \<Rightarrow> unit node" where
  "dashboard_stats s =
     El [stat (loading s) ''Products'' (length (products s))
           (length (filter ManagementProduct.isEnabled (products s))) ''active'' (Some ''/admin/products''),
         stat (loading s) ''Services'' (length (services s))
           (length (filter ManagementService.isEnabled (services s))) ''active'' (Some ''/admin/services''),
         stat (loading s) ''Endpoints'' (length (endpoints s))
           (length (filter ManagementEndpoint.isEnabled (endpoints s))) ''active'' (Some ''/admin/endpoints''),
         stat (loading s) ''Users'' (length (profiles s))
           (length (filter ManagementUserProfile.isEnabled (profiles s))) ''enabled'' (Some ''/admin/users''),
         stat (loading s) ''Destinations'' (length (destinations s))
           (length (filter ManagementServiceDestination.isEnabled (destinations s))) ''active''
           (Some ''/admin/services''),
         stat (loading s) ''Keys'' (length (clients s))
           (length (filter ManagementClient.isEnabled (clients s))) ''active'' None]"

text \<open>
  The page has no controls of its own, so its events are of the unit type. \<open>formatDate\<close> depends on the
  browser's locale.
\<close>

definition dashboard_view :: "(js_string \<Rightarrow> js_string) \<Rightarrow> dashboard_page \<Rightarrow> unit node" where
  "dashboard_view formatDate s =
     El [SectionHeader ''Gateway overview'' (Some ''Control plane status and recent governance activity.'')
           nothing None ''Back'',
         dashboard_stats s,
         Txt ''Recent changes'',
         El (map (\<lambda>(summary, author, timestamp).
                    El [Txt summary, Txt (author @ [CHR '' '', CHR 0xB7, CHR '' ''] @ formatDate timestamp),
                        Badge ''info'' ''Change'']) recentChanges),
         Txt ''Control plane health'',
         Txt ''Status'', Badge ''success'' ''Operational'',
         Txt ''Config sync'', Txt ''Healthy'',
         Txt ''Policy engine'', Txt ''Synchronized'',
         Txt ''0 blocked deployments. Last refresh 2m ago.'',
         Txt ''Active keys'', Txt ''1,284'',
         Txt ''Security posture'', Badge ''success'' ''Healthy'']"

subsection \<open>Properties\<close>

lemma texts_stat [simp]:
  "word \<noteq> [] \<Longrightarrow> texts (stat ld title count active word href) =
     (case href of Some h \<Rightarrow> if h \<noteq> [] then [title] else [] | None \<Rightarrow> [])
     @ (if ld then [title, ''...'', ''Loading''] else [title, nat_dec count, nat_dec active @ '' '' @ word])"
  by (simp add: stat_def StatCard_def when_node_def split: option.splits)

text \<open>The six totals and the six active counts that the cards show.\<close>

definition totals :: "dashboard_page \<Rightarrow> nat list" where
  "totals s =
     [length (products s), length (services s), length (endpoints s), length (profiles s),
      length (destinations s), length (clients s)]"

text \<open>
  When the five requests succeed, the dashboard counts what they answered; the number of
  destinations is the sum over the services, where a service whose request failed counts none.
\<close>

theorem dashboard_counts:
  "a = \<lparr>productsData = Inr ps, servicesData = Inr svcs, endpointsData = Inr es, clientsData = Inr cs,
        profilesData = Inr us\<rparr> \<Longrightarrow>
     \<not> loading (dashboard_load a dests s)
     \<and> totals (dashboard_load a dests s) =
       [length ps, length svcs, length es, length us,
        sum_list (map (\<lambda>v. case dests (ManagementService.ident v) of Inl t \<Rightarrow> 0 | Inr xs \<Rightarrow> length xs) svcs),
        length cs]"
proof -
  assume a: "a = \<lparr>productsData = Inr ps, servicesData = Inr svcs, endpointsData = Inr es,
    clientsData = Inr cs, profilesData = Inr us\<rparr>"
  have "length (concat (map (\<lambda>v. or_empty (dests (ManagementService.ident v))) vs))
    = sum_list (map (\<lambda>v. case dests (ManagementService.ident v) of Inl t \<Rightarrow> 0 | Inr xs \<Rightarrow> length xs) vs)" for vs
    by (induction vs) (auto simp: or_empty_def split: sum.splits)
  then show ?thesis by (simp add: a dashboard_load_def totals_def)
qed

theorem dashboard_counts_witness:
  "totals (dashboard_load \<lparr>productsData = Inr [], servicesData = Inr [], endpointsData = Inr [],
     clientsData = Inr [], profilesData = Inr []\<rparr> (\<lambda>i. Inl OtherThrown) dashboard_init) = [0, 0, 0, 0, 0, 0]"
  using dashboard_counts [OF refl, of "[]" "[]" "[]" "[]" "[]" "\<lambda>i. Inl OtherThrown" dashboard_init]
  by simp

text \<open>
  When one of the five requests fails, the dashboard says nothing of it: it leaves the
  loading state and shows zero for everything, whatever the other requests answered.
\<close>

theorem dashboard_silent_failure:
  "productsData a = Inl t \<or> servicesData a = Inl t \<or> endpointsData a = Inl t
     \<or> clientsData a = Inl t \<or> profilesData a = Inl t \<Longrightarrow>
     texts (dashboard_view fd (dashboard_load a dests dashboard_init))
     = texts (dashboard_view fd (dashboard_load
         \<lparr>productsData = Inr [], servicesData = Inr [], endpointsData = Inr [], clientsData = Inr [],
          profilesData = Inr []\<rparr> dests dashboard_init))
     \<and> totals (dashboard_load a dests dashboard_init) = [0, 0, 0, 0, 0, 0]"
proof -
  assume "productsData a = Inl t \<or> servicesData a = Inl t \<or> endpointsData a = Inl t
     \<or> clientsData a = Inl t \<or> profilesData a = Inl t"
  then have "dashboard_load a dests dashboard_init = dashboard_init\<lparr>loading := False\<rparr>"
    by (auto simp: dashboard_load_def split: sum.splits)
  moreover have "dashboard_load \<lparr>productsData = Inr [], servicesData = Inr [], endpointsData = Inr [],
      clientsData = Inr [], profilesData = Inr []\<rparr> dests dashboard_init = dashboard_init\<lparr>loading := False\<rparr>"
    by (simp add: dashboard_load_def dashboard_init_def)
  ultimately show ?thesis by (simp add: totals_def dashboard_init_def)
qed

definition counted_product :: ManagementProduct where
  "counted_product =
     \<lparr>ManagementProduct.ident = ''p1'', name = ''N'', description = ''D'', ownerTeam = ''T'',
      isEnabled = True, createdAt = [], updatedAt = []\<rparr>"

theorem dashboard_silent_failure_witness:
  "totals (dashboard_load \<lparr>productsData = Inr [counted_product], servicesData = Inl (ErrorObj ''down''), endpointsData = Inr [],
     clientsData = Inr [], profilesData = Inr []\<rparr> (\<lambda>i. Inr []) dashboard_init) = [0, 0, 0, 0, 0, 0]"
  using dashboard_silent_failure [where t = "ErrorObj ''down''" and dests = "\<lambda>i. Inr []"
      and a = "\<lparr>productsData = Inr [counted_product], servicesData = Inl (ErrorObj ''down''),
        endpointsData = Inr [], clientsData = Inr [], profilesData = Inr []\<rparr>"]
  by simp

end
