(* ===== verification/Apis_Page.thy ===== *)
theory Apis_Page
  imports Js_Json Vdom "HOL-Library.Multiset"
begin

section \<open>The API catalogue of the developer portal\<close>

text \<open>
  Models \<open>app/(protected)/apis/page.tsx\<close> of the developer portal: the public endpoints, the
  services computed from them, the filters, and the access requests. \<open>lc\<close> stands for
  \<open>localeCompare\<close>, which depends on the locale. A \<open>Set\<close> is a list without duplicates in
  insertion order, a \<open>Map\<close> an association list. The check mark in front of the label of a
  requested item is left out, as it is no Latin-1 character.
\<close>

subsection \<open>Data\<close>

record public_endpoint =
  ident :: js_string
  productName :: js_string
  serviceName :: js_string
  httpMethod :: js_string
  relativePath :: js_string
  description :: "js_string option"
  requiresJwt :: bool
  payloadExpectation :: "js_string option"

record service_info =
  si_serviceName :: js_string
  si_productName :: js_string
  endpointCount :: nat
  si_requiresJwt :: bool
  si_description :: js_string

datatype view_mode = ServicesView | EndpointsView

record apis_page =
  endpoints :: "public_endpoint list"
  filteredEndpoints :: "public_endpoint list"
  services :: "service_info list"
  filteredServices :: "service_info list"
  loading :: bool
  searchTerm :: js_string
  selectedProduct :: "js_string option"
  selectedService :: "js_string option"
  viewMode :: view_mode
  requestedEndpoints :: "js_string list"
  requestedServices :: "js_string list"

definition apis_init :: apis_page where
  "apis_init =
     \<lparr>endpoints = [], filteredEndpoints = [], services = [], filteredServices = [], loading = True,
      searchTerm = [], selectedProduct = None, selectedService = None, viewMode = ServicesView,
      requestedEndpoints = [], requestedServices = []\<rparr>"

definition set_add :: "'a \<Rightarrow> 'a list \<Rightarrow> 'a list" where
  "set_add x xs = (if x \<in> set xs then xs else xs @ [x])"

text \<open>\<open>[...new Set(xs)]\<close>.\<close>

definition unique :: "'a list \<Rightarrow> 'a list" where
  "unique xs = fold set_add xs []"

text \<open>A selection that is \<open>null\<close> or empty selects nothing.\<close>

definition chosen :: "js_string option \<Rightarrow> js_string \<Rightarrow> bool" where
  "chosen sel x = (case sel of None \<Rightarrow> True | Some p \<Rightarrow> (truthy_str p \<longrightarrow> x = p))"

subsection \<open>filterEndpoints and buildServicesFromEndpoints\<close>

definition endpoint_found :: "js_string \<Rightarrow> public_endpoint \<Rightarrow> bool" where
  "endpoint_found srch e =
     (truthy_str srch \<longrightarrow>
       (let trm = js_lower srch in
        js_includes (js_lower (productName e)) trm
        \<or> js_includes (js_lower (serviceName e)) trm
        \<or> js_includes (js_lower (relativePath e)) trm
        \<or> (case description e of None \<Rightarrow> False | Some t \<Rightarrow> js_includes (js_lower t) trm)))"

definition filterEndpoints :: "apis_page \<Rightarrow> apis_page" where
  "filterEndpoints s =
     (let found = filter (endpoint_found (searchTerm s)) (endpoints s);
          in_product = filter (\<lambda>e. chosen (selectedProduct s) (productName e)) found;
          in_service = filter (\<lambda>e. chosen (selectedService s) (serviceName e)) in_product
      in s\<lparr>filteredEndpoints := in_service\<rparr>)"

definition service_key :: "js_string \<Rightarrow> js_string \<Rightarrow> js_string" where
  "service_key p v = p @ ''|'' @ v"

definition new_service :: "public_endpoint \<Rightarrow> service_info" where
  "new_service e =
     \<lparr>si_serviceName = serviceName e, si_productName = productName e, endpointCount = 0,
      si_requiresJwt = requiresJwt e,
      si_description = ''Service providing '' @ serviceName e @ '' functionality''\<rparr>"

text \<open>One round of the \<open>forEach\<close>: an entry is made at its first endpoint, then counted up.\<close>

fun count_endpoint ::
  "public_endpoint \<Rightarrow> (js_string \<times> service_info) list \<Rightarrow> (js_string \<times> service_info) list" where
  "count_endpoint e [] =
     [(service_key (productName e) (serviceName e), (new_service e)\<lparr>endpointCount := 1\<rparr>)]"
| "count_endpoint e ((k, v) # kvs) =
     (if k = service_key (productName e) (serviceName e)
      then (k, v\<lparr>endpointCount := endpointCount v + 1\<rparr>) # kvs
      else (k, v) # count_endpoint e kvs)"

definition services_map :: "public_endpoint list \<Rightarrow> (js_string \<times> service_info) list" where
  "services_map es = fold count_endpoint es []"

definition service_found :: "js_string \<Rightarrow> service_info \<Rightarrow> bool" where
  "service_found srch v =
     (truthy_str srch \<longrightarrow>
       (let trm = js_lower srch in
        js_includes (js_lower (si_serviceName v)) trm
        \<or> js_includes (js_lower (si_productName v)) trm
        \<or> js_includes (js_lower (si_description v)) trm))"

definition buildServicesFromEndpoints :: "apis_page \<Rightarrow> apis_page" where
  "buildServicesFromEndpoints s =
     (let servicesList =
        filter (\<lambda>v. chosen (selectedProduct s) (si_productName v))
          (filter (service_found (searchTerm s)) (map snd (services_map (endpoints s))))
      in s\<lparr>services := servicesList, filteredServices := servicesList\<rparr>)"

subsection \<open>Events\<close>

datatype fetch_result = FetchFailed | NotOk | Fetched "public_endpoint list"

datatype apis_event =
    FetchDone fetch_result
  | SetSearchTerm js_string
  | PickProduct "js_string option"
  | PickService "js_string option"
  | SetViewMode view_mode
  | RequestAccess js_string
  | RequestServiceAccess js_string

fun apis_handle :: "apis_event \<Rightarrow> apis_page \<Rightarrow> apis_page" where
  "apis_handle (FetchDone r) s =
     (case r of
        Fetched es \<Rightarrow> s\<lparr>endpoints := es, loading := False\<rparr>
      | _ \<Rightarrow> s\<lparr>loading := False\<rparr>)"
| "apis_handle (SetSearchTerm v) s = s\<lparr>searchTerm := v\<rparr>"
| "apis_handle (PickProduct p) s = s\<lparr>selectedProduct := p, selectedService := None\<rparr>"
| "apis_handle (PickService v) s = s\<lparr>selectedService := v\<rparr>"
| "apis_handle (SetViewMode m) s = s\<lparr>viewMode := m\<rparr>"
| "apis_handle (RequestAccess i) s = s\<lparr>requestedEndpoints := set_add i (requestedEndpoints s)\<rparr>"
| "apis_handle (RequestServiceAccess k) s =
     s\<lparr>requestedServices := set_add k (requestedServices s)\<rparr>"

text \<open>
  The second effect runs after the first render, and after a later one if one of its dependencies is not
  the value it was (\<open>Object.is\<close>). \<open>setEndpoints\<close> sets an array that was not there before; the other
  dependencies are texts, \<open>null\<close> and the mode, which are compared by value.
\<close>

definition apis_effect :: "apis_page \<Rightarrow> apis_page" where
  "apis_effect s = buildServicesFromEndpoints (filterEndpoints s)"

fun sets_endpoints :: "apis_event \<Rightarrow> bool" where
  "sets_endpoints (FetchDone (Fetched es)) = True"
| "sets_endpoints _ = False"

definition apis_deps_changed :: "apis_event \<Rightarrow> apis_page \<Rightarrow> apis_page \<Rightarrow> bool" where
  "apis_deps_changed ev s s' =
     (sets_endpoints ev
      \<or> searchTerm s' \<noteq> searchTerm s
      \<or> selectedProduct s' \<noteq> selectedProduct s
      \<or> selectedService s' \<noteq> selectedService s
      \<or> viewMode s' \<noteq> viewMode s)"

definition apis_mounted :: apis_page where
  "apis_mounted = apis_effect apis_init"

definition apis_step :: "apis_event \<Rightarrow> apis_page \<Rightarrow> apis_page" where
  "apis_step ev s =
     (let s' = apis_handle ev s in if apis_deps_changed ev s s' then apis_effect s' else s')"

subsection \<open>Derived values\<close>

definition apis_products :: "apis_page \<Rightarrow> js_string list" where
  "apis_products s = unique (map productName (endpoints s))"

definition servicesForFilter :: "apis_page \<Rightarrow> js_string list" where
  "servicesForFilter s =
     unique (map serviceName (filter (\<lambda>e. chosen (selectedProduct s) (productName e)) (endpoints s)))"

record endpoint_group =
  g_productName :: js_string
  g_serviceName :: js_string
  g_endpoints :: "public_endpoint list"

definition group_key :: "public_endpoint \<Rightarrow> js_string" where
  "group_key e = productName e @ ''||'' @ serviceName e"

fun group_endpoint ::
  "public_endpoint \<Rightarrow> (js_string \<times> endpoint_group) list \<Rightarrow> (js_string \<times> endpoint_group) list" where
  "group_endpoint e [] =
     [(group_key e, \<lparr>g_productName = productName e, g_serviceName = serviceName e, g_endpoints = [e]\<rparr>)]"
| "group_endpoint e ((k, g) # kgs) =
     (if k = group_key e then (k, g\<lparr>g_endpoints := g_endpoints g @ [e]\<rparr>) # kgs
      else (k, g) # group_endpoint e kgs)"

definition groupedEndpoints :: "public_endpoint list \<Rightarrow> endpoint_group list" where
  "groupedEndpoints es = map snd (fold group_endpoint es [])"

definition group_text :: "endpoint_group \<Rightarrow> js_string" where
  "group_text g = g_productName g @ ''|'' @ g_serviceName g"

text \<open>\<open>sort\<close> is stable; a group goes behind those that compare as not greater.\<close>

fun insert_group ::
  "(js_string \<Rightarrow> js_string \<Rightarrow> int) \<Rightarrow> endpoint_group \<Rightarrow> endpoint_group list \<Rightarrow> endpoint_group list" where
  "insert_group lc g [] = [g]"
| "insert_group lc g (h # hs) =
     (if lc (group_text g) (group_text h) < 0 then g # h # hs else h # insert_group lc g hs)"

definition groupedEndpointEntries ::
  "(js_string \<Rightarrow> js_string \<Rightarrow> int) \<Rightarrow> apis_page \<Rightarrow> endpoint_group list" where
  "groupedEndpointEntries lc s = fold (insert_group lc) (groupedEndpoints (filteredEndpoints s)) []"

definition getMethodBadgeVariant :: "js_string \<Rightarrow> js_string" where
  "getMethodBadgeVariant m =
     (if m = ''GET'' then ''neutral'' else if m = ''POST'' then ''success''
      else if m = ''PUT'' then ''info'' else if m = ''DELETE'' then ''danger''
      else if m = ''PATCH'' then ''warning'' else ''neutral'')"

subsection \<open>What is rendered\<close>

definition product_button_count :: "apis_page \<Rightarrow> js_string \<Rightarrow> nat" where
  "product_button_count s p =
     (if viewMode s = ServicesView
      then length (filter (\<lambda>v. si_productName v = p) (services s))
      else length (filter (\<lambda>e. productName e = p) (endpoints s)))"

definition counted :: "js_string \<Rightarrow> nat \<Rightarrow> js_string" where
  "counted label n = label @ '' ('' @ nat_dec n @ '')''"

definition apis_filters_node :: "apis_page \<Rightarrow> apis_event node" where
  "apis_filters_node s =
     El [Btn (counted ''Services'' (length (services s))) False (Some (SetViewMode ServicesView)),
         Btn (counted ''Individual Endpoints'' (length (endpoints s))) False (Some (SetViewMode EndpointsView)),
         Field ''search'' (searchTerm s) False False SetSearchTerm,
         Btn (counted ''All Products''
                (if viewMode s = ServicesView then length (services s) else length (endpoints s)))
           False (Some (PickProduct None)),
         El (map (\<lambda>p. Btn (counted p (product_button_count s p)) False (Some (PickProduct (Some p))))
               (apis_products s)),
         when_node (viewMode s = EndpointsView)
           (El [Btn (counted ''All Services'' (length (filteredEndpoints s))) False (Some (PickService None)),
                El (map (\<lambda>v. Btn (counted v (length (filter (\<lambda>e. chosen (selectedProduct s) (productName e)
                                                              \<and> serviceName e = v) (endpoints s))))
                               False (Some (PickService (Some v))))
                      (servicesForFilter s))])]"

definition service_card :: "apis_page \<Rightarrow> service_info \<Rightarrow> apis_event node" where
  "service_card s v =
     (let serviceKey = service_key (si_productName v) (si_serviceName v);
          isRequested = (serviceKey \<in> set (requestedServices s))
      in El [Txt (si_serviceName v), Txt (si_productName v), Txt (si_description v),
             Txt ''Endpoints'', Txt (nat_dec (endpointCount v)),
             when_node (si_requiresJwt v) (Txt ''JWT''),
             Btn (if isRequested then ''Requested'' else ''Request Service'') isRequested
               (Some (RequestServiceAccess serviceKey))])"

definition endpoint_card :: "apis_page \<Rightarrow> public_endpoint \<Rightarrow> apis_event node" where
  "endpoint_card s e =
     (let isRequested = (ident e \<in> set (requestedEndpoints s))
      in El [Badge (getMethodBadgeVariant (httpMethod e)) (httpMethod e),
             Txt (relativePath e),
             show_error (description e),
             when_node (requiresJwt e) (Txt ''JWT Required''),
             (case payloadExpectation e of
                None \<Rightarrow> nothing
              | Some t \<Rightarrow> when_node (truthy_str t) (El [Txt ''Expected Payload:'', Txt t])),
             Btn (if isRequested then ''Access Requested'' else ''Request Access'') isRequested
               (Some (RequestAccess (ident e)))])"

definition services_section :: "apis_page \<Rightarrow> apis_event node" where
  "services_section s =
     when_node (viewMode s = ServicesView)
       (if filteredServices s = [] then Txt ''No services found matching your criteria''
        else El (map (service_card s) (filteredServices s)))"

definition endpoints_section :: "(js_string \<Rightarrow> js_string \<Rightarrow> int) \<Rightarrow> apis_page \<Rightarrow> apis_event node" where
  "endpoints_section lc s =
     when_node (viewMode s = EndpointsView)
       (if filteredEndpoints s = [] then Txt ''No endpoints found matching your criteria''
        else El (map (\<lambda>g. El [Txt (g_serviceName g), Txt (g_productName g),
                              Txt (nat_dec (length (g_endpoints g)) @ '' endpoints''),
                              El (map (endpoint_card s) (g_endpoints g))])
               (groupedEndpointEntries lc s)))"

text \<open>The box under the lists, a numbered step after the other.\<close>

definition how_it_works :: "apis_event node" where
  "how_it_works =
     (let steps = (\<lambda>ts. El (map (\<lambda>(i, t). El [Txt (nat_dec i @ ''.''), Txt t]) (zip [1..<Suc (length ts)] ts)))
      in El [Txt ''How it works'', Txt ''Service-Level Requests (Recommended)'',
             steps [''Go to the Services tab to see all available services'',
                    ''Click '' @ [CHR 0x22] @ ''Request Service'' @ [CHR 0x22]
                      @ '' to request the entire service (all routes/endpoints)'',
                    ''Once approved, your clients can access all endpoints within that service'',
                    ''No need to request individual endpoints - everything in the service is available''],
             Txt ''Individual Endpoint Requests'',
             steps [''Go to the Endpoints tab for granular control'', ''Request specific endpoints you need'',
                    ''Useful when you only need a few specific routes from a service'']])"

definition apis_view ::
  "(js_string \<Rightarrow> js_string \<Rightarrow> int) \<Rightarrow> apis_page \<Rightarrow> apis_event node" where
  "apis_view lc s =
     (if loading s then Txt ''Loading APIs...''
      else El [Txt ''Available APIs'',
               Txt ''Request access to services or individual endpoints to integrate with our platform'',
               apis_filters_node s, services_section s, endpoints_section lc s, how_it_works])"

subsection \<open>Facts about the computed lists\<close>

abbreviation key_of :: "public_endpoint \<Rightarrow> js_string" where
  "key_of e \<equiv> service_key (productName e) (serviceName e)"

definition count_in :: "(js_string \<times> service_info) list \<Rightarrow> js_string \<Rightarrow> nat" where
  "count_in kvs k = (case map_of kvs k of None \<Rightarrow> 0 | Some v \<Rightarrow> endpointCount v)"

lemma keys_count_endpoint: "fst ` set (count_endpoint e kvs) = insert (key_of e) (fst ` set kvs)"
  by (induction e kvs rule: count_endpoint.induct) auto

lemma distinct_count_endpoint:
  "distinct (map fst kvs) \<Longrightarrow> distinct (map fst (count_endpoint e kvs))"
proof (induction e kvs rule: count_endpoint.induct)
  case (2 e k v kvs)
  then show ?case using keys_count_endpoint [of e kvs] by auto
qed simp

lemma count_in_count_endpoint:
  "count_in (count_endpoint e kvs) k = count_in kvs k + (if key_of e = k then 1 else 0)"
  by (induction e kvs rule: count_endpoint.induct) (auto simp: count_in_def)

lemma distinct_services_map: "distinct (map fst (services_map es))"
proof -
  have "distinct (map fst kvs) \<Longrightarrow> distinct (map fst (fold count_endpoint es kvs))" for kvs
    by (induction es arbitrary: kvs) (auto simp: distinct_count_endpoint)
  then show ?thesis by (simp add: services_map_def)
qed

lemma count_in_services_map: "count_in (services_map es) k = length (filter (\<lambda>e. key_of e = k) es)"
proof -
  have "count_in (fold count_endpoint es kvs) k = count_in kvs k + length (filter (\<lambda>e. key_of e = k) es)" for kvs
    by (induction es arbitrary: kvs) (auto simp: count_in_count_endpoint)
  then show ?thesis by (simp add: services_map_def) (simp add: count_in_def)
qed

lemma sum_count_endpoint:
  "sum_list (map (\<lambda>(k, v). endpointCount v) (count_endpoint e kvs))
   = sum_list (map (\<lambda>(k, v). endpointCount v) kvs) + 1"
  by (induction e kvs rule: count_endpoint.induct) auto

lemma sum_services_map: "sum_list (map (\<lambda>(k, v). endpointCount v) (services_map es)) = length es"
proof -
  have "sum_list (map (\<lambda>(k, v). endpointCount v) (fold count_endpoint es kvs))
      = sum_list (map (\<lambda>(k, v). endpointCount v) kvs) + length es" for kvs
    by (induction es arbitrary: kvs) (auto simp: sum_count_endpoint)
  then show ?thesis by (simp add: services_map_def)
qed

text \<open>The key of an entry is built from the names it shows.\<close>

lemma services_map_keys:
  "(k, v) \<in> set (services_map es) \<Longrightarrow>
     k = service_key (si_productName v) (si_serviceName v)
     \<and> (\<exists>e \<in> set es. productName e = si_productName v \<and> serviceName e = si_serviceName v)"
proof -
  have step: "\<forall>(k, v) \<in> set kvs. k = service_key (si_productName v) (si_serviceName v)
        \<and> (\<exists>e \<in> E. productName e = si_productName v \<and> serviceName e = si_serviceName v) \<Longrightarrow>
      \<forall>(k, v) \<in> set (count_endpoint e kvs). k = service_key (si_productName v) (si_serviceName v)
        \<and> (\<exists>x \<in> insert e E. productName x = si_productName v \<and> serviceName x = si_serviceName v)" for e kvs E
    by (induction e kvs rule: count_endpoint.induct) (auto simp: new_service_def)
  have "\<forall>(k, v) \<in> set (fold count_endpoint es kvs). k = service_key (si_productName v) (si_serviceName v)
        \<and> (\<exists>e \<in> E \<union> set es. productName e = si_productName v \<and> serviceName e = si_serviceName v)"
    if "\<forall>(k, v) \<in> set kvs. k = service_key (si_productName v) (si_serviceName v)
        \<and> (\<exists>e \<in> E. productName e = si_productName v \<and> serviceName e = si_serviceName v)" for kvs E
    using that
  proof (induction es arbitrary: kvs E)
    case Nil
    then show ?case by simp
  next
    case (Cons e es)
    from Cons.IH [OF step [OF Cons.prems]] show ?case by simp
  qed
  from this [of "[]" "{}"] show "(k, v) \<in> set (services_map es) \<Longrightarrow>
     k = service_key (si_productName v) (si_serviceName v)
     \<and> (\<exists>e \<in> set es. productName e = si_productName v \<and> serviceName e = si_serviceName v)"
    by (auto simp: services_map_def)
qed

lemma service_key_inject:
  assumes "CHR ''|'' \<notin> set p" and "CHR ''|'' \<notin> set q" and "service_key p v = service_key q u"
  shows "p = q \<and> v = u"
proof -
  have "takeWhile (\<lambda>c. c \<noteq> CHR ''|'') (p @ CHR ''|'' # v) = p"
    and "takeWhile (\<lambda>c. c \<noteq> CHR ''|'') (q @ CHR ''|'' # u) = q"
    using assms(1,2) by (auto simp: takeWhile_append)
  then show ?thesis using assms(3) by (auto simp: service_key_def)
qed

lemma mset_group_endpoint:
  "mset (concat (map (\<lambda>(k, g). g_endpoints g) (group_endpoint e kgs)))
   = add_mset e (mset (concat (map (\<lambda>(k, g). g_endpoints g) kgs)))"
  by (induction e kgs rule: group_endpoint.induct) auto

lemma mset_groups: "mset (concat (map g_endpoints (groupedEndpoints es))) = mset es"
proof -
  have "mset (concat (map (\<lambda>(k, g). g_endpoints g) (fold group_endpoint es kgs)))
      = mset (concat (map (\<lambda>(k, g). g_endpoints g) kgs)) + mset es" for kgs
    by (induction es arbitrary: kgs) (simp_all add: mset_group_endpoint)
  from this [of "[]"] show ?thesis by (simp add: groupedEndpoints_def split_def o_def)
qed

lemma mset_insert_group: "mset (insert_group lc g gs) = add_mset g (mset gs)"
  by (induction gs) auto

lemma mset_group_entries: "mset (groupedEndpointEntries lc s) = mset (groupedEndpoints (filteredEndpoints s))"
proof -
  have "mset (fold (insert_group lc) gs acc) = mset gs + mset acc" for gs acc
    by (induction gs arbitrary: acc) (auto simp: mset_insert_group)
  then show ?thesis by (simp add: groupedEndpointEntries_def)
qed

lemma mset_concat_map:
  "mset xs = mset ys \<Longrightarrow> mset (concat (map f xs)) = mset (concat (map f ys))"
  by (simp add: mset_concat flip: sum_mset_sum_list mset_map)
    (metis mset_map)

text \<open>The effect looks at the endpoints and the dependencies only, and sets nothing but the computed lists.\<close>

definition up_to_date :: "apis_page \<Rightarrow> bool" where
  "up_to_date s \<longleftrightarrow>
     filteredEndpoints s = filter (\<lambda>e. endpoint_found (searchTerm s) e
         \<and> chosen (selectedProduct s) (productName e) \<and> chosen (selectedService s) (serviceName e)) (endpoints s)
     \<and> services s = filter (\<lambda>v. service_found (searchTerm s) v \<and> chosen (selectedProduct s) (si_productName v))
         (map snd (services_map (endpoints s)))
     \<and> filteredServices s = services s"

lemma up_to_date_effect: "up_to_date (apis_effect s)"
  by (auto simp: up_to_date_def apis_effect_def buildServicesFromEndpoints_def filterEndpoints_def Let_def
      conj_ac intro!: filter_cong)

lemma up_to_date_step: "up_to_date s \<Longrightarrow> up_to_date (apis_step ev s)"
proof (cases "apis_deps_changed ev s (apis_handle ev s)")
  case True
  then show ?thesis by (simp add: apis_step_def up_to_date_effect)
next
  case False
  assume "up_to_date s"
  with False have "up_to_date (apis_handle ev s)"
    by (cases ev) (auto simp: apis_deps_changed_def up_to_date_def split: fetch_result.splits)
  with False show ?thesis by (simp add: apis_step_def)
qed

lemma up_to_date_run: "up_to_date s \<Longrightarrow> up_to_date (fold apis_step evs s)"
  by (induction evs arbitrary: s) (simp_all add: up_to_date_step)

lemma up_to_date_reached: "up_to_date (fold apis_step evs apis_mounted)"
  by (simp add: up_to_date_run apis_mounted_def up_to_date_effect)

subsection \<open>Properties\<close>

text \<open>
  C36: After every sequence of events since the page was mounted what is shown is up to date, although the
  effect that computes it runs only when one of its dependencies has changed: the endpoints that pass
  search, product and service filter, in the order of the catalogue, and in both views the services of the
  catalogue that pass search and product filter.
\<close>

theorem apis_never_stale:
  "(let s = fold apis_step evs apis_mounted in
    filteredEndpoints s = filter (\<lambda>e. endpoint_found (searchTerm s) e
         \<and> chosen (selectedProduct s) (productName e) \<and> chosen (selectedService s) (serviceName e)) (endpoints s)
    \<and> services s = filter (\<lambda>v. service_found (searchTerm s) v \<and> chosen (selectedProduct s) (si_productName v))
         (map snd (services_map (endpoints s)))
    \<and> filteredServices s = services s)"
  using up_to_date_reached [of evs] by (simp add: up_to_date_def Let_def)

text \<open>
  The services computed from the catalogue have distinct keys, their endpoint counts add up
  to the number of endpoints, and each count is the number of endpoints with the service's key.
\<close>

theorem services_count:
  "distinct (map fst (services_map es))
   \<and> sum_list (map (\<lambda>(k, v). endpointCount v) (services_map es)) = length es
   \<and> map (\<lambda>(k, v). endpointCount v) (services_map es)
     = map (\<lambda>(k, v). length (filter (\<lambda>e. service_key (productName e) (serviceName e) = k) es)) (services_map es)"
proof -
  have "endpointCount v = length (filter (\<lambda>e. key_of e = k) es)" if "(k, v) \<in> set (services_map es)" for k v
    using map_of_is_SomeI [OF distinct_services_map that] count_in_services_map [of es k]
    by (simp add: count_in_def)
  then show ?thesis by (auto simp: distinct_services_map sum_services_map)
qed

text \<open>
  C37: If no product's name contains a bar, each service card counts exactly the endpoints of its own
  product and service.
\<close>

theorem service_cards_exact:
  "\<forall>e \<in> set es. CHR ''|'' \<notin> set (productName e) \<Longrightarrow>
   (k, v) \<in> set (services_map es) \<Longrightarrow>
     endpointCount v
     = length (filter (\<lambda>e. productName e = si_productName v \<and> serviceName e = si_serviceName v) es)"
proof -
  assume bar: "\<forall>e \<in> set es. CHR ''|'' \<notin> set (productName e)" and kv: "(k, v) \<in> set (services_map es)"
  have c: "endpointCount v = length (filter (\<lambda>e. key_of e = k) es)"
    using map_of_is_SomeI [OF distinct_services_map kv] count_in_services_map [of es k]
    by (simp add: count_in_def)
  from services_map_keys [OF kv] bar
  have k: "k = service_key (si_productName v) (si_serviceName v)" and p: "CHR ''|'' \<notin> set (si_productName v)"
    by auto
  have "key_of e = k \<longleftrightarrow> productName e = si_productName v \<and> serviceName e = si_serviceName v"
    if "e \<in> set es" for e
    using service_key_inject [of "productName e" "si_productName v"] bar p k that by auto
  then have "filter (\<lambda>e. key_of e = k) es
      = filter (\<lambda>e. productName e = si_productName v \<and> serviceName e = si_serviceName v) es"
    by (rule filter_cong [OF refl])
  then show ?thesis by (simp add: c)
qed

definition sample_public :: "js_string \<Rightarrow> js_string \<Rightarrow> js_string \<Rightarrow> public_endpoint" where
  "sample_public i p v =
     \<lparr>ident = i, productName = p, serviceName = v, httpMethod = ''GET'', relativePath = ''/x'',
      description = None, requiresJwt = False, payloadExpectation = None\<rparr>"

theorem service_cards_exact_witness:
  "endpointCount (snd (hd (services_map [sample_public ''1'' ''P'' ''S'', sample_public ''2'' ''P'' ''S'']))) = 2"
proof -
  let ?es = "[sample_public ''1'' ''P'' ''S'', sample_public ''2'' ''P'' ''S'']"
  obtain k v where "services_map ?es = [(k, v)]" and "si_productName v = ''P''" "si_serviceName v = ''S''"
    by (simp add: services_map_def sample_public_def service_key_def new_service_def)
  then show ?thesis
    using service_cards_exact [of ?es k v] by (simp add: sample_public_def)
qed

text \<open>
  A bar in a name makes two services one: the endpoints of service \<open>S\<close> of product \<open>A|B\<close> and
  of service \<open>B|S\<close> of product \<open>A\<close> are counted on one card, and the second service is not shown at all.
\<close>

theorem services_merge_on_bar:
  "map (\<lambda>v. (si_productName v, si_serviceName v, endpointCount v))
     (services (apis_step (FetchDone (Fetched [sample_public ''1'' ''A|B'' ''S'', sample_public ''2'' ''A'' ''B|S'']))
        apis_mounted))
   = [(''A|B'', ''S'', 2)]"
  by code_simp

text \<open>
  The groups of the endpoints view hold each filtered endpoint exactly as often as it is in the
  list, whatever the locale's order of the groups is.
\<close>

theorem groups_partition:
  "mset (concat (map g_endpoints (groupedEndpointEntries lc s))) = mset (filteredEndpoints s)"
  by (metis mset_concat_map mset_group_entries mset_groups)

text \<open>
  In the services view, once a product is selected, the button of every other product
  counts no service, whatever services that product has.
\<close>

theorem product_button_zero:
  "s = fold apis_step evs apis_mounted \<Longrightarrow> viewMode s = ServicesView \<Longrightarrow> selectedProduct s = Some p \<Longrightarrow>
   p \<noteq> [] \<Longrightarrow> q \<noteq> p \<Longrightarrow> product_button_count s q = 0"
  using up_to_date_reached [of evs]
  by (auto simp: up_to_date_def product_button_count_def chosen_def filter_empty_conv)

theorem product_button_zero_witness:
  "(let s = apis_step (FetchDone (Fetched [sample_public ''1'' ''A'' ''S'', sample_public ''2'' ''B'' ''S''])) apis_mounted
    in product_button_count s ''B'' = 1
       \<and> product_button_count (apis_step (PickProduct (Some ''A'')) s) ''B'' = 0)"
proof -
  let ?ev = "FetchDone (Fetched [sample_public ''1'' ''A'' ''S'', sample_public ''2'' ''B'' ''S''])"
  let ?s = "apis_step ?ev apis_mounted"
  have "product_button_count ?s ''B'' = 1" by code_simp
  moreover have "viewMode (apis_step (PickProduct (Some ''A'')) ?s) = ServicesView" by code_simp
  moreover have "selectedProduct (apis_step (PickProduct (Some ''A'')) ?s) = Some ''A''" by code_simp
  ultimately show ?thesis
    using product_button_zero [of "apis_step (PickProduct (Some ''A'')) ?s" "[?ev, PickProduct (Some ''A'')]" "''A''" "''B''"]
    by (simp add: Let_def)
qed

end
