(* ===== verification/Org_Api.thy ===== *)
theory Org_Api
  imports Http_Client
begin

section \<open>The organisation API of the developer portal\<close>

text \<open>
  Models \<open>lib/api/org.ts\<close> and the response interceptor of \<open>lib/api/client.ts\<close> of the developer
  portal. As in the admin portal, an API function is the request it builds; what
  \<open>getApprovalByEndpoint\<close> makes of a rejection is a function of its own.
\<close>

datatype request_status = StPending | StApproved | StRejected

record OrgClient =
  ident :: js_string
  clientId :: js_string
  clientSecret :: "js_string option"
  isEnabled :: bool
  createdAt :: js_string
  approvedEndpointsCount :: "nat option"

record OrgEndpointRequest =
  ident :: js_string
  tenantId :: js_string
  endpointId :: js_string
  requestedBy :: js_string
  status :: request_status
  requestedAt :: js_string
  reviewedAt :: "js_string option"
  reviewedBy :: "js_string option"
  reviewReason :: "js_string option"

record OrgEndpointApproval =
  ident :: js_string
  tenantId :: js_string
  endpointId :: js_string
  approvedBy :: "js_string option"
  approvedAt :: js_string
  adminIpAllowlist :: "js_string list option"
  adminIpEnforced :: bool

definition orgApi_getPublicEndpoints :: http_request where
  "orgApi_getPublicEndpoints = http_get ''/api/endpoints'' []"

definition tenant_path :: "js_string \<Rightarrow> js_string \<Rightarrow> js_string" where
  "tenant_path t rest = ''/admin/management/tenants/'' @ t @ rest"

definition orgApi_getClientsByTenant :: "js_string \<Rightarrow> http_request" where
  "orgApi_getClientsByTenant t = http_get (tenant_path t ''/clients'') []"

text \<open>\<open>s.replace(/\s+/g, "-")\<close>; the flag says whether the previous character was white space.\<close>

fun hyphenate :: "bool \<Rightarrow> js_string \<Rightarrow> js_string" where
  "hyphenate in_run [] = []"
| "hyphenate in_run (c # cs) =
     (if is_ws c then (if in_run then hyphenate True cs else CHR ''-'' # hyphenate True cs)
      else c # hyphenate False cs)"

definition client_slug :: "js_string \<Rightarrow> js_string" where
  "client_slug clientName = hyphenate False (js_lower clientName)"

definition orgApi_createClient :: "js_string \<Rightarrow> js_string \<Rightarrow> http_request" where
  "orgApi_createClient t clientName =
     http_post (tenant_path t ''/clients'')
       (JObj (defined_props [(''clientId'', Some (JStr (client_slug clientName))), (''createdById'', None)]))"

definition orgApi_deleteClient :: "js_string \<Rightarrow> js_string \<Rightarrow> http_request" where
  "orgApi_deleteClient t c = http_delete (tenant_path t (''/clients/'' @ c))"

definition orgApi_getEndpointRequestsByTenant :: "js_string \<Rightarrow> http_request" where
  "orgApi_getEndpointRequestsByTenant t = http_get (tenant_path t ''/endpoint-requests'') []"

definition orgApi_createEndpointRequest :: "js_string \<Rightarrow> js_string \<Rightarrow> js_string \<Rightarrow> http_request" where
  "orgApi_createEndpointRequest t e who =
     http_post (tenant_path t ''/endpoint-requests'')
       (JObj [(''endpointId'', JStr e), (''requestedBy'', JStr who)])"

definition orgApi_getApprovalsByTenant :: "js_string \<Rightarrow> http_request" where
  "orgApi_getApprovalsByTenant t = http_get (tenant_path t ''/approvals'') []"

definition orgApi_getApprovalByEndpoint :: "js_string \<Rightarrow> js_string \<Rightarrow> http_request" where
  "orgApi_getApprovalByEndpoint t e = http_get (tenant_path t (''/approvals/'' @ e)) []"

text \<open>The \<open>try ... catch\<close> around that request: a 404 is \<open>null\<close>, any other error is thrown again.\<close>

definition approval_or_null :: "'a outcome \<Rightarrow> http_error + 'a option" where
  "approval_or_null r =
     (case r of
        Resolved a \<Rightarrow> Inr (Some a)
      | Rejected e \<Rightarrow> (if http_error.status e = Some 404 then Inr None else Inl e))"

text \<open>The two optional properties of the update, the first of which may be \<open>null\<close>.\<close>

definition orgApi_updateApproval ::
  "js_string \<Rightarrow> js_string list option option \<Rightarrow> bool option \<Rightarrow> http_request" where
  "orgApi_updateApproval i allowlist enforced =
     http_put (''/admin/management/org-endpoint-approvals/'' @ i)
       (JObj (defined_props
          [(''adminIpAllowlist'',
            map_option (\<lambda>l. case l of None \<Rightarrow> JNull | Some ips \<Rightarrow> JArr (map JStr ips)) allowlist),
           (''adminIpEnforced'', map_option JBool enforced)]))"

definition dev_on_rejected :: "bool \<Rightarrow> http_error \<Rightarrow> browser \<Rightarrow> http_error \<times> browser" where
  "dev_on_rejected has_window err b =
     (if http_error.status err = Some 401 \<or> http_error.status err = Some 403 then
        if has_window then
          (err, b\<lparr>local_storage := (local_storage b)(''gateway-portal-session'' := None),
                  location_href := ''/login''\<rparr>)
        else (err, b)
      else (err, b))"

subsection \<open>The identifier of a new client\<close>

lemma hyphenate_no_ws: "c \<in> set (hyphenate r s) \<Longrightarrow> \<not> is_ws c"
  by (induction r s rule: hyphenate.induct) (auto simp: is_ws_def split: if_splits)

lemma hyphenate_id: "\<forall>c \<in> set s. \<not> is_ws c \<Longrightarrow> hyphenate r s = s"
  by (induction r s rule: hyphenate.induct) auto

lemma lower_char_id [simp]: "lower_char (CHR ''-'') = CHR ''-''" "lower_char (CHR '' '') = CHR '' ''"
  by (simp_all add: lower_char_def)

lemma lower_hyphenate: "js_lower (hyphenate r s) = hyphenate r (js_lower s)"
  by (induction r s rule: hyphenate.induct) (auto simp: js_lower_def)

lemma hyphenate_words:
  "\<forall>c \<in> set w. \<not> is_ws c \<Longrightarrow> \<forall>c \<in> set g. is_ws c \<Longrightarrow> g \<noteq> [] \<Longrightarrow>
     hyphenate False (w @ g @ s) = w @ CHR ''-'' # hyphenate True s"
proof (induction w)
  case Nil
  have run: "hyphenate True (g @ s) = hyphenate True s" if "\<forall>c \<in> set g. is_ws c" for g
    using that by (induction g) auto
  from Nil show ?case by (cases g) (auto simp: run)
qed auto

subsection \<open>Properties\<close>

text \<open>
  The identifier made from the name of a new client is in lower case, holds no white space
  and is its own identifier; names that differ in case only get the same one, and two words
  are joined by one hyphen however many blanks lie between them.
\<close>

theorem client_slug_spec:
  "\<exists>slug. body (orgApi_createClient t nm) = Some (JObj [(''clientId'', JStr slug)])
     \<and> filter is_ws slug = [] \<and> js_lower slug = slug \<and> client_slug slug = slug
     \<and> client_slug (js_lower nm) = slug
     \<and> (filter is_ws v = [] \<and> filter is_ws w = [] \<and> (\<exists>n. g = replicate (Suc n) CHR '' '') \<and> nm = v @ g @ w
          \<longrightarrow> slug = js_lower v @ ''-'' @ js_lower w)"
proof -
  have no_ws: "filter is_ws (client_slug nm) = []"
    by (auto simp: client_slug_def filter_empty_conv dest: hyphenate_no_ws)
  have low: "js_lower (client_slug nm) = client_slug nm"
    by (simp add: client_slug_def lower_hyphenate)
  have "client_slug nm = js_lower v @ ''-'' @ js_lower w"
    if "filter is_ws v = []" "filter is_ws w = []" "g = replicate (Suc n) CHR '' ''" "nm = v @ g @ w" for n
  proof -
    have ws: "is_ws (CHR '' '')" by (simp add: is_ws_def)
    have l: "js_lower (replicate (Suc n) CHR '' '' ) = replicate (Suc n) CHR '' ''"
      by (simp add: js_lower_def)
    have "hyphenate False (js_lower v @ replicate (Suc n) CHR '' '' @ js_lower w)
        = js_lower v @ CHR ''-'' # hyphenate True (js_lower w)"
      using that(1) ws by (intro hyphenate_words) (auto simp: filter_empty_conv js_lower_def)
    moreover have "hyphenate True (js_lower w) = js_lower w"
      using that(2) by (intro hyphenate_id) (auto simp: filter_empty_conv js_lower_def)
    ultimately show ?thesis
      using that(3,4) l by (simp add: client_slug_def js_lower_def)
  qed
  then show ?thesis
    using no_ws low hyphenate_id [of "client_slug nm" False]
    by (intro exI [of _ "client_slug nm"])
      (auto simp: orgApi_createClient_def http_post_def defined_props_def filter_empty_conv
        client_slug_def)
qed

theorem client_slug_spec_witness:
  "body (orgApi_createClient ''t1'' ''Mobile  App'') = Some (JObj [(''clientId'', JStr ''mobile-app'')])"
proof -
  have "js_lower ''Mobile'' = ''mobile''" "js_lower ''App'' = ''app''"
    "filter is_ws ''Mobile'' = []" "filter is_ws ''App'' = []"
    "''  '' = replicate (Suc 1) CHR '' ''"
    by code_simp+
  then show ?thesis
    using client_slug_spec [of "''t1''" "''Mobile  App''" "''Mobile''" "''App''" "''  ''"]
    by (metis append_Cons append_Nil)
qed

end
