(* ===== verification/Dev_Auth.thy ===== *)
theory Dev_Auth
  imports Admin_Api Org_Api Vdom
begin

section \<open>Who is signed in to the developer portal\<close>

text \<open>
  Models \<open>lib/auth/AuthProvider.tsx\<close>, \<open>lib/hooks/useTenant.ts\<close>, \<open>components/auth/AuthGate.tsx\<close> and
  the routes \<open>app/api/auth/[...nextauth]\<close>, \<open>session\<close>, \<open>login\<close> and \<open>oauth\<close> of the developer portal. The
  provider takes its user from the session that the next-auth library reports, and only without
  one from \<open>localStorage\<close>. next-auth and Next.js are libraries: what of them the portal relies
  on is the record \<open>framework\<close> with the hypothesis \<open>documented\<close>. \<open>now\<close> is
  \<open>new Date().toISOString()\<close>.
\<close>

text \<open>\<open>x ?? y\<close> and \<open>x || y\<close>; \<open>None\<close> is \<open>undefined\<close>.\<close>

definition coalesce :: "json option \<Rightarrow> json option \<Rightarrow> json option" where
  "coalesce x y = (case x of None \<Rightarrow> y | Some JNull \<Rightarrow> y | Some v \<Rightarrow> Some v)"

definition coalesce_to :: "json option \<Rightarrow> json \<Rightarrow> json" where
  "coalesce_to x y = (case x of None \<Rightarrow> y | Some JNull \<Rightarrow> y | Some v \<Rightarrow> v)"

definition or_else :: "json option \<Rightarrow> json \<Rightarrow> json" where
  "or_else x y = (if truthy x then the x else y)"

subsection \<open>The next-auth route\<close>

datatype provider = GitHub | Google | AzureAD | Apple

type_synonym environment = "js_string \<rightharpoonup> js_string"

definition env_set :: "environment \<Rightarrow> js_string \<Rightarrow> bool" where
  "env_set env k = (case env k of None \<Rightarrow> False | Some v \<Rightarrow> truthy_str v)"

definition missingProviders :: "environment \<Rightarrow> js_string list" where
  "missingProviders env =
     (if \<not> env_set env ''GITHUB_CLIENT_ID'' \<or> \<not> env_set env ''GITHUB_CLIENT_SECRET'' then [''GitHub''] else [])
     @ (if \<not> env_set env ''GOOGLE_CLIENT_ID'' \<or> \<not> env_set env ''GOOGLE_CLIENT_SECRET'' then [''Google''] else [])
     @ (if \<not> env_set env ''AZURE_AD_CLIENT_ID'' \<or> \<not> env_set env ''AZURE_AD_CLIENT_SECRET''
           \<or> \<not> env_set env ''AZURE_AD_TENANT_ID'' then [''Azure AD''] else [])
     @ (if \<not> env_set env ''APPLE_CLIENT_ID'' \<or> \<not> env_set env ''APPLE_CLIENT_SECRET'' then [''Apple''] else [])"

definition configuredProviders :: "environment \<Rightarrow> provider list" where
  "configuredProviders env =
     (if env_set env ''GITHUB_CLIENT_ID'' \<and> env_set env ''GITHUB_CLIENT_SECRET'' then [GitHub] else [])
     @ (if env_set env ''GOOGLE_CLIENT_ID'' \<and> env_set env ''GOOGLE_CLIENT_SECRET'' then [Google] else [])
     @ (if env_set env ''AZURE_AD_CLIENT_ID'' \<and> env_set env ''AZURE_AD_CLIENT_SECRET''
           \<and> env_set env ''AZURE_AD_TENANT_ID'' then [AzureAD] else [])
     @ (if env_set env ''APPLE_CLIENT_ID'' \<and> env_set env ''APPLE_CLIENT_SECRET'' then [Apple] else [])"

text \<open>\<open>GET\<close> and \<open>POST\<close> are the same; \<open>handler\<close> is what \<open>NextAuth\<close> makes of the providers.\<close>

definition nextauth_route ::
  "environment \<Rightarrow> (provider list \<Rightarrow> js_string \<Rightarrow> int \<times> json) \<Rightarrow> js_string \<Rightarrow> int \<times> json" where
  "nextauth_route env handler path =
     (if missingProviders env \<noteq> [] then
        (500, JObj [(''error'', JStr (''Missing '' @ js_join '' and '' (missingProviders env)
                                     @ '' OAuth environment variables.''))])
      else handler (configuredProviders env) path)"

text \<open>
  The callbacks. A token without an \<open>id\<close> stands for one whose \<open>id\<close> is \<open>undefined\<close>; \<open>None\<close> is the
  exception of \<open>String\<close> on an object without a conversion.
\<close>

definition obj_del :: "js_string \<Rightarrow> json_object \<Rightarrow> json_object" where
  "obj_del k kvs = filter (\<lambda>(k', v). k' \<noteq> k) kvs"

definition jwt_callback ::
  "(js_string \<Rightarrow> js_string) \<Rightarrow> json_object \<Rightarrow> json option \<Rightarrow> json option \<Rightarrow> json_object option" where
  "jwt_callback fmt token account profile =
     (if truthy account \<and> truthy profile then
        (let profileId = coalesce (get_prop (the profile) ''id'')
               (coalesce (get_prop (the profile) ''sub'') (map_of token ''sub''));
             with_role = obj_put ''role'' (JStr ''developer'')
         in if truthy profileId
            then map_option (\<lambda>i. with_role (obj_put ''id'' (JStr i) token)) (js_to_string fmt (the profileId))
            else Some (with_role (obj_del ''id'' token)))
      else Some token)"

definition session_callback :: "js_string \<Rightarrow> json_object \<Rightarrow> json_object \<Rightarrow> json_object" where
  "session_callback now session token =
     (case map_of session ''user'' of
        Some (JObj u) \<Rightarrow>
          (let i = coalesce_to (map_of token ''id'')
                     (coalesce_to (map_of token ''sub'')
                       (coalesce_to (map_of u ''email'') (JStr ''oauth-user'')));
               r = coalesce_to (map_of token ''role'') (JStr ''developer'')
           in obj_put ''user''
                (JObj (obj_put ''lastLoginAt'' (JStr now) (obj_put ''role'' r (obj_put ''id'' i u)))) session)
      | _ \<Rightarrow> session)"

subsection \<open>The other routes\<close>

definition dev_session_route :: "js_string \<Rightarrow> json" where
  "dev_session_route now =
     JObj [(''authenticated'', JBool True),
           (''user'', JObj [(''id'', JStr ''user_1''), (''name'', JStr ''Alex Johnson''),
                            (''email'', JStr ''alex@gapeiro.dev''), (''role'', JStr ''developer''),
                            (''lastLoginAt'', JStr now)])]"

definition dev_login_route :: "js_string \<Rightarrow> json \<Rightarrow> json option" where
  "dev_login_route now b =
     (if b = JNull then None
      else Some (JObj
        [(''user'', JObj (defined_props
           [(''id'', Some (JStr ''user_1'')), (''name'', Some (JStr ''Alex Johnson'')),
            (''email'', get_prop b ''email''), (''role'', Some (JStr ''developer'')),
            (''lastLoginAt'', Some (JStr now))])),
         (''token'', JStr ''dev-token-123'')]))"

text \<open>The route \<open>oauth/[provider]\<close>, which the portal itself does not call.\<close>

definition dev_providerName :: "js_string \<Rightarrow> js_string" where
  "dev_providerName provider = (if provider = ''github'' then ''GitHub'' else ''Google'')"

definition dev_oauth_route :: "js_string \<Rightarrow> js_string \<Rightarrow> json" where
  "dev_oauth_route now provider =
     JObj [(''user'', JObj
              [(''id'', JStr (''user_'' @ provider)),
               (''name'', JStr (dev_providerName provider @ '' User'')),
               (''email'', JStr (if provider = ''github'' then ''octo@github.dev'' else ''seabaas.dev@gmail.com'')),
               (''role'', JStr ''developer''),
               (''lastLoginAt'', JStr now)]),
           (''token'', JStr (''oauth-'' @ provider @ ''-token''))]"

subsection \<open>AuthProvider, AuthGate and useTenant\<close>

datatype session_status = SessionLoading | SessionKnown "json option"

record dev_auth =
  user :: "json option"
  loading :: bool

definition dev_auth_init :: dev_auth where
  "dev_auth_init = \<lparr>user = None, loading = True\<rparr>"

text \<open>\<open>session?.user\<close>, and the user made of it.\<close>

definition session_prop :: "json option \<Rightarrow> js_string \<Rightarrow> json option" where
  "session_prop s k = (case s of None \<Rightarrow> None | Some v \<Rightarrow> get_prop v k)"

definition dev_session_user :: "js_string \<Rightarrow> json \<Rightarrow> json" where
  "dev_session_user now u =
     JObj [(''id'', coalesce_to (get_prop u ''id'') (coalesce_to (get_prop u ''email'') (JStr ''oauth-user''))),
           (''name'', coalesce_to (get_prop u ''name'') (JStr ''Developer'')),
           (''email'', coalesce_to (get_prop u ''email'') (JStr ''unknown@domain.com'')),
           (''role'', coalesce_to (get_prop u ''role'') (JStr ''developer'')),
           (''lastLoginAt'', coalesce_to (get_prop u ''lastLoginAt'') (JStr now))]"

text \<open>The effect on \<open>[session, status]\<close>; it throws on a stored text that is no session.\<close>

definition dev_auth_effect ::
  "js_string \<Rightarrow> session_status \<Rightarrow> browser \<Rightarrow> dev_auth \<Rightarrow> thrown + dev_auth" where
  "dev_auth_effect now st b a =
     (case st of
        SessionLoading \<Rightarrow> Inr a
      | SessionKnown s \<Rightarrow>
          (if truthy (session_prop s ''user'')
           then Inr (a\<lparr>user := Some (dev_session_user now (the (session_prop s ''user''))), loading := False\<rparr>)
           else case local_storage b session_key of
                  None \<Rightarrow> Inr (a\<lparr>user := None, loading := False\<rparr>)
                | Some raw \<Rightarrow>
                    (if \<not> truthy_str raw then Inr (a\<lparr>user := None, loading := False\<rparr>)
                     else case json_parse raw of
                            None \<Rightarrow> Inl (ErrorObj ''Unexpected token'')
                          | Some JNull \<Rightarrow> Inl (ErrorObj ''Cannot read properties of null'')
                          | Some v \<Rightarrow> Inr (a\<lparr>user := get_prop v ''user'', loading := False\<rparr>))))"

definition dev_signIn :: "bool \<Rightarrow> json option \<Rightarrow> browser \<Rightarrow> dev_auth \<Rightarrow> (thrown + unit) \<times> browser \<times> dev_auth" where
  "dev_signIn resp_ok bdy b a =
     (if \<not> resp_ok then (Inl (ErrorObj ''Invalid credentials''), b, a)
      else case bdy of
             None \<Rightarrow> (Inl (ErrorObj ''Unexpected token''), b, a)
           | Some session \<Rightarrow>
               (let b' = b\<lparr>local_storage := (local_storage b)(session_key \<mapsto> json_stringify session)\<rparr>
                in if session = JNull then (Inl (ErrorObj ''Cannot read properties of null''), b', a)
                   else (Inr (), b', a\<lparr>user := get_prop session ''user''\<rparr>)))"

text \<open>The synchronous part; \<open>nextAuthSignOut\<close> then loads \<open>/login\<close> anew.\<close>

definition dev_signOut :: "browser \<Rightarrow> dev_auth \<Rightarrow> browser \<times> dev_auth" where
  "dev_signOut b a = (b\<lparr>local_storage := (local_storage b)(session_key := None)\<rparr>, a\<lparr>user := None\<rparr>)"

definition dev_canAccessPortal :: "json option \<Rightarrow> bool" where
  "dev_canAccessPortal u = truthy u"

definition dev_gate_effect :: "dev_auth \<Rightarrow> navigation option" where
  "dev_gate_effect a =
     (if \<not> loading a \<and> \<not> dev_canAccessPortal (user a) then Some (NavReplace ''/login'') else None)"

text \<open>While loading the gate renders a skeleton without content.\<close>

definition dev_gate_render :: "dev_auth \<Rightarrow> 'e node \<Rightarrow> 'e node" where
  "dev_gate_render a children =
     (if loading a then nothing else if \<not> truthy (user a) then nothing else children)"

record TenantInfo =
  ti_tenantId :: json
  ti_tenantName :: json
  ti_email :: json

definition useTenant :: "json option \<Rightarrow> TenantInfo option" where
  "useTenant session =
     (if \<not> truthy session then None
      else let u = (case session_prop session ''user'' of Some v \<Rightarrow> v | None \<Rightarrow> JNull) in
        Some \<lparr>ti_tenantId = or_else (get_prop u ''tenantId'') (JStr []),
              ti_tenantName = or_else (get_prop u ''name'') (JStr []),
              ti_email = or_else (get_prop u ''email'') (JStr [])\<rparr>)"

text \<open>\<open>tenant?.tenantId\<close>, which the pages use as a text.\<close>

definition tenant_key :: "TenantInfo option \<Rightarrow> js_string option" where
  "tenant_key t = Option.bind t (\<lambda>i. case ti_tenantId i of JStr s \<Rightarrow> Some s | _ \<Rightarrow> None)"

subsection \<open>The libraries in between\<close>

datatype route_file = SessionFile | CatchAllFile | OtherFile

text \<open>
  Which file under \<open>app/api/auth\<close> Next.js lets answer a path, and what \<open>useSession\<close> makes of the
  answer to \<open>/api/auth/session\<close>. Documented: a path with a file of its own goes to that file before
  any catch-all; a successful answer that is a non-empty object is the session.
\<close>

record framework =
  fw_route :: "js_string \<Rightarrow> route_file"
  fw_session :: "int \<Rightarrow> json \<Rightarrow> session_status"

definition documented :: "framework \<Rightarrow> bool" where
  "documented fw \<longleftrightarrow>
     fw_route fw ''/api/auth/session'' = SessionFile
     \<and> (\<forall>kvs. kvs \<noteq> [] \<longrightarrow> fw_session fw 200 (JObj kvs) = SessionKnown (Some (JObj kvs)))"

definition client_session ::
  "framework \<Rightarrow> environment \<Rightarrow> (provider list \<Rightarrow> js_string \<Rightarrow> int \<times> json) \<Rightarrow> js_string \<Rightarrow> session_status" where
  "client_session fw env handler now =
     (case fw_route fw ''/api/auth/session'' of
        SessionFile \<Rightarrow> fw_session fw 200 (dev_session_route now)
      | CatchAllFile \<Rightarrow> (case nextauth_route env handler ''/api/auth/session'' of (c, v) \<Rightarrow> fw_session fw c v)
      | OtherFile \<Rightarrow> fw_session fw 404 JNull)"

text \<open>
  A reload mounts the provider and then learns the session; a focused window learns it again; a
  sign-out and a rejected API call end in a reload.
\<close>

datatype dev_event =
    DevReload js_string
  | DevFocus js_string
  | DevSignIn js_string js_string js_string
  | DevSignOut js_string
  | DevApiRejected js_string http_error

definition dev_reload ::
  "framework \<Rightarrow> environment \<Rightarrow> (provider list \<Rightarrow> js_string \<Rightarrow> int \<times> json) \<Rightarrow> js_string \<Rightarrow> browser \<Rightarrow>
     (thrown + dev_auth)" where
  "dev_reload fw env handler now b = dev_auth_effect now (client_session fw env handler now) b dev_auth_init"

fun dev_step ::
  "framework \<Rightarrow> environment \<Rightarrow> (provider list \<Rightarrow> js_string \<Rightarrow> int \<times> json) \<Rightarrow> dev_event \<Rightarrow>
     browser \<times> dev_auth \<Rightarrow> browser \<times> (thrown + dev_auth)" where
  "dev_step fw env handler (DevReload now) (b, a) = (b, dev_reload fw env handler now b)"
| "dev_step fw env handler (DevFocus now) (b, a) =
     (b, dev_auth_effect now (client_session fw env handler now) b a)"
| "dev_step fw env handler (DevSignIn now email password) (b, a) =
     (let v = dev_login_route now (JObj [(''email'', JStr email), (''password'', JStr password)])
      in case dev_signIn (v \<noteq> None) (Option.bind v (\<lambda>x. json_parse (json_stringify x))) b a of
           (_, b', a') \<Rightarrow> (b', Inr a'))"
| "dev_step fw env handler (DevSignOut now) (b, a) =
     (let b' = fst (dev_signOut b a) in (b', dev_reload fw env handler now b'))"
| "dev_step fw env handler (DevApiRejected now err) (b, a) =
     (let b' = snd (dev_on_rejected True err b)
      in if http_error.status err = Some 401 \<or> http_error.status err = Some 403
         then (b', dev_reload fw env handler now b') else (b', Inr a))"

subsection \<open>Facts about sessions\<close>

lemma session_prop_Some [simp]: "session_prop (Some v) k = get_prop v k"
  by (simp add: session_prop_def)

lemma get_prop_JObj [simp]: "get_prop (JObj kvs) k = map_of kvs k"
  by (simp add: get_prop_def)

lemma coalesce_to_simps [simp]:
  "coalesce_to None y = y" "coalesce_to (Some JNull) y = y" "coalesce_to (Some (JStr s)) y = JStr s"
  by (simp_all add: coalesce_to_def)

lemma truthy_JObj [simp]: "truthy (Some (JObj kvs))"
  by (simp add: truthy_def)

text \<open>The callback of the session changes three properties of its user.\<close>

lemma session_callback_other:
  "k \<notin> {''id'', ''role'', ''lastLoginAt''} \<Longrightarrow>
     get_prop (the (map_of (session_callback now session token) ''user'')) k
     = get_prop (the (map_of session ''user'')) k"
  by (auto simp: session_callback_def Let_def map_of_obj_put split: option.splits json.splits)

lemma client_session_documented:
  "documented fw \<Longrightarrow> client_session fw env handler now = SessionKnown (Some (dev_session_route now))"
  by (simp add: documented_def client_session_def dev_session_route_def)

definition session_route_user :: "js_string \<Rightarrow> json" where
  "session_route_user now =
     JObj [(''id'', JStr ''user_1''), (''name'', JStr ''Alex Johnson''), (''email'', JStr ''alex@gapeiro.dev''),
           (''role'', JStr ''developer''), (''lastLoginAt'', JStr now)]"

lemma effect_session_route:
  "dev_auth_effect now (SessionKnown (Some (dev_session_route now))) b a
   = Inr (a\<lparr>user := Some (session_route_user now), loading := False\<rparr>)"
  by (simp add: dev_auth_effect_def dev_session_route_def dev_session_user_def session_route_user_def)

lemma gate_session_route [simp]:
  "dev_gate_effect (a\<lparr>user := Some (session_route_user now), loading := False\<rparr>) = None"
  by (simp add: dev_gate_effect_def dev_canAccessPortal_def session_route_user_def)

text \<open>An instance of what the libraries document.\<close>

definition sample_framework :: framework where
  "sample_framework =
     \<lparr>fw_route = (\<lambda>p. if p = ''/api/auth/session'' then SessionFile else CatchAllFile),
      fw_session = (\<lambda>c v. case v of
        JObj kvs \<Rightarrow> SessionKnown (if c = 200 \<and> kvs \<noteq> [] then Some v else None)
      | _ \<Rightarrow> SessionKnown None)\<rparr>"

lemma documented_sample: "documented sample_framework"
  by (simp add: documented_def sample_framework_def)

subsection \<open>Properties\<close>

text \<open>
  C22: The developer portal has a file of its own for \<open>/api/auth/session\<close>, the path from which next-auth
  reads its session, and it answers with a fixed user. So whatever is in \<open>localStorage\<close> and whoever
  was or was not signed in before: after a page load, after the window gets the focus and after a
  sign-out the portal is used by that user, and the gate sends nobody to the login page.
\<close>

theorem developer_always_signed_in:
  "documented fw \<Longrightarrow> ev \<in> {DevReload now, DevFocus now, DevSignOut now} \<Longrightarrow>
     \<exists>a'. snd (dev_step fw env handler ev (b, a)) = Inr a'
       \<and> user a' = Some (session_route_user now) \<and> dev_gate_effect a' = None"
  by (auto simp: dev_reload_def client_session_documented effect_session_route Let_def)

theorem developer_always_signed_in_witness:
  "\<exists>a'. snd (dev_step sample_framework Map.empty (\<lambda>_ _. (200, JNull)) (DevSignOut ''t'')
            (\<lparr>local_storage = Map.empty, location_href = ''/''\<rparr>, dev_auth_init)) = Inr a'
     \<and> user a' = Some (session_route_user ''t'') \<and> dev_gate_effect a' = None"
  by (rule developer_always_signed_in [OF documented_sample]) simp

text \<open>
  The next-auth route needs the variables of all four providers: with one of the nine missing every
  request is answered with status 500, so the choice of providers by what is configured only ever
  gives all four.
\<close>

definition auth_variables :: "js_string list" where
  "auth_variables =
     [''GITHUB_CLIENT_ID'', ''GITHUB_CLIENT_SECRET'', ''GOOGLE_CLIENT_ID'', ''GOOGLE_CLIENT_SECRET'',
      ''AZURE_AD_CLIENT_ID'', ''AZURE_AD_CLIENT_SECRET'', ''AZURE_AD_TENANT_ID'',
      ''APPLE_CLIENT_ID'', ''APPLE_CLIENT_SECRET'']"

theorem nextauth_all_or_nothing:
  "nextauth_route env handler path =
     (if list_all (env_set env) auth_variables then handler [GitHub, Google, AzureAD, Apple] path
      else (500, JObj [(''error'', JStr (''Missing '' @ js_join '' and '' (missingProviders env)
                                          @ '' OAuth environment variables.''))]))"
  by (simp add: nextauth_route_def missingProviders_def configuredProviders_def auth_variables_def)

text \<open>
  A sign-in through a provider: if the profile has an identifier, the user the portal then shows has
  its text as identifier and the role of a developer, and the name and email of the session; the
  session has no tenant unless next-auth put one there.
\<close>

theorem oauth_identity:
  assumes "truthy account" and "profile = Some (JObj p)" and "map_of p ''id'' = Some (JInt n)" and "n \<noteq> 0"
    and "map_of sess ''user'' = Some (JObj u)" and "map_of u ''name'' = Some (JStr nm)"
    and "map_of u ''email'' = Some (JStr em)"
  shows "\<exists>token' u'. jwt_callback fmt token account profile = Some token'
     \<and> dev_auth_effect now (SessionKnown (Some (JObj (session_callback now sess token')))) b a
       = Inr (a\<lparr>user := Some (JObj [(''id'', JStr (int_dec n)), (''name'', JStr nm), (''email'', JStr em),
                                     (''role'', JStr ''developer''), (''lastLoginAt'', JStr now)]),
                 loading := False\<rparr>)
     \<and> map_of (session_callback now sess token') ''user'' = Some (JObj u')
     \<and> map_of u' ''tenantId'' = map_of u ''tenantId''"
proof -
  let ?t = "obj_put ''role'' (JStr ''developer'') (obj_put ''id'' (JStr (int_dec n)) token)"
  have t: "jwt_callback fmt token account profile = Some ?t"
    using assms(1-4) by (simp add: jwt_callback_def coalesce_def truthy_def [of "Some (JInt n)"])
  have m: "map_of ?t ''id'' = Some (JStr (int_dec n))" "map_of ?t ''role'' = Some (JStr ''developer'')"
    by (simp_all add: map_of_obj_put)
  let ?u = "obj_put ''lastLoginAt'' (JStr now)
      (obj_put ''role'' (JStr ''developer'') (obj_put ''id'' (JStr (int_dec n)) u))"
  have s: "session_callback now sess ?t = obj_put ''user'' (JObj ?u) sess"
    by (simp add: session_callback_def assms(5) m del: map_of_obj_put)
  have "dev_auth_effect now (SessionKnown (Some (JObj (session_callback now sess ?t)))) b a
      = Inr (a\<lparr>user := Some (JObj [(''id'', JStr (int_dec n)), (''name'', JStr nm), (''email'', JStr em),
                                     (''role'', JStr ''developer''), (''lastLoginAt'', JStr now)]),
                 loading := False\<rparr>)"
    unfolding s by (simp add: dev_auth_effect_def dev_session_user_def map_of_obj_put assms(6,7))
  then show ?thesis
    using t s by (intro exI [of _ ?t] exI [of _ ?u]) (simp add: map_of_obj_put)
qed

theorem oauth_identity_witness:
  "\<exists>token'. jwt_callback id [] (Some (JObj [])) (Some (JObj [(''id'', JInt 583231)])) = Some token'
     \<and> (\<exists>b a. dev_auth_effect ''t'' (SessionKnown (Some (JObj (session_callback ''t''
          [(''user'', JObj [(''name'', JStr ''Octo''), (''email'', JStr ''o@g.dev'')])] token')))) b a
        = Inr (a\<lparr>user := Some (JObj [(''id'', JStr (int_dec 583231)), (''name'', JStr ''Octo''),
                  (''email'', JStr ''o@g.dev''), (''role'', JStr ''developer''), (''lastLoginAt'', JStr ''t'')]),
                  loading := False\<rparr>))"
  using oauth_identity [where account = "Some (JObj [])" and profile = "Some (JObj [(''id'', JInt 583231)])"
      and p = "[(''id'', JInt 583231)]" and n = 583231 and token = "[]" and fmt = id and now = "''t''"
      and sess = "[(''user'', JObj [(''name'', JStr ''Octo''), (''email'', JStr ''o@g.dev'')])]"
      and u = "[(''name'', JStr ''Octo''), (''email'', JStr ''o@g.dev'')]" and nm = "''Octo''" and em = "''o@g.dev''"]
  by fastforce

end
