(* ===== verification/Tenant_Page.thy ===== *)
theory Tenant_Page
  imports Http_Client Vdom
begin

section \<open>Pages of one organisation\<close>

text \<open>
  Three pages of the developer portal list what belongs to the organisation (tenant) of the signed-in
  user. Each has a function that fetches the rows, called by an effect on
  \<open>[tenant?.tenantId]\<close> and again by handlers; nothing cancels a fetch that a later one
  overtakes. Here are the world of such a page and the contract of its operations. A tenant is
  what the hook \<open>useTenant\<close> returns; the session may change it at any time, and answers come in
  any order. What the server holds for a tenant is a parameter: no request of the pages changes it.
\<close>

subsection \<open>The operations of a page\<close>

text \<open>
  \<open>top_ui\<close> is the synchronous part of a handler; its boolean says that it ends in a call of the
  fetch function. \<open>top_fetch\<close> is that function up to its \<open>await\<close> (all of it, without a tenant),
  \<open>top_ok\<close> and \<open>top_err\<close> are the rest.
\<close>

record ('s, 'u, 'raw) tenant_ops =
  top_view :: "'s \<Rightarrow> 'u node"
  top_ui :: "'s \<Rightarrow> 'u \<Rightarrow> 's \<times> bool"
  top_fetch :: "js_string option \<Rightarrow> 's \<Rightarrow> 's \<times> http_request option"
  top_ok :: "'raw list \<Rightarrow> 's \<Rightarrow> 's"
  top_err :: "'s \<Rightarrow> 's"

subsection \<open>The world\<close>

text \<open>A fetch in flight: the tenant it asked for.\<close>

record 's tenant_world =
  tpage :: 's
  tenant_id :: "js_string option"
  flights :: "js_string list"
  tsent :: "http_request list"

definition call_fetch :: "('s, 'u, 'raw) tenant_ops \<Rightarrow> 's tenant_world \<Rightarrow> 's tenant_world" where
  "call_fetch ops w =
     (case top_fetch ops (tenant_id w) (tpage w) of
        (s', None) \<Rightarrow> w\<lparr>tpage := s'\<rparr>
      | (s', Some q) \<Rightarrow>
          w\<lparr>tpage := s', tsent := tsent w @ [q],
            flights := flights w @ opt_list (tenant_id w)\<rparr>)"

text \<open>The page is mounted and the effect has run for the first time.\<close>

definition start_tenant :: "('s, 'u, 'raw) tenant_ops \<Rightarrow> 's \<Rightarrow> js_string option \<Rightarrow> 's tenant_world" where
  "start_tenant ops s0 t = call_fetch ops \<lparr>tpage = s0, tenant_id = t, flights = [], tsent = []\<rparr>"

inductive tstep ::
  "('s, 'u, 'raw) tenant_ops \<Rightarrow> (js_string option \<Rightarrow> bool) \<Rightarrow> (js_string \<Rightarrow> 'raw list) \<Rightarrow>
     's tenant_world \<Rightarrow> 's tenant_world \<Rightarrow> bool"
  for ops :: "('s, 'u, 'raw) tenant_ops" and possible :: "js_string option \<Rightarrow> bool"
    and srv :: "js_string \<Rightarrow> 'raw list"
where
  t_user: "u \<in> set (dispatch d (top_view ops (tpage w))) \<Longrightarrow> top_ui ops (tpage w) u = (s', again) \<Longrightarrow>
     tstep ops possible srv w (if again then call_fetch ops (w\<lparr>tpage := s'\<rparr>) else w\<lparr>tpage := s'\<rparr>)"
| t_session: "possible t \<Longrightarrow> t \<noteq> tenant_id w \<Longrightarrow>
     tstep ops possible srv w (call_fetch ops (w\<lparr>tenant_id := t\<rparr>))"
| t_arrives: "i < length (flights w) \<Longrightarrow>
     tstep ops possible srv w
       (w\<lparr>flights := take i (flights w) @ drop (Suc i) (flights w),
          tpage := top_ok ops (srv (flights w ! i)) (tpage w)\<rparr>)"
| t_fails: "i < length (flights w) \<Longrightarrow>
     tstep ops possible srv w
       (w\<lparr>flights := take i (flights w) @ drop (Suc i) (flights w), tpage := top_err ops (tpage w)\<rparr>)"

inductive treachable ::
  "('s, 'u, 'raw) tenant_ops \<Rightarrow> (js_string option \<Rightarrow> bool) \<Rightarrow> (js_string \<Rightarrow> 'raw list) \<Rightarrow>
     's \<Rightarrow> 's tenant_world \<Rightarrow> bool"
  for ops :: "('s, 'u, 'raw) tenant_ops" and possible :: "js_string option \<Rightarrow> bool"
    and srv :: "js_string \<Rightarrow> 'raw list" and s0 :: 's
where
  t_here: "possible t \<Longrightarrow> treachable ops possible srv s0 (start_tenant ops s0 t)"
| t_further: "treachable ops possible srv s0 w \<Longrightarrow> tstep ops possible srv w w' \<Longrightarrow>
     treachable ops possible srv s0 w'"

lemma treachable_invariant:
  assumes "treachable ops possible srv s0 w"
    and "\<And>t. possible t \<Longrightarrow> P (start_tenant ops s0 t)"
    and "\<And>w w'. P w \<Longrightarrow> tstep ops possible srv w w' \<Longrightarrow> P w'"
  shows "P w"
  using assms(1) by induction (use assms(2,3) in auto)

lemma in_set_dropped: "x \<in> set (take i xs @ drop (Suc i) xs) \<Longrightarrow> x \<in> set xs"
  by (auto dest: in_set_takeD in_set_dropD)

subsection \<open>The contract of a page\<close>

text \<open>A tenant the fetch function accepts: \<open>!tenant?.tenantId\<close> is false.\<close>

definition named_tenant :: "js_string option \<Rightarrow> bool" where
  "named_tenant t \<longleftrightarrow> (\<exists>i. t = Some i \<and> i \<noteq> [])"

lemma named_tenant_simps [simp]: "\<not> named_tenant None" "named_tenant (Some i) \<longleftrightarrow> i \<noteq> []"
  by (simp_all add: named_tenant_def)

lemma unnamed_tenant_iff: "\<not> named_tenant t \<longleftrightarrow> t = None \<or> t = Some []"
  by (cases t) auto

locale tenant_page =
  fixes ops :: "('s, 'u, 'raw) tenant_ops"
    and rows :: "'s \<Rightarrow> 'r list"
    and busy :: "'s \<Rightarrow> bool"
    and listing :: "js_string \<Rightarrow> http_request"
    and conv :: "'raw list \<Rightarrow> 'r list"
    and s0 :: 's
  assumes start_rows: "rows s0 = []"
    and fetch_unnamed: "\<not> named_tenant t \<Longrightarrow>
      snd (top_fetch ops t s) = None \<and> rows (fst (top_fetch ops t s)) = [] \<and> \<not> busy (fst (top_fetch ops t s))"
    and fetch_named: "i \<noteq> [] \<Longrightarrow>
      snd (top_fetch ops (Some i) s) = Some (listing i) \<and> rows (fst (top_fetch ops (Some i) s)) = rows s
      \<and> busy (fst (top_fetch ops (Some i) s))"
    and ui_rows: "u \<in> set (dispatch d (top_view ops s)) \<Longrightarrow> rows (fst (top_ui ops s u)) = rows s"
    and ui_busy: "u \<in> set (dispatch d (top_view ops s)) \<Longrightarrow> busy (fst (top_ui ops s u)) = busy s"
    and ok: "rows (top_ok ops raws s) = conv raws" "\<not> busy (top_ok ops raws s)"
    and err: "rows (top_err ops s) = rows s" "\<not> busy (top_err ops s)"
begin

text \<open>
  What holds whenever nothing is being computed: a page that says it is loading has a fetch in flight,
  all requests are listings of possible tenants, and the rows are those of such a tenant.
\<close>

definition tenant_inv :: "(js_string option \<Rightarrow> bool) \<Rightarrow> (js_string \<Rightarrow> 'raw list) \<Rightarrow> 's tenant_world \<Rightarrow> bool" where
  "tenant_inv possible srv w \<longleftrightarrow>
     (busy (tpage w) \<longrightarrow> flights w \<noteq> [])
     \<and> possible (tenant_id w)
     \<and> (\<forall>i \<in> set (flights w). possible (Some i) \<and> i \<noteq> [])
     \<and> (\<forall>q \<in> set (tsent w). \<exists>i. possible (Some i) \<and> i \<noteq> [] \<and> q = listing i)
     \<and> (rows (tpage w) = [] \<or> (\<exists>i. possible (Some i) \<and> i \<noteq> [] \<and> rows (tpage w) = conv (srv i)))"

text \<open>A call of the fetch function restores the invariant, whatever the loading flag was.\<close>

lemma call_fetch_inv:
  assumes "possible (tenant_id w)"
    and "\<forall>i \<in> set (flights w). possible (Some i) \<and> i \<noteq> []"
    and "\<forall>q \<in> set (tsent w). \<exists>i. possible (Some i) \<and> i \<noteq> [] \<and> q = listing i"
    and "rows (tpage w) = [] \<or> (\<exists>i. possible (Some i) \<and> i \<noteq> [] \<and> rows (tpage w) = conv (srv i))"
  shows "tenant_inv possible srv (call_fetch ops w)"
proof (cases "named_tenant (tenant_id w)")
  case True
  then obtain i where i: "tenant_id w = Some i" "i \<noteq> []" by (auto simp: named_tenant_def)
  obtain s' q where f: "top_fetch ops (Some i) (tpage w) = (s', q)" by fastforce
  with fetch_named [OF i(2), of "tpage w"]
  have "q = Some (listing i)" "rows s' = rows (tpage w)" "busy s'" by auto
  then show ?thesis using assms i f by (auto simp: tenant_inv_def call_fetch_def)
next
  case False
  obtain s' q where f: "top_fetch ops (tenant_id w) (tpage w) = (s', q)" by fastforce
  with fetch_unnamed [OF False, of "tpage w"] have "q = None" "rows s' = []" "\<not> busy s'" by auto
  then show ?thesis using assms f by (auto simp: tenant_inv_def call_fetch_def)
qed

lemma tenant_inv_start: "possible t \<Longrightarrow> tenant_inv possible srv (start_tenant ops s0 t)"
  unfolding start_tenant_def by (rule call_fetch_inv) (simp_all add: start_rows)

lemma tenant_inv_step:
  assumes inv: "tenant_inv possible srv w" and "tstep ops possible srv w w'"
  shows "tenant_inv possible srv w'"
  using assms(2)
proof cases
  case (t_user u d s' again)
  have r: "rows s' = rows (tpage w)" using ui_rows [OF t_user(2)] t_user(3) by simp
  have b: "busy s' = busy (tpage w)" using ui_busy [OF t_user(2)] t_user(3) by simp
  show ?thesis
  proof (cases again)
    case True
    with t_user have w': "w' = call_fetch ops (w\<lparr>tpage := s'\<rparr>)" by simp
    show ?thesis unfolding w'
      by (rule call_fetch_inv) (use inv r in \<open>auto simp: tenant_inv_def\<close>)
  next
    case False
    with t_user inv r b show ?thesis by (auto simp: tenant_inv_def)
  qed
next
  case (t_session t)
  show ?thesis unfolding t_session(1)
    by (rule call_fetch_inv) (use inv t_session in \<open>auto simp: tenant_inv_def\<close>)
next
  case (t_arrives i)
  then have "flights w ! i \<in> set (flights w)" by simp
  with t_arrives inv ok show ?thesis
    by (auto simp: tenant_inv_def dest: in_set_takeD in_set_dropD)
next
  case (t_fails i)
  with inv err show ?thesis by (auto simp: tenant_inv_def dest: in_set_takeD in_set_dropD)
qed

lemma tenant_reachable: "treachable ops possible srv s0 w \<Longrightarrow> tenant_inv possible srv w"
  by (erule treachable_invariant) (auto intro: tenant_inv_start tenant_inv_step)

text \<open>Only listings are sent, and the page does not stay in its loading state.\<close>

lemma reads_only:
  "treachable ops possible srv s0 w \<Longrightarrow>
     (busy (tpage w) \<longrightarrow> flights w \<noteq> [])
     \<and> (\<forall>q \<in> set (tsent w). \<exists>i. possible (Some i) \<and> i \<noteq> [] \<and> q = listing i)"
  by (drule tenant_reachable) (simp add: tenant_inv_def)

text \<open>While the tenant stays the same, the rows are his.\<close>

lemma own_rows:
  "treachable ops (\<lambda>t. t = Some i) srv s0 w \<Longrightarrow> rows (tpage w) = [] \<or> rows (tpage w) = conv (srv i)"
  by (drule tenant_reachable) (auto simp: tenant_inv_def)

text \<open>Without a tenant that has a name the page is empty for ever and asks for nothing.\<close>

lemma no_tenant_no_rows:
  assumes "\<And>t. possible t \<Longrightarrow> \<not> named_tenant t" and "treachable ops possible srv s0 w"
  shows "tsent w = [] \<and> rows (tpage w) = [] \<and> \<not> busy (tpage w)"
proof -
  have inv: "tenant_inv possible srv w" using assms(2) by (rule tenant_reachable)
  have no: "\<not> possible (Some i)" if "i \<noteq> []" for i
    using assms(1) that by (auto simp: named_tenant_def)
  then have "flights w = []" using inv by (cases "flights w") (auto simp: tenant_inv_def)
  moreover have "tsent w = []" using inv no by (cases "tsent w") (auto simp: tenant_inv_def)
  ultimately show ?thesis using inv no by (auto simp: tenant_inv_def)
qed

end

subsection \<open>Running a page\<close>

datatype taction =
    TUser dom_event nat
  | TSession "js_string option"
  | TArrives nat
  | TFails nat

fun tact ::
  "('s, 'u, 'raw) tenant_ops \<Rightarrow> (js_string \<Rightarrow> 'raw list) \<Rightarrow> taction \<Rightarrow> 's tenant_world \<Rightarrow>
     's tenant_world option" where
  "tact ops srv (TUser d n) w =
     (let us = dispatch d (top_view ops (tpage w)) in
      if n < length us then
        (case top_ui ops (tpage w) (us ! n) of (s', again) \<Rightarrow>
           Some (if again then call_fetch ops (w\<lparr>tpage := s'\<rparr>) else w\<lparr>tpage := s'\<rparr>))
      else None)"
| "tact ops srv (TSession t) w =
     (if t \<noteq> tenant_id w then Some (call_fetch ops (w\<lparr>tenant_id := t\<rparr>)) else None)"
| "tact ops srv (TArrives i) w =
     (if i < length (flights w) then
        Some (w\<lparr>flights := take i (flights w) @ drop (Suc i) (flights w),
                tpage := top_ok ops (srv (flights w ! i)) (tpage w)\<rparr>)
      else None)"
| "tact ops srv (TFails i) w =
     (if i < length (flights w) then
        Some (w\<lparr>flights := take i (flights w) @ drop (Suc i) (flights w), tpage := top_err ops (tpage w)\<rparr>)
      else None)"

fun trun ::
  "('s, 'u, 'raw) tenant_ops \<Rightarrow> (js_string \<Rightarrow> 'raw list) \<Rightarrow> taction list \<Rightarrow> 's tenant_world \<Rightarrow>
     's tenant_world option" where
  "trun ops srv [] w = Some w"
| "trun ops srv (a # as) w = Option.bind (tact ops srv a w) (trun ops srv as)"

lemma tact_tstep: "tact ops srv a w = Some w' \<Longrightarrow> tstep ops (\<lambda>t. True) srv w w'"
proof (induction ops srv a w rule: tact.induct)
  case (1 ops srv d n w)
  let ?us = "dispatch d (top_view ops (tpage w))"
  obtain s' again where st: "top_ui ops (tpage w) (?us ! n) = (s', again)" by fastforce
  with 1 have n: "n < length ?us"
    and w': "w' = (if again then call_fetch ops (w\<lparr>tpage := s'\<rparr>) else w\<lparr>tpage := s'\<rparr>)"
    by (auto simp: Let_def split: if_splits)
  show ?case unfolding w' by (rule t_user [OF nth_mem [OF n] st])
qed (auto intro: tstep.intros split: if_splits)

lemma trun_reachable:
  "trun ops srv as w = Some w' \<Longrightarrow> treachable ops (\<lambda>t. True) srv s0 w \<Longrightarrow>
     treachable ops (\<lambda>t. True) srv s0 w'"
proof (induction "as" arbitrary: w)
  case (Cons a "as")
  then obtain v where "tact ops srv a w = Some v" and "trun ops srv as v = Some w'"
    by (auto simp: Option.bind_eq_Some_conv)
  with Cons tact_tstep show ?case by (blast intro: treachable.t_further)
qed simp

lemma trun_start:
  "trun ops srv as (start_tenant ops s0 t) = Some w \<Longrightarrow> treachable ops (\<lambda>t. True) srv s0 w"
  by (erule trun_reachable [OF _ t_here]) simp

end
