(* ===== verification/Org_Clients_Page.thy ===== *)
theory Org_Clients_Page
  imports Org_Api Tenant_Page
begin

section \<open>The clients page of the developer portal\<close>

text \<open>
  Models \<open>app/(protected)/clients/page.tsx\<close> of the developer portal. The form is one of the
  react-hook-form library: its field's text, whether it was submitted and its error message are kept
  in the state here; the library validates at a submit, and after a failed one at every change. The
  answer of the API is cast to the page's own interface, so a property that the API does not
  declare (\<open>clientName\<close>) may be \<open>undefined\<close>. \<open>ld\<close> is the locale's date format. What
  \<open>console.error\<close> writes is left out.
\<close>

record org_client =
  ident :: js_string
  clientId :: js_string
  clientName :: "js_string option"
  clientSecret :: js_string
  isEnabled :: bool
  createdAt :: js_string
  approvedEndpointsCount :: "nat option"

record org_clients_page =
  clients :: "org_client list"
  loading :: bool
  isOpen :: bool
  selectedClient :: "org_client option"
  nameField :: js_string
  nameError :: "js_string option"
  wasSubmitted :: bool
  clipboard :: "js_string option"

definition org_clients_init :: org_clients_page where
  "org_clients_init =
     \<lparr>clients = [], loading = True, isOpen = False, selectedClient = None, nameField = [],
      nameError = None, wasSubmitted = False, clipboard = None\<rparr>"

text \<open>\<open>z.string().min(1, "Client name is required")\<close>: the message of a text that fails.\<close>

definition createClientSchema :: "js_string \<Rightarrow> js_string option" where
  "createClientSchema v = (if length v < 1 then Some ''Client name is required'' else None)"

subsection \<open>fetchClients and the handlers\<close>

definition org_clients_fetch ::
  "js_string option \<Rightarrow> org_clients_page \<Rightarrow> org_clients_page \<times> http_request option" where
  "org_clients_fetch t s =
     (let s1 = s\<lparr>loading := True\<rparr> in
      case t of
        None \<Rightarrow> (s1\<lparr>clients := [], loading := False\<rparr>, None)
      | Some i \<Rightarrow>
          (if \<not> truthy_str i then (s1\<lparr>clients := [], loading := False\<rparr>, None)
           else (s1, Some (orgApi_getClientsByTenant i))))"

definition org_clients_ok :: "org_client list \<Rightarrow> org_clients_page \<Rightarrow> org_clients_page" where
  "org_clients_ok answer s = s\<lparr>clients := answer, loading := False\<rparr>"

definition org_clients_err :: "org_clients_page \<Rightarrow> org_clients_page" where
  "org_clients_err s = s\<lparr>loading := False\<rparr>"

datatype org_clients_ui =
    SetOpen bool
  | SetSelectedClient "org_client option"
  | TypeName js_string
  | OnSubmit
  | HandleDeleteClient js_string bool
  | CopyToClipboard js_string

text \<open>
  The boolean of \<open>HandleDeleteClient\<close> is the answer to \<open>confirm\<close>. The second component says that
  the handler ends in \<open>fetchClients()\<close>.
\<close>

fun org_clients_handle :: "org_clients_page \<Rightarrow> org_clients_ui \<Rightarrow> org_clients_page \<times> bool" where
  "org_clients_handle s (SetOpen b) = (s\<lparr>isOpen := b\<rparr>, False)"
| "org_clients_handle s (SetSelectedClient c) = (s\<lparr>selectedClient := c\<rparr>, False)"
| "org_clients_handle s (TypeName v) =
     (s\<lparr>nameField := v,
        nameError := (if wasSubmitted s then createClientSchema v else nameError s)\<rparr>, False)"
| "org_clients_handle s OnSubmit =
     (case createClientSchema (nameField s) of
        Some m \<Rightarrow> (s\<lparr>nameError := Some m, wasSubmitted := True\<rparr>, False)
      | None \<Rightarrow> (s\<lparr>nameField := [], nameError := None, wasSubmitted := False, isOpen := False\<rparr>, True))"
| "org_clients_handle s (HandleDeleteClient i confirmed) = (s, confirmed)"
| "org_clients_handle s (CopyToClipboard v) = (s\<lparr>clipboard := Some v\<rparr>, False)"

subsection \<open>What is rendered\<close>

definition create_client_dialog :: "org_clients_page \<Rightarrow> js_string \<Rightarrow> js_string \<Rightarrow> org_clients_ui node" where
  "create_client_dialog s trigger field =
     Dialog (isOpen s) SetOpen [Btn trigger False (Some (SetOpen (\<not> isOpen s)))]
       [Txt ''Create New API Client'',
        Txt ''Set up a new client to securely access approved API endpoints'',
        Form [Txt ''Client Name'', Field field (nameField s) False False TypeName,
              (case nameError s of None \<Rightarrow> nothing | Some m \<Rightarrow> Txt m),
              Txt ''Choose a descriptive name to identify this client'']
          ''Create Client'' False (Some OnSubmit)]"

definition client_count :: "org_client \<Rightarrow> nat" where
  "client_count c = (case approvedEndpointsCount c of None \<Rightarrow> 0 | Some n \<Rightarrow> n)"

text \<open>The two buttons labelled \<open>Delete\<close> are one: the second stands for a declined \<open>confirm\<close>.\<close>

definition org_client_card :: "(js_string \<Rightarrow> js_string) \<Rightarrow> org_client \<Rightarrow> org_clients_ui node" where
  "org_client_card ld c =
     El [(case clientName c of None \<Rightarrow> nothing | Some n \<Rightarrow> Txt n),
         Txt (ld (createdAt c)),
         Txt (if isEnabled c then ''Active'' else ''Disabled''),
         Txt ''Client ID'', Txt (take 16 (clientId c) @ ''...''),
         Btn ''Copy full Client ID'' False (Some (CopyToClipboard (clientId c))),
         Txt ''Approved Endpoints'', Txt (nat_dec (client_count c)),
         Btn ''Details'' False (Some (SetSelectedClient (Some c))),
         Btn ''Delete'' False (Some (HandleDeleteClient (ident c) True)),
         Btn ''Delete'' False (Some (HandleDeleteClient (ident c) False))]"

definition client_detail_dialog :: "org_client \<Rightarrow> org_clients_ui node" where
  "client_detail_dialog c =
     Dialog True (\<lambda>_. SetSelectedClient None) []
       [(case clientName c of None \<Rightarrow> nothing | Some n \<Rightarrow> Txt n),
        Txt ''Manage your client credentials and configuration'',
        Txt ''Client Credentials'', Txt ''Client ID'', Txt (clientId c),
        Btn ''Copy Client ID'' False (Some (CopyToClipboard (clientId c))),
        Txt ''Client Secret'', Txt ''Hidden for security'',
        Txt ''Approved Endpoints'', Txt (nat_dec (client_count c) @ '' endpoints''),
        Btn ''Manage Endpoints'' False None]"

definition org_clients_view :: "(js_string \<Rightarrow> js_string) \<Rightarrow> org_clients_page \<Rightarrow> org_clients_ui node" where
  "org_clients_view ld s =
     (if loading s then El [Txt ''Loading clients...'']
      else El
        [Txt ''API Clients'', Txt ''Create and manage your API clients for secure access'',
         create_client_dialog s ''Create Client'' ''clientName'',
         (if clients s = [] then
            El [Txt ''No Clients Yet'',
                Txt ''Create your first API client to start requesting endpoint access'',
                create_client_dialog s ''Create Your First Client'' ''clientName2'']
          else El (map (org_client_card ld) (clients s))),
         (case selectedClient s of None \<Rightarrow> nothing | Some c \<Rightarrow> client_detail_dialog c)])"

definition org_clients_ops ::
  "(js_string \<Rightarrow> js_string) \<Rightarrow> (org_clients_page, org_clients_ui, org_client) tenant_ops" where
  "org_clients_ops ld =
     \<lparr>top_view = org_clients_view ld, top_ui = org_clients_handle, top_fetch = org_clients_fetch,
      top_ok = org_clients_ok, top_err = org_clients_err\<rparr>"

lemma org_clients_handle_kept:
  "clients (fst (org_clients_handle s u)) = clients s \<and> loading (fst (org_clients_handle s u)) = loading s"
  by (cases u) (simp_all split: option.splits)

interpretation org_clients:
  tenant_page "org_clients_ops ld" clients loading orgApi_getClientsByTenant "\<lambda>x. x" org_clients_init for ld
  by unfold_locales
    (auto simp: org_clients_ops_def org_clients_init_def org_clients_fetch_def org_clients_ok_def
      org_clients_err_def org_clients_handle_kept unnamed_tenant_iff Let_def)

subsection \<open>Properties\<close>

text \<open>
  The clients page only reads: whatever the user does in it, a submitted form and a confirmed
  delete included, every request it ever sends asks for the list of clients of a tenant of the session;
  and when it says it is loading, an answer is outstanding.
\<close>

theorem org_clients_read_only:
  "treachable (org_clients_ops ld) possible srv org_clients_init w \<Longrightarrow>
     (\<forall>q \<in> set (tsent w). \<exists>i. possible (Some i) \<and> i \<noteq> [] \<and> rmethod q = GET
        \<and> url q = ''/admin/management/tenants/'' @ i @ ''/clients'' \<and> body q = None)
     \<and> (loading (tpage w) \<longrightarrow> flights w \<noteq> [])"
  by (drule org_clients.reads_only)
    (fastforce simp: orgApi_getClientsByTenant_def http_get_def tenant_path_def)

text \<open>A form that is filled in and submitted closes as after a success.\<close>

definition sample_client :: "js_string \<Rightarrow> org_client" where
  "sample_client i =
     \<lparr>ident = i, clientId = ''client-'' @ i, clientName = None, clientSecret = [], isEnabled = True,
      createdAt = [], approvedEndpointsCount = None\<rparr>"

theorem org_clients_read_only_witness:
  "\<exists>w. trun (org_clients_ops id) (\<lambda>_. [])
          [TArrives 0, TUser (Click ''Create Client'') 0, TUser (TypeIn ''clientName'' ''Mobile'') 0,
           TUser SubmitForm 0, TArrives 0]
          (start_tenant (org_clients_ops id) org_clients_init (Some ''t1'')) = Some w
     \<and> \<not> isOpen (tpage w) \<and> nameField (tpage w) = [] \<and> length (tsent w) = 2
     \<and> (\<forall>q \<in> set (tsent w). rmethod q = GET)"
proof -
  let ?run = "trun (org_clients_ops id) (\<lambda>_. [])
      [TArrives 0, TUser (Click ''Create Client'') 0, TUser (TypeIn ''clientName'' ''Mobile'') 0,
       TUser SubmitForm 0, TArrives 0]
      (start_tenant (org_clients_ops id) org_clients_init (Some ''t1''))"
  have "map_option (\<lambda>w. (isOpen (tpage w), nameField (tpage w), length (tsent w))) ?run
      = Some (False, [], 2)"
    by code_simp
  then obtain w where w: "?run = Some w"
      and s: "(isOpen (tpage w), nameField (tpage w), length (tsent w)) = (False, [], 2)"
    by (rule map_option_SomeE)
  from org_clients_read_only [OF trun_start [OF w]] s w show ?thesis by auto
qed

text \<open>
  A fetch that a change of the tenant has overtaken is not cancelled, and a failed one keeps the
  rows: the page of one organisation can show the clients of another one with nothing in flight,
  both when the older answer arrives last and when the newer request fails.
\<close>

theorem org_clients_stale:
  "\<exists>w1 w2. treachable (org_clients_ops id) (\<lambda>t. True) (\<lambda>t. [sample_client t]) org_clients_init w1
     \<and> tenant_id w1 = Some ''b'' \<and> flights w1 = [] \<and> \<not> loading (tpage w1)
     \<and> clients (tpage w1) = [sample_client ''a'']
     \<and> treachable (org_clients_ops id) (\<lambda>t. True) (\<lambda>t. [sample_client t]) org_clients_init w2
     \<and> tenant_id w2 = Some ''b'' \<and> flights w2 = [] \<and> \<not> loading (tpage w2)
     \<and> clients (tpage w2) = [sample_client ''a'']"
proof -
  let ?run = "\<lambda>as. trun (org_clients_ops id) (\<lambda>t. [sample_client t]) as
      (start_tenant (org_clients_ops id) org_clients_init (Some ''a''))"
  let ?sum = "\<lambda>w. (tenant_id w, flights w, loading (tpage w), clients (tpage w))"
  have r: "\<exists>w. treachable (org_clients_ops id) (\<lambda>t. True) (\<lambda>t. [sample_client t]) org_clients_init w
      \<and> ?sum w = (Some ''b'', [], False, [sample_client ''a''])"
    if m: "map_option ?sum (?run as) = Some (Some ''b'', [], False, [sample_client ''a''])" for "as"
    using m by (rule map_option_SomeE) (blast intro: trun_start)
  have 1: "map_option ?sum (?run [TSession (Some ''b''), TArrives 1, TArrives 0])
      = Some (Some ''b'', [], False, [sample_client ''a''])"
    by code_simp
  have 2: "map_option ?sum (?run [TArrives 0, TSession (Some ''b''), TFails 0])
      = Some (Some ''b'', [], False, [sample_client ''a''])"
    by code_simp
  from r [OF 1] r [OF 2] show ?thesis by auto
qed

end
