(* ===== verification/Ip_Restrictions_Page.thy ===== *)
theory Ip_Restrictions_Page
  imports Org_Api Tenant_Page
begin

section \<open>The IP restrictions page of the developer portal\<close>

text \<open>
  Models \<open>app/(protected)/ip-restrictions/page.tsx\<close>. The form belongs to react-hook-form: a field
  that was never rendered is \<open>undefined\<close>, one that is rendered first gets the empty text, and the
  schema \<open>z.object({ ipAddresses: z.string(), enforceRestrictions: z.boolean() })\<close> rejects the
  former. The bullets and examples of the page are left out.
\<close>

record EndpointApproval =
  ident :: js_string
  endpointId :: js_string
  endpointPath :: js_string
  serviceName :: js_string
  adminIpEnforced :: bool
  adminIpAllowlist :: "js_string list option"
  approvedAt :: js_string

record ip_page =
  approvals :: "EndpointApproval list"
  loading :: bool
  isOpen :: bool
  selectedApproval :: "EndpointApproval option"
  newIp :: js_string
  ipAddresses :: "js_string option"
  enforceRestrictions :: bool

definition ip_page_init :: ip_page where
  "ip_page_init =
     \<lparr>approvals = [], loading = True, isOpen = False, selectedApproval = None, newIp = [],
      ipAddresses = None, enforceRestrictions = False\<rparr>"

definition approval_row :: "OrgEndpointApproval \<Rightarrow> EndpointApproval" where
  "approval_row approval =
     \<lparr>ident = OrgEndpointApproval.ident approval,
      endpointId = OrgEndpointApproval.endpointId approval,
      endpointPath = OrgEndpointApproval.endpointId approval,
      serviceName = ''SeaBaasAPIGateway'',
      adminIpEnforced = OrgEndpointApproval.adminIpEnforced approval,
      adminIpAllowlist = OrgEndpointApproval.adminIpAllowlist approval,
      approvedAt = OrgEndpointApproval.approvedAt approval\<rparr>"

subsection \<open>fetchApprovals and the handlers\<close>

definition ip_fetch :: "js_string option \<Rightarrow> ip_page \<Rightarrow> ip_page \<times> http_request option" where
  "ip_fetch t s =
     (let s1 = s\<lparr>loading := True\<rparr> in
      case t of
        None \<Rightarrow> (s1\<lparr>approvals := [], loading := False\<rparr>, None)
      | Some i \<Rightarrow>
          (if \<not> truthy_str i then (s1\<lparr>approvals := [], loading := False\<rparr>, None)
           else (s1, Some (orgApi_getApprovalsByTenant i))))"

definition ip_fetch_ok :: "OrgEndpointApproval list \<Rightarrow> ip_page \<Rightarrow> ip_page" where
  "ip_fetch_ok answer s = s\<lparr>approvals := map approval_row answer, loading := False\<rparr>"

definition ip_fetch_err :: "ip_page \<Rightarrow> ip_page" where
  "ip_fetch_err s = s\<lparr>loading := False\<rparr>"

text \<open>One address per line, read by \<open>onSubmit\<close>; the handler does nothing with the list.\<close>

definition ip_list_of :: "js_string \<Rightarrow> js_string list" where
  "ip_list_of values = filter (\<lambda>ip. length ip > 0) (map js_trim (js_split (CHR 0x0A) values))"

datatype ip_ui =
    OpenChange_row EndpointApproval bool
  | ToggleEnforce bool
  | TypeAddresses js_string
  | OnSubmit

fun ip_handle :: "ip_page \<Rightarrow> ip_ui \<Rightarrow> ip_page \<times> bool" where
  "ip_handle s (OpenChange_row approval newOpen) =
     (s\<lparr>isOpen := newOpen,
        selectedApproval := (if newOpen then Some approval else selectedApproval s)\<rparr>, False)"
| "ip_handle s (ToggleEnforce b) =
     (s\<lparr>enforceRestrictions := b,
        ipAddresses := (if b \<and> ipAddresses s = None then Some [] else ipAddresses s)\<rparr>, False)"
| "ip_handle s (TypeAddresses v) = (s\<lparr>ipAddresses := Some v\<rparr>, False)"
| "ip_handle s OnSubmit =
     (case ipAddresses s of
        None \<Rightarrow> (s, False)
      | Some v \<Rightarrow>
          (if selectedApproval s = None then (s, False)
           else let ipList = ip_list_of v
                in (s\<lparr>isOpen := False, selectedApproval := None\<rparr>, True)))"

subsection \<open>What is rendered\<close>

definition row_open :: "ip_page \<Rightarrow> EndpointApproval \<Rightarrow> bool" where
  "row_open s approval \<longleftrightarrow> isOpen s
     \<and> (case selectedApproval s of None \<Rightarrow> False | Some a \<Rightarrow> ident a = ident approval)"

definition approval_dialog :: "ip_page \<Rightarrow> EndpointApproval \<Rightarrow> ip_ui node" where
  "approval_dialog s approval =
     Dialog (row_open s approval) (OpenChange_row approval)
       [Btn ''Configure'' False (Some (OpenChange_row approval (\<not> row_open s approval)))]
       [Txt (''IP Restrictions: '' @ endpointPath approval),
        Txt ''Configure IP allowlist for this endpoint'',
        Form [Txt ''Enable IP Restrictions'',
              Check ''enforce'' (enforceRestrictions s) False ToggleEnforce,
              Txt ''When enabled, only requests from allowed IP addresses will be accepted'',
              when_node (enforceRestrictions s)
                (El [Txt ''Allowed IP Addresses / CIDR Ranges'',
                     Field ''ipAddresses'' (case ipAddresses s of None \<Rightarrow> [] | Some v \<Rightarrow> v) False False
                       TypeAddresses,
                     Txt ''Enter one IP address or CIDR range per line. Example: 192.168.1.0/24, 10.0.0.0/8, 203.0.113.5'']),
              El (map Txt
                [''How it works:'', ''If enforcement is disabled, all IPs can access'',
                 ''If enforcement is enabled, only listed IPs can access'',
                 ''Use CIDR notation for ranges (e.g., 192.168.1.0/24)''])]
          ''Save IP Restrictions'' False (Some OnSubmit)]"

definition approval_table_row :: "ip_page \<Rightarrow> EndpointApproval \<Rightarrow> ip_ui node" where
  "approval_table_row s approval =
     El [Txt (endpointPath approval), Txt (serviceName approval),
         Txt (if adminIpEnforced approval then ''Enforced'' else ''Disabled''),
         approval_dialog s approval]"

definition approvedEndpoints :: "ip_page \<Rightarrow> EndpointApproval list" where
  "approvedEndpoints s = filter (\<lambda>a. truthy_str (ident a)) (approvals s)"

text \<open>The card under the table; its bullets are left out.\<close>

definition best_practices :: "ip_ui node" where
  "best_practices =
     El (map Txt
       [''Security Best Practices'',
        ''Use IP restrictions for production environments to limit access to trusted networks'',
        ''Combine IP restrictions with API client credentials for defense in depth'',
        ''Use CIDR notation for IP ranges instead of individual IPs when possible'',
        ''Review and update your IP allowlist regularly''])"

definition ip_view :: "ip_page \<Rightarrow> ip_ui node" where
  "ip_view s =
     (if loading s then El [Txt ''Loading approvals...'']
      else El
        [Txt ''IP Restrictions'', Txt ''Manage IP allowlists for your approved endpoints'',
         (if approvedEndpoints s = [] then
            El [Txt ''No Approved Endpoints'',
                Txt ''Request endpoint access first to set up IP restrictions'',
                Link ''/endpoint-requests'' ''View Requests'']
          else El [El (map Txt [''Endpoint'', ''Service'', ''IP Enforcement'', ''Actions'']),
                   El (map (approval_table_row s) (approvedEndpoints s))]),
         best_practices])"

definition ip_ops :: "(ip_page, ip_ui, OrgEndpointApproval) tenant_ops" where
  "ip_ops =
     \<lparr>top_view = ip_view, top_ui = ip_handle, top_fetch = ip_fetch, top_ok = ip_fetch_ok,
      top_err = ip_fetch_err\<rparr>"

lemma ip_handle_kept:
  "approvals (fst (ip_handle s u)) = approvals s \<and> loading (fst (ip_handle s u)) = loading s"
  by (cases u) (simp_all add: Let_def split: option.splits)

interpretation ip_restrictions:
  tenant_page ip_ops approvals loading orgApi_getApprovalsByTenant "map approval_row" ip_page_init
  by unfold_locales
    (auto simp: ip_ops_def ip_page_init_def ip_fetch_def ip_fetch_ok_def ip_fetch_err_def
      ip_handle_kept unnamed_tenant_iff Let_def)

text \<open>Of rows with different identifiers, at most one has its dialog open.\<close>

lemma one_dialog: "distinct (map ident as) \<Longrightarrow> length (filter (row_open s) as) \<le> 1"
proof (induction "as")
  case (Cons a "as")
  have same: "ident b = ident a" if "row_open s b" "row_open s a" for b
    using that by (auto simp: row_open_def split: option.splits)
  show ?case
  proof (cases "row_open s a")
    case True
    have "\<not> row_open s b" if "b \<in> set as" for b
    proof
      assume "row_open s b"
      with same True that have "ident a \<in> ident ` set as" by (metis imageI)
      with Cons.prems show False by simp
    qed
    with True show ?thesis by simp
  next
    case False
    with Cons show ?thesis by simp
  qed
qed simp

subsection \<open>Properties\<close>

text \<open>
  C29: While the tenant stays the same, the IP restrictions page sends nothing but requests for the
  approvals of this tenant, also when a form is saved. Against a server whose approvals do not change it shows
  none of them or all, it loads only while a request is in flight, and if their identifiers are distinct at most
  one dialog is open.
\<close>

theorem ip_restrictions_correct:
  "treachable ip_ops (\<lambda>t. t = Some i) srv ip_page_init w \<Longrightarrow>
     (\<forall>q \<in> set (tsent w). rmethod q = GET \<and> url q = ''/admin/management/tenants/'' @ i @ ''/approvals'')
     \<and> (approvals (tpage w) = [] \<or> approvals (tpage w) = map approval_row (srv i))
     \<and> (loading (tpage w) \<longrightarrow> flights w \<noteq> [])
     \<and> (distinct (map OrgEndpointApproval.ident (srv i)) \<longrightarrow>
          length (filter (row_open (tpage w)) (approvedEndpoints (tpage w))) \<le> 1)"
proof -
  assume r: "treachable ip_ops (\<lambda>t. t = Some i) srv ip_page_init w"
  have rows: "approvals (tpage w) = [] \<or> approvals (tpage w) = map approval_row (srv i)"
    using r by (rule ip_restrictions.own_rows)
  have "ident \<circ> approval_row = OrgEndpointApproval.ident"
    by (simp add: approval_row_def fun_eq_iff)
  then have "distinct (map OrgEndpointApproval.ident (srv i)) \<Longrightarrow> distinct (map ident (approvals (tpage w)))"
    using rows by auto
  then have "distinct (map OrgEndpointApproval.ident (srv i)) \<Longrightarrow>
      distinct (map ident (approvedEndpoints (tpage w)))"
    by (simp add: approvedEndpoints_def distinct_map_filter)
  with ip_restrictions.reads_only [OF r] rows one_dialog show ?thesis
    by (auto simp: orgApi_getApprovalsByTenant_def http_get_def tenant_path_def)
qed

definition sample_approval :: "js_string \<Rightarrow> OrgEndpointApproval" where
  "sample_approval i =
     \<lparr>OrgEndpointApproval.ident = i, tenantId = ''t1'', endpointId = ''e'' @ i, approvedBy = None,
      approvedAt = [], adminIpAllowlist = None, adminIpEnforced = False\<rparr>"

theorem ip_restrictions_correct_witness:
  "\<exists>w. treachable ip_ops (\<lambda>t. t = Some ''t1'') (\<lambda>_. [sample_approval ''1'', sample_approval ''2'']) ip_page_init w
     \<and> approvals (tpage w) = map approval_row [sample_approval ''1'', sample_approval ''2'']
     \<and> length (filter (row_open (tpage w)) (approvedEndpoints (tpage w))) \<le> 1"
proof -
  let ?srv = "\<lambda>_::js_string. [sample_approval ''1'', sample_approval ''2'']"
  let ?start = "start_tenant ip_ops ip_page_init (Some ''t1'')"
  let ?w = "?start\<lparr>flights := [], tpage := ip_fetch_ok (?srv ''t1'') (tpage ?start)\<rparr>"
  have f: "flights ?start = [''t1'']"
    by code_simp
  have "top_ok ip_ops = ip_fetch_ok" by (simp add: ip_ops_def)
  then have st: "tstep ip_ops (\<lambda>t. t = Some ''t1'') ?srv ?start ?w"
    using t_arrives [of 0 ?start ip_ops "\<lambda>t. t = Some ''t1''" ?srv] f by simp
  have "treachable ip_ops (\<lambda>t. t = Some ''t1'') ?srv ip_page_init ?start" by (rule t_here) simp
  then have r: "treachable ip_ops (\<lambda>t. t = Some ''t1'') ?srv ip_page_init ?w"
    by (rule t_further) (rule st)
  have "approvals (tpage ?w) = map approval_row (?srv ''t1'')" by (simp add: ip_fetch_ok_def)
  moreover have "distinct (map OrgEndpointApproval.ident (?srv ''t1''))" by (simp add: sample_approval_def)
  ultimately show ?thesis using ip_restrictions_correct [OF r] r by blast
qed

end
