(* ===== verification/Endpoint_Requests_Page.thy ===== *)
theory Endpoint_Requests_Page
  imports Org_Api Tenant_Page
begin

section \<open>The endpoint requests page of the developer portal\<close>

text \<open>
  Models \<open>app/(protected)/endpoint-requests/page.tsx\<close>. The page declares a form and a submit handler
  but renders neither; the handler is part of the model and no event reaches it.
\<close>

record EndpointRequest =
  ident :: js_string
  endpointId :: js_string
  endpointPath :: js_string
  serviceName :: js_string
  status :: request_status
  requestedAt :: js_string
  reviewedAt :: "js_string option"
  reason :: "js_string option"

record requests_page =
  requests :: "EndpointRequest list"
  loading :: bool
  isOpen :: bool

definition requests_init :: requests_page where
  "requests_init = \<lparr>requests = [], loading = True, isOpen = False\<rparr>"

definition request_row :: "OrgEndpointRequest \<Rightarrow> EndpointRequest" where
  "request_row request =
     \<lparr>ident = OrgEndpointRequest.ident request,
      endpointId = OrgEndpointRequest.endpointId request,
      endpointPath = OrgEndpointRequest.endpointId request,
      serviceName = ''SeaBaasAPIGateway'',
      status = OrgEndpointRequest.status request,
      requestedAt = OrgEndpointRequest.requestedAt request,
      reviewedAt = OrgEndpointRequest.reviewedAt request,
      reason = OrgEndpointRequest.reviewReason request\<rparr>"

subsection \<open>fetchRequests and onSubmit\<close>

definition requests_fetch :: "js_string option \<Rightarrow> requests_page \<Rightarrow> requests_page \<times> http_request option" where
  "requests_fetch t s =
     (let s1 = s\<lparr>loading := True\<rparr> in
      case t of
        None \<Rightarrow> (s1\<lparr>requests := [], loading := False\<rparr>, None)
      | Some i \<Rightarrow>
          (if \<not> truthy_str i then (s1\<lparr>requests := [], loading := False\<rparr>, None)
           else (s1, Some (orgApi_getEndpointRequestsByTenant i))))"

definition requests_ok :: "OrgEndpointRequest list \<Rightarrow> requests_page \<Rightarrow> requests_page" where
  "requests_ok answer s = s\<lparr>requests := map request_row answer, loading := False\<rparr>"

definition requests_err :: "requests_page \<Rightarrow> requests_page" where
  "requests_err s = s\<lparr>loading := False\<rparr>"

datatype requests_ui = OnSubmit

fun requests_handle :: "requests_page \<Rightarrow> requests_ui \<Rightarrow> requests_page \<times> bool" where
  "requests_handle s OnSubmit = (s\<lparr>isOpen := False\<rparr>, True)"

subsection \<open>What is rendered\<close>

fun status_text :: "request_status \<Rightarrow> js_string" where
  "status_text StPending = ''pending''"
| "status_text StApproved = ''approved''"
| "status_text StRejected = ''rejected''"

fun getStatusBadgeVariant :: "request_status \<Rightarrow> js_string" where
  "getStatusBadgeVariant StApproved = ''success''"
| "getStatusBadgeVariant StRejected = ''danger''"
| "getStatusBadgeVariant StPending = ''warning''"

text \<open>\<open>s.charAt(0).toUpperCase() + s.slice(1)\<close> for a word that starts with an ASCII letter.\<close>

definition capitalized :: "js_string \<Rightarrow> js_string" where
  "capitalized s =
     map (\<lambda>c. if CHR ''a'' \<le> c \<and> c \<le> CHR ''z'' then char_of ((of_char c :: nat) - 32) else c) (take 1 s)
     @ drop 1 s"

definition count_status :: "request_status \<Rightarrow> requests_page \<Rightarrow> nat" where
  "count_status st s = length (filter (\<lambda>r. status r = st) (requests s))"

definition summary_card :: "js_string \<Rightarrow> nat \<Rightarrow> requests_ui node" where
  "summary_card title n = El [Txt title, Txt (nat_dec n)]"

definition requests_table_row :: "(js_string \<Rightarrow> js_string) \<Rightarrow> EndpointRequest \<Rightarrow> requests_ui node" where
  "requests_table_row ld r =
     El [Txt (endpointPath r), Txt (serviceName r),
         Badge (getStatusBadgeVariant (status r)) (capitalized (status_text (status r))),
         Txt (ld (requestedAt r)),
         Txt (case reviewedAt r of None \<Rightarrow> ''-'' | Some d \<Rightarrow> (if truthy_str d then ld d else ''-''))]"

definition request_process :: "requests_ui node" where
  "request_process =
     El [Txt ''Request Approval Process'',
         Txt ''1.'', Txt ''Go to the'', Link ''/apis'' ''APIs'', Txt (''page and click '' @ [CHR 0x22] @ ''Request Access'' @ [CHR 0x22]),
         Txt ''2.'', Txt ''The portal admin will review your request'',
         Txt ''3.'', Txt ''Once approved, the endpoint will be available for your clients to use'',
         Txt ''4.'', Txt ''You can assign approved endpoints to your API clients'']"

definition requests_view :: "(js_string \<Rightarrow> js_string) \<Rightarrow> requests_page \<Rightarrow> requests_ui node" where
  "requests_view ld s =
     (if loading s then El [Txt ''Loading requests...'']
      else El
        [Txt ''Endpoint Requests'', Txt ''Track your endpoint access requests and approval status'',
         summary_card ''Pending'' (count_status StPending s),
         summary_card ''Approved'' (count_status StApproved s),
         summary_card ''Rejected'' (count_status StRejected s),
         (if requests s = [] then El [Txt ''No endpoint requests yet. Go to the'', Link ''/apis'' ''APIs'',
                                     Txt ''page to request access.'']
          else El [El (map Txt [''Endpoint'', ''Service'', ''Status'', ''Requested'', ''Reviewed'']),
                   El (map (requests_table_row ld) (requests s))]),
         request_process])"

definition requests_ops ::
  "(js_string \<Rightarrow> js_string) \<Rightarrow> (requests_page, requests_ui, OrgEndpointRequest) tenant_ops" where
  "requests_ops ld =
     \<lparr>top_view = requests_view ld, top_ui = requests_handle, top_fetch = requests_fetch,
      top_ok = requests_ok, top_err = requests_err\<rparr>"

lemma requests_view_inert: "dispatch d (requests_view ld s) = []"
  by (auto simp: requests_view_def request_process_def summary_card_def requests_table_row_def)

lemma requests_handle_kept:
  "requests (fst (requests_handle s u)) = requests s \<and> loading (fst (requests_handle s u)) = loading s"
  by (cases u) simp

interpretation endpoint_requests:
  tenant_page "requests_ops ld" requests loading orgApi_getEndpointRequestsByTenant "map request_row"
    requests_init for ld
  by unfold_locales
    (auto simp: requests_ops_def requests_init_def requests_fetch_def requests_ok_def
      requests_err_def requests_handle_kept unnamed_tenant_iff Let_def)

lemma count_status_sum:
  "count_status StPending s + count_status StApproved s + count_status StRejected s = length (requests s)"
proof -
  have "length (filter (\<lambda>r. status r = StPending) rs) + length (filter (\<lambda>r. status r = StApproved) rs)
      + length (filter (\<lambda>r. status r = StRejected) rs) = length rs" for rs
  proof (induction rs)
    case (Cons r rs)
    then show ?case by (cases "status r") auto
  qed simp
  then show ?thesis by (simp add: count_status_def)
qed

subsection \<open>Properties\<close>

text \<open>
  No event on the endpoint requests page reaches a handler, so it only asks for the requests of
  the tenant; for a tenant that stays the same it shows none of them or all, in the server's order, and
  the three numbers on top add up to the number of rows.
\<close>

theorem endpoint_requests_correct:
  "treachable (requests_ops ld) (\<lambda>t. t = Some i) srv requests_init w \<Longrightarrow>
     dispatch d (requests_view ld (tpage w)) = []
     \<and> (\<forall>q \<in> set (tsent w). q = orgApi_getEndpointRequestsByTenant i)
     \<and> (requests (tpage w) = [] \<or> requests (tpage w) = map request_row (srv i))
     \<and> count_status StPending (tpage w) + count_status StApproved (tpage w)
       + count_status StRejected (tpage w) = length (requests (tpage w))"
proof -
  assume r: "treachable (requests_ops ld) (\<lambda>t. t = Some i) srv requests_init w"
  from endpoint_requests.reads_only [OF r] endpoint_requests.own_rows [OF r] show ?thesis
    by (auto simp: requests_view_inert count_status_sum)
qed

definition sample_request :: "js_string \<Rightarrow> request_status \<Rightarrow> OrgEndpointRequest" where
  "sample_request i st =
     \<lparr>OrgEndpointRequest.ident = i, tenantId = ''t1'', endpointId = ''e'' @ i, requestedBy = ''u'',
      status = st, requestedAt = [], reviewedAt = None, reviewedBy = None, reviewReason = None\<rparr>"

theorem endpoint_requests_correct_witness:
  "\<exists>w. treachable (requests_ops id) (\<lambda>t. t = Some ''t1'')
          (\<lambda>_. [sample_request ''1'' StApproved, sample_request ''2'' StPending]) requests_init w
     \<and> length (requests (tpage w)) = 2
     \<and> count_status StPending (tpage w) + count_status StApproved (tpage w)
       + count_status StRejected (tpage w) = 2"
proof -
  let ?srv = "\<lambda>_::js_string. [sample_request ''1'' StApproved, sample_request ''2'' StPending]"
  let ?start = "start_tenant (requests_ops id) requests_init (Some ''t1'')"
  let ?w = "?start\<lparr>flights := [], tpage := requests_ok (?srv ''t1'') (tpage ?start)\<rparr>"
  have f: "flights ?start = [''t1'']"
    by (simp add: start_tenant_def call_fetch_def requests_ops_def requests_fetch_def)
  have st: "tstep (requests_ops id) (\<lambda>t. t = Some ''t1'') ?srv ?start ?w"
    using t_arrives [of 0 ?start "requests_ops id" "\<lambda>t. t = Some ''t1''" ?srv] f by (simp add: requests_ops_def)
  have "treachable (requests_ops id) (\<lambda>t. t = Some ''t1'') ?srv requests_init ?start" by (rule t_here) simp
  then have r: "treachable (requests_ops id) (\<lambda>t. t = Some ''t1'') ?srv requests_init ?w"
    by (rule t_further) (rule st)
  moreover have "length (requests (tpage ?w)) = 2" by (simp add: requests_ok_def)
  ultimately show ?thesis using endpoint_requests_correct [OF r] by metis
qed

end
