(* ===== verification/Payload_Types.thy ===== *)
theory Payload_Types
  imports Admin_Api
begin

section \<open>The declared types of what the admin portal sends\<close>

text \<open>
  Models the payload types of \<open>types/management.ts\<close> as data, and when a JSON body conforms to one:
  every required property is there, every property is declared and has its type, none occurs
  twice. \<open>well_typed\<close> says so of the requests of \<open>lib/api/admin.ts\<close>, function by function.
\<close>

datatype ts_type = TStr | TNum | TBool | TArr ts_type | TRec ts_type

text \<open>A property: its name, its type, and whether it is optional.\<close>

type_synonym object_type = "(js_string \<times> ts_type \<times> bool) list"

fun has_type :: "ts_type \<Rightarrow> json \<Rightarrow> bool" where
  "has_type TStr (JStr s) = True"
| "has_type TNum (JInt i) = True"
| "has_type TNum (JDec t) = True"
| "has_type TBool (JBool b) = True"
| "has_type (TArr t) (JArr vs) = list_all (has_type t) vs"
| "has_type (TRec t) (JObj kvs) = list_all (\<lambda>(k, v). has_type t v) kvs"
| "has_type t v = False"

definition conforms :: "object_type \<Rightarrow> json \<Rightarrow> bool" where
  "conforms ty v =
     (case v of
        JObj kvs \<Rightarrow>
          list_all (\<lambda>(k, x). case map_of ty k of None \<Rightarrow> False | Some (t, opt) \<Rightarrow> has_type t x) kvs
          \<and> list_all (\<lambda>(k, t, opt). opt \<or> k \<in> fst ` set kvs) ty
          \<and> distinct (map fst kvs)
      | _ \<Rightarrow> False)"

text \<open>\<open>Partial<T>\<close>.\<close>

definition partial :: "object_type \<Rightarrow> object_type" where
  "partial ty = map (\<lambda>(k, t, opt). (k, t, True)) ty"

definition ProductCreatePayload :: object_type where
  "ProductCreatePayload =
     [(''name'', TStr, False), (''description'', TStr, False), (''ownerTeam'', TStr, False),
      (''isEnabled'', TBool, True)]"

definition ProductUpdatePayload :: object_type where
  "ProductUpdatePayload = partial ProductCreatePayload"

definition ServiceCreatePayload :: object_type where
  "ServiceCreatePayload =
     [(''productId'', TStr, False), (''serviceName'', TStr, False), (''basePath'', TStr, False),
      (''version'', TStr, False), (''description'', TStr, False), (''ownerTeam'', TStr, False),
      (''clusterId'', TStr, False), (''destinations'', TArr TStr, False),
      (''environment'', TStr, True), (''loadBalancingPolicy'', TStr, True),
      (''healthCheckEnabled'', TBool, True), (''healthCheckPath'', TStr, True),
      (''healthCheckIntervalSeconds'', TNum, True), (''sessionAffinityEnabled'', TBool, True),
      (''sessionAffinityCookieName'', TStr, True), (''sessionAffinityTtlSeconds'', TNum, True),
      (''circuitBreakerEnabled'', TBool, True), (''circuitBreakerThreshold'', TNum, True),
      (''circuitBreakerDurationSeconds'', TNum, True), (''retryEnabled'', TBool, True),
      (''retryCount'', TNum, True), (''retryDelayMs'', TNum, True),
      (''connectionTimeoutSeconds'', TNum, True), (''requestTimeoutSeconds'', TNum, True),
      (''maxConnectionsPerDestination'', TNum, True),
      (''passiveHealthCheckEnabled'', TBool, True),
      (''passiveHealthFailureThreshold'', TNum, True),
      (''passiveHealthReactivationSeconds'', TNum, True), (''enableTracing'', TBool, True),
      (''enableMetrics'', TBool, True), (''logSampling'', TNum, True),
      (''requiresJwt'', TBool, True), (''requiredScopes'', TArr TStr, True),
      (''allowedClients'', TArr TStr, True), (''cacheEnabled'', TBool, True),
      (''cacheTtlSeconds'', TNum, True), (''cacheKeyTemplate'', TStr, True),
      (''emitEvents'', TBool, True), (''topicPrefix'', TStr, True),
      (''eventSchemaVersion'', TStr, True), (''defaultCryptoAlgorithm'', TStr, True),
      (''defaultKeySource'', TStr, True), (''defaultIvSource'', TStr, True),
      (''defaultEncoding'', TStr, True), (''defaultRequireIv'', TBool, True),
      (''isEnabled'', TBool, True)]"

definition ServiceUpdatePayload :: object_type where
  "ServiceUpdatePayload = partial ServiceCreatePayload"

definition EndpointCreatePayload :: object_type where
  "EndpointCreatePayload =
     [(''serviceId'', TStr, False), (''endpointName'', TStr, False),
      (''httpMethod'', TStr, False), (''relativePath'', TStr, False),
      (''upstreamPathTemplate'', TStr, True), (''isEnabled'', TBool, True),
      (''timeoutMs'', TNum, True), (''maxRetries'', TNum, True),
      (''idempotentOnly'', TBool, True), (''requestSizeLimitBytes'', TNum, True),
      (''responseSizeLimitBytes'', TNum, True), (''payloadExpectation'', TStr, True),
      (''headersToAdd'', TRec TStr, True), (''headersToRemove'', TArr TStr, True),
      (''rateLimitPolicy'', TRec TStr, True), (''cryptoAlgorithm'', TStr, True),
      (''keySource'', TStr, True), (''ivSource'', TStr, True), (''encoding'', TStr, True),
      (''requireIv'', TBool, True), (''encryptRequest'', TBool, True),
      (''encryptResponse'', TBool, True)]"

definition EndpointUpdatePayload :: object_type where
  "EndpointUpdatePayload = partial EndpointCreatePayload"

definition ServiceDestinationCreatePayload :: object_type where
  "ServiceDestinationCreatePayload =
     [(''serviceId'', TStr, False), (''destinationName'', TStr, False),
      (''address'', TStr, False), (''weight'', TNum, True), (''priority'', TNum, True),
      (''isEnabled'', TBool, True), (''metadata'', TRec TStr, True)]"

definition ServiceDestinationUpdatePayload :: object_type where
  "ServiceDestinationUpdatePayload = partial ServiceDestinationCreatePayload"

definition ClientCreatePayload :: object_type where
  "ClientCreatePayload =
     [(''clientId'', TStr, False), (''clientName'', TStr, False),
      (''clientSecret'', TStr, False), (''isEnabled'', TBool, True),
      (''allowedIpAddresses'', TArr TStr, True)]"

definition ClientUpdatePayload :: object_type where
  "ClientUpdatePayload = partial ClientCreatePayload"

definition ClientPermissionCreatePayload :: object_type where
  "ClientPermissionCreatePayload =
     [(''clientId'', TStr, False), (''endpointId'', TStr, False), (''isEnabled'', TBool, True),
      (''expiresAt'', TStr, True)]"

definition ClientPermissionUpdatePayload :: object_type where
  "ClientPermissionUpdatePayload =
     [(''isEnabled'', TBool, True), (''expiresAt'', TStr, True)]"

definition UserProfileCreatePayload :: object_type where
  "UserProfileCreatePayload =
     [(''userId'', TStr, False), (''serviceId'', TStr, True), (''encryptionKey'', TStr, False),
      (''encryptionIv'', TStr, True), (''isEnabled'', TBool, True)]"

definition UserProfileUpdatePayload :: object_type where
  "UserProfileUpdatePayload = partial UserProfileCreatePayload"

subsection \<open>Typed requests\<close>

inductive well_typed :: "http_request \<Rightarrow> bool" where
  "conforms ProductCreatePayload p \<Longrightarrow> well_typed (createProduct p)"
| "conforms ProductUpdatePayload p \<Longrightarrow> well_typed (updateProduct i p)"
| "well_typed (deleteProduct i)"
| "conforms ServiceCreatePayload p \<Longrightarrow> well_typed (createService p)"
| "conforms ServiceUpdatePayload p \<Longrightarrow> well_typed (updateService i p)"
| "well_typed (deleteService i)"
| "conforms EndpointCreatePayload p \<Longrightarrow> well_typed (createEndpoint p)"
| "conforms EndpointUpdatePayload p \<Longrightarrow> well_typed (updateEndpoint i p)"
| "well_typed (deleteEndpoint i)"
| "conforms ServiceDestinationCreatePayload p \<Longrightarrow> well_typed (createServiceDestination p)"
| "conforms ServiceDestinationUpdatePayload p \<Longrightarrow> well_typed (updateServiceDestination i p)"
| "well_typed (deleteServiceDestination i)"
| "conforms ClientCreatePayload p \<Longrightarrow> well_typed (createClient p)"
| "conforms ClientUpdatePayload p \<Longrightarrow> well_typed (updateClient i p)"
| "well_typed (deleteClient i)"
| "conforms ClientPermissionCreatePayload p \<Longrightarrow> well_typed (createClientPermission p)"
| "conforms ClientPermissionUpdatePayload p \<Longrightarrow> well_typed (updateClientPermission i p)"
| "well_typed (deleteClientPermission i)"
| "conforms UserProfileCreatePayload p \<Longrightarrow> well_typed (createUserProfile p)"
| "conforms UserProfileUpdatePayload p \<Longrightarrow> well_typed (updateUserProfile i p)"
| "well_typed (deleteUserProfile i)"

lemma conforms_JObj:
  "conforms ty (JObj kvs) \<longleftrightarrow>
     list_all (\<lambda>(k, x). case map_of ty k of None \<Rightarrow> False | Some (t, opt) \<Rightarrow> has_type t x) kvs
     \<and> list_all (\<lambda>(k, t, opt). opt \<or> k \<in> fst ` set kvs) ty \<and> distinct (map fst kvs)"
  by (simp add: conforms_def)

lemma has_type_strings [simp]: "has_type (TArr TStr) (JArr (map JStr vs))"
  by (simp add: list_all_iff)

lemmas payload_types = ProductCreatePayload_def ProductUpdatePayload_def ServiceCreatePayload_def
  ServiceUpdatePayload_def EndpointCreatePayload_def EndpointUpdatePayload_def
  ServiceDestinationCreatePayload_def ServiceDestinationUpdatePayload_def ClientCreatePayload_def
  ClientUpdatePayload_def ClientPermissionCreatePayload_def ClientPermissionUpdatePayload_def
  UserProfileCreatePayload_def UserProfileUpdatePayload_def partial_def

subsection \<open>Who may send what\<close>

text \<open>The resource a path names, and the permission the portal demands for changing it.\<close>

definition resource :: "http_request \<Rightarrow> js_string" where
  "resource q = takeWhile (\<lambda>c. c \<noteq> CHR ''/'') (tl (url q))"

definition manage_permission :: "js_string \<rightharpoonup> js_string" where
  "manage_permission = map_of
     [(''products'', ''product.manage''), (''services'', ''service.manage''),
      (''endpoints'', ''endpoint.manage''), (''service-destinations'', ''destination.manage''),
      (''clients'', ''client.manage''), (''client-permissions'', ''client.permission.manage''),
      (''user-profiles'', ''user.profile.manage'')]"

end
