(* ===== verification/Admin_Traffic.thy ===== *)
theory Admin_Traffic
  imports Payload_Types Products_Page Services_Page Endpoints_Page Clients_Page Client_Permissions_Page
    User_Profiles_Page Destinations_Page Product_Detail Service_Detail Endpoint_Detail
begin

section \<open>Everything the admin pages send\<close>

text \<open>
  \<open>admin_sends usr q\<close>: in some history of one of the ten pages that change data, opened by the
  user \<open>usr\<close>, the request \<open>q\<close> is sent.
\<close>

inductive admin_sends :: "auth_user option \<Rightarrow> http_request \<Rightarrow> bool" where
  from_products: "reachable (products_ops usr) ManagementProduct.ident (start_world products_init ps) w \<Longrightarrow>
     q \<in> set (sent w) \<Longrightarrow> admin_sends usr q"
| from_services: "reachable (services_ops usr fmt) ManagementService.ident (start_world services_init ss) w \<Longrightarrow>
     q \<in> set (sent w) \<Longrightarrow> admin_sends usr q"
| from_endpoints: "reachable (endpoints_ops usr) ManagementEndpoint.ident (start_world endpoints_init es) w \<Longrightarrow>
     q \<in> set (sent w) \<Longrightarrow> admin_sends usr q"
| from_clients: "reachable (clients_ops usr fmt ld) ManagementClient.ident (start_world clients_init cs) w \<Longrightarrow>
     q \<in> set (sent w) \<Longrightarrow> admin_sends usr q"
| from_permissions: "reachable (permissions_ops usr ld) ManagementClientPermission.ident
       (start_world permissions_init gs) w \<Longrightarrow> q \<in> set (sent w) \<Longrightarrow> admin_sends usr q"
| from_profiles: "reachable (profiles_ops usr ld) ManagementUserProfile.ident (start_world profiles_init us) w \<Longrightarrow>
     q \<in> set (sent w) \<Longrightarrow> admin_sends usr q"
| from_destinations: "reachable (destinations_ops usr) ManagementServiceDestination.ident
       (start_world (destinations_init eid) ds) w \<Longrightarrow> q \<in> set (sent w) \<Longrightarrow> admin_sends usr q"
| from_product: "dreachable (product_detail_ops usr ld) (start_detail (product_detail_init i)) v1 \<Longrightarrow>
     q \<in> set (dsent v1) \<Longrightarrow> admin_sends usr q"
| from_service: "dreachable (service_detail_ops usr fmt) (start_detail (service_detail_init i)) v2 \<Longrightarrow>
     q \<in> set (dsent v2) \<Longrightarrow> admin_sends usr q"
| from_endpoint: "dreachable (endpoint_detail_ops usr) (start_detail (endpoint_detail_init i)) v3 \<Longrightarrow>
     q \<in> set (dsent v3) \<Longrightarrow> admin_sends usr q"

subsection \<open>Bodies\<close>

lemma conforming_bodies:
  "conforms ProductCreatePayload (product_payload pf)"
  "conforms ServiceCreatePayload (service_payload sf)"
  "conforms ServiceDestinationCreatePayload (destination_payload e df)"
  "conforms ProductUpdatePayload (product_update_payload pf')"
  by (simp_all add: product_payload_def service_payload_def destination_payload_def
      product_update_payload_def Let_def conforms_JObj payload_types
      del: has_type.simps) simp_all

text \<open>An update of a service is of its type if the environment in the form is a text.\<close>

lemma conforming_service_update:
  "conforms ServiceUpdatePayload (service_update_payload f) \<longleftrightarrow> (\<exists>t. service_form.environment f = EnvText t)"
  by (cases "service_form.environment f")
    (simp_all add: service_update_payload_def Let_def conforms_JObj payload_types del: has_type.simps,
     simp_all)

lemma conforming_optional_bodies:
  "conforms EndpointCreatePayload (endpoint_payload ef)"
  "conforms ClientCreatePayload (client_payload cf)"
  "conforms ClientPermissionCreatePayload (permission_payload gf)"
  "conforms UserProfileCreatePayload (profile_payload uf)"
  "conforms EndpointUpdatePayload (endpoint_update_payload ef')"
  by (simp_all add: endpoint_payload_def client_payload_def permission_payload_def
      profile_payload_def endpoint_update_payload_def Let_def conforms_JObj payload_types
      defined_props_def or_undefined_def list_all_iff)

lemma authorised_resource:
  "manage_permission (resource (createProduct p)) = Some ''product.manage''"
  "manage_permission (resource (updateProduct i p)) = Some ''product.manage''"
  "manage_permission (resource (deleteProduct i)) = Some ''product.manage''"
  "manage_permission (resource (createService p)) = Some ''service.manage''"
  "manage_permission (resource (updateService i p)) = Some ''service.manage''"
  "manage_permission (resource (deleteService i)) = Some ''service.manage''"
  "manage_permission (resource (createEndpoint p)) = Some ''endpoint.manage''"
  "manage_permission (resource (updateEndpoint i p)) = Some ''endpoint.manage''"
  "manage_permission (resource (createServiceDestination p)) = Some ''destination.manage''"
  "manage_permission (resource (Admin_Api.createClient p)) = Some ''client.manage''"
  "manage_permission (resource (createClientPermission p)) = Some ''client.permission.manage''"
  "manage_permission (resource (createUserProfile p)) = Some ''user.profile.manage''"
  by (simp_all add: manage_permission_def resource_def http_post_def http_put_def http_delete_def
      createProduct_def updateProduct_def deleteProduct_def createService_def updateService_def
      deleteService_def createEndpoint_def updateEndpoint_def createServiceDestination_def
      createClient_def createClientPermission_def createUserProfile_def)

text \<open>A request with the permission its resource demands.\<close>

definition authorised :: "auth_user option \<Rightarrow> http_request \<Rightarrow> bool" where
  "authorised usr q \<longleftrightarrow>
     (case manage_permission (resource q) of None \<Rightarrow> False | Some p \<Rightarrow> permitted usr p)"

lemmas request_forms = product_request_def service_request_def endpoint_request_def client_request_def
  permission_request_def profile_request_def destination_request_def product_detail_request_def
  service_detail_request_def endpoint_detail_request_def

lemma sends_request:
  assumes "admin_sends usr q"
  shows "product_request usr q \<or> service_request usr q \<or> endpoint_request usr q \<or> client_request usr q
    \<or> permission_request usr q \<or> profile_request usr q \<or> destination_request usr q
    \<or> product_detail_request usr q \<or> service_detail_request usr q \<or> endpoint_detail_request usr q"
  using assms
proof cases
  case from_products
  with products_list.safe_traffic show ?thesis by blast
next
  case from_services
  with services_list.safe_traffic show ?thesis by blast
next
  case from_endpoints
  with endpoints_list.safe_traffic show ?thesis by blast
next
  case from_clients
  with clients_list.safe_traffic show ?thesis by blast
next
  case from_permissions
  with permissions_list.safe_traffic show ?thesis by blast
next
  case from_profiles
  with profiles_list.safe_traffic show ?thesis by blast
next
  case from_destinations
  with destinations_list.safe_traffic show ?thesis by blast
next
  case from_product
  with product_page.saves_safe show ?thesis by blast
next
  case from_service
  with service_page.saves_safe show ?thesis by blast
next
  case from_endpoint
  with endpoint_page.saves_safe show ?thesis by blast
qed

subsection \<open>The environment of a service\<close>

text \<open>A body whose property \<open>environment\<close> is a number.\<close>

definition numeric_environment :: "http_request \<Rightarrow> bool" where
  "numeric_environment q \<longleftrightarrow>
     (case Option.bind (body q) (\<lambda>b. get_prop b ''environment'') of Some (JInt n) \<Rightarrow> True | _ \<Rightarrow> False)"

lemmas api_functions = createProduct_def updateProduct_def deleteProduct_def createService_def updateService_def
  deleteService_def createEndpoint_def updateEndpoint_def deleteEndpoint_def createServiceDestination_def
  updateServiceDestination_def deleteServiceDestination_def createClient_def updateClient_def deleteClient_def
  createClientPermission_def updateClientPermission_def deleteClientPermission_def createUserProfile_def
  updateUserProfile_def deleteUserProfile_def http_post_def http_put_def http_delete_def

lemma conforms_no_number:
  assumes "conforms ty b" and "map_of ty ''environment'' = None \<or> map_of ty ''environment'' = Some (TStr, opt)"
  shows "get_prop b ''environment'' \<noteq> Some (JInt n)"
proof
  assume g: "get_prop b ''environment'' = Some (JInt n)"
  then obtain kvs where b: "b = JObj kvs" by (cases b) (auto simp: get_prop_def)
  with g have "(''environment'', JInt n) \<in> set kvs" by (simp add: get_prop_def map_of_SomeD)
  with assms b show False by (auto simp: conforms_JObj list_all_iff)
qed

lemma declared_environments:
  "map_of ProductCreatePayload ''environment'' = None" "map_of ProductUpdatePayload ''environment'' = None"
  "map_of ServiceCreatePayload ''environment'' = Some (TStr, True)"
  "map_of ServiceUpdatePayload ''environment'' = Some (TStr, True)"
  "map_of EndpointCreatePayload ''environment'' = None" "map_of EndpointUpdatePayload ''environment'' = None"
  "map_of ServiceDestinationCreatePayload ''environment'' = None"
  "map_of ServiceDestinationUpdatePayload ''environment'' = None"
  "map_of ClientCreatePayload ''environment'' = None" "map_of ClientUpdatePayload ''environment'' = None"
  "map_of ClientPermissionCreatePayload ''environment'' = None"
  "map_of ClientPermissionUpdatePayload ''environment'' = None"
  "map_of UserProfileCreatePayload ''environment'' = None" "map_of UserProfileUpdatePayload ''environment'' = None"
  by (simp_all add: payload_types)

text \<open>A well-typed request carries no such number.\<close>

lemma well_typed_no_number: "well_typed q \<Longrightarrow> \<not> numeric_environment q"
  by (induction rule: well_typed.induct)
    (auto simp: numeric_environment_def api_functions declared_environments dest!: conforms_no_number
      split: option.splits json.splits)

lemma numeric_service_update:
  "numeric_environment (updateService i (service_update_payload f)) \<longleftrightarrow> \<not> (\<exists>t. service_form.environment f = EnvText t)"
  by (cases "service_form.environment f")
    (simp_all add: numeric_environment_def updateService_def http_put_def service_update_payload_def Let_def get_prop_def)

lemma well_typed_service_update:
  "\<not> numeric_environment (updateService i (service_update_payload f)) \<Longrightarrow>
     well_typed (updateService i (service_update_payload f))"
  by (simp add: numeric_service_update conforming_service_update well_typed.intros)

lemma sent_well_typed:
  assumes "admin_sends usr q" and "\<not> numeric_environment q"
  shows "well_typed q"
  using sends_request [OF assms(1)] assms(2)
  by (auto simp: request_forms
      intro: well_typed.intros conforming_bodies conforming_optional_bodies well_typed_service_update)

subsection \<open>Properties\<close>

text \<open>
  C11: Every request that any of the ten pages sends to change data, in any history, is sent by a user who holds
  the permission to manage the resource that the path names. And it is well typed, one of the functions of the
  API client with a body that has every required property of the declared payload type, no undeclared or
  repeated one, and each of its declared type, with one exception: an update of a service is ill-typed
  exactly if its environment is a number, which is what the backend gives and the page sends back.
\<close>

theorem admin_traffic_typed:
  assumes "admin_sends usr q"
  shows "authorised usr q \<and> (well_typed q \<longleftrightarrow> \<not> numeric_environment q)"
proof (intro conjI iffI)
  show "authorised usr q"
    using sends_request [OF assms] by (auto simp: request_forms authorised_def authorised_resource)
qed (use sent_well_typed [OF assms] well_typed_no_number in blast)+

theorem admin_traffic_typed_witness:
  "\<exists>q r. admin_sends (Some owner_user) q \<and> well_typed q
     \<and> admin_sends (Some owner_user) r \<and> authorised (Some owner_user) r \<and> \<not> well_typed r"
proof -
  have "map_option (\<lambda>w. map (\<lambda>q. Option.bind (body q) (\<lambda>b. get_prop b ''environment'')) (sent w))
      (run_services (create_service_actions ''S'' ''u, v'') []) = Some [Some (JStr ''Dev'')]"
    by code_simp
  then obtain w where w: "run_services (create_service_actions ''S'' ''u, v'') [] = Some w"
      and e: "map (\<lambda>q. Option.bind (body q) (\<lambda>b. get_prop b ''environment'')) (sent w) = [Some (JStr ''Dev'')]"
    by (rule map_option_SomeE)
  then have "hd (sent w) \<in> set (sent w)" by (cases "sent w") auto
  then have q: "admin_sends (Some owner_user) (hd (sent w))"
    by (rule from_services [OF run_services_reachable [OF w]])
  have nq: "\<not> numeric_environment (hd (sent w))"
    using e by (cases "sent w") (auto simp: numeric_environment_def)
  let ?run = "drun (service_detail_ops (Some owner_user) id)
      [DLoads (plain_service [''u''], []), DUser (Click ''Save changes'') 0]
      (start_detail (service_detail_init (Some ''s1'')))"
  have "map_option (\<lambda>w. map (\<lambda>q. Option.bind (body q) (\<lambda>b. get_prop b ''environment'')) (dsent w)) ?run
      = Some [Some (JInt 2)]"
    by code_simp
  then obtain v where v: "?run = Some v"
      and g: "map (\<lambda>q. Option.bind (body q) (\<lambda>b. get_prop b ''environment'')) (dsent v) = [Some (JInt 2)]"
    by (rule map_option_SomeE)
  then have "hd (dsent v) \<in> set (dsent v)" by (cases "dsent v") auto
  then have r: "admin_sends (Some owner_user) (hd (dsent v))"
    by (rule from_service [OF drun_start [OF v]])
  have "numeric_environment (hd (dsent v))"
    using g by (cases "dsent v") (auto simp: numeric_environment_def)
  with nq q r show ?thesis using admin_traffic_typed [OF q] admin_traffic_typed [OF r] by blast
qed

end
