(* ===== verification/Login_Page.thy ===== *)
theory Login_Page
  imports Admin_Auth Vdom
begin

section \<open>The login pages of the two portals\<close>

text \<open>
  Models \<open>app/(auth)/login/page.tsx\<close> of both portals, which differ in texts and in what follows a
  sign-in through a provider, and \<open>components/auth/AuthCard.tsx\<close> and \<open>SecurityHint.tsx\<close>. The form
  is one of react-hook-form: the field texts, whether a submit was settled, whether one is running and
  which fields have an error are kept in the state here; the library validates at a submit and,
  once one was settled, the field that changes. Which texts \<open>z.string().email()\<close> accepts is the zod
  library's affair, the parameter \<open>email_ok\<close>. The browser's own check of an email field is left out; it
  can only keep a submit from the page. The admin page is then composed with \<open>AuthProvider\<close>.
\<close>

record login_page =
  email :: js_string
  password :: js_string
  emailError :: bool
  passwordError :: bool
  wasSubmitted :: bool
  isSubmitting :: bool
  error :: "js_string option"

definition login_init :: login_page where
  "login_init =
     \<lparr>email = [], password = [], emailError = False, passwordError = False, wasSubmitted = False,
      isSubmitting = False, error = None\<rparr>"

datatype login_ui =
    TypeEmail js_string
  | TypePassword js_string
  | OnSubmit
  | OauthSignIn js_string

text \<open>What a handler calls: \<open>signIn(email, password)\<close> or \<open>oauthSignIn(provider)\<close>.\<close>

datatype login_call = CallSignIn js_string js_string | CallOauth js_string

text \<open>\<open>z.string().min(8)\<close>\<close>

definition password_ok :: "js_string \<Rightarrow> bool" where
  "password_ok p \<longleftrightarrow> 8 \<le> length p"

definition login_schema :: "(js_string \<Rightarrow> bool) \<Rightarrow> login_page \<Rightarrow> bool" where
  "login_schema email_ok s \<longleftrightarrow> email_ok (email s) \<and> password_ok (password s)"

fun login_handle ::
  "(js_string \<Rightarrow> bool) \<Rightarrow> login_page \<Rightarrow> login_ui \<Rightarrow> login_page \<times> login_call option" where
  "login_handle email_ok s (TypeEmail v) =
     (s\<lparr>email := v, emailError := (if wasSubmitted s then \<not> email_ok v else emailError s)\<rparr>, None)"
| "login_handle email_ok s (TypePassword v) =
     (s\<lparr>password := v, passwordError := (if wasSubmitted s then \<not> password_ok v else passwordError s)\<rparr>, None)"
| "login_handle email_ok s OnSubmit =
     (if login_schema email_ok s then
        (s\<lparr>emailError := False, passwordError := False, isSubmitting := True, error := None\<rparr>,
         Some (CallSignIn (email s) (password s)))
      else
        (s\<lparr>emailError := \<not> email_ok (email s), passwordError := \<not> password_ok (password s),
           wasSubmitted := True\<rparr>, None))"
| "login_handle email_ok s (OauthSignIn p) = (s, Some (CallOauth p))"

text \<open>The rest of \<open>onSubmit\<close>, when \<open>signIn\<close> has returned or thrown.\<close>

definition login_settled :: "(thrown + unit) \<Rightarrow> login_page \<Rightarrow> login_page \<times> navigation option" where
  "login_settled r s =
     (let s' = s\<lparr>isSubmitting := False, wasSubmitted := True\<rparr> in
      case r of
        Inr _ \<Rightarrow> (s', Some (NavPush ''/dashboard''))
      | Inl _ \<Rightarrow> (s'\<lparr>error := Some ''Unable to sign in. Please verify your credentials.''\<rparr>, None))"

text \<open>\<open>oauthSignIn(provider).then(() => router.push("/dashboard"))\<close> of the admin portal.\<close>

definition oauth_settled :: "(thrown + unit) \<Rightarrow> navigation option" where
  "oauth_settled r = (case r of Inr _ \<Rightarrow> Some (NavPush ''/dashboard'') | Inl _ \<Rightarrow> None)"

subsection \<open>What is rendered\<close>

definition AuthCard :: "js_string \<Rightarrow> js_string \<Rightarrow> 'e node list \<Rightarrow> 'e node" where
  "AuthCard title description children = El ([El [Txt title, Txt description]] @ children)"

definition SecurityHint :: "js_string \<Rightarrow> 'e node" where
  "SecurityHint t = El [Txt t]"

definition oauth_buttons :: "(js_string \<Rightarrow> 'e) \<Rightarrow> 'e node" where
  "oauth_buttons onOauth =
     El [Btn ''Continue with Microsoft'' False (Some (onOauth ''azure-ad'')),
         Btn ''Continue with Apple'' False (Some (onOauth ''apple'')),
         Btn ''Continue with Google'' False (Some (onOauth ''google'')),
         Btn ''Continue with GitHub'' False (Some (onOauth ''github''))]"

definition login_form :: "login_page \<Rightarrow> login_ui node" where
  "login_form s =
     Form [Txt ''Email'', Field ''email'' (email s) False False TypeEmail,
           when_node (emailError s) (Txt ''Enter a valid email.''),
           Txt ''Password'', Field ''password'' (password s) False False TypePassword,
           when_node (passwordError s) (Txt ''Password must be at least 8 characters.''),
           show_error (error s)]
       ''Sign in'' (isSubmitting s) (Some OnSubmit)"

definition dev_login_view :: "login_page \<Rightarrow> login_ui node" where
  "dev_login_view s =
     AuthCard ''Welcome back'' ''Sign in to manage keys, apps, and observability.''
       [oauth_buttons OauthSignIn, Txt ''or sign in with email'', login_form s,
        Link ''/forgot-password'' ''Forgot password?'', Link ''/register'' ''Create account'',
        SecurityHint ''We use short-lived session tokens and rotate keys automatically on logout.'']"

definition admin_login_view :: "login_page \<Rightarrow> login_ui node" where
  "admin_login_view s =
     AuthCard ''Welcome back'' ''Sign in to manage gateway configuration and governance.''
       [oauth_buttons OauthSignIn, Txt ''or sign in with email'', login_form s,
        Link ''/forgot-password'' ''Forgot password?'', Link ''/register'' ''Request access'',
        SecurityHint ''Administrative actions are audited and require approval where configured.'']"

lemma login_submit_reached:
  "OnSubmit \<in> set (dispatch d (admin_login_view s)) \<Longrightarrow> \<not> isSubmitting s"
  "OnSubmit \<in> set (dispatch d (dev_login_view s)) \<Longrightarrow> \<not> isSubmitting s"
  by (auto simp: admin_login_view_def dev_login_view_def AuthCard_def SecurityHint_def login_form_def
      oauth_buttons_def)

subsection \<open>The admin page and its provider\<close>

text \<open>
  \<open>attempts\<close> holds the calls of \<open>signIn\<close> that wait for their answer, \<open>oauths\<close> those of
  \<open>oauthSignIn\<close>; \<open>navs\<close> is where the router was sent. The answers are arbitrary.
\<close>

record login_world =
  lpage :: login_page
  lbrowser :: browser
  lauth :: auth_state
  attempts :: "(js_string \<times> js_string) list"
  oauths :: "js_string list"
  navs :: "navigation list"

definition start_login :: "browser \<Rightarrow> login_world" where
  "start_login b =
     \<lparr>lpage = login_init, lbrowser = fst (reload b), lauth = snd (reload b), attempts = [],
      oauths = [], navs = []\<rparr>"

definition call_login :: "login_call option \<Rightarrow> login_world \<Rightarrow> login_world" where
  "call_login c w =
     (case c of
        None \<Rightarrow> w
      | Some (CallSignIn e p) \<Rightarrow> w\<lparr>attempts := attempts w @ [(e, p)]\<rparr>
      | Some (CallOauth p) \<Rightarrow> w\<lparr>oauths := oauths w @ [p]\<rparr>)"

definition answer_login :: "fetch_outcome \<Rightarrow> login_world \<Rightarrow> login_world" where
  "answer_login r w =
     (case signIn r (lbrowser w) (lauth w) of
        (res, b, a) \<Rightarrow>
          (case login_settled res (lpage w) of
             (s, n) \<Rightarrow> w\<lparr>lpage := s, lbrowser := b, lauth := a, attempts := tl (attempts w),
                        navs := navs w @ opt_list n\<rparr>))"

definition answer_oauth :: "fetch_outcome \<Rightarrow> login_world \<Rightarrow> login_world" where
  "answer_oauth r w =
     (case oauthSignIn r (lbrowser w) (lauth w) of
        (res, b, a) \<Rightarrow> w\<lparr>lbrowser := b, lauth := a, oauths := tl (oauths w),
                         navs := navs w @ opt_list (oauth_settled res)\<rparr>)"

inductive login_reachable :: "(js_string \<Rightarrow> bool) \<Rightarrow> browser \<Rightarrow> login_world \<Rightarrow> bool"
  for email_ok :: "js_string \<Rightarrow> bool" and b0 :: browser
where
  l_start: "login_reachable email_ok b0 (start_login b0)"
| l_user: "login_reachable email_ok b0 w \<Longrightarrow> u \<in> set (dispatch d (admin_login_view (lpage w))) \<Longrightarrow>
     login_handle email_ok (lpage w) u = (s, c) \<Longrightarrow>
     login_reachable email_ok b0 (call_login c (w\<lparr>lpage := s\<rparr>))"
| l_answer: "login_reachable email_ok b0 w \<Longrightarrow> attempts w \<noteq> [] \<Longrightarrow>
     login_reachable email_ok b0 (answer_login r w)"
| l_oauth: "login_reachable email_ok b0 w \<Longrightarrow> oauths w \<noteq> [] \<Longrightarrow>
     login_reachable email_ok b0 (answer_oauth r w)"

definition login_inv :: "(js_string \<Rightarrow> bool) \<Rightarrow> login_world \<Rightarrow> bool" where
  "login_inv email_ok w \<longleftrightarrow>
     length (attempts w) = (if isSubmitting (lpage w) then 1 else 0)
     \<and> (\<forall>(e, p) \<in> set (attempts w). email_ok e \<and> password_ok p)
     \<and> set (navs w) \<subseteq> {NavPush ''/dashboard''}
     \<and> (navs w \<noteq> [] \<longrightarrow> user (lauth w) \<noteq> None)"

lemma accept_session_kept:
  "accept_session m r b st = (res, b', st') \<Longrightarrow>
     (case res of Inl _ \<Rightarrow> st' = st | Inr _ \<Rightarrow> user st' \<noteq> None)"
  by (auto simp: accept_session_def Let_def split: fetch_outcome.splits if_splits option.splits)

lemma login_user_inv:
  assumes inv: "login_inv email_ok w" and u: "u \<in> set (dispatch d (admin_login_view (lpage w)))"
    and h: "login_handle email_ok (lpage w) u = (s, c)"
  shows "login_inv email_ok (call_login c (w\<lparr>lpage := s\<rparr>))"
proof (cases u)
  case OnSubmit
  then have "\<not> isSubmitting (lpage w)" using u login_submit_reached(1) by blast
  with inv h OnSubmit show ?thesis
    by (auto simp: login_inv_def call_login_def login_schema_def split: if_splits)
qed (use inv h in \<open>auto simp: login_inv_def call_login_def\<close>)

lemma login_answer_inv:
  assumes "login_inv email_ok w" and "attempts w \<noteq> []"
  shows "login_inv email_ok (answer_login r w)"
proof -
  obtain res b a where s: "signIn r (lbrowser w) (lauth w) = (res, b, a)" by (cases "signIn r (lbrowser w) (lauth w)")
  from accept_session_kept [OF s [unfolded signIn_def]] assms show ?thesis
    by (cases "attempts w")
      (auto simp: login_inv_def answer_login_def s login_settled_def Let_def split: sum.splits if_splits)
qed

lemma login_oauth_inv:
  assumes "login_inv email_ok w"
  shows "login_inv email_ok (answer_oauth r w)"
proof -
  obtain res b a where s: "oauthSignIn r (lbrowser w) (lauth w) = (res, b, a)"
    by (cases "oauthSignIn r (lbrowser w) (lauth w)")
  from accept_session_kept [OF s [unfolded oauthSignIn_def]] assms show ?thesis
    by (auto simp: login_inv_def answer_oauth_def s oauth_settled_def split: sum.splits)
qed

lemma login_reachable_inv: "login_reachable email_ok b0 w \<Longrightarrow> login_inv email_ok w"
proof (induction rule: login_reachable.induct)
  case l_start
  show ?case by (simp add: login_inv_def start_login_def login_init_def)
qed (simp_all add: login_user_inv login_answer_inv login_oauth_inv)

subsection \<open>Properties\<close>

text \<open>
  C24: On the admin login page, whatever is typed, clicked and answered: at most one sign-in by
  credentials is in flight, and exactly while the button is disabled; each has an address the schema accepts
  and a password of at least eight characters. Its handlers navigate to the dashboard only, and only once
  somebody is signed in. Sign-ins through a provider are not limited, and the links of the page to
  \<open>/forgot-password\<close> and \<open>/register\<close> are no navigation of a handler.
\<close>

theorem login_page_correct:
  "login_reachable email_ok b0 w \<Longrightarrow>
     length (attempts w) = (if isSubmitting (lpage w) then 1 else 0)
     \<and> (\<forall>(e, p) \<in> set (attempts w). email_ok e \<and> 8 \<le> length p)
     \<and> set (navs w) \<subseteq> {NavPush ''/dashboard''}
     \<and> (navs w \<noteq> [] \<longrightarrow> user (lauth w) \<noteq> None)"
  using login_reachable_inv [of email_ok b0 w] by (auto simp: login_inv_def password_ok_def)

text \<open>The form is filled in and submitted; what is then in flight.\<close>

definition filled_login :: "js_string \<Rightarrow> js_string \<Rightarrow> browser \<Rightarrow> login_world" where
  "filled_login e p b =
     call_login (Some (CallSignIn e p))
       ((start_login b)\<lparr>lpage := login_init\<lparr>email := e, password := p, isSubmitting := True\<rparr>\<rparr>)"

lemma filled_login_reachable:
  assumes "email_ok e" and "password_ok p"
  shows "login_reachable email_ok b0 (filled_login e p b0)"
proof -
  let ?s1 = "login_init\<lparr>email := e\<rparr>" and ?s2 = "login_init\<lparr>email := e, password := p\<rparr>"
  have fires: "TypeEmail e \<in> set (dispatch (TypeIn ''email'' e) (admin_login_view s))"
      "TypePassword p \<in> set (dispatch (TypeIn ''password'' p) (admin_login_view s))"
      "\<not> isSubmitting s \<Longrightarrow> OnSubmit \<in> set (dispatch SubmitForm (admin_login_view s))" for s
    by (simp_all add: admin_login_view_def AuthCard_def login_form_def when_node_def show_error_def
        split: option.splits)
  have "login_reachable email_ok b0 ((start_login b0)\<lparr>lpage := ?s1\<rparr>)"
    using l_user [OF l_start fires(1), where s = ?s1 and c = None] by (simp add: call_login_def start_login_def login_init_def)
  from l_user [OF this fires(2), where s = ?s2 and c = None]
  have "login_reachable email_ok b0 ((start_login b0)\<lparr>lpage := ?s2\<rparr>)"
    by (simp add: call_login_def login_init_def)
  from l_user [OF this fires(3), where s = "?s2\<lparr>isSubmitting := True\<rparr>" and c = "Some (CallSignIn e p)"] assms
  show ?thesis by (simp add: filled_login_def login_schema_def login_init_def)
qed

theorem login_page_correct_witness:
  "\<exists>w. login_reachable (\<lambda>e. CHR ''@'' \<in> set e) \<lparr>local_storage = Map.empty, location_href = ''/login''\<rparr> w
     \<and> attempts w = [(''a@b'', ''password'')] \<and> isSubmitting (lpage w)
     \<and> (\<forall>(e, p) \<in> set (attempts w). CHR ''@'' \<in> set e \<and> 8 \<le> length p)"
proof -
  let ?b = "\<lparr>local_storage = Map.empty, location_href = ''/login''\<rparr>"
  have r: "login_reachable (\<lambda>e. CHR ''@'' \<in> set e) ?b (filled_login ''a@b'' ''password'' ?b)"
    by (rule filled_login_reachable) (simp_all add: password_ok_def)
  moreover have "attempts (filled_login ''a@b'' ''password'' ?b) = [(''a@b'', ''password'')]"
      "isSubmitting (lpage (filled_login ''a@b'' ''password'' ?b))"
    by (simp_all add: filled_login_def call_login_def start_login_def)
  ultimately show ?thesis using login_page_correct [OF r] by metis
qed

text \<open>
  The length of the password is all the admin portal ever checks: any address the schema accepts with any
  eight characters leads through the form, \<open>signIn\<close> and the login route to the dashboard, as an
  administrator who may enter the portal.
\<close>

theorem login_form_admits_anyone:
  assumes "email_ok e" and "8 \<le> length p"
  shows "\<exists>v w u. login_route now (signIn_body e p) = Some v
     \<and> login_reachable email_ok b0 w \<and> w = answer_login (over_the_wire v) (filled_login e p b0)
     \<and> navs w = [NavPush ''/dashboard''] \<and> error (lpage w) = None
     \<and> user (lauth w) = Some u \<and> role_is u ''admin'' \<and> canAccessPortal (Some u)"
proof -
  obtain v u where v: "login_route now (signIn_body e p) = Some v" "json_ok v"
      and u: "session_user v = Some u" "admin_user u"
    using login_route_session by blast
  let ?w = "answer_login (over_the_wire v) (filled_login e p b0)"
  have "login_reachable email_ok b0 ?w"
    using assms by (intro l_answer filled_login_reachable)
      (simp_all add: password_ok_def filled_login_def call_login_def)
  moreover have "navs ?w = [NavPush ''/dashboard'']" "error (lpage ?w) = None" "user (lauth ?w) = Some u"
    by (simp_all add: answer_login_def signIn_def accept_session_ok [OF v(2) u(1)] login_settled_def
        filled_login_def call_login_def start_login_def login_init_def)
  ultimately show ?thesis using v(1) u(2) admin_user_access(1) [OF u(2)] by (auto simp: admin_user_def)
qed

theorem login_form_admits_anyone_witness:
  "\<exists>w u. login_reachable (\<lambda>e. CHR ''@'' \<in> set e) \<lparr>local_storage = Map.empty, location_href = ''/login''\<rparr> w
     \<and> navs w = [NavPush ''/dashboard''] \<and> user (lauth w) = Some u \<and> role_is u ''admin''"
  using login_form_admits_anyone [of "\<lambda>e. CHR ''@'' \<in> set e" "''nobody@x''" "''12345678''" "''t''"
      "\<lparr>local_storage = Map.empty, location_href = ''/login''\<rparr>"]
  by fastforce

end
