(* ===== verification/Registration.thy ===== *)
theory Registration
  imports Login_Page
begin

section \<open>Registering and forgotten passwords\<close>

text \<open>
  Models \<open>app/(auth)/register/page.tsx\<close>, \<open>forgot-password/page.tsx\<close> and \<open>reset-password/page.tsx\<close> of
  both portals and the routes \<open>app/api/auth/register/route.ts\<close>. The developer portal's route creates
  the organisation at the middleware API; \<open>call\<close> is the answer of that API to a request. What the
  routes write to the console is left out.
\<close>

subsection \<open>The routes\<close>

text \<open>The admin portal's route only sends the body back; without JSON it throws.\<close>

definition admin_register_route :: "json \<Rightarrow> json" where
  "admin_register_route b =
     JObj [(''message'', JStr ''Registration received. Please verify your email.''), (''payload'', b)]"

text \<open>\<open>body.email.split("@")[1]\<close>, \<open>undefined\<close> if there is no second part.\<close>

definition email_domain :: "js_string \<Rightarrow> js_string option" where
  "email_domain e = (case js_split (CHR ''@'') e of u # d # rest \<Rightarrow> Some d | _ \<Rightarrow> None)"

definition missing_field :: "json \<Rightarrow> bool" where
  "missing_field b \<longleftrightarrow> \<not> truthy (get_prop b ''name'') \<or> \<not> truthy (get_prop b ''email'')
     \<or> \<not> truthy (get_prop b ''company'') \<or> \<not> truthy (get_prop b ''password'')"

text \<open>The request to the middleware API; \<open>None\<close> is the \<open>TypeError\<close> of an email that is no text.\<close>

definition tenant_request :: "json \<Rightarrow> http_request option" where
  "tenant_request b =
     (case get_prop b ''email'' of
        Some (JStr e) \<Rightarrow>
          Some (http_post ''http://localhost:5003/admin/management/tenants''
            (JObj (defined_props
              [(''name'', get_prop b ''company''), (''domain'', map_option JStr (email_domain e))])))
      | _ \<Rightarrow> None)"

definition register_error :: "js_string \<Rightarrow> json" where
  "register_error m = JObj [(''error'', JStr m)]"

definition registration_failed :: "int \<times> json" where
  "registration_failed = (500, register_error ''Registration failed. Please try again.'')"

text \<open>
  \<open>None\<close> for the body stands for a text that is not JSON. The result is the request sent, if
  any, and the answer; every exception ends in the \<open>catch\<close> branch.
\<close>

definition register_route ::
  "(http_request \<Rightarrow> fetch_outcome) \<Rightarrow> json option \<Rightarrow> http_request option \<times> int \<times> json" where
  "register_route call bdy =
     (case bdy of
        None \<Rightarrow> (None, registration_failed)
      | Some b \<Rightarrow>
          (if b = JNull then (None, registration_failed)
           else if missing_field b then (None, 400, register_error ''Missing required fields'')
           else case tenant_request b of
                  None \<Rightarrow> (None, registration_failed)
                | Some q \<Rightarrow>
                    (Some q,
                     (case call q of
                        NetworkError t \<Rightarrow> registration_failed
                      | Response ok answer \<Rightarrow>
                          (if \<not> ok then (500, register_error ''Failed to create organization'')
                           else case answer of
                                  None \<Rightarrow> registration_failed
                                | Some tenant \<Rightarrow>
                                    (if tenant = JNull then registration_failed
                                     else (201, JObj (defined_props
                                       [(''message'', Some (JStr ''Organization registration successful. Please verify your email.'')),
                                        (''tenantId'', get_prop tenant ''id''),
                                        (''organizationName'', get_prop b ''company'')]))))))))"

subsection \<open>The registration page\<close>

record register_page =
  fullName :: js_string
  workEmail :: js_string
  company :: js_string
  newPassword :: js_string
  registering :: bool
  submitted :: bool

definition register_init :: register_page where
  "register_init =
     \<lparr>fullName = [], workEmail = [], company = [], newPassword = [], registering = False, submitted = False\<rparr>"

datatype register_ui =
    TypeFullName js_string
  | TypeWorkEmail js_string
  | TypeCompany js_string
  | TypeNewPassword js_string
  | SubmitRegistration
  | RegisterOauth js_string

definition register_schema :: "(js_string \<Rightarrow> bool) \<Rightarrow> register_page \<Rightarrow> bool" where
  "register_schema email_ok s \<longleftrightarrow> 2 \<le> length (fullName s) \<and> email_ok (workEmail s)
     \<and> 2 \<le> length (company s) \<and> 8 \<le> length (newPassword s)"

definition register_values :: "register_page \<Rightarrow> json" where
  "register_values s =
     JObj [(''name'', JStr (fullName s)), (''email'', JStr (workEmail s)),
           (''company'', JStr (company s)), (''password'', JStr (newPassword s))]"

text \<open>
  What a handler sends: the registration, or \<open>oauthSignIn\<close>. The messages of a failed validation
  go to \<open>formState.errors\<close>, which the page does not read.
\<close>

datatype register_call = PostRegistration json | RegisterWith js_string

fun register_handle ::
  "(js_string \<Rightarrow> bool) \<Rightarrow> register_page \<Rightarrow> register_ui \<Rightarrow> register_page \<times> register_call option" where
  "register_handle email_ok s (TypeFullName v) = (s\<lparr>fullName := v\<rparr>, None)"
| "register_handle email_ok s (TypeWorkEmail v) = (s\<lparr>workEmail := v\<rparr>, None)"
| "register_handle email_ok s (TypeCompany v) = (s\<lparr>company := v\<rparr>, None)"
| "register_handle email_ok s (TypeNewPassword v) = (s\<lparr>newPassword := v\<rparr>, None)"
| "register_handle email_ok s SubmitRegistration =
     (if register_schema email_ok s
      then (s\<lparr>registering := True\<rparr>, Some (PostRegistration (register_values s)))
      else (s, None))"
| "register_handle email_ok s (RegisterOauth p) = (s, Some (RegisterWith p))"

text \<open>The rest of \<open>onSubmit\<close>: only a request that fails altogether throws.\<close>

definition register_settled :: "fetch_outcome \<Rightarrow> register_page \<Rightarrow> register_page" where
  "register_settled r s =
     (case r of
        NetworkError t \<Rightarrow> s\<lparr>registering := False\<rparr>
      | Response ok bdy \<Rightarrow> s\<lparr>registering := False, submitted := True\<rparr>)"

definition register_form :: "js_string \<Rightarrow> register_page \<Rightarrow> register_ui node" where
  "register_form submitLabel s =
     Form [Txt ''Full name'', Field ''name'' (fullName s) False False TypeFullName,
           Txt ''Work email'', Field ''email'' (workEmail s) False False TypeWorkEmail,
           Txt ''Company'', Field ''company'' (company s) False False TypeCompany,
           Txt ''Password'', Field ''password'' (newPassword s) False False TypeNewPassword]
       submitLabel (registering s) (Some SubmitRegistration)"

definition dev_register_view :: "register_page \<Rightarrow> register_ui node" where
  "dev_register_view s =
     AuthCard ''Create your account'' ''Get access to API keys and logs in minutes.''
       [oauth_buttons RegisterOauth, Txt ''or create with email'',
        (if submitted s then
           El [Txt ''We sent a verification link to your inbox.'',
               Txt ''Once verified, you can sign in and create your first app.'',
               Link ''/login'' ''Back to login'']
         else register_form ''Create account'' s),
        Link ''/login'' ''Already have an account?'']"

definition admin_register_view :: "register_page \<Rightarrow> register_ui node" where
  "admin_register_view s =
     AuthCard ''Request admin access'' ''Access is approved by gateway owners and security admins.''
       [oauth_buttons RegisterOauth, Txt ''or request with email'',
        (if submitted s then
           El [Txt ''We sent a verification link to your inbox.'',
               Txt ''Once verified, an admin will approve your access.'',
               Link ''/login'' ''Back to login'']
         else register_form ''Request access'' s),
        Link ''/login'' ''Already have an account?'']"

subsection \<open>Forgotten passwords\<close>

text \<open>The fields of these two forms are not read by the pages; the browser holds their texts.\<close>

record forgot_page =
  address :: js_string
  sent_link :: bool

definition forgot_init :: forgot_page where
  "forgot_init = \<lparr>address = [], sent_link = False\<rparr>"

datatype forgot_ui = TypeAddress js_string | SubmitForgot

fun forgot_handle :: "forgot_page \<Rightarrow> forgot_ui \<Rightarrow> forgot_page" where
  "forgot_handle s (TypeAddress v) = s\<lparr>address := v\<rparr>"
| "forgot_handle s SubmitForgot = s\<lparr>sent_link := True\<rparr>"

definition forgot_view :: "forgot_page \<Rightarrow> forgot_ui node" where
  "forgot_view s =
     AuthCard ''Reset your password'' (''We'' @ [CHR 0x27] @ ''ll email you a secure reset link.'')
       [(if sent_link s then
           El [Txt ''Check your inbox for a password reset email.'', Link ''/login'' ''Return to login'']
         else Form [Txt ''Email address'', Field ''email'' (address s) True False TypeAddress]
                ''Send reset link'' False (Some SubmitForgot))]"

record reset_page =
  newPass :: js_string
  confirmPass :: js_string
  updated :: bool

definition reset_init :: reset_page where
  "reset_init = \<lparr>newPass = [], confirmPass = [], updated = False\<rparr>"

datatype reset_ui = TypeNewPass js_string | TypeConfirm js_string | SubmitReset

fun reset_handle :: "reset_page \<Rightarrow> reset_ui \<Rightarrow> reset_page" where
  "reset_handle s (TypeNewPass v) = s\<lparr>newPass := v\<rparr>"
| "reset_handle s (TypeConfirm v) = s\<lparr>confirmPass := v\<rparr>"
| "reset_handle s SubmitReset = s\<lparr>updated := True\<rparr>"

definition reset_view :: "reset_page \<Rightarrow> reset_ui node" where
  "reset_view s =
     AuthCard ''Create a new password''
       (''Use a strong password you haven'' @ [CHR 0x27] @ ''t used before.'')
       [(if updated s then
           El [Txt ''Password updated successfully.'', Link ''/login'' ''Sign in'']
         else Form [Txt ''New password'', Field ''password'' (newPass s) True False TypeNewPass,
                    Txt ''Confirm password'', Field ''confirm'' (confirmPass s) True False TypeConfirm]
                ''Update password'' False (Some SubmitReset))]"

subsection \<open>Properties\<close>

lemma tenant_request_shape:
  "tenant_request b = Some q \<Longrightarrow>
     rmethod q = POST \<and> url q = ''http://localhost:5003/admin/management/tenants''
     \<and> (\<exists>v. body q = Some v \<and> get_prop v ''name'' = get_prop b ''company'' \<and> get_prop v ''password'' = None)"
  by (auto simp: tenant_request_def http_post_def get_prop_def defined_props_def
      split: option.splits json.splits)

text \<open>
  The developer portal's registration route answers every body: 400 exactly when it is JSON that
  lacks a field, 201 exactly when the middleware API has created the organisation, else 500; a tenant is
  named only in a 201. It sends the API one request at most, with the name of the company and never the
  password.
\<close>

theorem register_route_outcomes:
  "(case register_route call bdy of (q, code, answer) \<Rightarrow>
      code \<in> {201, 400, 500}
      \<and> (code = 400) = (\<exists>b. bdy = Some b \<and> b \<noteq> JNull \<and> missing_field b)
      \<and> (code = 201) = (\<exists>q' v. q = Some q' \<and> call q' = Response True (Some v) \<and> v \<noteq> JNull)
      \<and> (code \<noteq> 201 \<longrightarrow> get_prop answer ''tenantId'' = None)
      \<and> (\<forall>q'. q = Some q' \<longrightarrow> rmethod q' = POST \<and> url q' = ''http://localhost:5003/admin/management/tenants''
           \<and> (\<exists>v. body q' = Some v \<and> get_prop v ''password'' = None
                \<and> get_prop v ''name'' = Option.bind bdy (\<lambda>b. get_prop b ''company''))))"
proof -
  have e: "get_prop (register_error m) ''tenantId'' = None" for m
    by (simp add: register_error_def get_prop_def)
  show ?thesis
    by (auto simp: register_route_def registration_failed_def e dest!: tenant_request_shape
        split: option.splits fetch_outcome.splits)
qed

theorem register_route_outcomes_witness:
  "case register_route (\<lambda>_. Response False None)
      (Some (JObj [(''name'', JStr ''Al''), (''email'', JStr ''a@b.dev''), (''company'', JStr ''Co''),
                   (''password'', JStr ''12345678'')])) of (q, code, answer) \<Rightarrow>
     code = 500 \<and> get_prop answer ''tenantId'' = None
     \<and> (\<exists>q' v. q = Some q' \<and> body q' = Some v \<and> get_prop v ''password'' = None)"
proof -
  let ?b = "JObj [(''name'', JStr ''Al''), (''email'', JStr ''a@b.dev''), (''company'', JStr ''Co''),
                   (''password'', JStr ''12345678'')]"
  have "map_prod (\<lambda>q. q \<noteq> None) fst (register_route (\<lambda>_. Response False None) (Some ?b)) = (True, 500)"
    by code_simp
  with register_route_outcomes [where call = "\<lambda>_. Response False None" and bdy = "Some ?b"] show ?thesis
    by (cases "register_route (\<lambda>_. Response False None) (Some ?b)") auto
qed

text \<open>
  C25: A registration from the page to the answer: what the form accepts the route never refuses; it
  asks for an organisation with the domain after the at sign; and the page then says that a
  verification link was sent, also when the organisation was not created.
\<close>

theorem registration_end_to_end:
  assumes "\<not> email_ok []" and "register_schema email_ok s"
    and "workEmail s = u @ CHR ''@'' # d" and "CHR ''@'' \<notin> set u" and "CHR ''@'' \<notin> set d"
  shows "\<exists>s' v q code answer. register_handle email_ok s SubmitRegistration = (s', Some (PostRegistration v))
     \<and> register_route call (json_parse (json_stringify v)) = (Some q, code, answer)
     \<and> code \<in> {201, 500}
     \<and> body q = Some (JObj [(''name'', JStr (company s)), (''domain'', JStr d)])
     \<and> ''We sent a verification link to your inbox.''
         \<in> set (texts (dev_register_view (register_settled (Response (code = 201) (Some answer)) s')))"
proof -
  let ?v = "register_values s"
  have filled: "fullName s \<noteq> []" "workEmail s \<noteq> []" "company s \<noteq> []" "newPassword s \<noteq> []"
    using assms(1,2) by (auto simp: register_schema_def)
  have parse: "json_parse (json_stringify ?v) = Some ?v"
    by (rule json_parse_stringify) (simp add: register_values_def)
  have miss: "\<not> missing_field ?v"
    using filled by (simp add: missing_field_def register_values_def get_prop_def truthy_def)
  have "email_domain (workEmail s) = Some d"
    using assms(3-5) by (simp add: email_domain_def js_split_append_sep js_split_no_sep)
  then have req: "tenant_request ?v = Some (http_post ''http://localhost:5003/admin/management/tenants''
      (JObj [(''name'', JStr (company s)), (''domain'', JStr d)]))"
    by (simp add: tenant_request_def register_values_def get_prop_def defined_props_def)
  have "\<exists>code answer. register_route call (Some ?v) = (tenant_request ?v, code, answer) \<and> code \<in> {201, 500}"
    using miss req
    by (cases "call (the (tenant_request ?v))")
      (auto simp: register_route_def registration_failed_def register_values_def split: option.split)
  then obtain code answer where r: "register_route call (Some ?v) = (tenant_request ?v, code, answer)"
      and c: "code \<in> {201, 500}"
    by blast
  have "register_handle email_ok s SubmitRegistration = (s\<lparr>registering := True\<rparr>, Some (PostRegistration ?v))"
    using assms(2) by simp
  moreover have "''We sent a verification link to your inbox.''
      \<in> set (texts (dev_register_view (register_settled rsp s')))" if "rsp = Response ok b" for rsp ok b s'
    by (simp add: that dev_register_view_def register_settled_def AuthCard_def)
  ultimately show ?thesis using parse r c req by (auto simp: http_post_def)
qed

theorem registration_end_to_end_witness:
  "\<exists>s' v q code answer. register_handle (\<lambda>e. CHR ''@'' \<in> set e)
       (register_init\<lparr>fullName := ''Al'', workEmail := ''a@b.dev'', company := ''Co'', newPassword := ''12345678''\<rparr>)
       SubmitRegistration = (s', Some (PostRegistration v))
     \<and> register_route (\<lambda>_. NetworkError OtherThrown) (json_parse (json_stringify v)) = (Some q, code, answer)
     \<and> body q = Some (JObj [(''name'', JStr ''Co''), (''domain'', JStr ''b.dev'')])
     \<and> ''We sent a verification link to your inbox.''
         \<in> set (texts (dev_register_view (register_settled (Response (code = 201) (Some answer)) s')))"
  using registration_end_to_end [of "\<lambda>e. CHR ''@'' \<in> set e"
      "register_init\<lparr>fullName := ''Al'', workEmail := ''a@b.dev'', company := ''Co'', newPassword := ''12345678''\<rparr>"
      "''a''" "''b.dev''" "\<lambda>_. NetworkError OtherThrown"]
  by (auto simp: register_schema_def)

text \<open>
  The reset page says that the password was updated exactly when both of its fields were filled in;
  it never compares them.
\<close>

definition reset_event :: "dom_event \<Rightarrow> reset_page \<Rightarrow> reset_page" where
  "reset_event d s = fold (\<lambda>u s. reset_handle s u) (dispatch d (reset_view s)) s"

theorem reset_compares_nothing:
  "''Password updated successfully.''
     \<in> set (texts (reset_view (fold reset_event
          [TypeIn ''password'' p, TypeIn ''confirm'' q, SubmitForm] reset_init)))
   \<longleftrightarrow> p \<noteq> [] \<and> q \<noteq> []"
proof -
  have "fold reset_event [TypeIn ''password'' p, TypeIn ''confirm'' q] reset_init
      = reset_init\<lparr>newPass := p, confirmPass := q\<rparr>"
    by (simp add: reset_event_def reset_init_def reset_view_def AuthCard_def dispatch.simps)
  then show ?thesis
    by (simp add: reset_event_def [of SubmitForm] reset_init_def reset_view_def AuthCard_def dispatch.simps)
qed

end
