(* ===== verification/Timers.thy ===== *)
theory Timers
  imports Prelude
begin

section \<open>Functions that wait: debounce, useDebounce and useClipboard\<close>

text \<open>
  Models \<open>lib/utils/debounce.ts\<close>, \<open>hooks/useDebounce.ts\<close> and \<open>hooks/useClipboard.ts\<close>, which the two
  portals share word for word, over the timers of the browser. Time is counted in milliseconds;
  a timer runs at any moment from its due time on, so a late timer is covered.
\<close>

subsection \<open>The browser's timers\<close>

text \<open>A timer has an identifier, a due time and what its callback gets.\<close>

record 'a timers =
  clock :: nat
  next_id :: nat
  active :: "(nat \<times> nat \<times> 'a) list"

definition no_timers :: "'a timers" where
  "no_timers = \<lparr>clock = 0, next_id = 1, active = []\<rparr>"

definition setTimeout :: "'a \<Rightarrow> nat \<Rightarrow> 'a timers \<Rightarrow> nat \<times> 'a timers" where
  "setTimeout x d ts =
     (next_id ts, ts\<lparr>next_id := next_id ts + 1, active := active ts @ [(next_id ts, clock ts + d, x)]\<rparr>)"

definition clearTimeout :: "nat \<Rightarrow> 'a timers \<Rightarrow> 'a timers" where
  "clearTimeout i ts = ts\<lparr>active := filter (\<lambda>t. fst t \<noteq> i) (active ts)\<rparr>"

definition due_timer :: "'a timers \<Rightarrow> nat \<Rightarrow> 'a \<Rightarrow> bool" where
  "due_timer ts i x \<longleftrightarrow> (\<exists>d \<le> clock ts. (i, d, x) \<in> set (active ts))"

subsection \<open>debounce\<close>

text \<open>
  The closure keeps the identifier of its last timer, which stays there after the timer ran. The
  log lists the calls of the debounced function and of \<open>fn\<close>, each with its time.
\<close>

datatype 'a debounce_event = Called nat 'a | Invoked nat 'a

record 'a debounce_world =
  timeout :: "nat option"
  timers :: "'a timers"
  log :: "'a debounce_event list"

definition debounce :: "'a debounce_world" where
  "debounce = \<lparr>timeout = None, timers = no_timers, log = []\<rparr>"

definition debounced_call :: "nat \<Rightarrow> 'a \<Rightarrow> 'a debounce_world \<Rightarrow> 'a debounce_world" where
  "debounced_call wait args w =
     (let ts = (case timeout w of
                  None \<Rightarrow> timers w
                | Some i \<Rightarrow> (if i \<noteq> 0 then clearTimeout i (timers w) else timers w));
          (i, ts') = setTimeout args wait ts
      in w\<lparr>timeout := Some i, timers := ts', log := log w @ [Called (clock (timers w)) args]\<rparr>)"

definition debounce_time :: "nat \<Rightarrow> 'a debounce_world \<Rightarrow> 'a debounce_world" where
  "debounce_time n w = w\<lparr>timers := (timers w)\<lparr>clock := clock (timers w) + n\<rparr>\<rparr>"

definition debounce_fire :: "nat \<Rightarrow> 'a \<Rightarrow> 'a debounce_world \<Rightarrow> 'a debounce_world" where
  "debounce_fire i args w =
     w\<lparr>timers := clearTimeout i (timers w), log := log w @ [Invoked (clock (timers w)) args]\<rparr>"

inductive debounce_reachable :: "nat \<Rightarrow> 'a debounce_world \<Rightarrow> bool"
  for wait :: nat
where
  d_start: "debounce_reachable wait debounce"
| d_call: "debounce_reachable wait w \<Longrightarrow> debounce_reachable wait (debounced_call wait args w)"
| d_time: "debounce_reachable wait w \<Longrightarrow>
     debounce_reachable wait (debounce_time n w)"
| d_fire: "debounce_reachable wait w \<Longrightarrow> due_timer (timers w) i args \<Longrightarrow>
     debounce_reachable wait (debounce_fire i args w)"

text \<open>Directly before each invocation stands the call it is for, at least \<open>wait\<close> earlier.\<close>

definition prompted :: "nat \<Rightarrow> 'a debounce_event list \<Rightarrow> bool" where
  "prompted wait l \<longleftrightarrow>
     (\<forall>pre t v post. l = pre @ Invoked t v # post \<longrightarrow>
        (\<exists>pre' t0. pre = pre' @ [Called t0 v] \<and> t0 + wait \<le> t))"

text \<open>There is a timer exactly while the last call has not led to an invocation.\<close>

definition debounce_inv :: "nat \<Rightarrow> 'a debounce_world \<Rightarrow> bool" where
  "debounce_inv wait w \<longleftrightarrow>
     0 < next_id (timers w)
     \<and> (case timeout w of None \<Rightarrow> True | Some i \<Rightarrow> 0 < i \<and> i < next_id (timers w))
     \<and> (if log w = [] then active (timers w) = []
        else case last (log w) of
               Invoked t v \<Rightarrow> active (timers w) = []
             | Called t v \<Rightarrow> t \<le> clock (timers w)
                 \<and> (\<exists>i. timeout w = Some i \<and> active (timers w) = [(i, t + wait, v)]))
     \<and> prompted wait (log w)"

lemma snoc_eq_split:
  "xs @ [x] = pre @ y # post \<longleftrightarrow> (post = [] \<and> xs = pre \<and> x = y) \<or> (\<exists>p. post = p @ [x] \<and> xs = pre @ y # p)"
  by (cases post rule: rev_cases) auto

lemma prompted_simps [simp]:
  "prompted wait []"
  "prompted wait (l @ [Called t v]) = prompted wait l"
  "prompted wait (l @ [Invoked t v])
   \<longleftrightarrow> prompted wait l \<and> (\<exists>l' t0. l = l' @ [Called t0 v] \<and> t0 + wait \<le> t)"
  by (auto simp: prompted_def snoc_eq_split)

lemma debounce_call_inv: "debounce_inv wait w \<Longrightarrow> debounce_inv wait (debounced_call wait args w)"
  by (auto simp: debounce_inv_def debounced_call_def setTimeout_def clearTimeout_def Let_def
      split: option.splits if_splits debounce_event.splits)

lemma debounce_fire_inv:
  assumes "debounce_inv wait w" and "due_timer (timers w) i args"
  shows "debounce_inv wait (debounce_fire i args w)"
proof -
  from assms obtain t where l: "log w \<noteq> []" "last (log w) = Called t args" "timeout w = Some i"
      and a: "active (timers w) = [(i, t + wait, args)]" and d: "t + wait \<le> clock (timers w)"
    by (auto simp: debounce_inv_def due_timer_def split: if_splits debounce_event.splits)
  from l obtain pre where "log w = pre @ [Called t args]"
    by (metis append_butlast_last_id)
  moreover have "prompted wait (log w)" using assms(1) by (simp add: debounce_inv_def)
  ultimately have "prompted wait (log w @ [Invoked (clock (timers w)) args])"
    unfolding prompted_simps(3) using d by blast
  with assms(1) l a show ?thesis
    by (simp add: debounce_inv_def debounce_fire_def clearTimeout_def)
qed

lemma debounce_reachable_inv: "debounce_reachable wait w \<Longrightarrow> debounce_inv wait w"
proof (induction rule: debounce_reachable.induct)
  case d_start
  show ?case by (simp add: debounce_inv_def debounce_def no_timers_def)
next
  case d_time
  then show ?case
    by (auto simp: debounce_inv_def debounce_time_def split: if_splits debounce_event.splits option.splits)
qed (simp_all add: debounce_call_inv debounce_fire_inv)

subsection \<open>useDebounce\<close>

text \<open>
  The state of a component that uses the hook: the value of the last render, the state
  \<open>debounced\<close>, the timer of the effect and, for the statements, when the value last changed. The
  cleanup of the effect clears the timer when the value changes; \<open>delay\<close> stays the same, and a component
  is followed until it is unmounted.
\<close>

record 'a use_debounce =
  cur :: 'a
  debounced :: 'a
  timer :: nat
  hook_timers :: "'a timers"
  changed_at :: nat

definition useDebounce :: "nat \<Rightarrow> 'a \<Rightarrow> 'a use_debounce" where
  "useDebounce delay v =
     (case setTimeout v delay no_timers of
        (i, ts) \<Rightarrow> \<lparr>cur = v, debounced = v, timer = i, hook_timers = ts, changed_at = 0\<rparr>)"

definition render_value :: "nat \<Rightarrow> 'a \<Rightarrow> 'a use_debounce \<Rightarrow> 'a use_debounce" where
  "render_value delay v s =
     (if v = cur s then s
      else case setTimeout v delay (clearTimeout (timer s) (hook_timers s)) of
             (i, ts) \<Rightarrow> s\<lparr>cur := v, timer := i, hook_timers := ts, changed_at := clock ts\<rparr>)"

inductive hook_reachable :: "nat \<Rightarrow> 'a \<Rightarrow> 'a use_debounce \<Rightarrow> bool"
  for delay :: nat and v0 :: 'a
where
  h_start: "hook_reachable delay v0 (useDebounce delay v0)"
| h_render: "hook_reachable delay v0 s \<Longrightarrow> hook_reachable delay v0 (render_value delay v s)"
| h_time: "hook_reachable delay v0 s \<Longrightarrow>
     hook_reachable delay v0 (s\<lparr>hook_timers := (hook_timers s)\<lparr>clock := clock (hook_timers s) + n\<rparr>\<rparr>)"
| h_fire: "hook_reachable delay v0 s \<Longrightarrow> due_timer (hook_timers s) i x \<Longrightarrow>
     hook_reachable delay v0 (s\<lparr>debounced := x, hook_timers := clearTimeout i (hook_timers s)\<rparr>)"

definition hook_inv :: "nat \<Rightarrow> 'a use_debounce \<Rightarrow> bool" where
  "hook_inv delay s \<longleftrightarrow>
     timer s < next_id (hook_timers s) \<and> changed_at s \<le> clock (hook_timers s)
     \<and> (active (hook_timers s) = [(timer s, changed_at s + delay, cur s)]
        \<or> active (hook_timers s) = [] \<and> debounced s = cur s \<and> changed_at s + delay \<le> clock (hook_timers s))"

lemma hook_reachable_inv: "hook_reachable delay v0 s \<Longrightarrow> hook_inv delay s"
proof (induction rule: hook_reachable.induct)
  case h_start
  show ?case by (simp add: hook_inv_def useDebounce_def setTimeout_def no_timers_def)
next
  case h_render
  then show ?case by (auto simp: hook_inv_def render_value_def setTimeout_def clearTimeout_def)
next
  case h_time
  then show ?case by (auto simp: hook_inv_def)
next
  case h_fire
  then show ?case by (auto simp: hook_inv_def due_timer_def clearTimeout_def)
qed

subsection \<open>useClipboard\<close>

text \<open>
  The part of \<open>copy\<close> after the browser has taken the text, and the timer that takes the mark away;
  \<open>last_copy\<close> is for the statements.
\<close>

record use_clipboard =
  copied :: bool
  copy_timers :: "unit timers"
  last_copy :: "nat option"

definition useClipboard :: use_clipboard where
  "useClipboard = \<lparr>copied = False, copy_timers = no_timers, last_copy = None\<rparr>"

definition copy_done :: "nat \<Rightarrow> use_clipboard \<Rightarrow> use_clipboard" where
  "copy_done tmo s =
     s\<lparr>copied := True, copy_timers := snd (setTimeout () tmo (copy_timers s)),
       last_copy := Some (clock (copy_timers s))\<rparr>"

definition copy_time :: "nat \<Rightarrow> use_clipboard \<Rightarrow> use_clipboard" where
  "copy_time n s = s\<lparr>copy_timers := (copy_timers s)\<lparr>clock := clock (copy_timers s) + n\<rparr>\<rparr>"

definition copy_fire :: "nat \<Rightarrow> use_clipboard \<Rightarrow> use_clipboard" where
  "copy_fire i s = s\<lparr>copied := False, copy_timers := clearTimeout i (copy_timers s)\<rparr>"

inductive copy_reachable :: "nat \<Rightarrow> use_clipboard \<Rightarrow> bool"
  for tmo :: nat
where
  c_start: "copy_reachable tmo useClipboard"
| c_copy: "copy_reachable tmo s \<Longrightarrow> copy_reachable tmo (copy_done tmo s)"
| c_time: "copy_reachable tmo s \<Longrightarrow> copy_reachable tmo (copy_time n s)"
| c_fire: "copy_reachable tmo s \<Longrightarrow> due_timer (copy_timers s) i () \<Longrightarrow> copy_reachable tmo (copy_fire i s)"

text \<open>The timer of the last copy is there as long as the mark is.\<close>

definition copy_inv :: "nat \<Rightarrow> use_clipboard \<Rightarrow> bool" where
  "copy_inv tmo s \<longleftrightarrow>
     (\<forall>(i, d, x) \<in> set (active (copy_timers s)). i < next_id (copy_timers s))
     \<and> distinct (map fst (active (copy_timers s)))
     \<and> (copied s \<longrightarrow> (\<exists>t i. last_copy s = Some t \<and> (i, t + tmo, ()) \<in> set (active (copy_timers s))))"

lemma copy_reachable_inv: "copy_reachable tmo s \<Longrightarrow> copy_inv tmo s"
proof (induction rule: copy_reachable.induct)
  case c_start
  show ?case by (simp add: copy_inv_def useClipboard_def no_timers_def)
next
  case c_copy
  then show ?case by (fastforce simp: copy_inv_def copy_done_def setTimeout_def)
next
  case c_time
  then show ?case by (simp add: copy_inv_def copy_time_def)
next
  case (c_fire s i)
  then show ?case by (auto simp: copy_inv_def copy_fire_def clearTimeout_def distinct_map_filter)
qed

subsection \<open>Properties\<close>

text \<open>
  C38: A debounced function runs \<open>fn\<close> only as the answer to the call right before, with that call's
  arguments and at least \<open>wait\<close> milliseconds later, so once per call at most; and a last call that
  has not been answered has its timer, due \<open>wait\<close> after it, so it is not lost.
\<close>

theorem debounce_correct:
  "debounce_reachable wait w \<Longrightarrow>
     (\<forall>pre t v post. log w = pre @ Invoked t v # post \<longrightarrow>
        (\<exists>pre' t0. pre = pre' @ [Called t0 v] \<and> t0 + wait \<le> t))
     \<and> (\<forall>pre t v. log w = pre @ [Called t v] \<longrightarrow> (\<exists>i. active (timers w) = [(i, t + wait, v)]))
     \<and> length (active (timers w)) \<le> 1"
  using debounce_reachable_inv [of wait w]
  by (auto simp: debounce_inv_def prompted_def split: if_splits debounce_event.splits)

theorem debounce_correct_witness:
  "\<exists>w. debounce_reachable 300 w
     \<and> log w = [Called 0 (1::nat), Called 100 2, Invoked 400 2]
     \<and> length (active (timers w)) \<le> 1"
proof -
  let ?w = "debounce_time 300 (debounced_call 300 2 (debounce_time 100 (debounced_call 300 1 debounce))) :: nat debounce_world"
  have "debounce_reachable 300 ?w" by (intro d_time d_call d_start)
  moreover have "due_timer (timers ?w) 2 2"
    by (simp add: due_timer_def debounced_call_def debounce_time_def debounce_def no_timers_def
        setTimeout_def clearTimeout_def)
  ultimately have r: "debounce_reachable 300 (debounce_fire 2 2 ?w)" by (rule d_fire)
  moreover have "log (debounce_fire 2 2 ?w) = [Called 0 1, Called 100 2, Invoked 400 2]"
    by (simp add: debounced_call_def debounce_fire_def debounce_time_def debounce_def no_timers_def
        setTimeout_def clearTimeout_def)
  ultimately show ?thesis using debounce_correct [OF r] by metis
qed

text \<open>
  The value of \<open>useDebounce\<close> catches up: as long as it differs from the value last rendered one timer
  is active, which is due \<open>delay\<close> after that value came and sets exactly that value.
\<close>

theorem useDebounce_catches_up:
  "hook_reachable delay v0 s \<Longrightarrow>
     (debounced s = cur s \<and> active (hook_timers s) = [])
     \<or> (\<exists>i. active (hook_timers s) = [(i, changed_at s + delay, cur s)])"
  using hook_reachable_inv [of delay v0 s] by (auto simp: hook_inv_def)

theorem useDebounce_catches_up_witness:
  "\<exists>s. hook_reachable 300 (0::nat) s \<and> debounced s \<noteq> cur s
     \<and> (\<exists>i. active (hook_timers s) = [(i, changed_at s + 300, cur s)])"
proof -
  let ?s = "render_value 300 (1::nat) (useDebounce 300 0)"
  have r: "hook_reachable 300 0 ?s" by (intro h_render h_start)
  moreover have "debounced ?s \<noteq> cur ?s"
    by (simp add: useDebounce_def render_value_def setTimeout_def no_timers_def clearTimeout_def)
  ultimately show ?thesis using useDebounce_catches_up [OF r] by blast
qed

text \<open>
  The mark of \<open>useClipboard\<close> does not stay for good, but nothing clears the timer of an earlier
  copy: copying twice within the time-out takes the mark of the second copy away early.
\<close>

theorem useClipboard_early_reset:
  "\<exists>s. copy_reachable 2000 s \<and> last_copy s = Some 1500 \<and> clock (copy_timers s) = 2000 \<and> \<not> copied s"
proof -
  let ?s = "copy_time 500 (copy_done 2000 (copy_time 1500 (copy_done 2000 useClipboard)))"
  have "copy_reachable 2000 ?s" by (intro c_time c_copy c_start)
  moreover have "due_timer (copy_timers ?s) 1 ()"
    by (simp add: due_timer_def copy_time_def copy_done_def useClipboard_def no_timers_def setTimeout_def)
  ultimately have "copy_reachable 2000 (copy_fire 1 ?s)" by (rule c_fire)
  moreover have "last_copy (copy_fire 1 ?s) = Some 1500 \<and> clock (copy_timers (copy_fire 1 ?s)) = 2000
      \<and> \<not> copied (copy_fire 1 ?s)"
    by (simp add: copy_fire_def copy_time_def copy_done_def useClipboard_def no_timers_def
        setTimeout_def clearTimeout_def)
  ultimately show ?thesis by blast
qed

end
