(* ===== verification/Widgets.thy ===== *)
theory Widgets
  imports Dev_Auth
begin

section \<open>The frame of the portals and small utilities\<close>

text \<open>
  Models \<open>lib/config/navigation.ts\<close> and \<open>components/layout/Sidebar.tsx\<close> of the developer portal,
  \<open>components/layout/Topbar.tsx\<close> of the admin portal, and of both portals
  \<open>components/theme-toggle.tsx\<close> and \<open>relativeTime\<close> of \<open>lib/utils/date.ts\<close>, and the second hook of
  \<open>lib/hooks/useTenant.ts\<close>. The theme is kept by the next-themes library.
\<close>

subsection \<open>The sidebar of the developer portal\<close>

definition dev_navigation_primary :: "(js_string \<times> js_string) list" where
  "dev_navigation_primary =
     [(''Dashboard'', ''/dashboard''), (''Apis'', ''/apis''), (''Clients'', ''/clients''),
      (''Endpoint Requests'', ''/endpoint-requests''), (''IP Restrictions'', ''/ip-restrictions''),
      (''Console'', ''/console''), (''Logs'', ''/logs''), (''Docs'', ''/docs'')]"

definition dev_navigation_secondary :: "(js_string \<times> js_string) list" where
  "dev_navigation_secondary =
     [(''Profile'', ''/profile''), (''Billing'', ''/billing''), (''Support'', ''/support'')]"

definition dev_nav_active :: "js_string \<Rightarrow> js_string \<times> js_string \<Rightarrow> bool" where
  "dev_nav_active pathname item \<longleftrightarrow>
     pathname = snd item \<or> js_starts_with pathname (snd item @ ''/'')"

datatype dev_sidebar_ui = SidebarSignOut

definition dev_sidebar_entry :: "js_string \<Rightarrow> js_string \<times> js_string \<Rightarrow> dev_sidebar_ui node" where
  "dev_sidebar_entry pathname item =
     El [when_node (dev_nav_active pathname item) (Badge ''active'' []), Link (snd item) (fst item)]"

definition dev_sidebar_view :: "js_string \<Rightarrow> dev_sidebar_ui node" where
  "dev_sidebar_view pathname =
     El [Txt ''Core'', El (map (dev_sidebar_entry pathname) dev_navigation_primary),
         Txt ''Account'', El (map (dev_sidebar_entry pathname) dev_navigation_secondary),
         Btn ''Sign out'' False (Some SidebarSignOut)]"

subsection \<open>The environment in the top bar of the admin portal\<close>

definition environments :: "js_string list" where
  "environments = [''dev'', ''uat'', ''staging'', ''prod'']"

definition env_storage_key :: js_string where
  "env_storage_key = ''gateway-admin-env''"

text \<open>The effect that runs when the bar is mounted, on the initial state \<open>"dev"\<close>.\<close>

definition topbar_mount :: "browser \<Rightarrow> js_string" where
  "topbar_mount b =
     (case local_storage b env_storage_key of
        None \<Rightarrow> ''dev''
      | Some stored \<Rightarrow> (if truthy_str stored \<and> stored \<in> set environments then stored else ''dev''))"

definition updateEnvironment :: "js_string \<Rightarrow> browser \<Rightarrow> js_string \<times> browser" where
  "updateEnvironment v b = (v, b\<lparr>local_storage := (local_storage b)(env_storage_key \<mapsto> v)\<rparr>)"

text \<open>\<open>toUpperCase\<close> on ASCII letters.\<close>

definition ascii_upper :: "js_string \<Rightarrow> js_string" where
  "ascii_upper s = map (\<lambda>c. if CHR ''a'' \<le> c \<and> c \<le> CHR ''z'' then char_of (of_char c - 32 :: nat) else c) s"

definition topbar_view :: "js_string \<Rightarrow> js_string node" where
  "topbar_view e =
     El [Txt ''Env'',
         Select ''env'' e False False (map (\<lambda>v. (v, ascii_upper v)) environments) (\<lambda>v. v),
         Badge (if e = ''prod'' then ''danger'' else ''warning'') (ascii_upper e)]"

subsection \<open>The theme\<close>

definition themeOrder :: "js_string list" where
  "themeOrder = [''light'', ''dark'', ''system'']"

text \<open>\<open>indexOf\<close>, which is -1 for a theme that is not in the list.\<close>

fun index_of :: "'a \<Rightarrow> 'a list \<Rightarrow> int" where
  "index_of x [] = -1"
| "index_of x (y # ys) = (if x = y then 0 else let i = index_of x ys in if i = -1 then -1 else i + 1)"

definition theme_current :: "js_string option \<Rightarrow> js_string option \<Rightarrow> js_string" where
  "theme_current theme resolved =
     (case theme of Some t \<Rightarrow> t | None \<Rightarrow> (case resolved of Some t \<Rightarrow> t | None \<Rightarrow> ''system''))"

definition theme_next :: "js_string \<Rightarrow> js_string" where
  "theme_next current = themeOrder ! nat ((index_of current themeOrder + 1) mod int (length themeOrder))"

definition theme_toggle_view :: "bool \<Rightarrow> js_string option \<Rightarrow> js_string option \<Rightarrow> js_string node" where
  "theme_toggle_view mounted theme resolved =
     (if \<not> mounted then nothing
      else let current = theme_current theme resolved in
        El [Btn ''Toggle theme'' False (Some (theme_next current)),
            when_node (current = ''light'') (Badge ''icon'' ''sun''),
            when_node (current = ''dark'') (Badge ''icon'' ''moon''),
            when_node (current = ''system'') (Badge ''icon'' ''laptop'')])"

subsection \<open>relativeTime\<close>

text \<open>Times in milliseconds; \<open>None\<close> is the \<open>NaN\<close> of a value that is no date.\<close>

definition relativeTime :: "int \<Rightarrow> int option \<Rightarrow> js_string" where
  "relativeTime now v =
     (case v of
        None \<Rightarrow> ''NaNd ago''
      | Some t \<Rightarrow>
          (let diff = now - t; minutes = diff div 60000 in
           if minutes < 1 then ''just now''
           else if minutes < 60 then int_dec minutes @ ''m ago''
           else let hours = minutes div 60 in
                if hours < 24 then int_dec hours @ ''h ago''
                else let days = hours div 24 in int_dec days @ ''d ago''))"

subsection \<open>useApiLoading\<close>

text \<open>
  \<open>withLoading(fn)\<close> before and after \<open>await fn()\<close>. A thrown value is the JSON of its properties, \<open>None\<close>
  standing for \<open>undefined\<close>; the result is \<open>None\<close> for \<open>null\<close>.
\<close>

record api_loading =
  api_busy :: bool
  api_error :: "json option"

definition opt_prop :: "json option \<Rightarrow> js_string \<Rightarrow> json option" where
  "opt_prop v k = Option.bind v (\<lambda>x. get_prop x k)"

definition withLoading_start :: "api_loading \<Rightarrow> api_loading" where
  "withLoading_start s = s\<lparr>api_busy := True, api_error := None\<rparr>"

definition api_error_message :: "json option \<Rightarrow> json" where
  "api_error_message err =
     or_else (opt_prop (opt_prop (opt_prop err ''response'') ''data'') ''message'')
       (or_else (opt_prop err ''message'') (JStr ''An error occurred''))"

definition withLoading_end :: "json option + 'a \<Rightarrow> api_loading \<Rightarrow> 'a option \<times> api_loading" where
  "withLoading_end r s =
     (case r of
        Inr a \<Rightarrow> (Some a, s\<lparr>api_busy := False\<rparr>)
      | Inl err \<Rightarrow> (None, s\<lparr>api_error := Some (api_error_message err), api_busy := False\<rparr>))"

subsection \<open>Facts\<close>

text \<open>An active entry is the one of the path's first segment.\<close>

definition first_segment :: "js_string \<Rightarrow> js_string" where
  "first_segment p = takeWhile (\<lambda>c. c \<noteq> CHR ''/'') (drop 1 p)"

lemma active_first_segment:
  assumes "dev_nav_active p item" and "snd item = CHR ''/'' # seg" and "CHR ''/'' \<notin> set seg"
  shows "first_segment p = seg"
proof -
  have all: "takeWhile (\<lambda>c. c \<noteq> CHR ''/'') seg = seg" using assms(3) by (auto simp: takeWhile_eq_all_conv)
  from assms(1,2) consider "p = CHR ''/'' # seg" | r where "p = (CHR ''/'' # seg @ ''/'') @ r"
    unfolding dev_nav_active_def js_starts_with_def by (metis append_Cons append_take_drop_id)
  then show ?thesis
    by cases (use all assms(3) in \<open>auto simp: first_segment_def takeWhile_append2\<close>)
qed

lemma at_most_one:
  assumes "distinct (map f xs)" and "\<And>x. x \<in> set xs \<Longrightarrow> P x \<Longrightarrow> f x = k"
  shows "length (filter P xs) \<le> 1"
proof -
  have "distinct (map f (filter P xs))" using assms(1) by (rule distinct_map_filter)
  then have "length (filter P xs) = card (f ` set (filter P xs))"
    by (metis distinct_card length_map set_map)
  also have "\<dots> \<le> card {k}" using assms(2) by (intro card_mono) auto
  finally show ?thesis by simp
qed

text \<open>Rounding down.\<close>

lemma div_bounds: "0 < k \<Longrightarrow> (d div k) * k \<le> d \<and> d < (d div k + 1) * (k::int)"
proof -
  assume "0 < k"
  then have "0 \<le> d mod k" and "d mod k < k" by simp_all
  moreover have "d mod k = d - (d div k) * k" by (simp add: minus_div_mult_eq_mod)
  ultimately show ?thesis by (simp add: algebra_simps)
qed

lemma truthy_or_else: "truthy (Some (or_else x y)) \<longleftrightarrow> truthy x \<or> truthy (Some y)"
proof (cases "truthy x")
  case True
  then obtain v where "x = Some v" by (cases x) (auto simp: truthy_def)
  with True show ?thesis by (simp add: or_else_def)
qed (simp add: or_else_def)

lemma theme_next_simps:
  "theme_next ''light'' = ''dark''" "theme_next ''dark'' = ''system''" "theme_next ''system'' = ''light''"
  by code_simp+

lemma theme_next_other: "t \<notin> set themeOrder \<Longrightarrow> theme_next t = ''light''"
  by (simp add: theme_next_def themeOrder_def)

subsection \<open>Properties\<close>

text \<open>
  At most one entry of the developer portal's sidebar is marked as the current one, whatever the path.
\<close>

theorem dev_sidebar_one_active:
  "length (filter (dev_nav_active pathname) (dev_navigation_primary @ dev_navigation_secondary)) \<le> 1"
proof (rule at_most_one)
  let ?items = "dev_navigation_primary @ dev_navigation_secondary"
  show "distinct (map (\<lambda>i. tl (snd i)) ?items)"
    by (simp add: dev_navigation_primary_def dev_navigation_secondary_def)
  fix item
  assume "item \<in> set ?items" and "dev_nav_active pathname item"
  moreover from this(1) have "snd item = CHR ''/'' # tl (snd item) \<and> CHR ''/'' \<notin> set (tl (snd item))"
    by (auto simp: dev_navigation_primary_def dev_navigation_secondary_def)
  ultimately show "tl (snd item) = first_segment pathname" using active_first_segment by metis
qed

text \<open>
  Choosing an environment in the top bar lasts: after a reload the bar shows what was chosen, one of the four;
  and the session is left alone. A stored text that is no environment counts as \<open>dev\<close>.
\<close>

theorem topbar_environment_round_trip:
  "(\<forall>v \<in> set (dispatch d (topbar_view e)).
      case updateEnvironment v b of (e', b') \<Rightarrow>
        e' \<in> set environments \<and> topbar_mount b' = e'
        \<and> local_storage b' session_key = local_storage b session_key)
   \<and> topbar_mount b \<in> set environments"
  by (auto simp: topbar_view_def updateEnvironment_def topbar_mount_def environments_def session_key_def
      env_storage_key_def split: option.splits)

theorem topbar_environment_round_trip_witness:
  "dispatch (Choose ''env'' ''prod'') (topbar_view ''dev'') = [''prod'']
   \<and> topbar_mount (snd (updateEnvironment ''prod'' \<lparr>local_storage = Map.empty, location_href = ''/''\<rparr>)) = ''prod''"
proof -
  have "dispatch (Choose ''env'' ''prod'') (topbar_view ''dev'') = [''prod'']" by code_simp
  then show ?thesis
    using topbar_environment_round_trip [of "Choose ''env'' ''prod''" "''dev''"
        "\<lparr>local_storage = Map.empty, location_href = ''/''\<rparr>"]
    by (simp add: updateEnvironment_def)
qed

text \<open>
  The theme button steps through light, dark and system and is back after three clicks; from any
  other theme it leads to light.
\<close>

theorem theme_cycle:
  "(if t \<in> set themeOrder then theme_next (theme_next (theme_next t)) = t else theme_next t = ''light'')
   \<and> theme_next t \<in> set themeOrder \<and> theme_next t \<noteq> t"
proof (cases "t \<in> set themeOrder")
  case True
  then consider "t = ''light''" | "t = ''dark''" | "t = ''system''" by (auto simp: themeOrder_def)
  then show ?thesis by cases (simp_all add: theme_next_simps themeOrder_def)
next
  case False
  then show ?thesis by (auto simp: theme_next_other themeOrder_def)
qed

text \<open>
  C40: A past moment is described by the largest unit that fits, rounded down, with a number that fits the unit;
  a moment less than a minute ago, or in the future, is just now.
\<close>

theorem relativeTime_bounds:
  "let diff = now - t; s = relativeTime now (Some t) in
     (diff < 60000 \<and> s = ''just now'')
     \<or> (\<exists>n. 1 \<le> n \<and> n < 60 \<and> s = int_dec n @ ''m ago'' \<and> n * 60000 \<le> diff \<and> diff < (n + 1) * 60000)
     \<or> (\<exists>n. 1 \<le> n \<and> n < 24 \<and> s = int_dec n @ ''h ago'' \<and> n * 3600000 \<le> diff \<and> diff < (n + 1) * 3600000)
     \<or> (\<exists>n. 1 \<le> n \<and> s = int_dec n @ ''d ago'' \<and> n * 86400000 \<le> diff \<and> diff < (n + 1) * 86400000)"
proof -
  define d where "d = now - t"
  define m where "m = d div 60000"
  define h where "h = d div 3600000"
  define y where "y = d div 86400000"
  have hm: "h = m div 60" and yh: "y = h div 24"
    using zdiv_zmult2_eq [of 60 d 60000] zdiv_zmult2_eq [of 24 d 3600000] by (simp_all add: m_def h_def y_def)
  have r: "relativeTime now (Some t) =
      (if m < 1 then ''just now'' else if m < 60 then int_dec m @ ''m ago''
       else if h < 24 then int_dec h @ ''h ago'' else int_dec y @ ''d ago'')"
    by (simp only: relativeTime_def option.case Let_def yh hm m_def d_def)
  have bm: "m * 60000 \<le> d \<and> d < (m + 1) * 60000" and bh: "h * 3600000 \<le> d \<and> d < (h + 1) * 3600000"
      and bd: "y * 86400000 \<le> d \<and> d < (y + 1) * 86400000"
    unfolding m_def h_def y_def by (rule div_bounds, simp)+
  consider "m < 1" | "1 \<le> m" "m < 60" | "60 \<le> m" "h < 24" | "60 \<le> m" "24 \<le> h" by linarith
  then show ?thesis
  proof cases
    case 1
    then show ?thesis unfolding Let_def d_def [symmetric] using bm r by simp
  next
    case 2
    then have "relativeTime now (Some t) = int_dec m @ ''m ago''" using r by simp
    with 2 bm show ?thesis unfolding Let_def d_def [symmetric] by blast
  next
    case 3
    then have "relativeTime now (Some t) = int_dec h @ ''h ago''" using r by simp
    moreover have "1 \<le> h" using 3 hm by linarith
    ultimately show ?thesis unfolding Let_def d_def [symmetric] using 3 bh by blast
  next
    case 4
    then have "relativeTime now (Some t) = int_dec y @ ''d ago''" using r by simp
    moreover have "1 \<le> y" using 4 yh by linarith
    ultimately show ?thesis unfolding Let_def d_def [symmetric] using bd by blast
  qed
qed

text \<open>
  \<open>withLoading\<close> never throws: when the call fails the result is \<open>null\<close>, the loading state is over and the error
  is a message that is not empty.
\<close>

theorem withLoading_outcome:
  "case withLoading_end r (withLoading_start s) of (x, s') \<Rightarrow>
     \<not> api_busy s'
     \<and> (case r of Inr a \<Rightarrow> x = Some a \<and> api_error s' = None
         | Inl err \<Rightarrow> x = None \<and> truthy (api_error s'))"
  by (auto simp: withLoading_end_def withLoading_start_def api_error_message_def truthy_or_else
      truthy_def [of "Some (JStr s)" for s] split: sum.splits)

end
