(* ===== verification/Apps_Demo.thy ===== *)
theory Apps_Demo
  imports Login_Page
begin

section \<open>Apps, keys and the console\<close>

text \<open>
  Models what both portals have, word for word the same, for applications and their keys: the routes
  \<open>app/api/apps\<close>, \<open>apps/[id]\<close>, \<open>keys\<close>, \<open>status\<close> and \<open>auth/logout\<close>, the pages \<open>apps/page.tsx\<close>,
  \<open>apps/new/page.tsx\<close> and \<open>apps/[appId]/keys/page.tsx\<close>, and the components \<open>AppCard\<close>, \<open>KeyTable\<close> and
  \<open>ApiConsole\<close>. There is no store behind the routes: they answer with constants and with what they
  are sent. \<open>rid\<close> stands for the random characters of an identifier, \<open>now\<close> for the time.
\<close>

subsection \<open>The routes\<close>

record DeveloperApp =
  ident :: js_string
  appName :: js_string
  appDescription :: js_string
  appEnvironment :: js_string
  appCreatedAt :: js_string
  appOwner :: js_string

definition sample_apps :: "DeveloperApp list" where
  "sample_apps =
     [\<lparr>ident = ''app_sandbox'', appName = ''Sandbox Payments'',
       appDescription = ''Sandbox environment for payment workflows.'', appEnvironment = ''Sandbox'',
       appCreatedAt = ''2026-01-10T12:00:00Z'', appOwner = ''Alex Johnson''\<rparr>,
      \<lparr>ident = ''app_production'', appName = ''Production Transfers'',
       appDescription = ''Production transfer APIs with elevated limits.'', appEnvironment = ''Production'',
       appCreatedAt = ''2025-12-05T09:12:00Z'', appOwner = ''Alex Johnson''\<rparr>]"

definition app_json :: "DeveloperApp \<Rightarrow> json" where
  "app_json a =
     JObj [(''id'', JStr (ident a)), (''name'', JStr (appName a)),
           (''description'', JStr (appDescription a)), (''environment'', JStr (appEnvironment a)),
           (''createdAt'', JStr (appCreatedAt a)), (''owner'', JStr (appOwner a))]"

definition apps_get_route :: json where
  "apps_get_route = JObj [(''data'', JArr (map app_json sample_apps))]"

text \<open>\<open>{ a: ..., ...body }\<close>: the properties of the body replace those before.\<close>

definition with_body :: "json_object \<Rightarrow> json \<Rightarrow> json" where
  "with_body kvs b = JObj (fold (\<lambda>(k, v) ob. obj_put k v ob) (spread b) kvs)"

definition apps_post_route :: "js_string \<Rightarrow> js_string \<Rightarrow> json \<Rightarrow> json" where
  "apps_post_route rid now b =
     JObj [(''data'', with_body
       [(''id'', JStr (''app_'' @ rid)), (''createdAt'', JStr now), (''owner'', JStr ''Alex Johnson'')] b)]"

definition app_get_route :: "js_string \<Rightarrow> json" where
  "app_get_route i =
     JObj [(''data'', JObj
       [(''id'', JStr i), (''name'', JStr ''Sandbox Payments''),
        (''description'', JStr ''Sandbox environment for payment workflows.''),
        (''environment'', JStr ''Sandbox''), (''createdAt'', JStr ''2026-01-10T12:00:00Z''),
        (''owner'', JStr ''Alex Johnson'')])]"

record ApiKey =
  keyId :: js_string
  keyLabel :: js_string
  keyEnvironment :: js_string
  scopes :: "js_string list"
  lastUsedAt :: "js_string option"
  expiresAt :: "js_string option"
  keyStatus :: js_string
  keyPreview :: js_string

definition sample_keys :: "ApiKey list" where
  "sample_keys =
     [\<lparr>keyId = ''key_1'', keyLabel = ''Primary Sandbox'', keyEnvironment = ''Sandbox'',
       scopes = [''read'', ''write''], lastUsedAt = Some ''2026-02-08T08:12:00Z'',
       expiresAt = Some ''2026-08-01T00:00:00Z'', keyStatus = ''active'', keyPreview = ''sk_live_****91ab''\<rparr>,
      \<lparr>keyId = ''key_2'', keyLabel = ''Production Transfer'', keyEnvironment = ''Production'',
       scopes = [''read'', ''transfer''], lastUsedAt = Some ''2026-02-06T14:01:00Z'',
       expiresAt = Some ''2026-06-01T00:00:00Z'', keyStatus = ''active'', keyPreview = ''sk_live_****1d9f''\<rparr>]"

definition staging_key :: ApiKey where
  "staging_key =
     \<lparr>keyId = ''key_3'', keyLabel = ''Legacy Staging'', keyEnvironment = ''Staging'', scopes = [''read''],
      lastUsedAt = Some ''2025-12-21T09:20:00Z'', expiresAt = Some ''2025-12-31T00:00:00Z'',
      keyStatus = ''expired'', keyPreview = ''sk_live_****e41c''\<rparr>"

definition key_json :: "ApiKey \<Rightarrow> json" where
  "key_json k =
     JObj (defined_props
       [(''id'', Some (JStr (keyId k))), (''label'', Some (JStr (keyLabel k))),
        (''environment'', Some (JStr (keyEnvironment k))), (''scopes'', Some (JArr (map JStr (scopes k)))),
        (''lastUsedAt'', map_option JStr (lastUsedAt k)), (''expiresAt'', map_option JStr (expiresAt k)),
        (''status'', Some (JStr (keyStatus k))), (''keyPreview'', Some (JStr (keyPreview k)))])"

definition keys_get_route :: json where
  "keys_get_route = JObj [(''data'', JArr (map key_json (sample_keys @ [staging_key])))]"

definition keys_post_route :: "js_string \<Rightarrow> json \<Rightarrow> json" where
  "keys_post_route rid b =
     JObj [(''data'', with_body
       [(''id'', JStr (''key_'' @ rid)), (''status'', JStr ''active''),
        (''keyPreview'', JStr ''sk_live_****new''), (''lastUsedAt'', JNull)] b)]"

definition status_route :: json where
  "status_route =
     JObj [(''data'', JObj [(''status'', JStr ''operational''), (''latencyMs'', JInt 182),
                            (''uptime'', JStr ''99.98%''), (''incident'', JNull)])]"

definition logout_route :: json where
  "logout_route = JObj [(''success'', JBool True)]"

subsection \<open>The pages\<close>

definition AppCard :: "DeveloperApp \<Rightarrow> 'e node" where
  "AppCard app =
     El [Txt (appName app), Badge ''neutral'' (appEnvironment app), Txt (appDescription app),
         Link (''/apps/'' @ ident app) ''View app'']"

definition apps_view :: "'e node" where
  "apps_view =
     El [SectionHeader ''Apps'' (Some ''Manage applications, environments, and credentials.'')
           (Link ''/apps/new'' ''Create app'') None [],
         (if sample_apps = [] then
            EmptyState ''No apps yet'' ''Create your first app to generate keys and test APIs.''
              (Some ''Create app'') None
          else El (map AppCard sample_apps))]"

text \<open>The form of \<open>apps/new\<close>; the browser holds the texts of its controls.\<close>

record new_app_page =
  nameText :: js_string
  descriptionText :: js_string
  environmentText :: js_string
  creating :: bool

definition new_app_init :: new_app_page where
  "new_app_init = \<lparr>nameText = [], descriptionText = [], environmentText = ''Sandbox'', creating = False\<rparr>"

datatype new_app_ui =
    TypeAppName js_string
  | TypeAppDescription js_string
  | ChooseEnvironment js_string
  | SubmitNewApp

definition new_app_body :: "new_app_page \<Rightarrow> json" where
  "new_app_body s =
     JObj [(''name'', JStr (nameText s)), (''description'', JStr (descriptionText s)),
           (''environment'', JStr (environmentText s))]"

fun new_app_handle :: "new_app_page \<Rightarrow> new_app_ui \<Rightarrow> new_app_page \<times> json option" where
  "new_app_handle s (TypeAppName v) = (s\<lparr>nameText := v\<rparr>, None)"
| "new_app_handle s (TypeAppDescription v) = (s\<lparr>descriptionText := v\<rparr>, None)"
| "new_app_handle s (ChooseEnvironment v) = (s\<lparr>environmentText := v\<rparr>, None)"
| "new_app_handle s SubmitNewApp = (s\<lparr>creating := True\<rparr>, Some (new_app_body s))"

text \<open>The rest of \<open>handleSubmit\<close>: without a \<open>try\<close> a failed \<open>fetch\<close> ends it.\<close>

definition new_app_settled :: "fetch_outcome \<Rightarrow> new_app_page \<Rightarrow> new_app_page \<times> navigation option" where
  "new_app_settled r s =
     (case r of
        NetworkError t \<Rightarrow> (s, None)
      | Response ok bdy \<Rightarrow> (s\<lparr>creating := False\<rparr>, Some (NavPush ''/apps'')))"

definition new_app_view :: "new_app_page \<Rightarrow> new_app_ui node" where
  "new_app_view s =
     El [SectionHeader ''Create app'' (Some ''Provision a new app and generate credentials.'') nothing None [],
         Form [Txt ''App name'', Field ''name'' (nameText s) True False TypeAppName,
               Txt ''Description'', Field ''description'' (descriptionText s) False False TypeAppDescription,
               Txt ''Environment'',
               Select ''environment'' (environmentText s) False False
                 [(''Sandbox'', ''Sandbox''), (''Staging'', ''Staging''), (''Production'', ''Production'')]
                 ChooseEnvironment]
           (if creating s then ''Creating...'' else ''Create app'') (creating s) (Some SubmitNewApp)]"

text \<open>The four buttons of a row have no handler.\<close>

definition KeyTable :: "(js_string \<Rightarrow> js_string) \<Rightarrow> ApiKey list \<Rightarrow> 'e node" where
  "KeyTable locale keys =
     El [El (map Txt [''Label'', ''Environment'', ''Scopes'', ''Last used'', ''Status'', ''Actions'']),
         El (map (\<lambda>key. El
           [Txt (keyLabel key), Txt (keyPreview key), Txt (keyEnvironment key),
            El (map (Badge ''neutral'') (scopes key)),
            Txt (case lastUsedAt key of
                   None \<Rightarrow> ''Never'' | Some d \<Rightarrow> (if truthy_str d then locale d else ''Never'')),
            Badge (if keyStatus key = ''active'' then ''success''
                   else if keyStatus key = ''expired'' then ''warning'' else ''danger'') (keyStatus key),
            Btn ''copy'' False None, Btn ''refresh'' False None, Btn ''shield'' False None,
            Btn ''trash'' False None]) keys)]"

definition app_keys_view :: "(js_string \<Rightarrow> js_string) \<Rightarrow> 'e node" where
  "app_keys_view locale =
     El [SectionHeader ''API keys'' (Some ''Rotate and scope keys per environment.'')
           (Btn ''Generate key'' False None) None [],
         SecurityHint ''Copy keys once. After closing this dialog, keys are hidden permanently.'',
         KeyTable locale sample_keys]"

text \<open>The console: the button sets a constant text; the selects and fields are read by nothing.\<close>

definition console_endpoints :: "js_string list" where
  "console_endpoints = [''GET /health'', ''POST /transfer'', ''GET /accounts'']"

definition console_init :: js_string where
  "console_init = ''{''"

definition console_send :: js_string where
  "console_send =
     ''{'' @ [CHR 0x0A] @ ''  '' @ [CHR 0x22] @ ''status'' @ [CHR 0x22] @ '': 200,'' @ [CHR 0x0A]
     @ ''  '' @ [CHR 0x22] @ ''traceId'' @ [CHR 0x22] @ '': '' @ [CHR 0x22] @ ''tr_98ad2'' @ [CHR 0x22]
     @ '','' @ [CHR 0x0A] @ ''  '' @ [CHR 0x22] @ ''latencyMs'' @ [CHR 0x22] @ '': 182'' @ [CHR 0x0A] @ ''}''"

definition console_view :: "js_string \<Rightarrow> js_string node" where
  "console_view response =
     El [El [Txt ''Request builder'', Txt ''App'', El (map Txt [''Sandbox Payments'', ''Production Transfers'']),
             Txt ''Environment'', El (map Txt [''Sandbox'', ''Staging'', ''Production'']),
             Txt ''Endpoint'', El (map Txt console_endpoints), Txt ''Headers'', Txt ''Body'',
             Btn ''Send request'' False (Some console_send)],
         El [Txt ''Response viewer'', Txt ''Status'', Txt ''200 OK'', Txt ''Latency'', Txt ''182 ms'',
             Txt response, Txt ''Curl snippet ready. Save this request for reuse.'']]"

subsection \<open>Facts\<close>

lemma map_of_fold_put:
  "distinct (map fst kvs) \<Longrightarrow>
     map_of (fold (\<lambda>(k, v) ob. obj_put k v ob) kvs ob) k
     = (case map_of kvs k of Some v \<Rightarrow> Some v | None \<Rightarrow> map_of ob k)"
proof (induction kvs arbitrary: ob)
  case (Cons kv kvs)
  obtain k' v' where kv: "kv = (k', v')" by (cases kv)
  have "map_of kvs k' = None" using Cons.prems kv by (simp add: map_of_eq_None_iff)
  with Cons kv show ?case by (auto simp: map_of_obj_put split: option.split)
qed simp

lemma app_keys_inert: "dispatch d (app_keys_view locale) = []"
  by (auto simp: app_keys_view_def SectionHeader_def SecurityHint_def KeyTable_def dispatch.simps
      split: dom_event.split)

definition new_app_event :: "dom_event \<Rightarrow> new_app_page \<Rightarrow> new_app_page" where
  "new_app_event d s = fold (\<lambda>u s. fst (new_app_handle s u)) (dispatch d (new_app_view s)) s"

lemma new_app_handle_creating: "creating s \<Longrightarrow> creating (fst (new_app_handle s u))"
  by (cases u) simp_all

lemma new_app_event_creating: "creating s \<Longrightarrow> creating (new_app_event d s)"
proof -
  have "creating s \<Longrightarrow> creating (fold (\<lambda>u s. fst (new_app_handle s u)) us s)" for us
    by (induction us arbitrary: s) (simp_all add: new_app_handle_creating)
  then show "creating s \<Longrightarrow> creating (new_app_event d s)" by (simp add: new_app_event_def)
qed

lemma new_app_events_creating: "creating s \<Longrightarrow> creating (fold new_app_event ds s)"
  by (induction ds arbitrary: s) (simp_all add: new_app_event_creating)

subsection \<open>Properties\<close>

text \<open>
  If the request of the form for a new app fails, the page never recovers: whatever the user does
  afterwards, its button says that the app is being created and no submit reaches the handler.
\<close>

theorem new_app_stuck:
  "let s = fold new_app_event ds
             (fst (new_app_settled (NetworkError t) (fst (new_app_handle s0 SubmitNewApp))))
   in SubmitNewApp \<notin> set (dispatch d (new_app_view s)) \<and> ''Creating...'' \<in> set (texts (new_app_view s))"
proof -
  have "creating (fold new_app_event ds
      (fst (new_app_settled (NetworkError t) (fst (new_app_handle s0 SubmitNewApp)))))"
    by (rule new_app_events_creating) (simp add: new_app_settled_def)
  then show ?thesis by (auto simp: new_app_view_def Let_def)
qed

text \<open>
  The app that the route answers with has every property of the form as it was sent, through JSON and
  back, and the generated identifier; a body that names an \<open>id\<close>, a creation time or an owner replaces the route's own.
\<close>

theorem new_app_round_trip:
  assumes "json_ok (JObj kvs)"
  shows "\<exists>a. Option.bind (json_parse (json_stringify (JObj kvs))) (\<lambda>b. get_prop (apps_post_route rid now b) ''data'') = Some a
     \<and> (\<forall>k. get_prop a k = (case map_of kvs k of Some v \<Rightarrow> Some v
          | None \<Rightarrow> map_of [(''id'', JStr (''app_'' @ rid)), (''createdAt'', JStr now), (''owner'', JStr ''Alex Johnson'')] k))"
proof -
  let ?own = "[(''id'', JStr (''app_'' @ rid)), (''createdAt'', JStr now), (''owner'', JStr ''Alex Johnson'')]"
  let ?a = "with_body ?own (JObj kvs)"
  have "distinct (map fst kvs)" using assms by simp
  then have "get_prop ?a k = (case map_of kvs k of Some v \<Rightarrow> Some v | None \<Rightarrow> map_of ?own k)" for k
    unfolding with_body_def spread_def json.case get_prop_def by (rule map_of_fold_put)
  moreover have "get_prop (apps_post_route rid now (JObj kvs)) ''data'' = Some ?a"
    by (simp only: apps_post_route_def get_prop_def json.case map_of.simps fst_conv snd_conv fun_upd_same)
  moreover have "json_parse (json_stringify (JObj kvs)) = Some (JObj kvs)"
    using assms by (rule json_parse_stringify)
  ultimately show ?thesis by (intro exI [of _ ?a]) (simp only: Option.bind.simps simp_thms)
qed

theorem new_app_round_trip_witness:
  "\<exists>a. Option.bind (json_parse (json_stringify (new_app_body (new_app_init\<lparr>nameText := ''N''\<rparr>))))
         (\<lambda>b. get_prop (apps_post_route ''x1'' ''t'' b) ''data'') = Some a
     \<and> get_prop a ''name'' = Some (JStr ''N'') \<and> get_prop a ''id'' = Some (JStr ''app_x1'')"
proof -
  let ?kvs = "[(''name'', JStr ''N''), (''description'', JStr []), (''environment'', JStr ''Sandbox'')]"
  have "json_ok (JObj ?kvs)" by simp
  from new_app_round_trip [OF this, where rid = "''x1''" and now = "''t''"] obtain a where
    "Option.bind (json_parse (json_stringify (JObj ?kvs))) (\<lambda>b. get_prop (apps_post_route ''x1'' ''t'' b) ''data'') = Some a"
    and g: "\<forall>k. get_prop a k = (case map_of ?kvs k of Some v \<Rightarrow> Some v
          | None \<Rightarrow> map_of [(''id'', JStr (''app_'' @ ''x1'')), (''createdAt'', JStr ''t''), (''owner'', JStr ''Alex Johnson'')] k)"
    by blast
  moreover have "new_app_body (new_app_init\<lparr>nameText := ''N''\<rparr>) = JObj ?kvs"
    by (simp add: new_app_body_def new_app_init_def)
  moreover have "get_prop a ''name'' = Some (JStr ''N'')" "get_prop a ''id'' = Some (JStr ''app_x1'')"
    using g [rule_format, of "''name''"] g [rule_format, of "''id''"] by simp_all
  ultimately show ?thesis by metis
qed

end
