(* ===== verification/Portal_Routes.thy ===== *)
theory Portal_Routes
  imports Route_Guards
begin

section \<open>The routes of the two portals\<close>

text \<open>
  Next.js makes a route of every directory under \<open>app\<close> that has a \<open>page.tsx\<close>: the names of the
  directories are the segments of the path, a name in parentheses is left out, \<open>[x]\<close> stands for one
  segment, \<open>[...x]\<close> for one or more. \<open>admin_pages\<close> and \<open>dev_pages\<close> list those directories as they are in
  the repository; \<open>routed\<close> decides whether a link leads to one of them. A link that does not
  is answered by \<open>not-found.tsx\<close>.
\<close>

datatype segment = Literal js_string | AnyOne | AnySome

definition segment_of :: "js_string \<Rightarrow> segment list" where
  "segment_of dir =
     (if js_starts_with dir ''('' then []
      else if js_starts_with dir ''[...'' then [AnySome]
      else if js_starts_with dir ''['' then [AnyOne]
      else [Literal dir])"

text \<open>The parts of a path that are not empty.\<close>

definition path_parts :: "js_string \<Rightarrow> js_string list" where
  "path_parts path = filter (\<lambda>p. p \<noteq> []) (js_split (CHR ''/'') path)"

definition route_of :: "js_string \<Rightarrow> segment list" where
  "route_of dir = concat (map segment_of (path_parts dir))"

fun matches :: "segment list \<Rightarrow> js_string list \<Rightarrow> bool" where
  "matches [] ps = (ps = [])"
| "matches (Literal s # r) ps = (case ps of [] \<Rightarrow> False | p # ps' \<Rightarrow> p = s \<and> matches r ps')"
| "matches (AnyOne # r) ps = (case ps of [] \<Rightarrow> False | p # ps' \<Rightarrow> matches r ps')"
| "matches (AnySome # r) ps = (ps \<noteq> [])"

definition routed :: "js_string list \<Rightarrow> js_string \<Rightarrow> bool" where
  "routed dirs path = list_ex (\<lambda>dir. matches (route_of dir) (path_parts path)) dirs"

definition admin_pages :: "js_string list" where
  "admin_pages =
     [[],
      ''(auth)/forgot-password'',
      ''(auth)/login'',
      ''(auth)/register'',
      ''(auth)/reset-password'',
      ''(protected)/admin/alerts'',
      ''(protected)/admin/announcements'',
      ''(protected)/admin/bulk'',
      ''(protected)/admin/client-permissions'',
      ''(protected)/admin/clients'',
      ''(protected)/admin/endpoints'',
      ''(protected)/admin/endpoints/[id]'',
      ''(protected)/admin/endpoints/[id]/destinations'',
      ''(protected)/admin/groups'',
      ''(protected)/admin/keys'',
      ''(protected)/admin/keys/[id]'',
      ''(protected)/admin/maintenance'',
      ''(protected)/admin/metrics'',
      ''(protected)/admin/products'',
      ''(protected)/admin/products/[id]'',
      ''(protected)/admin/roles'',
      ''(protected)/admin/roles/[id]'',
      ''(protected)/admin/scim'',
      ''(protected)/admin/services'',
      ''(protected)/admin/services/[id]'',
      ''(protected)/admin/specs'',
      ''(protected)/admin/sso'',
      ''(protected)/admin/tenants'',
      ''(protected)/admin/traces'',
      ''(protected)/admin/user-profiles'',
      ''(protected)/admin/users'',
      ''(protected)/admin/users/[id]'',
      ''(protected)/admin/users/new'',
      ''(protected)/apps'',
      ''(protected)/apps/[appId]'',
      ''(protected)/apps/[appId]/keys'',
      ''(protected)/apps/[appId]/settings'',
      ''(protected)/apps/new'',
      ''(protected)/audit-logs'',
      ''(protected)/billing'',
      ''(protected)/console'',
      ''(protected)/dashboard'',
      ''(protected)/docs'',
      ''(protected)/docs/[...slug]'',
      ''(protected)/profile'',
      ''(protected)/settings'',
      ''(protected)/status'',
      ''(protected)/support'']"

definition dev_pages :: "js_string list" where
  "dev_pages =
     [[],
      ''(auth)/forgot-password'',
      ''(auth)/login'',
      ''(auth)/register'',
      ''(auth)/reset-password'',
      ''(protected)/apis'',
      ''(protected)/apps'',
      ''(protected)/apps/[appId]'',
      ''(protected)/apps/[appId]/keys'',
      ''(protected)/apps/[appId]/settings'',
      ''(protected)/apps/new'',
      ''(protected)/billing'',
      ''(protected)/clients'',
      ''(protected)/console'',
      ''(protected)/dashboard'',
      ''(protected)/docs'',
      ''(protected)/docs/[...slug]'',
      ''(protected)/endpoint-requests'',
      ''(protected)/ip-restrictions'',
      ''(protected)/profile'',
      ''(protected)/status'',
      ''(protected)/support'']"

subsection \<open>Links to one entity\<close>

text \<open>An identifier that stays one segment of a path.\<close>

definition one_segment :: "js_string \<Rightarrow> bool" where
  "one_segment i \<longleftrightarrow> i \<noteq> [] \<and> (\<forall>c \<in> set i. c \<notin> {CHR ''/'', CHR ''?'', CHR ''#''})"

lemma js_split_append:
  "js_split d (a @ d # b) = js_split d a @ js_split d b"
  by (induction a) (auto simp: neq_Nil_conv split: list.splits)

lemma path_parts_append: "path_parts (a @ CHR ''/'' # b) = path_parts a @ path_parts b"
  by (simp add: path_parts_def js_split_append)

lemma path_parts_one: "one_segment i \<Longrightarrow> path_parts i = [i]"
proof -
  assume "one_segment i"
  then have "i \<noteq> []" and "CHR ''/'' \<notin> set i" by (auto simp only: one_segment_def insert_iff)
  then show ?thesis by (simp add: path_parts_def js_split_no_sep)
qed

text \<open>A link into a directory \<open>a/[x]\<close> that has a page leads to it.\<close>

lemma routed_entity:
  "dir \<in> set dirs \<Longrightarrow> matches (route_of dir) (path_parts a @ [i]) \<Longrightarrow> one_segment i \<Longrightarrow>
     routed dirs (a @ CHR ''/'' # i)"
  by (auto simp: routed_def list_ex_iff path_parts_append path_parts_one)

definition entity_directories :: "(js_string \<times> js_string) list" where
  "entity_directories =
     [(''(protected)/admin/products/[id]'', ''/admin/products''),
      (''(protected)/admin/services/[id]'', ''/admin/services''),
      (''(protected)/admin/endpoints/[id]'', ''/admin/endpoints''),
      (''(protected)/admin/users/[id]'', ''/admin/users''),
      (''(protected)/admin/roles/[id]'', ''/admin/roles''),
      (''(protected)/admin/keys/[id]'', ''/admin/keys'')]"

lemma entity_directories_routes:
  "list_all (\<lambda>(dir, a). dir \<in> set admin_pages \<and> route_of dir = map Literal (path_parts a) @ [AnyOne])
     entity_directories"
  by code_simp

lemma matches_literals: "matches (map Literal ps @ [AnyOne]) (ps @ [i])"
  by (induction ps) simp_all

lemma routed_admin_entity:
  "one_segment i \<Longrightarrow> a \<in> snd ` set entity_directories \<Longrightarrow> routed admin_pages (a @ CHR ''/'' # i)"
  using entity_directories_routes matches_literals
  by (fastforce simp: list_all_iff intro: routed_entity)

end
