(* ===== verification/Static_Widgets.thy ===== *)
theory Static_Widgets
  imports Route_Guards
begin

section \<open>Pages over constant data: their building blocks\<close>

text \<open>
  Many pages of both portals render constant sample data, gated by the permissions of the user, and
  keep no state. Here are the parts they are made of: cards (\<open>components/ui/card.tsx\<close>), labelled
  inputs, boxes, tables. Their inputs are uncontrolled and, in the sources, their buttons have no
  handler (\<open>idle\<close>); the events of such a page are those of its back button and of its tabs, where it has
  them. Characters of the fixed texts that are outside Latin-1 are written in ASCII (an arrow as \<open>->\<close>).
\<close>

datatype static_ui = PressBack | ShowTab js_string

text \<open>\<open>a \<cdot> b\<close> with the middle dot.\<close>

definition dotted :: "js_string list \<Rightarrow> js_string" where
  "dotted parts = js_join [CHR '' '', CHR 0xB7, CHR '' ''] parts"

definition card :: "js_string \<Rightarrow> 'e node list \<Rightarrow> 'e node" where
  "card title content = El (Txt title # content)"

definition labelled :: "js_string \<Rightarrow> js_string \<Rightarrow> js_string \<Rightarrow> 'e node" where
  "labelled lbl i v = El [Txt lbl, Uncontrolled i v []]"

definition choice :: "js_string \<Rightarrow> js_string list \<Rightarrow> 'e node" where
  "choice i opts = Uncontrolled i (case opts of [] \<Rightarrow> [] | o1 # _ \<Rightarrow> o1) opts"

definition fact :: "js_string \<Rightarrow> js_string \<Rightarrow> 'e node" where
  "fact lbl v = El [Txt lbl, Txt v]"

definition boxes :: "js_string list \<Rightarrow> 'e node list" where
  "boxes ts = map Txt ts"

definition plain_table :: "js_string list \<Rightarrow> 'e node list list \<Rightarrow> 'e node" where
  "plain_table heads rows = El [El (map Txt heads), El (map El rows)]"

definition idle :: "js_string \<Rightarrow> 'e node" where
  "idle lbl = Btn lbl False None"

text \<open>\<open>PermissionGate permission="p"\<close> without a fallback.\<close>

definition gated :: "auth_user option \<Rightarrow> js_string \<Rightarrow> 'e node \<Rightarrow> 'e node" where
  "gated usr p n = PermissionGate usr (Some p) None nothing n"

definition header :: "js_string \<Rightarrow> js_string \<Rightarrow> 'e node \<Rightarrow> 'e node" where
  "header title descr action = SectionHeader title (Some descr) action None ''Back''"

definition header_back ::
  "js_string \<Rightarrow> js_string \<Rightarrow> 'e node \<Rightarrow> js_string \<Rightarrow> 'e \<Rightarrow> js_string \<Rightarrow> 'e node" where
  "header_back title descr action href goBack lbl =
     SectionHeader title (Some descr) action (Some (href, goBack)) lbl"

text \<open>\<open>value ? new Date(value).toLocaleString() : "Never"\<close>.\<close>

definition date_or_never :: "(js_string \<Rightarrow> js_string) \<Rightarrow> js_string option \<Rightarrow> js_string" where
  "date_or_never fmt t =
     (case t of None \<Rightarrow> ''Never'' | Some d \<Rightarrow> (if truthy_str d then fmt d else ''Never''))"

subsection \<open>Events\<close>

lemma fires_parts [simp]:
  "x \<in> set (dispatch d (card t ns)) \<longleftrightarrow> (\<exists>n \<in> set ns. x \<in> set (dispatch d n))"
  "x \<in> set (dispatch d (labelled l i v)) \<longleftrightarrow> False"
  "x \<in> set (dispatch d (choice i opts)) \<longleftrightarrow> False"
  "x \<in> set (dispatch d (fact l v)) \<longleftrightarrow> False"
  "n \<in> set (boxes ts) \<Longrightarrow> dispatch d n = []"
  "x \<in> set (dispatch d (plain_table heads rows)) \<longleftrightarrow>
     (\<exists>r \<in> set rows. \<exists>n \<in> set r. x \<in> set (dispatch d n))"
  "x \<in> set (dispatch d (idle l)) \<longleftrightarrow> False"
  "x \<in> set (dispatch d (gated usr p n)) \<longleftrightarrow> permitted usr p \<and> x \<in> set (dispatch d n)"
  "x \<in> set (dispatch d (header t descr a)) \<longleftrightarrow> x \<in> set (dispatch d a)"
  "x \<in> set (dispatch d (header_back t descr a href e l)) \<longleftrightarrow>
     x = e \<and> href \<noteq> [] \<and> d = Click l \<or> x \<in> set (dispatch d a)"
  by (auto simp: card_def labelled_def choice_def fact_def boxes_def plain_table_def idle_def
      gated_def header_def header_back_def)

end
