(* ===== verification/Admin_Records.thy ===== *)
theory Admin_Records
  imports Prelude
begin

section \<open>The data types of the administration pages\<close>

text \<open>
  \<open>types/admin.ts\<close>: a record per object type, a datatype per union of string literals, with the text
  each value stands for. The sample data of the pages are values of these types. \<open>Product\<close>,
  \<open>Service\<close>, \<open>Endpoint\<close>, \<open>Destination\<close> and \<open>ChangeEvent\<close> are declared by the code but used by none of
  its pages, which work with the types of \<open>types/management.ts\<close>.
\<close>

datatype IdentityProvider = Google | Github | AzureAd | AppleId | Okta | SamlIdp

primrec provider_text :: "IdentityProvider \<Rightarrow> js_string" where
  "provider_text Google = ''google''"
| "provider_text Github = ''github''"
| "provider_text AzureAd = ''azure-ad''"
| "provider_text AppleId = ''apple''"
| "provider_text Okta = ''okta''"
| "provider_text SamlIdp = ''saml''"

datatype admin_role = AdminRole | OwnerRole | AuditorRole

primrec role_text :: "admin_role \<Rightarrow> js_string" where
  "role_text AdminRole = ''admin''"
| "role_text OwnerRole = ''owner''"
| "role_text AuditorRole = ''auditor''"

datatype account_status = AccountActive | AccountDisabled

primrec account_text :: "account_status \<Rightarrow> js_string" where
  "account_text AccountActive = ''active''"
| "account_text AccountDisabled = ''disabled''"

record AdminUser =
  ident :: js_string
  name :: js_string
  email :: js_string
  role :: admin_role
  status :: account_status
  lastLoginAt :: "js_string option"
  mfaEnabled :: bool
  providers :: "IdentityProvider list option"
  groupsCount :: "nat option"

record Group =
  ident :: js_string
  name :: js_string
  members :: nat
  mappedRoles :: "js_string list"

datatype sso_status = SsoEnabled | SsoDisabled

primrec sso_text :: "sso_status \<Rightarrow> js_string" where
  "sso_text SsoEnabled = ''enabled''"
| "sso_text SsoDisabled = ''disabled''"

datatype sso_protocol = Oidc | Saml

primrec protocol_text :: "sso_protocol \<Rightarrow> js_string" where
  "protocol_text Oidc = ''oidc''"
| "protocol_text Saml = ''saml''"

record SsoProviderConfig =
  ident :: js_string
  name :: js_string
  status :: sso_status
  domains :: "js_string list"
  protocol :: sso_protocol
  lastSyncedAt :: "js_string option"

datatype token_status = TokenActive | TokenRevoked

primrec token_text :: "token_status \<Rightarrow> js_string" where
  "token_text TokenActive = ''active''"
| "token_text TokenRevoked = ''revoked''"

record ScimToken =
  ident :: js_string
  label :: js_string
  status :: token_status
  lastUsedAt :: "js_string option"
  createdAt :: js_string

record Role =
  ident :: js_string
  name :: js_string
  description :: js_string
  permissions :: "js_string list"

datatype entity_status = EntityActive | EntityInactive | EntityDeprecated

record Product =
  ident :: js_string
  name :: js_string
  description :: js_string
  ownerTeam :: js_string
  status :: entity_status
  servicesCount :: nat

datatype deployment = Dev | Uat | Staging | Prod

record Service =
  ident :: js_string
  name :: js_string
  product :: js_string
  basePath :: js_string
  version :: js_string
  status :: entity_status
  environment :: deployment

datatype endpoint_auth = ApiKeyAuth | JwtAuth | MtlsAuth

datatype encryption_mode = PassThrough | DecryptForward | EncryptOutbound

record Endpoint =
  ident :: js_string
  name :: js_string
  "method" :: js_string
  route :: js_string
  version :: js_string
  status :: entity_status
  auth :: endpoint_auth
  encryptionMode :: encryption_mode
  timeoutMs :: int
  retries :: int
  rateLimit :: js_string

record Destination =
  ident :: js_string
  url :: js_string
  environment :: deployment
  weight :: int
  priority :: int
  healthCheckUrl :: "js_string option"
  isActive :: bool
  region :: "js_string option"

datatype key_status = KeyActive | KeyRevoked | KeyRotated

primrec key_text :: "key_status \<Rightarrow> js_string" where
  "key_text KeyActive = ''active''"
| "key_text KeyRevoked = ''revoked''"
| "key_text KeyRotated = ''rotated''"

record ApiKey =
  ident :: js_string
  owner :: js_string
  status :: key_status
  createdAt :: js_string
  lastUsedAt :: "js_string option"
  scopes :: "js_string list"
  maskedKey :: js_string

text \<open>\<open>Record<string, string>\<close>, in the order in which the properties were made.\<close>

record AuditEvent =
  ident :: js_string
  actor :: js_string
  action :: js_string
  resource :: js_string
  createdAt :: js_string
  metadata :: "(js_string \<times> js_string) list"

record ChangeEvent =
  ident :: js_string
  summary :: js_string
  author :: js_string
  createdAt :: js_string

end
