(* ===== verification/Admin_Static_Pages.thy ===== *)
theory Admin_Static_Pages
  imports Static_Widgets Admin_Records
begin

section \<open>The administration pages over constant data\<close>

text \<open>
  The pages of \<open>app/(protected)\<close> of the admin portal that show constant sample data: users, roles,
  groups, single sign-on, SCIM, keys, tenants and audit logs, each with its sample data as values of
  \<open>types/admin.ts\<close>. A page is a function of the signed-in user, whom its gates ask, and of
  \<open>fmt\<close>, which stands for \<open>new Date(x).toLocaleString()\<close>. The page of one user has a state, the tab
  it shows.
\<close>

subsection \<open>Users\<close>

definition users_sample :: "AdminUser list" where
  "users_sample =
     [\<lparr>AdminUser.ident = ''user_1'', AdminUser.name = ''Alex Johnson'', email = ''alex@gapeiro.dev'', role = AdminRole,
       AdminUser.status = AccountActive, lastLoginAt = Some ''2026-02-08T08:00:00Z'', mfaEnabled = True,
       providers = Some [AzureAd, Google], groupsCount = Some 3\<rparr>,
      \<lparr>AdminUser.ident = ''user_2'', AdminUser.name = ''Lina Chen'', email = ''lina@gapeiro.dev'', role = OwnerRole,
       AdminUser.status = AccountActive, lastLoginAt = Some ''2026-02-07T18:20:00Z'', mfaEnabled = True,
       providers = Some [AzureAd], groupsCount = Some 2\<rparr>,
      \<lparr>AdminUser.ident = ''user_3'', AdminUser.name = ''Sam Rivera'', email = ''sam@gapeiro.dev'', role = AuditorRole,
       AdminUser.status = AccountDisabled, lastLoginAt = Some ''2026-01-30T11:45:00Z'', mfaEnabled = False,
       providers = Some [Github], groupsCount = Some 1\<rparr>]"

text \<open>\<open>provider.replace("-", " ")\<close> replaces the first hyphen only.\<close>

fun replace_hyphen :: "js_string \<Rightarrow> js_string" where
  "replace_hyphen [] = []"
| "replace_hyphen (c # cs) = (if c = CHR ''-'' then CHR '' '' # cs else c # replace_hyphen cs)"

definition user_providers :: "AdminUser \<Rightarrow> static_ui node" where
  "user_providers u =
     (let ps = (case providers u of None \<Rightarrow> [] | Some xs \<Rightarrow> xs)
      in El (map (\<lambda>p. Badge ''neutral'' (replace_hyphen (provider_text p))) ps
             @ [if length ps = 0 then Txt ''Email'' else nothing]))"

definition user_row :: "(js_string \<Rightarrow> js_string) \<Rightarrow> AdminUser \<Rightarrow> static_ui node list" where
  "user_row fmt u =
     [El [Txt (AdminUser.name u), Txt (email u)],
      Txt (role_text (role u)),
      user_providers u,
      Badge ''info'' (nat_dec (case groupsCount u of None \<Rightarrow> 0 | Some n \<Rightarrow> n) @ '' groups''),
      Badge (if mfaEnabled u then ''success'' else ''warning'') (if mfaEnabled u then ''Enabled'' else ''Optional''),
      Badge (if account_text (AdminUser.status u) = ''active'' then ''success'' else ''warning'')
        (account_text (AdminUser.status u)),
      Txt (date_or_never fmt (lastLoginAt u)),
      Link (''/admin/users/'' @ AdminUser.ident u) ''Manage'']"

definition users_view :: "auth_user option \<Rightarrow> (js_string \<Rightarrow> js_string) \<Rightarrow> static_ui node" where
  "users_view usr fmt =
     El [header ''Users'' ''Manage admin users, access, and enforcement policies.''
           (gated usr ''user.manage'' (Link ''/admin/users/new'' ''Invite user'')),
         El [Uncontrolled [] [] [],
             choice [] [''Role: All'', ''Admin'', ''Owner'', ''Auditor''],
             choice [] [''Status: All'', ''Active'', ''Disabled''],
             idle ''Apply''],
         plain_table [''User'', ''Role'', ''Providers'', ''Groups'', ''MFA'', ''Status'', ''Last login'', ''Actions'']
           (map (user_row fmt) users_sample)]"

definition invite_user_view :: "static_ui node" where
  "invite_user_view =
     El [header_back ''Invite admin user'' ''Add a new admin with role-based access.'' nothing
           ''/admin/users'' PressBack ''Back to users'',
         card ''User details''
           [labelled ''Full name'' ''name'' [], labelled ''Email'' ''email'' [],
            El [Txt ''Role'', choice ''role'' [''Admin'', ''Owner'', ''Auditor'']],
            idle ''Send invite'']]"

subsection \<open>The page of one user\<close>

definition user_tabs :: "js_string list" where
  "user_tabs = [''Profile'', ''Roles & Permissions'', ''API Keys'', ''Activity'']"

type_synonym user_detail = js_string

definition user_detail_init :: user_detail where
  "user_detail_init = ''Profile''"

fun user_detail_handle :: "user_detail \<Rightarrow> static_ui \<Rightarrow> user_detail" where
  "user_detail_handle activeTab (ShowTab tab) = tab"
| "user_detail_handle activeTab PressBack = activeTab"

definition profile_tab :: "static_ui node" where
  "profile_tab =
     card ''Profile''
       [fact ''Name'' ''Alex Johnson'', fact ''Email'' ''alex@gapeiro.dev'',
        El [Txt ''Status'', Badge ''success'' ''Active''],
        fact ''Last login'' ''Feb 8, 2026 8:00 AM'']"

definition roles_tab :: "auth_user option \<Rightarrow> static_ui node" where
  "roles_tab usr =
     card ''Roles & permissions''
       [El [Badge ''info'' ''Admin'', Badge ''neutral'' ''gateway.config.write'',
            Badge ''neutral'' ''endpoint.manage'', Badge ''neutral'' ''audit.read''],
        gated usr ''role.manage'' (idle ''Edit roles'')]"

definition keys_tab :: "static_ui node" where
  "keys_tab =
     card ''API keys summary''
       [El [Txt ''Key: admin-core-01'', Txt (dotted [''Created Feb 1, 2026'', ''Last used 2h ago'']),
            Badge ''success'' ''Active''],
        Link ''/admin/keys'' ''View all keys'']"

definition activity_tab :: "static_ui node" where
  "activity_tab =
     card ''Recent activity''
       (boxes [dotted [''Published endpoint policy update'', ''Feb 8, 2026 07:40 AM''],
               dotted [''Reviewed gateway settings draft'', ''Feb 7, 2026 05:10 PM'']])"

definition user_detail_view :: "auth_user option \<Rightarrow> user_detail \<Rightarrow> static_ui node" where
  "user_detail_view usr activeTab =
     El [header_back ''User detail'' ''Review access, roles, and activity for this admin user.''
           (El [gated usr ''user.manage'' (idle ''Force logout''),
                gated usr ''user.manage'' (idle ''Reset password'')])
           ''/admin/users'' PressBack ''Back'',
         El (map (\<lambda>tab. Btn tab False (Some (ShowTab tab))) user_tabs),
         when_node (activeTab = ''Profile'') profile_tab,
         when_node (activeTab = ''Roles & Permissions'') (roles_tab usr),
         when_node (activeTab = ''API Keys'') keys_tab,
         when_node (activeTab = ''Activity'') activity_tab]"

subsection \<open>Roles and groups\<close>

definition roles_sample :: "Role list" where
  "roles_sample =
     [\<lparr>Role.ident = ''role_admin'', Role.name = ''Admin'', Role.description = ''Full control over gateway configuration.'',
       permissions = [''gateway.config.write'', ''endpoint.manage'', ''audit.read'']\<rparr>,
      \<lparr>Role.ident = ''role_owner'', Role.name = ''Owner'',
       Role.description = ''All permissions including tenant and bulk operations.'',
       permissions = [''tenant.manage'', ''bulk.manage'', ''alerts.manage'']\<rparr>,
      \<lparr>Role.ident = ''role_auditor'', Role.name = ''Auditor'',
       Role.description = ''Read-only access to configuration and audit trails.'',
       permissions = [''gateway.config.read'', ''audit.read'', ''observability.read'']\<rparr>]"

definition role_row :: "Role \<Rightarrow> static_ui node list" where
  "role_row r =
     [Txt (Role.name r), Txt (Role.description r),
      Badge ''info'' (nat_dec (length (permissions r)) @ '' permissions''),
      Link (''/admin/roles/'' @ Role.ident r) ''View'']"

definition roles_view :: "auth_user option \<Rightarrow> static_ui node" where
  "roles_view usr =
     El [header ''Roles & permissions'' ''Define RBAC policies and governance scopes.''
           (gated usr ''role.manage'' (idle ''Create role'')),
         plain_table [''Role'', ''Description'', ''Permissions'', ''Actions''] (map role_row roles_sample)]"

definition role_detail_permissions :: "js_string list" where
  "role_detail_permissions =
     [''gateway.config.read'', ''gateway.config.write'', ''endpoint.manage'', ''destination.manage'',
      ''audit.read'', ''observability.read'']"

definition role_detail_view :: "auth_user option \<Rightarrow> static_ui node" where
  "role_detail_view usr =
     El [header_back ''Role detail'' ''Configure access policies and approval scopes.''
           (gated usr ''role.manage'' (idle ''Edit role'')) ''/admin/roles'' PressBack ''Back'',
         card ''Admin''
           [Txt ''Full control over gateway configuration and policies.'',
            El (map (Badge ''neutral'') role_detail_permissions)]]"

definition groups_sample :: "Group list" where
  "groups_sample =
     [\<lparr>Group.ident = ''group_platform_ops'', Group.name = ''Platform Ops'', members = 6, mappedRoles = [''Admin'', ''Owner'']\<rparr>,
      \<lparr>Group.ident = ''group_security'', Group.name = ''Security'', members = 4, mappedRoles = [''Auditor'']\<rparr>,
      \<lparr>Group.ident = ''group_support'', Group.name = ''Support'', members = 8, mappedRoles = [''Admin'']\<rparr>]"

definition group_row :: "Group \<Rightarrow> static_ui node list" where
  "group_row g =
     [Txt (Group.name g), Badge ''info'' (nat_dec (members g) @ '' members''),
      El (map (Badge ''neutral'') (mappedRoles g)), idle ''Manage'']"

definition groups_view :: "auth_user option \<Rightarrow> static_ui node" where
  "groups_view usr =
     El [header ''Groups'' ''Map identity provider groups to gateway roles and permissions.''
           (gated usr ''group.manage'' (idle ''Create group'')),
         plain_table [''Group'', ''Members'', ''Mapped roles'', ''Actions''] (map group_row groups_sample)]"

subsection \<open>Single sign-on and provisioning\<close>

definition sso_sample :: "SsoProviderConfig list" where
  "sso_sample =
     [\<lparr>SsoProviderConfig.ident = ''sso_azure'', SsoProviderConfig.name = ''Azure AD'', SsoProviderConfig.status = SsoEnabled, domains = [''gapeiro.dev''],
       protocol = Oidc, lastSyncedAt = Some ''2026-02-10T08:40:00Z''\<rparr>,
      \<lparr>SsoProviderConfig.ident = ''sso_okta'', SsoProviderConfig.name = ''Okta'', SsoProviderConfig.status = SsoDisabled, domains = [''partner.dev''],
       protocol = Saml, lastSyncedAt = None\<rparr>,
      \<lparr>SsoProviderConfig.ident = ''sso_google'', SsoProviderConfig.name = ''Google Workspace'', SsoProviderConfig.status = SsoDisabled, domains = [],
       protocol = Oidc, lastSyncedAt = None\<rparr>]"

definition sso_row :: "(js_string \<Rightarrow> js_string) \<Rightarrow> SsoProviderConfig \<Rightarrow> static_ui node list" where
  "sso_row fmt p =
     [Txt (SsoProviderConfig.name p), Txt (protocol_text (protocol p)),
      Txt (if domains p \<noteq> [] then js_join '', '' (domains p) else ''Not set''),
      Badge (if sso_text (SsoProviderConfig.status p) = ''enabled'' then ''success'' else ''warning'')
        (sso_text (SsoProviderConfig.status p)),
      Txt (date_or_never fmt (lastSyncedAt p)),
      idle ''Manage'']"

definition policy_card :: "js_string \<Rightarrow> js_string \<Rightarrow> js_string \<Rightarrow> js_string \<Rightarrow> static_ui node" where
  "policy_card topic title descr lbl = El [Txt topic, Txt title, Txt descr, idle lbl]"

definition sso_view :: "auth_user option \<Rightarrow> (js_string \<Rightarrow> js_string) \<Rightarrow> static_ui node" where
  "sso_view usr fmt =
     El [header ''SSO settings'' ''Configure enterprise identity providers, domains, and enforcement rules.''
           (gated usr ''sso.manage'' (idle ''Configure provider'')),
         El [policy_card ''Policy'' ''Enforce SSO for admins'' ''Require SSO for all privileged accounts.''
               ''Manage policy'',
             policy_card ''MFA'' ''Conditional access'' ''Enforce MFA and device policies via IdP.''
               ''Review requirements'',
             policy_card ''Domains'' ''Allowed domains'' ''Restrict access to corporate email domains.''
               ''Edit domains''],
         plain_table [''Provider'', ''Protocol'', ''Domains'', ''Status'', ''Last sync'', ''Actions'']
           (map (sso_row fmt) sso_sample)]"

definition scim_sample :: "ScimToken list" where
  "scim_sample =
     [\<lparr>ScimToken.ident = ''scim_1'', label = ''Okta production'', ScimToken.status = TokenActive,
       ScimToken.lastUsedAt = Some ''2026-02-10T09:10:00Z'', ScimToken.createdAt = ''2026-01-15T08:00:00Z''\<rparr>,
      \<lparr>ScimToken.ident = ''scim_2'', label = ''Azure AD staging'', ScimToken.status = TokenRevoked,
       ScimToken.lastUsedAt = Some ''2026-01-20T12:30:00Z'', ScimToken.createdAt = ''2026-01-10T08:00:00Z''\<rparr>]"

definition scim_row :: "(js_string \<Rightarrow> js_string) \<Rightarrow> ScimToken \<Rightarrow> static_ui node list" where
  "scim_row fmt t =
     [Txt (label t),
      Badge (if token_text (ScimToken.status t) = ''active'' then ''success'' else ''warning'')
        (token_text (ScimToken.status t)),
      Txt (date_or_never fmt (ScimToken.lastUsedAt t)), Txt (fmt (ScimToken.createdAt t)),
      idle ''Rotate'']"

definition scim_view :: "auth_user option \<Rightarrow> (js_string \<Rightarrow> js_string) \<Rightarrow> static_ui node" where
  "scim_view usr fmt =
     El [header ''SCIM provisioning'' ''Automate user lifecycle management from your identity provider.''
           (gated usr ''scim.manage'' (idle ''Create token'')),
         El [policy_card ''Endpoint'' ''/scim/v2/Users'' ''Use this URL in your IdP SCIM app.'' ''Copy endpoint'',
             policy_card ''Status'' ''Provisioning enabled'' ''Users and groups sync every 15 minutes.''
               ''View sync logs''],
         plain_table [''Token'', ''Status'', ''Last used'', ''Created'', ''Actions''] (map (scim_row fmt) scim_sample)]"

subsection \<open>Keys\<close>

definition keys_sample :: "ApiKey list" where
  "keys_sample =
     [\<lparr>ApiKey.ident = ''key_1'', owner = ''PayHub Admin'', ApiKey.status = KeyActive, ApiKey.createdAt = ''2026-02-01T08:00:00Z'',
       ApiKey.lastUsedAt = Some ''2026-02-08T09:15:00Z'', scopes = [''gateway.config.write'', ''endpoint.manage''],
       maskedKey = ''rk_live_****_9c2a''\<rparr>,
      \<lparr>ApiKey.ident = ''key_2'', owner = ''Audit Bot'', ApiKey.status = KeyRotated, ApiKey.createdAt = ''2025-12-20T12:00:00Z'',
       ApiKey.lastUsedAt = Some ''2026-02-05T04:10:00Z'', scopes = [''audit.read''],
       maskedKey = ''rk_live_****_7f1b''\<rparr>]"

text \<open>Their \<open>ConfirmDialog\<close> has no \<open>onConfirm\<close>.\<close>

definition confirm_key :: "js_string \<Rightarrow> js_string \<Rightarrow> js_string \<Rightarrow> static_ui node" where
  "confirm_key title descr lbl = ConfirmDialog title (Some descr) lbl lbl None"

definition reveal_dialog :: "static_ui node" where
  "reveal_dialog =
     confirm_key ''Reveal key?'' ''Revealing a secret is audited and visible to security admins.'' ''Reveal''"

definition rotate_dialog :: "static_ui node" where
  "rotate_dialog = confirm_key ''Rotate key?'' ''This will invalidate the current secret after rotation.'' ''Rotate''"

definition key_row :: "auth_user option \<Rightarrow> (js_string \<Rightarrow> js_string) \<Rightarrow> ApiKey \<Rightarrow> static_ui node list" where
  "key_row usr fmt k =
     [Txt (owner k), Txt (maskedKey k), Txt (js_join '', '' (scopes k)),
      Badge (if key_text (ApiKey.status k) = ''active'' then ''success''
             else if key_text (ApiKey.status k) = ''rotated'' then ''warning'' else ''danger'')
        (key_text (ApiKey.status k)),
      Txt (date_or_never fmt (ApiKey.lastUsedAt k)),
      El [Link (''/admin/keys/'' @ ApiKey.ident k) ''View'',
          gated usr ''key.reveal'' reveal_dialog,
          gated usr ''key.rotate'' rotate_dialog]]"

definition keys_view :: "auth_user option \<Rightarrow> (js_string \<Rightarrow> js_string) \<Rightarrow> static_ui node" where
  "keys_view usr fmt =
     El [header ''API keys'' ''Manage admin API keys and sensitive secrets.'' nothing,
         plain_table [''Owner'', ''Key'', ''Scopes'', ''Status'', ''Last used'', ''Actions'']
           (map (key_row usr fmt) keys_sample)]"

definition key_detail_view :: "auth_user option \<Rightarrow> static_ui node" where
  "key_detail_view usr =
     El [header_back ''Key detail'' ''Sensitive key metadata and access control.'' nothing
           ''/admin/keys'' PressBack ''Back'',
         card ''Key metadata''
           [fact ''Owner'' ''PayHub Admin'', fact ''App'' ''payhub-control-plane'',
            El [Txt ''Status'', Badge ''success'' ''Active''],
            fact ''Created'' ''Feb 1, 2026'', fact ''Last used'' ''Feb 8, 2026'',
            fact ''Scopes'' ''gateway.config.write, endpoint.manage''],
         El [gated usr ''key.reveal'' reveal_dialog,
             gated usr ''key.rotate'' rotate_dialog,
             gated usr ''key.revoke''
               (confirm_key ''Revoke key?'' ''The key will be disabled immediately.'' ''Revoke'')]]"

subsection \<open>Tenants and audit logs\<close>

definition tenants_sample :: "(js_string \<times> js_string \<times> js_string \<times> js_string) list" where
  "tenants_sample =
     [(''tenant_1'', ''Gapeiro Fintech'', ''prod'', ''active''),
      (''tenant_2'', ''SeaBaas Sandbox'', ''staging'', ''active''),
      (''tenant_3'', ''Legacy Banking'', ''uat'', ''inactive'')]"

definition tenants_view :: "auth_user option \<Rightarrow> static_ui node" where
  "tenants_view usr =
     El [header ''Tenants'' ''Manage organizations, quotas, and environment scopes.''
           (gated usr ''tenant.manage'' (idle ''Create tenant'')),
         plain_table [''Tenant'', ''Environment'', ''Status'']
           (map (\<lambda>(i, nm, env, st).
                   [Txt nm, Badge (if env = ''prod'' then ''danger'' else ''info'') env,
                    Badge (if st = ''active'' then ''success'' else ''warning'') st]) tenants_sample)]"

definition audit_sample :: "AuditEvent list" where
  "audit_sample =
     [\<lparr>AuditEvent.ident = ''audit_1'', actor = ''A. Johnson'', action = ''UPDATE'', resource = ''Gateway Settings'',
       AuditEvent.createdAt = ''2026-02-08T08:12:00Z'', metadata = [(''environment'', ''prod''), (''changeId'', ''cfg_342'')]\<rparr>,
      \<lparr>AuditEvent.ident = ''audit_2'', actor = ''L. Chen'', action = ''PUBLISH'', resource = ''Endpoint Policies'',
       AuditEvent.createdAt = ''2026-02-08T07:48:00Z'', metadata = [(''endpoint'', ''payhub/v2/transfers'')]\<rparr>,
      \<lparr>AuditEvent.ident = ''audit_3'', actor = ''S. Rivera'', action = ''DISABLE'', resource = ''Destination'',
       AuditEvent.createdAt = ''2026-02-08T07:15:00Z'', metadata = [(''destination'', ''https://staging.payhub'')]\<rparr>]"

definition audit_row :: "(js_string \<Rightarrow> js_string) \<Rightarrow> AuditEvent \<Rightarrow> static_ui node list" where
  "audit_row fmt ev =
     [Txt (actor ev), Badge (if action ev = ''PUBLISH'' then ''success'' else ''info'') (action ev),
      Txt (resource ev), Txt (fmt (AuditEvent.createdAt ev)),
      Txt (dotted (map (\<lambda>(k, v). k @ '': '' @ v) (metadata ev)))]"

definition audit_logs_view :: "(js_string \<Rightarrow> js_string) \<Rightarrow> static_ui node" where
  "audit_logs_view fmt =
     El [header ''Audit logs'' ''Immutable audit history for governance and compliance.'' nothing,
         El [Uncontrolled [] [] [],
             choice [] [''Action: All'', ''CREATE'', ''UPDATE'', ''PUBLISH'', ''DISABLE''],
             choice [] [''Date range: Last 7 days'', ''Last 24 hours'', ''Last 30 days''],
             idle ''Apply'', idle ''Export CSV'', idle ''Export JSON''],
         plain_table [''Actor'', ''Action'', ''Resource'', ''Timestamp'', ''Metadata'']
           (map (audit_row fmt) audit_sample)]"

end
