(* ===== verification/Admin_Operations_Pages.thy ===== *)
theory Admin_Operations_Pages
  imports Static_Widgets
begin

section \<open>Settings, operations and profile pages of the admin portal\<close>

text \<open>
  The rest of the pages of \<open>app/(protected)\<close> over constant data: the gateway settings, alerts, metrics, bulk
  operations, specifications, maintenance, announcements, traces and the profile. \<open>status\<close>,
  \<open>billing\<close> and \<open>support\<close> are the same files in both portals.
\<close>

subsection \<open>Gateway settings\<close>

definition base_urls_card :: "static_ui node" where
  "base_urls_card =
     card ''Base URLs''
       [labelled ''Dev base URL'' ''base-dev'' ''https://dev.seabaasapigateway.dev'',
        labelled ''UAT base URL'' ''base-uat'' ''https://uat.seabaasapigateway.dev'',
        labelled ''Staging base URL'' ''base-staging'' ''https://staging.seabaasapigateway.dev'',
        labelled ''Prod base URL'' ''base-prod'' ''https://seabaasapigateway.dev'']"

definition defaults_card :: "static_ui node" where
  "defaults_card =
     card ''Defaults''
       [El [Txt ''Default encryption mode'',
            choice ''default-encryption'' [''Pass-through encrypted'', ''Decrypt at gateway'', ''Encrypt outbound'']],
        labelled ''Default timeout (ms)'' ''timeout'' (nat_dec 30000),
        labelled ''Default retries'' ''retries'' (nat_dec 2),
        labelled ''Default rate limit policy'' ''rate-limit'' ''1000 req/min'',
        labelled ''Burst'' ''burst'' ''250 req/10s'']"

definition limits_card :: "static_ui node" where
  "limits_card =
     card ''Headers & payload limits''
       [labelled ''Allow list headers'' ''allow-headers'' ''x-correlation-id, x-tenant-id, x-request-id'',
        labelled ''Deny list headers'' ''deny-headers'' ''x-debug-token, x-internal'',
        labelled ''Request size limit (MB)'' ''request-size'' (nat_dec 10),
        labelled ''Response size limit (MB)'' ''response-size'' (nat_dec 15),
        El [Badge ''info'' ''Draft'', Txt ''Changes are saved as draft until reviewed.''],
        Txt ''Draft -> Review -> Publish workflow is enabled. Include approval notes before publishing.'']"

definition versioning_card :: "auth_user option \<Rightarrow> static_ui node" where
  "versioning_card usr =
     card ''Configuration versioning''
       (boxes [dotted [''Active version: v42'', ''Updated 2 hours ago''],
               dotted [''Draft version: v43'', ''Pending approval (Maker/Checker)'']]
        @ [gated usr ''gateway.config.write'' (idle ''Rollback to previous'')])"

definition settings_view :: "auth_user option \<Rightarrow> static_ui node" where
  "settings_view usr =
     El [header ''Gateway system settings'' ''Global configuration defaults for all environments.''
           (gated usr ''gateway.config.write'' (idle ''Save changes'')),
         base_urls_card, defaults_card, limits_card, versioning_card usr,
         card ''Secrets & vault integration''
           (boxes [''Secrets are masked by default. Use references to external vault providers.'',
                   ''Vault provider: Not configured'',
                   ''Reveal actions require approval and are fully audited.''])]"

subsection \<open>Operations\<close>

definition alerts_view :: "auth_user option \<Rightarrow> static_ui node" where
  "alerts_view usr =
     El [header ''Alerts & notifications'' ''Configure alert rules and notification channels.''
           (gated usr ''alerts.manage'' (idle ''Create alert'')),
         card ''Alert rules''
           (boxes [dotted [''Error rate > 2% for 5m'', ''Email, Slack''],
                   dotted [''p95 latency > 500ms'', ''Pager''],
                   dotted [''Destination unhealthy'', ''Webhook'']]),
         card ''Notification channels''
           (boxes [''Email: oncall@gapeiro.dev'', ''Slack: #gateway-alerts'',
                   ''Webhook: https://hooks.gapeiro.dev/gateway''])]"

definition metrics_view :: "static_ui node" where
  "metrics_view =
     El [header ''Metrics'' ''Read-only gateway metrics overview.'' nothing,
         choice [] [''Last 15 minutes'', ''Last 1 hour'', ''Last 24 hours''],
         El [StatCard ''p50 latency'' ''120ms'' (Some ''Last 1h'') None,
             StatCard ''p95 latency'' ''280ms'' (Some ''Last 1h'') None,
             StatCard ''RPS'' ''820'' (Some ''Current'') None,
             StatCard ''Error rate'' ''0.3%'' (Some ''4xx + 5xx'') None],
         card ''Top endpoints by traffic''
           (boxes [dotted [''POST /transfers'', ''420 rps''], dotted [''GET /accounts'', ''180 rps''],
                   dotted [''POST /login'', ''140 rps'']])]"

definition bulk_view :: "auth_user option \<Rightarrow> static_ui node" where
  "bulk_view usr =
     El [header ''Bulk operations'' ''Perform bulk updates with validation previews.'' nothing,
         card ''Bulk enable/disable endpoints''
           [Txt ''Upload a CSV of endpoint IDs and desired status.'',
            gated usr ''bulk.manage'' (idle ''Upload CSV'')],
         card ''Bulk policy assignment''
           [Txt ''Apply rate limit or auth policies to multiple endpoints.'',
            gated usr ''bulk.manage'' (idle ''Start bulk assignment'')]]"

definition specs_view :: "auth_user option \<Rightarrow> static_ui node" where
  "specs_view usr =
     El [header ''OpenAPI specs'' ''Upload, validate, and version service specifications.''
           (gated usr ''spec.manage'' (idle ''Upload spec'')),
         card ''Specs registry''
           (boxes [dotted [''PayHub v2'', ''Last updated Feb 7, 2026''],
                   dotted [''SeaBaaS v1'', ''Last updated Jan 29, 2026''],
                   dotted [''Legacy v0'', ''Deprecated'']])]"

definition maintenance_view :: "auth_user option \<Rightarrow> static_ui node" where
  "maintenance_view usr =
     El [header ''Maintenance windows'' ''Schedule planned downtime banners and delayed activations.''
           (gated usr ''gateway.config.write'' (idle ''Schedule maintenance'')),
         card ''Upcoming windows''
           (boxes [dotted [''Feb 15, 2026'', ''02:00 - 04:00 UTC'', ''API gateway patching''],
                   dotted [''Mar 1, 2026'', ''01:00 - 02:00 UTC'', ''Policy engine upgrade'']])]"

definition announcements_view :: "auth_user option \<Rightarrow> static_ui node" where
  "announcements_view usr =
     El [header ''Announcements'' ''Publish change notes and release updates to the developer portal.''
           (gated usr ''announcement.manage'' (idle ''Create announcement'')),
         card ''Latest announcements''
           (boxes [dotted [''Feb 7, 2026'', ''PayHub v2 rate limits updated''],
                   dotted [''Jan 28, 2026'', ''New JWT issuer policy rollout'']])]"

definition traces_view :: "static_ui node" where
  "traces_view =
     El [header ''Request tracing'' ''Search by trace or correlation IDs.'' nothing,
         El [Uncontrolled [] [] [], idle ''Search''],
         Txt ''Tracing timeline and span visualization will appear here when backend tracing is available.'']"

subsection \<open>Profile, status, billing and support\<close>

definition admin_profile_view :: "static_ui node" where
  "admin_profile_view =
     El [header ''Profile'' ''Manage personal details and active sessions.'' nothing,
         card ''Profile details''
           [labelled ''Name'' ''name'' ''Alex Johnson'', labelled ''Email'' ''email'' ''alex@gapeiro.dev'',
            Txt ''Active sessions'', Txt (dotted [''Last login: Feb 8, 2026'', ''San Francisco, CA'']),
            idle ''Save profile''],
         card ''Change password''
           [labelled ''Current password'' ''current-password'' [], labelled ''New password'' ''new-password'' [],
            idle ''Update password''],
         card ''MFA settings''
           [El [Txt ''MFA is currently '', Txt ''Enabled'', Txt ''.''], idle ''Manage MFA'']]"

definition status_view :: "static_ui node" where
  "status_view =
     El [header ''Gateway status'' ''Real-time health checks and uptime history.'' nothing,
         card ''Global status'' [Badge ''success'' ''Operational'', Txt ''All systems normal''],
         card ''Latency'' [Txt ''182 ms'', Txt ''Global edge median''],
         card ''Uptime'' [Txt ''99.98%'', Txt ''Last 30 days''],
         card ''Regional checks''
           [fact ''US East'' (dotted [''Healthy'', ''165 ms'']),
            fact ''EU West'' (dotted [''Healthy'', ''190 ms'']),
            fact ''APAC'' (dotted [''Degraded'', ''320 ms''])]]"

definition billing_view :: "static_ui node" where
  "billing_view =
     El [header ''Billing'' ''Plan, usage, and rate-limit visibility.'' nothing,
         card ''Current plan''
           [Txt ''Growth'', Txt (dotted [''5,000 req/min'', ''1,000 burst'']), idle ''Manage plan''],
         card ''Usage'' [Txt ''68%'', Txt ''3.4M of 5M requests''],
         card ''Rate limit alerts'' [Badge ''success'' ''Healthy'', Txt ''No throttling events in 7 days.'']]"

text \<open>
  The form of the support page has no \<open>onSubmit\<close>; pressing its button makes the browser submit it
  natively, which loads the page again.
\<close>

definition support_view :: "static_ui node" where
  "support_view =
     El [header ''Support'' ''We respond within 1 business day.'' nothing,
         Form [labelled ''Subject'' ''subject'' [], labelled ''Details'' ''details'' []]
           ''Submit ticket'' False None]"

end
