(* ===== verification/Dev_Static_Pages.thy ===== *)
theory Dev_Static_Pages
  imports Static_Widgets
begin

section \<open>Static pages of the developer portal, documentation and layouts\<close>

text \<open>
  The dashboard, profile, app and documentation pages of the developer portal, the landing pages of both
  portals, the layouts and the pages shown for errors. \<open>formatDate\<close> depends on the platform. The documents
  themselves are MDX files that the build turns into components; a document is named by its file.
\<close>

subsection \<open>Dashboard and profile\<close>

text \<open>
  \<open>formatLatency\<close>; \<open>fixed2\<close> stands for \<open>(ms / 1000).toFixed(2)\<close>, on whole milliseconds the seconds rounded
  to two digits. The quotient is not a tie unless the milliseconds end in 5, where binary
  floating point decides; so the rounding is a parameter.
\<close>

definition formatLatency :: "(nat \<Rightarrow> js_string) \<Rightarrow> nat \<Rightarrow> js_string" where
  "formatLatency fixed2 ms = (if ms < 1000 then nat_dec ms @ '' ms'' else fixed2 ms @ '' s'')"

definition recentLogs :: "(js_string \<times> js_string \<times> nat \<times> nat \<times> js_string) list" where
  "recentLogs =
     [(''log_1'', ''/health'', 200, 140, ''2026-02-08T08:12:00Z''),
      (''log_2'', ''/transfers'', 201, 240, ''2026-02-08T07:40:00Z''),
      (''log_3'', ''/accounts'', 403, 180, ''2026-02-08T07:05:00Z'')]"

definition log_row ::
  "(nat \<Rightarrow> js_string) \<Rightarrow> (js_string \<Rightarrow> js_string) \<Rightarrow> js_string \<times> js_string \<times> nat \<times> nat \<times> js_string \<Rightarrow> static_ui node"
where
  "log_row fixed2 formatDate = (\<lambda>(i, route, status, latencyMs, timestamp).
     El [Txt route, Txt (formatDate timestamp),
         Badge (if status \<ge> 400 then ''danger'' else ''success'') (nat_dec status),
         Txt (formatLatency fixed2 latencyMs)])"

definition dev_dashboard_view :: "(nat \<Rightarrow> js_string) \<Rightarrow> (js_string \<Rightarrow> js_string) \<Rightarrow> static_ui node" where
  "dev_dashboard_view fixed2 formatDate =
     El [header ''Developer dashboard'' ''Monitor usage, key health, and gateway status at a glance.'' nothing,
         El [StatCard ''Requests (24h)'' ''12,480'' (Some ''+8.2% from yesterday'') None,
             StatCard ''Avg latency'' (formatLatency fixed2 182) (Some ''Global edge'') None,
             StatCard ''Active keys'' ''6'' (Some ''1 rotation scheduled'') None,
             StatCard ''Security'' ''Healthy'' (Some ''No incidents'') None],
         card ''Recent requests'' (map (log_row fixed2 formatDate) recentLogs),
         card ''Gateway health''
           [El [Txt ''Status'', Badge ''success'' ''Operational''], fact ''Global latency'' ''182 ms'',
            fact ''Uptime'' ''99.98%'', Txt ''Incident-free for 28 days.'']]"

definition dev_profile_view :: "static_ui node" where
  "dev_profile_view =
     El [header ''Profile'' ''Manage personal details and active sessions.'' nothing,
         El [labelled ''Name'' ''name'' ''Alex Johnson'', labelled ''Email'' ''email'' ''alex@gapeiro.dev'',
             Txt ''Active sessions'', Txt (dotted [''Last login: Feb 8, 2026'', ''San Francisco, CA'']),
             idle ''Save profile'']]"

subsection \<open>One app\<close>

text \<open>
  The argument is the property \<open>appId\<close> of \<open>params\<close>, which a template literal turns into text. Both portals
  depend on version 16 of Next.js, which passes \<open>params\<close> as a promise; a promise has no such
  property, which is \<open>None\<close>.
\<close>

definition template :: "js_string option \<Rightarrow> js_string" where
  "template v = (case v of None \<Rightarrow> ''undefined'' | Some s \<Rightarrow> s)"

definition app_details_view :: "js_string option \<Rightarrow> static_ui node" where
  "app_details_view appId =
     El [header ''App overview'' (''App ID: '' @ template appId)
           (El [Link (''/apps/'' @ template appId @ ''/keys'') ''Keys'',
                Link (''/apps/'' @ template appId @ ''/logs'') ''Logs'',
                Link (''/apps/'' @ template appId @ ''/settings'') ''Settings'']),
         El [El [Txt ''Environment'', Badge ''neutral'' ''Sandbox''],
             fact ''Owner'' ''Alex Johnson'', fact ''Created'' ''Jan 10, 2026'',
             Txt ''Use the keys page to rotate credentials or revoke access. Log filters are pre-scoped to this app.'']]"

definition app_settings_view :: "static_ui node" where
  "app_settings_view =
     El [header ''App settings'' ''Update metadata and deprecate endpoints.'' nothing,
         El [labelled ''App name'' ''name'' ''Sandbox Payments'',
             labelled ''Description'' ''description'' ''Sandbox environment for payment workflows.'',
             labelled ''Deprecation banner'' [] ''/v1/transfers will be sunset on 2026-04-01'',
             idle ''Save changes'', idle ''Cancel'']]"

subsection \<open>Documentation\<close>

text \<open>The registry: a document for each slug. \<open>docsRegistry[slug]\<close> is \<open>undefined\<close> for any other text.\<close>

definition docsRegistry :: "(js_string \<times> js_string) list" where
  "docsRegistry =
     [(''getting-started'', ''content/docs/getting-started.mdx''),
      (''authentication'', ''content/docs/authentication.mdx''),
      (''rate-limits'', ''content/docs/rate-limits.mdx''),
      (''errors'', ''content/docs/errors.mdx''),
      (''changelog'', ''content/docs/changelog.mdx'')]"

definition docs_index :: "(js_string \<times> js_string \<times> js_string) list" where
  "docs_index =
     [(''Getting Started'', ''getting-started'', ''Create your first app and key.''),
      (''Authentication'', ''authentication'', ''API keys, JWTs, and rotation.''),
      (''Rate Limits'', ''rate-limits'', ''Usage tiers and bursts.''),
      (''Errors'', ''errors'', ''Standard error payloads.''),
      (''Changelog'', ''changelog'', ''Latest platform updates.'')]"

definition docs_index_view :: "static_ui node" where
  "docs_index_view =
     El [header ''Documentation'' ''Guides, API references, and platform updates.'' nothing,
         El (map (\<lambda>(lbl, slug, descr). El [Link (''/docs/'' @ slug) lbl, Txt descr]) docs_index)]"

definition docs_sidebar :: "(js_string \<times> js_string) list" where
  "docs_sidebar =
     [(''Getting Started'', ''getting-started''), (''Authentication'', ''authentication''),
      (''Rate Limits'', ''rate-limits''), (''Errors'', ''errors''), (''Changelog'', ''changelog'')]"

definition DocsSidebar :: "static_ui node" where
  "DocsSidebar =
     El [Txt ''Documentation'', El (map (\<lambda>(lbl, slug). Link (''/docs/'' @ slug) lbl) docs_sidebar)]"

text \<open>
  \<open>DocPage\<close>: the document it renders beside the sidebar, or \<open>notFound()\<close>. Its argument is the property
  \<open>slug\<close> of \<open>params\<close>. \<open>params.slug?.[0] ?? "getting-started"\<close>: an empty array has no element 0.
\<close>

datatype doc_page = NotFound | Document js_string

definition doc_slug :: "js_string list option \<Rightarrow> js_string" where
  "doc_slug slug =
     (case slug of None \<Rightarrow> ''getting-started''
      | Some ss \<Rightarrow> (case ss of [] \<Rightarrow> ''getting-started'' | s # _ \<Rightarrow> s))"

definition DocPage :: "js_string list option \<Rightarrow> doc_page" where
  "DocPage slug =
     (case map_of docsRegistry (doc_slug slug) of None \<Rightarrow> NotFound | Some doc \<Rightarrow> Document doc)"

subsection \<open>Landing pages, errors, layouts\<close>

text \<open>The logo and the theme button at the top of the landing pages are those of \<open>Branding\<close> and \<open>Widgets\<close>.\<close>

definition home_view ::
  "js_string \<Rightarrow> js_string \<Rightarrow> js_string \<times> js_string \<Rightarrow> (js_string \<times> js_string) list \<Rightarrow> static_ui node" where
  "home_view title descr second features =
     El [Txt ''Enterprise-grade API gateway'', Txt title, Txt descr,
         Link ''/login'' ''Sign in'', Link (fst second) (snd second),
         El (map (\<lambda>(t, txt). El [Txt t, Txt txt]) features)]"

definition dev_home_view :: "static_ui node" where
  "dev_home_view =
     home_view ''Build, secure, and monitor APIs with a developer-first portal.''
       ''Onboard developers in minutes, rotate keys safely, test APIs in a live console, and observe traffic with built-in logs and status monitoring.''
       (''/docs'', ''View docs'')
       [(''Key management'', ''Scoped keys, rotation workflows, and copy-once safeguards.''),
        (''API console'', ''Compose requests, replay traffic, and generate curl snippets.''),
        (''Observability'', ''Search logs by trace ID, export CSVs, and monitor uptime.'')]"

definition admin_home_view :: "static_ui node" where
  "admin_home_view =
     home_view ''Govern, secure, and operate your API gateway control plane.''
       ''Configure global policies, manage products and endpoints, and enforce enterprise-grade security workflows with approvals and audit-ready change history.''
       (''/dashboard'', ''Open dashboard'')
       [(''RBAC governance'', ''Granular permissions, maker-checker approvals, and audit trails.''),
        (''Policy control'', ''Centralized rate limits, auth policies, encryption, and routing.''),
        (''Operational visibility'', ''Metrics, logs, health checks, and configurable alerts.'')]"

text \<open>The error boundary; its handler is the \<open>reset\<close> that Next.js passes.\<close>

datatype error_ui = Reset

definition error_view :: "error_ui node" where
  "error_view =
     El [Txt ''Something went wrong'',
         Txt ''We encountered an unexpected error. Try again or return home.'',
         Btn ''Try again'' False (Some Reset), Link ''/'' ''Go home'']"

definition not_found_view :: "static_ui node" where
  "not_found_view =
     El [Txt ''Page not found'',
         Txt (''The page you are looking for doesn'' @ [CHR 0x27] @ ''t exist or you don'' @ [CHR 0x27]
              @ ''t have access.''),
         Link ''/dashboard'' ''Back to dashboard'']"

text \<open>
  The layout of the protected pages: sidebar, top bar and the page, behind \<open>AuthGate\<close>. The parts are trees
  of their own event types, joined under one.
\<close>

datatype ('a, 'b, 'c) shell = Shell "'a node" "'b node" "'c node"

definition AppShell :: "'a node \<Rightarrow> 'b node \<Rightarrow> 'c node \<Rightarrow> ('a, 'b, 'c) shell" where
  "AppShell sidebar topbar children = Shell sidebar topbar children"

definition ProtectedLayout ::
  "bool \<Rightarrow> auth_user option \<Rightarrow> 'a node \<Rightarrow> 'b node \<Rightarrow> 'c node \<Rightarrow> ('a, 'b, 'c) shell gate_view" where
  "ProtectedLayout loading user sidebar topbar children =
     auth_gate_render loading user (AppShell sidebar topbar children)"

definition dev_topbar_view :: "'e node \<Rightarrow> 'e node" where
  "dev_topbar_view toggle = El [Uncontrolled [] [] [], Btn [] False None, toggle]"

end
