(* ===== verification/Portal_Links.thy ===== *)
theory Portal_Links
  imports Portal_Routes Admin_Static_Pages Admin_Operations_Pages Dev_Static_Pages Products_Page Services_Page Endpoints_Page
    Dashboard_Page Service_Detail Endpoint_Detail Product_Detail Widgets Apps_Demo Registration
    Endpoint_Requests_Page Ip_Restrictions_Page Clients_Page Client_Permissions_Page User_Profiles_Page
    Destinations_Page
begin

section \<open>Where the links of the portals lead\<close>

text \<open>
  The pages of each portal against its routes: what every page links to, for every state it may be in, and
  whether the target has a page. The identifiers that the backend gives must stay one segment of a
  path.
\<close>

lemma in_links_parts [simp]:
  "h \<in> set (links (El ns)) \<longleftrightarrow> (\<exists>n \<in> set ns. h \<in> set (links n))"
  "h \<in> set (links (Form ns l dis e)) \<longleftrightarrow> (\<exists>n \<in> set ns. h \<in> set (links n))"
  "h \<in> set (links (when_node b n)) \<longleftrightarrow> b \<and> h \<in> set (links n)"
  "h \<in> set (links (show_error err)) \<longleftrightarrow> False"
  "h \<in> set (links (SectionHeader t descr a bk l)) \<longleftrightarrow> h \<in> set (links a)"
  "h \<in> set (links (FormDialog t descr trig op oc l dis os ns)) \<longleftrightarrow> op \<and> (\<exists>n \<in> set ns. h \<in> set (links n))"
  "h \<in> set (links (ConfirmDialog t descr trig l e)) \<longleftrightarrow> False"
  "h \<in> set (links (StatCard t v descr None)) \<longleftrightarrow> False"
  "h \<in> set (links (StatCard t v descr (Some g))) \<longleftrightarrow> g \<noteq> [] \<and> h = g"
  by (auto simp: when_node_def show_error_def SectionHeader_def FormDialog_def ConfirmDialog_def StatCard_def
      Let_def split: option.splits)

lemma in_links_gate:
  "h \<in> set (links (PermissionGate usr p ps nothing n)) \<Longrightarrow> h \<in> set (links n)"
  by (auto simp: PermissionGate_def split: option.splits if_splits)

declare links.simps(2,10) [simp del]

text \<open>The constant pages of the admin portal under their routes.\<close>

definition admin_static_pages ::
  "auth_user option \<Rightarrow> (js_string \<Rightarrow> js_string) \<Rightarrow> user_detail \<Rightarrow> (js_string \<times> static_ui node) list" where
  "admin_static_pages usr fmt tab =
     [(''/settings'', settings_view usr),
      (''/audit-logs'', audit_logs_view fmt),
      (''/admin/users'', users_view usr fmt),
      (''/admin/users/new'', invite_user_view),
      (''/admin/users/[id]'', user_detail_view usr tab),
      (''/admin/roles'', roles_view usr),
      (''/admin/roles/[id]'', role_detail_view usr),
      (''/admin/groups'', groups_view usr),
      (''/admin/sso'', sso_view usr fmt),
      (''/admin/scim'', scim_view usr fmt),
      (''/admin/keys'', keys_view usr fmt),
      (''/admin/keys/[id]'', key_detail_view usr),
      (''/admin/tenants'', tenants_view usr),
      (''/admin/alerts'', alerts_view usr),
      (''/admin/metrics'', metrics_view),
      (''/admin/bulk'', bulk_view usr),
      (''/admin/specs'', specs_view usr),
      (''/admin/maintenance'', maintenance_view usr),
      (''/admin/announcements'', announcements_view usr),
      (''/admin/traces'', traces_view),
      (''/profile'', admin_profile_view),
      (''/status'', status_view),
      (''/billing'', billing_view),
      (''/support'', support_view)]"

subsection \<open>The pages of the admin portal\<close>

lemma links_products:
  "h \<in> set (links (products_view usr s)) \<Longrightarrow>
     \<exists>p \<in> set (products_page.products s). h = ''/admin/products'' @ CHR ''/'' # ManagementProduct.ident p"
  by (auto simp: products_view_def products_table_def products_row_def products_form_fields_def Let_def
      filteredProducts_def dest!: in_links_gate split: if_splits)

lemma links_services:
  "h \<in> set (links (services_view usr fmt s)) \<Longrightarrow>
     \<exists>p \<in> set (services_page.services s). h = ''/admin/services'' @ CHR ''/'' # ManagementService.ident p"
  by (auto simp: services_view_def services_table_def services_row_def services_form_fields_def Let_def
      filteredServices_def dest!: in_links_gate split: if_splits)

lemma links_endpoints:
  "h \<in> set (links (endpoints_view usr s)) \<Longrightarrow>
     \<exists>p \<in> set (endpoints_page.endpoints s). h = ''/admin/endpoints'' @ CHR ''/'' # ManagementEndpoint.ident p"
  by (auto simp: endpoints_view_def endpoints_table_def endpoints_row_def endpoints_form_fields_def Let_def
      endpoints_filters_def filteredEndpoints_def dest!: in_links_gate split: if_splits)

lemma links_dashboard:
  "h \<in> set (links (dashboard_view fd s)) \<Longrightarrow>
     h \<in> {''/admin/products'', ''/admin/services'', ''/admin/endpoints'', ''/admin/users''}"
  by (auto simp: dashboard_view_def dashboard_stats_def stat_def)

lemma links_service_detail: "h \<in> set (links (service_detail_view usr s)) \<Longrightarrow> h = ''/admin/endpoints''"
  by (auto simp: service_detail_view_def service_actions_node_def service_overview_node_def
      service_endpoints_node_def service_config_node_def Let_def dest!: in_links_gate split: if_splits)

lemma links_product_detail: "h \<in> set (links (product_detail_view usr ld s)) \<Longrightarrow> False"
  by (auto simp: product_detail_view_def product_actions_node_def product_overview_node_def
      product_services_node_def Let_def dest!: in_links_gate split: if_splits)

lemma links_endpoint_detail:
  "h \<in> set (links (endpoint_detail_view usr s)) \<Longrightarrow>
     h = (''/admin/endpoints'' @ CHR ''/'' # template (endpoint_detail.endpointId s)) @ CHR ''/'' # ''destinations''"
  by (auto simp: endpoint_detail_view_def endpoint_overview_node_def endpoint_policies_node_def
      endpoint_destinations_node_def template_def Let_def dest!: in_links_gate split: if_splits option.splits)

lemma links_admin_outside:
  "h \<in> set (links (admin_login_view s)) \<Longrightarrow> h \<in> {''/forgot-password'', ''/register''}"
  "h \<in> set (links (admin_register_view t)) \<Longrightarrow> h = ''/login''"
  "h \<in> set (links (forgot_view f)) \<Longrightarrow> h = ''/login''"
  "h \<in> set (links (reset_view r)) \<Longrightarrow> h = ''/login''"
  "h \<in> set (links admin_home_view) \<Longrightarrow> h \<in> {''/login'', ''/dashboard''}"
  by (auto simp: admin_login_view_def AuthCard_def oauth_buttons_def login_form_def SecurityHint_def
      admin_register_view_def register_form_def forgot_view_def reset_view_def admin_home_view_def
      home_view_def split: if_splits)

lemma routed_destinations:
  assumes "one_segment i"
  shows "routed admin_pages ((''/admin/endpoints'' @ CHR ''/'' # i) @ CHR ''/'' # ''destinations'')"
proof -
  let ?dir = "''(protected)/admin/endpoints/[id]/destinations''"
  have "?dir \<in> set admin_pages" by (simp add: admin_pages_def)
  moreover have "route_of ?dir = [Literal ''admin'', Literal ''endpoints'', AnyOne, Literal ''destinations'']"
    and "path_parts ''/admin/endpoints'' = [''admin'', ''endpoints'']"
    and "path_parts ''destinations'' = [''destinations'']"
    by code_simp+
  ultimately show ?thesis
    unfolding routed_def list_ex_iff
    by (intro bexI [of _ ?dir]) (simp_all only: path_parts_append path_parts_one [OF assms], simp)
qed

lemma routed_fixed:
  "list_all (routed admin_pages)
     ([''/admin/products'', ''/admin/services'', ''/admin/endpoints'', ''/admin/users'', ''/forgot-password'',
       ''/register'', ''/login'', ''/dashboard'', ''/'']
      @ filter (\<lambda>h. h \<noteq> ''/logs'') (map nav_href (primary_navigation @ secondary_navigation)))"
  by code_simp

lemmas operations_defs = settings_view_def base_urls_card_def defaults_card_def limits_card_def
  versioning_card_def alerts_view_def metrics_view_def bulk_view_def specs_view_def maintenance_view_def
  announcements_view_def traces_view_def admin_profile_view_def status_view_def billing_view_def
  support_view_def

lemmas user_pages_defs = users_view_def users_sample_def user_row_def user_providers_def invite_user_view_def
  user_detail_view_def profile_tab_def roles_tab_def keys_tab_def activity_tab_def

lemmas admin_pages_defs = roles_view_def roles_sample_def role_row_def role_detail_view_def groups_view_def
  groups_sample_def group_row_def sso_view_def sso_sample_def sso_row_def policy_card_def scim_view_def
  scim_sample_def scim_row_def keys_view_def keys_sample_def key_row_def reveal_dialog_def
  rotate_dialog_def confirm_key_def key_detail_view_def tenants_view_def tenants_sample_def
  audit_logs_view_def audit_sample_def audit_row_def

lemma in_links_static [simp]:
  "h \<in> set (links (card t ns)) \<longleftrightarrow> (\<exists>n \<in> set ns. h \<in> set (links n))"
  "h \<in> set (links (labelled l i v)) \<longleftrightarrow> False"
  "h \<in> set (links (choice i opts)) \<longleftrightarrow> False"
  "h \<in> set (links (fact l v)) \<longleftrightarrow> False"
  "n \<in> set (boxes ts) \<Longrightarrow> links n = []"
  "h \<in> set (links (plain_table heads rows)) \<longleftrightarrow> (\<exists>r \<in> set rows. \<exists>n \<in> set r. h \<in> set (links n))"
  "h \<in> set (links (idle l)) \<longleftrightarrow> False"
  "h \<in> set (links (gated usr p n)) \<longleftrightarrow> permitted usr p \<and> h \<in> set (links n)"
  "h \<in> set (links (header t descr a)) \<longleftrightarrow> h \<in> set (links a)"
  "h \<in> set (links (header_back t descr a href e l)) \<longleftrightarrow> h \<in> set (links a)"
  by (auto simp: card_def labelled_def choice_def fact_def boxes_def plain_table_def idle_def gated_def
      PermissionGate_def permitted_def header_def header_back_def split: option.splits)

definition static_targets :: "js_string list" where
  "static_targets =
     [''/admin/users/new'', ''/admin/users/user_1'', ''/admin/users/user_2'', ''/admin/users/user_3'',
      ''/admin/roles/role_admin'', ''/admin/roles/role_owner'', ''/admin/roles/role_auditor'',
      ''/admin/keys'', ''/admin/keys/key_1'', ''/admin/keys/key_2'']"

lemma links_static:
  "(r, v) \<in> set (admin_static_pages usr fmt tab) \<Longrightarrow> h \<in> set (links v) \<Longrightarrow> h \<in> set static_targets"
  unfolding admin_static_pages_def
  by (simp, elim disjE conjE; hypsubst)
    (auto simp: operations_defs admin_pages_defs user_pages_defs Let_def static_targets_def split: if_splits)

lemma routed_static: "list_all (routed admin_pages) static_targets"
  by code_simp

lemma links_sidebar_routed:
  "h \<in> set (links (sidebar_view usr path)) \<Longrightarrow> h = ''/logs'' \<or> routed admin_pages h"
  using routed_fixed by (fastforce simp: links_sidebar list_all_iff)

lemma routed_row:
  assumes "\<forall>x \<in> set xs. one_segment (key x)" and "\<exists>x \<in> set xs. h = a @ CHR ''/'' # key x"
    and "a \<in> snd ` set entity_directories"
  shows "routed admin_pages h"
  using assms routed_admin_entity by blast

lemma entity_prefixes:
  "''/admin/products'' \<in> snd ` set entity_directories" "''/admin/services'' \<in> snd ` set entity_directories"
  "''/admin/endpoints'' \<in> snd ` set entity_directories"
  by (simp_all add: entity_directories_def)

subsection \<open>The pages of the developer portal\<close>

lemma dev_routed_fixed:
  "list_all (routed dev_pages)
     ([''/login'', ''/forgot-password'', ''/register'', ''/docs'', ''/dashboard'', ''/'', ''/apis'', ''/endpoint-requests'',
       ''/apps/new'', ''/apps/app_sandbox'', ''/apps/app_production'']
      @ map (\<lambda>(slug, _). ''/docs/'' @ slug) docsRegistry
      @ filter (\<lambda>h. h \<noteq> ''/logs'') (map snd (dev_navigation_primary @ dev_navigation_secondary)))"
  by code_simp

lemma links_dev_sidebar:
  "h \<in> set (links (dev_sidebar_view path)) \<Longrightarrow> h \<in> set (map snd (dev_navigation_primary @ dev_navigation_secondary))"
  by (auto simp: dev_sidebar_view_def dev_sidebar_entry_def)

lemma links_docs:
  "links docs_index_view = map (\<lambda>(slug, _). ''/docs/'' @ slug) docsRegistry"
  "links DocsSidebar = map (\<lambda>(slug, _). ''/docs/'' @ slug) docsRegistry"
  by (simp_all add: docs_index_view_def docs_index_def DocsSidebar_def docs_sidebar_def docsRegistry_def header_def
      SectionHeader_def when_node_def links.simps)

lemma links_dev_pages:
  "h \<in> set (links (dev_login_view s)) \<Longrightarrow> h \<in> {''/forgot-password'', ''/register''}"
  "h \<in> set (links (dev_register_view t)) \<Longrightarrow> h = ''/login''"
  "h \<in> set (links dev_home_view) \<Longrightarrow> h \<in> {''/login'', ''/docs''}"
  "h \<in> set (links error_view) \<Longrightarrow> h = ''/''"
  "h \<in> set (links not_found_view) \<Longrightarrow> h = ''/dashboard''"
  "h \<in> set (links apps_view) \<Longrightarrow> h \<in> {''/apps/new'', ''/apps/app_sandbox'', ''/apps/app_production''}"
  by (auto simp: dev_login_view_def AuthCard_def oauth_buttons_def login_form_def SecurityHint_def
      dev_register_view_def register_form_def dev_home_view_def home_view_def error_view_def not_found_view_def
      apps_view_def AppCard_def sample_apps_def split: if_splits)

lemma links_org_pages:
  "h \<in> set (links (requests_view rd s)) \<Longrightarrow> h = ''/apis''"
  "h \<in> set (links (ip_view t)) \<Longrightarrow> h = ''/endpoint-requests''"
  by (auto simp: requests_view_def summary_card_def requests_table_row_def request_process_def ip_view_def
      approval_table_row_def approval_dialog_def best_practices_def split: if_splits)

lemma links_app_details:
  "links (app_details_view appId)
     = map (\<lambda>part. (''/apps'' @ CHR ''/'' # template appId) @ CHR ''/'' # part) [''keys'', ''logs'', ''settings'']"
  by (simp add: app_details_view_def header_def SectionHeader_def when_node_def fact_def links.simps)

lemma routed_app_part:
  assumes "one_segment i"
  shows "routed dev_pages ((''/apps'' @ CHR ''/'' # i) @ CHR ''/'' # part) \<longleftrightarrow> path_parts part \<in> {[], [''keys''], [''settings'']}"
proof -
  have parts: "path_parts ((''/apps'' @ CHR ''/'' # i) @ CHR ''/'' # part) = ''apps'' # i # path_parts part"
  proof -
    have "path_parts ''/apps'' = [''apps'']" by code_simp
    then show ?thesis by (simp only: path_parts_append path_parts_one [OF assms], simp)
  qed
  have routes: "map route_of dev_pages =
    [[], [Literal ''forgot-password''], [Literal ''login''], [Literal ''register''], [Literal ''reset-password''],
     [Literal ''apis''], [Literal ''apps''], [Literal ''apps'', AnyOne], [Literal ''apps'', AnyOne, Literal ''keys''],
     [Literal ''apps'', AnyOne, Literal ''settings''], [Literal ''apps'', Literal ''new''], [Literal ''billing''],
     [Literal ''clients''], [Literal ''console''], [Literal ''dashboard''], [Literal ''docs''],
     [Literal ''docs'', AnySome], [Literal ''endpoint-requests''], [Literal ''ip-restrictions''],
     [Literal ''profile''], [Literal ''status''], [Literal ''support'']]"
    by code_simp
  have "routed dev_pages q \<longleftrightarrow> list_ex (\<lambda>r. matches r (path_parts q)) (map route_of dev_pages)" for q
    by (simp add: routed_def list.pred_map list_ex_iff)
  then show ?thesis
    by (simp only: routes parts) (auto split: list.splits)
qed

lemma dev_routed_app: 
  assumes "one_segment i"
  shows "routed dev_pages (''/apps/'' @ i @ ''/keys'')" "\<not> routed dev_pages (''/apps/'' @ i @ ''/logs'')"
    "routed dev_pages (''/apps/'' @ i @ ''/settings'')"
proof -
  have p: "path_parts ''keys'' = [''keys'']" "path_parts ''logs'' = [''logs'']" "path_parts ''settings'' = [''settings'']"
    by code_simp+
  note r = routed_app_part [OF assms]
  show "routed dev_pages (''/apps/'' @ i @ ''/keys'')" "\<not> routed dev_pages (''/apps/'' @ i @ ''/logs'')"
    "routed dev_pages (''/apps/'' @ i @ ''/settings'')"
    using r [of "''keys''"] r [of "''logs''"] r [of "''settings''"] by (simp_all add: p)
qed

subsection \<open>All pages of the admin portal\<close>

lemma admin_links_parts:
  "h \<in> set (links (dashboard_view fd s0)) \<Longrightarrow> routed admin_pages h"
  "h \<in> set (links (service_detail_view usr s5)) \<Longrightarrow> routed admin_pages h"
  "h \<in> set (links (product_detail_view usr ld s4)) \<Longrightarrow> routed admin_pages h"
  "h \<in> set (links admin_home_view) \<Longrightarrow> routed admin_pages h"
  "h \<in> set (links (admin_login_view s7)) \<Longrightarrow> routed admin_pages h"
  "h \<in> set (links (admin_register_view s8)) \<Longrightarrow> routed admin_pages h"
  "h \<in> set (links (forgot_view s9)) \<Longrightarrow> routed admin_pages h"
  "h \<in> set (links (reset_view s10)) \<Longrightarrow> routed admin_pages h"
  "h \<in> set (links error_view) \<Longrightarrow> routed admin_pages h"
  "h \<in> set (links not_found_view) \<Longrightarrow> routed admin_pages h"
  using routed_fixed [unfolded list_all_append list.pred_inject] links_dashboard [of h fd s0] links_service_detail [of h usr s5]
    links_product_detail [of h usr ld s4] links_admin_outside [of h] links_dev_pages(4,5) [of h]
  by blast+

lemma static_links_routed:
  "h \<in> set (concat (map (links \<circ> snd) (admin_static_pages usr fmt tab))) \<Longrightarrow> routed admin_pages h"
proof -
  assume "h \<in> set (concat (map (links \<circ> snd) (admin_static_pages usr fmt tab)))"
  then obtain r v where "(r, v) \<in> set (admin_static_pages usr fmt tab)" and "h \<in> set (links v)" by auto
  from links_static [OF this] routed_static show ?thesis
    unfolding list_all_iff by blast
qed

lemma links_entity_pages:
  "h \<in> set (links (clients_view usr fmt fmd t1)) \<Longrightarrow> False"
  "h \<in> set (links (permissions_view usr fmd t2)) \<Longrightarrow> False"
  "h \<in> set (links (profiles_view usr fmd t3)) \<Longrightarrow> False"
  "h \<in> set (links (destinations_view usr t4)) \<Longrightarrow> False"
     apply (auto simp: clients_view_def clients_table_def clients_row_def clients_form_fields_def Let_def
        dest!: in_links_gate split: if_splits)[1]
    apply (auto simp: permissions_view_def permissions_table_def permissions_row_def permissions_form_fields_def
        Let_def dest!: in_links_gate split: if_splits)[1]
   apply (auto simp: profiles_view_def profiles_table_def profiles_row_def profiles_form_fields_def Let_def
      dest!: in_links_gate split: if_splits)[1]
  apply (auto simp: destinations_view_def destinations_table_def destinations_row_def
      destinations_form_fields_def Let_def dest!: in_links_gate split: if_splits)[1]
  done

lemma links_app_pages:
  "h \<in> set (links (topbar_view en)) \<Longrightarrow> False"
  "h \<in> set (links (new_app_view t5)) \<Longrightarrow> False"
  "h \<in> set (links (app_keys_view fmt)) \<Longrightarrow> False"
  "h \<in> set (links app_settings_view) \<Longrightarrow> False"
  "h \<in> set (links (console_view rsp)) \<Longrightarrow> False"
  by (auto simp: topbar_view_def new_app_view_def app_keys_view_def app_settings_view_def console_view_def
      KeyTable_def SecurityHint_def)

lemma routed_admin_app_part:
  assumes "one_segment i"
  shows "routed admin_pages ((''/apps'' @ CHR ''/'' # i) @ CHR ''/'' # part)
     \<longleftrightarrow> list_ex (\<lambda>r. matches r (''apps'' # i # path_parts part)) (map route_of admin_pages)"
proof -
  have "path_parts ''/apps'' = [''apps'']" by code_simp
  then have "path_parts ((''/apps'' @ CHR ''/'' # i) @ CHR ''/'' # part) = ''apps'' # i # path_parts part"
    by (simp only: path_parts_append path_parts_one [OF assms], simp)
  then show ?thesis by (simp add: routed_def list.pred_map list_ex_iff)
qed

lemma admin_app_routes:
  "filter (\<lambda>r. r \<noteq> [] \<and> hd r \<in> {Literal ''apps'', AnyOne, AnySome}) (map route_of admin_pages) =
     [[Literal ''apps''], [Literal ''apps'', AnyOne], [Literal ''apps'', AnyOne, Literal ''keys''],
      [Literal ''apps'', AnyOne, Literal ''settings''], [Literal ''apps'', Literal ''new'']]"
  by code_simp

lemma matches_first: "matches r (p # ps) \<Longrightarrow> r \<noteq> [] \<and> hd r \<in> {Literal p, AnyOne, AnySome}"
  by (cases r; cases "hd r") auto

lemma admin_routed_app:
  assumes "one_segment i"
  shows "routed admin_pages (''/apps/'' @ i @ ''/keys'')" "\<not> routed admin_pages (''/apps/'' @ i @ ''/logs'')"
    "routed admin_pages (''/apps/'' @ i @ ''/settings'')"
proof -
  have p: "path_parts ''keys'' = [''keys'']" "path_parts ''logs'' = [''logs'']" "path_parts ''settings'' = [''settings'']"
    by code_simp+
  have "routed admin_pages ((''/apps'' @ CHR ''/'' # i) @ CHR ''/'' # part)
      \<longleftrightarrow> (\<exists>r \<in> set (filter (\<lambda>r. r \<noteq> [] \<and> hd r \<in> {Literal ''apps'', AnyOne, AnySome}) (map route_of admin_pages)).
             matches r (''apps'' # i # path_parts part))" for part
    unfolding routed_admin_app_part [OF assms] list_ex_iff set_filter using matches_first by blast
  note r = this [unfolded admin_app_routes]
  show "routed admin_pages (''/apps/'' @ i @ ''/keys'')" "\<not> routed admin_pages (''/apps/'' @ i @ ''/logs'')"
    "routed admin_pages (''/apps/'' @ i @ ''/settings'')"
    using r [of "''keys''"] r [of "''logs''"] r [of "''settings''"] by (simp_all add: p)
qed

lemma admin_demo_fixed:
  "list_all (routed admin_pages)
     ([''/apps/new'', ''/apps/app_sandbox'', ''/apps/app_production''] @ map (\<lambda>(slug, _). ''/docs/'' @ slug) docsRegistry)"
  by code_simp

lemma admin_links_demo:
  "h \<in> set (links apps_view) \<Longrightarrow> routed admin_pages h"
  "h \<in> set (links docs_index_view) \<Longrightarrow> routed admin_pages h"
  "h \<in> set (links DocsSidebar) \<Longrightarrow> routed admin_pages h"
proof -
  note fixed = admin_demo_fixed [unfolded list_all_iff set_append list.set Ball_def]
  show "h \<in> set (links apps_view) \<Longrightarrow> routed admin_pages h" using links_dev_pages(6) [of h] fixed by blast
  show "h \<in> set (links docs_index_view) \<Longrightarrow> routed admin_pages h"
    "h \<in> set (links DocsSidebar) \<Longrightarrow> routed admin_pages h"
    unfolding links_docs using fixed by blast+
qed

subsection \<open>Properties\<close>

text \<open>
  C26: Every link that the admin portal shows leads to one of its pages, whatever the pages have loaded and
  whoever is signed in, except for two: the entry of the sidebar for the gateway logs, and the link to the
  logs on the page of an app. Identifiers given by the backend or by the address must be one segment of a path.
\<close>

theorem admin_links_lead:
  assumes ids: "\<forall>p \<in> set (products_page.products s1). one_segment (ManagementProduct.ident p)"
      "\<forall>v \<in> set (services_page.services s2). one_segment (ManagementService.ident v)"
      "\<forall>e \<in> set (endpoints_page.endpoints s3). one_segment (ManagementEndpoint.ident e)"
      "one_segment (template (endpoint_detail.endpointId s6))"
      "one_segment (template appId)"
    and link: "h \<in> set (links (sidebar_view usr path) @ links (topbar_view en) @ links (dashboard_view fd s0)
        @ links (products_view usr s1) @ links (product_detail_view usr ld s4)
        @ links (services_view usr fmt s2) @ links (service_detail_view usr s5)
        @ links (endpoints_view usr s3) @ links (endpoint_detail_view usr s6) @ links (destinations_view usr t4)
        @ links (clients_view usr fmt fd t1) @ links (permissions_view usr fd t2) @ links (profiles_view usr fd t3)
        @ concat (map (links \<circ> snd) (admin_static_pages usr ld tab))
        @ links apps_view @ links (new_app_view t5) @ links (app_details_view appId) @ links (app_keys_view fmt)
        @ links app_settings_view @ links (console_view rsp) @ links docs_index_view @ links DocsSidebar
        @ links admin_home_view @ links (admin_login_view s7) @ links (admin_register_view s8)
        @ links (forgot_view s9) @ links (reset_view s10) @ links error_view @ links not_found_view)"
  shows "routed admin_pages h \<longleftrightarrow> h \<notin> {''/logs'', ''/apps/'' @ template appId @ ''/logs''}"
proof -
  have rows: "h \<in> set (links (products_view usr s1)) \<Longrightarrow> routed admin_pages h"
    "h \<in> set (links (services_view usr fmt s2)) \<Longrightarrow> routed admin_pages h"
    "h \<in> set (links (endpoints_view usr s3)) \<Longrightarrow> routed admin_pages h"
    "h \<in> set (links (endpoint_detail_view usr s6)) \<Longrightarrow> routed admin_pages h"
    using routed_row [OF ids(1) links_products entity_prefixes(1)]
      routed_row [OF ids(2) links_services entity_prefixes(2)]
      routed_row [OF ids(3) links_endpoints entity_prefixes(3)]
      links_endpoint_detail routed_destinations [OF ids(4)] by blast+
  let ?lost = "{''/logs'', ''/apps/'' @ template appId @ ''/logs''}"
  have side: "h \<in> set (links (sidebar_view usr path)) \<Longrightarrow> routed admin_pages h \<or> h \<in> ?lost"
    using links_sidebar_routed by blast
  have app: "h \<in> set (links (app_details_view appId)) \<Longrightarrow> routed admin_pages h \<or> h \<in> ?lost"
    using admin_routed_app [OF ids(5)] by (auto simp: links_app_details)
  note none = links_entity_pages links_app_pages
  note found = rows admin_links_parts static_links_routed admin_links_demo
  have "routed admin_pages h \<or> h \<in> ?lost"
    using link unfolding set_append Un_iff
    by (elim disjE) (erule side app none [THEN FalseE] found [THEN disjI1])+
  moreover have "\<not> routed admin_pages ''/logs''" by code_simp
  ultimately show ?thesis using admin_routed_app(2) [OF ids(5)] by blast
qed

theorem admin_links_lead_witness:
  "routed admin_pages ''/admin/products/p1'' \<and> \<not> routed admin_pages ''/apps/app_sandbox/logs''"
proof -
  let ?s1 = "products_init\<lparr>products_page.products := [sample_product], products_page.loading := False\<rparr>"
  have "links (products_view None ?s1) = [''/admin/products/p1'']" by code_simp
  then have l: "''/admin/products/p1'' \<in> set (links (products_view None ?s1))" by simp
  have k: "''/apps/app_sandbox/logs'' \<in> set (links (app_details_view (Some ''app_sandbox'')))"
    by (simp add: links_app_details template_def)
  have ids: "\<forall>p \<in> set (products_page.products ?s1). one_segment (ManagementProduct.ident p)"
    "\<forall>v \<in> set (services_page.services services_init). one_segment (ManagementService.ident v)"
    "\<forall>e \<in> set (endpoints_page.endpoints endpoints_init). one_segment (ManagementEndpoint.ident e)"
    "one_segment (template (endpoint_detail.endpointId (endpoint_detail_init (Some ''e1''))))"
    "one_segment (template (Some ''app_sandbox''))"
    by code_simp+
  have "routed admin_pages ''/admin/products/p1''"
    using admin_links_lead [OF ids, where h = "''/admin/products/p1''" and usr = None] l
    by (simp add: template_def)
  moreover have "\<not> routed admin_pages ''/apps/app_sandbox/logs''"
    using admin_links_lead [OF ids, where h = "''/apps/app_sandbox/logs''" and usr = None] k
    by (simp add: template_def)
  ultimately show ?thesis by (rule conjI)
qed

text \<open>
  Every link of the pages of the developer portal listed here leads to a page, except for the entry of the
  sidebar for the logs and the link to the logs of an app.
\<close>

theorem dev_links_lead:
  assumes seg: "one_segment (template appId)"
    and link: "h \<in> set (links (dev_sidebar_view path) @ links dev_home_view @ links (dev_login_view s1)
        @ links (dev_register_view s2) @ links (forgot_view s3) @ links (reset_view s4) @ links docs_index_view
        @ links DocsSidebar @ links (requests_view rd s5) @ links (ip_view s6) @ links apps_view @ links (app_details_view appId) @ links error_view
        @ links not_found_view)"
  shows "routed dev_pages h \<longleftrightarrow> h \<notin> {''/logs'', ''/apps/'' @ template appId @ ''/logs''}"
proof -
  note fixed = dev_routed_fixed [unfolded list_all_iff set_append list.set Ball_def]
  have nav: "routed dev_pages h \<or> h = ''/logs''" if "h \<in> set (map snd (dev_navigation_primary @ dev_navigation_secondary))"
    using that fixed by (auto simp only: Un_iff set_filter mem_Collect_eq)
  have docs: "routed dev_pages h" if "h \<in> set (map (\<lambda>(slug, _). ''/docs/'' @ slug) docsRegistry)"
    using that fixed by blast
  have app: "h \<in> set (links (app_details_view appId)) \<Longrightarrow> routed dev_pages h \<or> h = ''/apps/'' @ template appId @ ''/logs''"
    using dev_routed_app [OF seg] by (auto simp: links_app_details)
  have "routed dev_pages h \<or> h \<in> {''/logs'', ''/apps/'' @ template appId @ ''/logs''}"
    using link unfolding set_append Un_iff links_docs
    by (elim disjE) (use fixed nav docs app in \<open>blast dest: links_dev_sidebar links_dev_pages links_org_pages links_admin_outside(3,4)\<close>)+
  moreover have "\<not> routed dev_pages ''/logs''" by code_simp
  ultimately show ?thesis using dev_routed_app(2) [OF seg] by blast
qed

theorem dev_links_lead_witness:
  "routed dev_pages ''/docs/errors'' \<and> \<not> routed dev_pages ''/apps/app_sandbox/logs''"
proof -
  have seg: "one_segment (template (Some ''app_sandbox''))" by code_simp
  have l: "''/docs/errors'' \<in> set (links docs_index_view)" by (simp add: links_docs docsRegistry_def)
  have k: "''/apps/app_sandbox/logs'' \<in> set (links (app_details_view (Some ''app_sandbox'')))"
    by (simp add: links_app_details template_def)
  show ?thesis
    using dev_links_lead [OF seg, of "''/docs/errors''"] dev_links_lead [OF seg, of "''/apps/app_sandbox/logs''"] l k
    by (simp add: template_def)
qed

text \<open>
  The index and the sidebar of the documentation link to the registered documents, all of them in the
  order of the registry, and each link opens its document; a slug that is not registered has no page.
  Without the promise of \<open>params\<close> being awaited every page shows the first document.
\<close>

theorem docs_links_open:
  "links docs_index_view = links DocsSidebar
   \<and> map (\<lambda>h. DocPage (Some (tl (path_parts h)))) (links docs_index_view) = map (Document \<circ> snd) docsRegistry
   \<and> (DocPage (Some (slug # rest)) = NotFound \<longleftrightarrow> slug \<notin> fst ` set docsRegistry)
   \<and> DocPage None = Document (snd (hd docsRegistry))"
proof -
  have "map (\<lambda>h. DocPage (Some (tl (path_parts h)))) (map (\<lambda>(s, _). ''/docs/'' @ s) docsRegistry)
      = map (Document \<circ> snd) docsRegistry"
    by code_simp
  moreover have "DocPage None = Document (snd (hd docsRegistry))" by code_simp
  moreover have "DocPage (Some (slug # rest)) = NotFound \<longleftrightarrow> slug \<notin> fst ` set docsRegistry"
    by (simp add: DocPage_def doc_slug_def map_of_eq_None_iff [symmetric] split: option.splits)
  ultimately show ?thesis by (simp only: links_docs)
qed

end
