(* ===== verification/Portal_World.thy ===== *)
theory Portal_World
  imports List_Progress Admin_Auth
begin

section \<open>A page in the admin portal: requests, interceptor, session and browser together\<close>

text \<open>
  \<open>List_Page\<close> runs a page by itself, \<open>Admin_Auth\<close> the session by itself. Here they run together, as they do
  in a tab of the browser: the page is rendered for the user whom \<open>AuthProvider\<close> holds, a failing request
  passes the interceptor of \<open>lib/api/client.ts\<close> before the page's handler sees the error, signing out
  unmounts the page because \<open>AuthGate\<close> no longer renders its children, and a document that is
  replaced takes the page and the provider's state with it. Assigning \<open>window.location.href\<close> only
  starts the replacement: until the new document is there (\<open>leaving\<close>), the page goes on.
\<close>

record ('s, 'row, 'aux) portal =
  tab_world :: "('s, 'row, 'aux) world"
  tab_browser :: browser
  tab_auth :: auth_state
  leaving :: bool

text \<open>The page is entered by a user who is signed in.\<close>

definition enter_portal ::
  "browser \<Rightarrow> auth_user \<Rightarrow> 's \<Rightarrow> 'row list \<Rightarrow> ('s, 'row, 'aux) portal" where
  "enter_portal b u s0 rows0 =
     \<lparr>tab_world = start_world s0 rows0, tab_browser = b, tab_auth = \<lparr>user = Some u, loading = False\<rparr>,
      leaving = False\<rparr>"

datatype failing = TheLoad | TheCreate nat

fun failure_of :: "failing \<Rightarrow> thrown \<Rightarrow> ('row, 'aux) action" where
  "failure_of TheLoad t = LoadFails t"
| "failure_of (TheCreate i) t = CreateFails i t"

fun fails :: "('row, 'aux) action \<Rightarrow> bool" where
  "fails (LoadFails t) = True"
| "fails (CreateFails i t) = True"
| "fails a = False"

text \<open>
  \<open>LateRejection\<close> is the answer to a request that nothing waits for any more: \<open>Promise.all\<close> has failed
  already, or the page that sent it is gone. It passes the interceptor all the same. Signing in, by
  credentials or through a provider, happens on the login page, so not while this page is mounted; \<open>Replaced\<close> is a reload by the user or the
  new document that the interceptor asked for.
\<close>

datatype ('row, 'aux) portal_event =
    PageDoes "('row, 'aux) action"
  | RequestFails failing http_error
  | LateRejection http_error
  | SidebarSignsOut
  | LoginSucceeds js_string js_string js_string
  | ProviderSucceeds js_string js_string
  | Replaced

definition ends_session :: "http_error \<Rightarrow> bool" where
  "ends_session err \<longleftrightarrow> status err = Some 401 \<or> status err = Some 403"

definition unmounted :: "('s, 'row, 'aux) world \<Rightarrow> ('s, 'row, 'aux) world" where
  "unmounted w = w\<lparr>mounted := False\<rparr>"

definition reject :: "http_error \<Rightarrow> ('s, 'row, 'aux) portal \<Rightarrow> ('s, 'row, 'aux) portal" where
  "reject err p =
     p\<lparr>tab_browser := snd (on_rejected True err (tab_browser p)), leaving := leaving p \<or> ends_session err\<rparr>"

definition with_session ::
  "browser \<times> auth_state \<Rightarrow> ('s, 'row, 'aux) portal \<Rightarrow> ('s, 'row, 'aux) portal" where
  "with_session ba p = p\<lparr>tab_browser := fst ba, tab_auth := snd ba\<rparr>"

fun portal_act ::
  "(auth_user option \<Rightarrow> ('s, 'u, 'row, 'aux) page_ops) \<Rightarrow> ('row \<Rightarrow> js_string) \<Rightarrow>
     ('row, 'aux) portal_event \<Rightarrow> ('s, 'row, 'aux) portal \<Rightarrow> ('s, 'row, 'aux) portal option" where
  "portal_act ops key (PageDoes a) p =
     (if fails a then None
      else map_option (\<lambda>w. p\<lparr>tab_world := w\<rparr>) (act (ops (user (tab_auth p))) key a (tab_world p)))"
| "portal_act ops key (RequestFails f err) p =
     map_option (\<lambda>w. reject err (p\<lparr>tab_world := w\<rparr>))
       (act (ops (user (tab_auth p))) key (failure_of f (cause err)) (tab_world p))"
| "portal_act ops key (LateRejection err) p = Some (reject err p)"
| "portal_act ops key SidebarSignsOut p =
     Some (with_session (signOut (tab_browser p) (tab_auth p)) (p\<lparr>tab_world := unmounted (tab_world p)\<rparr>))"
| "portal_act ops key (LoginSucceeds now email password) p =
     (if mounted (tab_world p) then None
      else Some (with_session (auth_step (SignIn now email password) (tab_browser p, tab_auth p)) p))"
| "portal_act ops key (ProviderSucceeds now provider) p =
     (if mounted (tab_world p) then None
      else Some (with_session (auth_step (OAuth now provider) (tab_browser p, tab_auth p)) p))"
| "portal_act ops key Replaced p =
     Some (with_session (reload (tab_browser p)) (p\<lparr>tab_world := unmounted (tab_world p), leaving := False\<rparr>))"

inductive portal_reachable ::
  "(auth_user option \<Rightarrow> ('s, 'u, 'row, 'aux) page_ops) \<Rightarrow> ('row \<Rightarrow> js_string) \<Rightarrow>
     ('s, 'row, 'aux) portal \<Rightarrow> ('s, 'row, 'aux) portal \<Rightarrow> bool"
  for ops :: "auth_user option \<Rightarrow> ('s, 'u, 'row, 'aux) page_ops" and key :: "'row \<Rightarrow> js_string"
    and p0 :: "('s, 'row, 'aux) portal"
where
  entered: "portal_reachable ops key p0 p0"
| event: "portal_reachable ops key p0 p \<Longrightarrow> portal_act ops key e p = Some p' \<Longrightarrow> portal_reachable ops key p0 p'"

lemma portal_invariant:
  assumes "portal_reachable ops key p0 p" and "P p0"
    and "\<And>p e p'. P p \<Longrightarrow> portal_act ops key e p = Some p' \<Longrightarrow> P p'"
  shows "P p"
  using assms(1) by induction (use assms(2,3) in auto)

subsection \<open>The page keeps what it has by itself\<close>

lemma act_unmounted: "\<not> mounted w \<Longrightarrow> act ops key a w = act ops' key a w"
  by (cases a) (auto split: load_state.splits option.splits)

lemma act_mounted: "act ops key a w = Some w' \<Longrightarrow> mounted w' \<Longrightarrow> mounted w"
  by (cases a) (auto simp: Let_def split: load_state.splits option.splits prod.splits if_splits)

text \<open>As long as the page is mounted, its user is the one who entered it.\<close>

definition page_inv ::
  "(auth_user option \<Rightarrow> ('s, 'u, 'row, 'aux) page_ops) \<Rightarrow> ('row \<Rightarrow> js_string) \<Rightarrow> auth_user \<Rightarrow>
     ('s, 'row, 'aux) world \<Rightarrow> ('s, 'row, 'aux) portal \<Rightarrow> bool" where
  "page_inv ops key u w0 p \<longleftrightarrow>
     reachable (ops (Some u)) key w0 (tab_world p) \<and> (mounted (tab_world p) \<longrightarrow> user (tab_auth p) = Some u)"

lemma reachable_unmounted:
  "reachable ops key w0 w \<Longrightarrow> reachable ops key w0 (unmounted w)"
proof (cases "mounted w")
  case True
  assume "reachable ops key w0 w"
  then show ?thesis unfolding unmounted_def by (rule reachable.further) (rule wstep.unmount [OF True])
next
  case False
  assume r: "reachable ops key w0 w"
  from False have "unmounted w = w" by (simp add: unmounted_def)
  with r show ?thesis by simp
qed

lemma page_inv_act:
  assumes "page_inv ops key u w0 p" and "act (ops (user (tab_auth p))) key a (tab_world p) = Some w"
  shows "page_inv ops key u w0 (p\<lparr>tab_world := w\<rparr>)"
proof -
  have "act (ops (Some u)) key a (tab_world p) = Some w"
    using assms act_unmounted [of "tab_world p" "ops (user (tab_auth p))" key a "ops (Some u)"]
    by (cases "mounted (tab_world p)") (auto simp: page_inv_def)
  then have "reachable (ops (Some u)) key w0 w"
    using assms(1) by (auto simp: page_inv_def intro: reachable.further act_wstep)
  with assms show ?thesis by (auto simp: page_inv_def dest: act_mounted)
qed

lemma page_inv_session: "\<not> mounted (tab_world p) \<Longrightarrow> page_inv ops key u w0 (with_session ba p) = page_inv ops key u w0 p"
  by (simp add: page_inv_def with_session_def)

lemma page_inv_reject: "page_inv ops key u w0 (reject err p) = page_inv ops key u w0 p"
  by (simp add: page_inv_def reject_def)

lemma page_inv_leave:
  "page_inv ops key u w0 p \<Longrightarrow> page_inv ops key u w0 (with_session ba (p\<lparr>tab_world := unmounted (tab_world p)\<rparr>))"
  by (simp add: page_inv_def with_session_def reachable_unmounted) (simp add: unmounted_def)

lemma page_inv_leaving: "page_inv ops key u w0 (p\<lparr>leaving := l\<rparr>) = page_inv ops key u w0 p"
  by (simp add: page_inv_def)

lemma page_inv_step:
  assumes "page_inv ops key u w0 p" and "portal_act ops key e p = Some p'"
  shows "page_inv ops key u w0 p'"
proof (cases e)
  case Replaced
  then have "p' = with_session (reload (tab_browser p)) ((p\<lparr>tab_world := unmounted (tab_world p)\<rparr>)\<lparr>leaving := False\<rparr>)"
    using assms(2) by simp
  then have "p' = (with_session (reload (tab_browser p)) (p\<lparr>tab_world := unmounted (tab_world p)\<rparr>))\<lparr>leaving := False\<rparr>"
    by (simp add: with_session_def)
  with assms(1) show ?thesis by (simp only: page_inv_leaving page_inv_leave)
qed (use assms in \<open>auto simp: page_inv_reject page_inv_session page_inv_leave intro: page_inv_act split: if_splits\<close>)

lemma portal_page:
  assumes "portal_reachable ops key (enter_portal b u s0 rows0) p"
  shows "reachable (ops (Some u)) key (start_world s0 rows0) (tab_world p)"
    and "mounted (tab_world p) \<Longrightarrow> user (tab_auth p) = Some u"
proof -
  have "page_inv ops key u (start_world s0 rows0) p"
    using assms
  proof (rule portal_invariant)
    show "page_inv ops key u (start_world s0 rows0) (enter_portal b u s0 rows0)"
      by (simp add: page_inv_def enter_portal_def reachable.here)
  qed (rule page_inv_step)
  then show "reachable (ops (Some u)) key (start_world s0 rows0) (tab_world p)"
    and "mounted (tab_world p) \<Longrightarrow> user (tab_auth p) = Some u"
    by (simp_all add: page_inv_def)
qed

subsection \<open>The session\<close>

text \<open>
  Memory and storage agree unless the document is about to be replaced; then the session has been removed
  or somebody has signed in again.
\<close>

definition session_inv :: "('s, 'row, 'aux) portal \<Rightarrow> bool" where
  "session_inv p \<longleftrightarrow>
     auth_state.loading (tab_auth p) = False
     \<and> (\<not> leaving p \<longrightarrow> user (tab_auth p) = stored_user (tab_browser p))
     \<and> (leaving p \<longrightarrow> location_href (tab_browser p) = ''/login'')
     \<and> (leaving p \<and> mounted (tab_world p) \<longrightarrow> stored_user (tab_browser p) = None)"

lemma on_rejected_ends:
  "ends_session err \<Longrightarrow> stored_user (snd (on_rejected True err b)) = None"
  "\<not> ends_session err \<Longrightarrow> snd (on_rejected True err b) = b"
  by (auto simp: ends_session_def on_rejected_def stored_user_cleared)

lemma on_rejected_location:
  "location_href (snd (on_rejected True err b)) = (if ends_session err then ''/login'' else location_href b)"
  by (auto simp: ends_session_def on_rejected_def)

lemma sign_in_location: "location_href (fst (auth_step (SignIn now email password) (b, st))) = location_href b"
  by (auto simp: signIn_def accept_session_def Let_def split: option.splits fetch_outcome.splits)

lemma sign_in_agrees:
  "user (snd (auth_step (SignIn now email password) (b, st))) = stored_user (fst (auth_step (SignIn now email password) (b, st)))
   \<and> loading (snd (auth_step (SignIn now email password) (b, st))) = loading st"
proof -
  obtain v u where "login_route now (signIn_body email password) = Some v" "json_ok v" "session_user v = Some u"
    using login_route_session by blast
  then show ?thesis by (simp add: signIn_def accept_session_ok stored_user_session)
qed

lemma oauth_location: "location_href (fst (auth_step (OAuth now provider) (b, st))) = location_href b"
  by (auto simp: oauthSignIn_def accept_session_def Let_def split: option.splits fetch_outcome.splits)

lemma oauth_agrees:
  "user (snd (auth_step (OAuth now provider) (b, st))) = stored_user (fst (auth_step (OAuth now provider) (b, st)))
   \<and> loading (snd (auth_step (OAuth now provider) (b, st))) = loading st"
proof -
  obtain u where "json_ok (oauth_route now provider)" "session_user (oauth_route now provider) = Some u"
    using oauth_route_session by blast
  then show ?thesis by (simp add: oauthSignIn_def accept_session_ok stored_user_session)
qed

lemma session_inv_act:
  assumes "session_inv p" and "act ops key a (tab_world p) = Some w"
  shows "session_inv (p\<lparr>tab_world := w\<rparr>)"
  using assms act_mounted by (auto simp: session_inv_def)

lemma session_inv_reject: "session_inv p \<Longrightarrow> session_inv (reject err p)"
  by (cases "ends_session err") (auto simp: session_inv_def reject_def on_rejected_ends on_rejected_location)

lemma session_inv_step:
  assumes "session_inv p" and "portal_act ops key e p = Some p'"
  shows "session_inv p'"
proof (cases e)
  case SidebarSignsOut
  with assms show ?thesis
    by (auto simp: session_inv_def with_session_def unmounted_def signOut_def)
next
  case (LoginSucceeds now email password)
  let ?s = "auth_step (SignIn now email password) (tab_browser p, tab_auth p)"
  have "p' = with_session ?s p" "\<not> mounted (tab_world p)"
    using LoginSucceeds assms(2) by (auto split: if_splits)
  with assms(1) sign_in_location [of now email password "tab_browser p" "tab_auth p"]
    sign_in_agrees [of now email password "tab_browser p" "tab_auth p"] show ?thesis
    by (simp add: session_inv_def with_session_def del: auth_step.simps)
next
  case (ProviderSucceeds now provider)
  let ?s = "auth_step (OAuth now provider) (tab_browser p, tab_auth p)"
  have "p' = with_session ?s p" "\<not> mounted (tab_world p)"
    using ProviderSucceeds assms(2) by (auto split: if_splits)
  with assms(1) oauth_location [of now provider "tab_browser p" "tab_auth p"]
    oauth_agrees [of now provider "tab_browser p" "tab_auth p"] show ?thesis
    by (simp add: session_inv_def with_session_def del: auth_step.simps)
next
  case Replaced
  with assms show ?thesis
    by (auto simp: session_inv_def with_session_def unmounted_def reload_eq stored_user_reload)
qed (use assms in \<open>auto intro: session_inv_reject session_inv_act split: if_splits\<close>)

lemma portal_session:
  assumes "portal_reachable ops key (enter_portal b u s0 rows0) p" and "stored_user b = Some u"
  shows "session_inv p"
  using assms(1)
proof (rule portal_invariant)
  show "session_inv (enter_portal b u s0 rows0)"
    using assms(2) by (simp add: session_inv_def enter_portal_def)
qed (rule session_inv_step)

lemma rejected_session:
  assumes "ends_session err"
  shows "stored_user (tab_browser (reject err p)) = None" "leaving (reject err p)"
    "location_href (tab_browser (reject err p)) = ''/login''"
    "local_storage (tab_browser (reject err p)) session_key = None"
  using assms by (simp_all add: reject_def on_rejected_ends on_rejected_location)
    (auto simp: on_rejected_def ends_session_def)

lemma not_rejected_session:
  "\<not> ends_session err \<Longrightarrow> reject err p = p"
  by (simp add: reject_def on_rejected_ends)

lemma replaced_user:
  "portal_act ops key Replaced p = Some p' \<Longrightarrow>
     user (tab_auth p') = stored_user (tab_browser p) \<and> \<not> auth_state.loading (tab_auth p')
     \<and> \<not> mounted (tab_world p') \<and> \<not> leaving p'"
  by (auto simp: with_session_def unmounted_def reload_eq)

text \<open>
  An answer that ends the session does so for whoever is signed in by then, also when it belongs to a request
  of somebody who has signed out in the meantime.
\<close>

lemma late_rejection_ends_later_session:
  assumes "portal_act ops key (LateRejection err) p = Some p1" and "ends_session err"
    and "portal_act ops key Replaced p1 = Some p2"
  shows "user (tab_auth p2) = None"
proof -
  have "p1 = reject err p" using assms(1) by simp
  with rejected_session(1) [OF assms(2)] replaced_user [OF assms(3)] show ?thesis by simp
qed

subsection \<open>Properties\<close>

text \<open>
  C19: While a page of the admin portal is mounted, its user is the one who entered it; and at every time the
  user in memory is the one whom the stored session stands for, unless a rejected request has
  made the browser leave for the login page: then a mounted page has no stored session any more.
\<close>

theorem portal_session_sound:
  assumes "portal_reachable ops key (enter_portal b u s0 rows0) p" and "stored_user b = Some u"
  shows "(mounted (tab_world p) \<longrightarrow> user (tab_auth p) = Some u)
     \<and> (\<not> leaving p \<longrightarrow> user (tab_auth p) = stored_user (tab_browser p))
     \<and> (leaving p \<longrightarrow> location_href (tab_browser p) = ''/login''
           \<and> (mounted (tab_world p) \<longrightarrow> stored_user (tab_browser p) = None))"
  using portal_session [OF assms] portal_page(2) [OF assms(1)] by (auto simp: session_inv_def)

text \<open>
  The user of the login route, stored as its answer, enters a page; its load is rejected with 401, the document
  is replaced, and somebody signs in through a provider.
\<close>

definition idle_ops :: "(unit, unit, unit, unit) page_ops" where
  "idle_ops =
     \<lparr>op_view = (\<lambda>_. nothing), op_ui = (\<lambda>s _. (s, [])), op_load_ok = (\<lambda>_ _ s. s), op_load_err = (\<lambda>_ s. s),
      op_create_ok = (\<lambda>_ s. s), op_create_err = (\<lambda>_ s. s)\<rparr>"

theorem portal_session_sound_witness:
  "\<exists>u b err p1 p2 p3. stored_user b = Some u
     \<and> portal_act (\<lambda>usr. idle_ops) (\<lambda>_. []) (RequestFails TheLoad err) (enter_portal b u () ([] :: unit list)) = Some p1
     \<and> mounted (tab_world p1) \<and> leaving p1 \<and> location_href (tab_browser p1) = ''/login''
     \<and> user (tab_auth p1) = Some u \<and> stored_user (tab_browser p1) = None
     \<and> portal_act (\<lambda>usr. idle_ops) (\<lambda>_. []) Replaced p1 = Some p2 \<and> user (tab_auth p2) = None
     \<and> portal_act (\<lambda>usr. idle_ops) (\<lambda>_. []) (ProviderSucceeds [] ''google'') p2 = Some p3
     \<and> user (tab_auth p3) = stored_user (tab_browser p3)"
proof -
  obtain v u where v: "login_route [] (signIn_body [] []) = Some v" "json_ok v" "session_user v = Some u"
    using login_route_session by blast
  let ?b = "\<lparr>local_storage = [session_key \<mapsto> json_stringify v], location_href = []\<rparr>"
  have s: "stored_user ?b = Some u"
    using stored_user_session [OF v(2), of "\<lparr>local_storage = \<lambda>_. None, location_href = []\<rparr>"] v(3) by simp
  let ?err = "\<lparr>cause = OtherThrown, status = Some 401\<rparr>"
  let ?act = "portal_act (\<lambda>usr :: auth_user option. idle_ops) (\<lambda>_ :: unit. [])"
  let ?p = "enter_portal ?b u () ([] :: unit list)"
  obtain p1 where p1: "?act (RequestFails TheLoad ?err) ?p = Some p1" "mounted (tab_world p1)" "leaving p1"
    by (simp add: enter_portal_def start_world_def reject_def ends_session_def)
  obtain p2 where p2: "?act Replaced p1 = Some p2" "\<not> mounted (tab_world p2)" "\<not> leaving p2"
    by (simp add: with_session_def unmounted_def)
  obtain p3 where p3: "?act (ProviderSucceeds [] ''google'') p2 = Some p3" "\<not> leaving p3"
    using p2 by (simp add: with_session_def)
  have r1: "portal_reachable (\<lambda>usr. idle_ops) (\<lambda>_. []) ?p p1" by (rule event [OF entered p1(1)])
  have r2: "portal_reachable (\<lambda>usr. idle_ops) (\<lambda>_. []) ?p p2" by (rule event [OF r1 p2(1)])
  have r3: "portal_reachable (\<lambda>usr. idle_ops) (\<lambda>_. []) ?p p3" by (rule event [OF r2 p3(1)])
  have "user (tab_auth p1) = Some u" "location_href (tab_browser p1) = ''/login''" "stored_user (tab_browser p1) = None"
    using portal_session_sound [OF r1 s] p1(2,3) by blast+
  moreover have "user (tab_auth p2) = None"
    using replaced_user [OF p2(1)] \<open>stored_user (tab_browser p1) = None\<close> by simp
  moreover have "user (tab_auth p3) = stored_user (tab_browser p3)"
    using portal_session_sound [OF r3 s] p3(2) by blast
  ultimately show ?thesis using s p1 p2(1) p3(1) by blast
qed

end
