(* ===== verification/Portal_Pages.thy ===== *)
theory Portal_Pages
  imports Portal_World Services_Page
begin

section \<open>The services page in the portal\<close>

text \<open>
  The composition of \<open>Portal_World\<close> on the operations of the services page: what a failing request of the
  page does to the page, to the session and to what the user sees next.
\<close>

definition services_portal ::
  "(js_string \<Rightarrow> js_string) \<Rightarrow> auth_user option \<Rightarrow>
     (services_page, services_ui, ManagementService, ManagementProduct list) page_ops" where
  "services_portal fmt usr = services_ops usr fmt"

fun services_failure_text :: "failing \<Rightarrow> js_string" where
  "services_failure_text TheLoad = ''Failed to load services.''"
| "services_failure_text (TheCreate i) = ''Failed to create service.''"

lemma services_failure_page:
  "act (services_ops usr fmt) key (failure_of f t) w = Some w' \<Longrightarrow> mounted w' \<Longrightarrow>
     services_page.error (page w') = Some (message_of (services_failure_text f) t)
     \<and> services_page.services (page w') = services_page.services (page w) \<and> sent w' = sent w"
  by (cases f) (auto simp: services_ops_def services_load_err_def services_create_err_def
      split: load_state.splits if_splits)

lemma services_failure_step:
  assumes "portal_act (services_portal fmt) key (RequestFails f err) p = Some p1"
  obtains w where "act (services_ops (user (tab_auth p)) fmt) key (failure_of f (cause err)) (tab_world p) = Some w"
    and "p1 = reject err (p\<lparr>tab_world := w\<rparr>)"
  using assms by (auto simp: services_portal_def)

text \<open>
  C20: In the portal, a failing load or create of the services page shows its error and leaves the rows
  alone. Rejected with 401 or 403, it also ends the session: the storage has none, the browser goes to the
  login page, and once the document is replaced nobody is signed in and the gate renders nothing and
  sends to the login page. Rejected otherwise, it leaves browser and session as they are.
\<close>

theorem services_rejected_in_portal:
  assumes fail: "portal_act (services_portal fmt) ManagementService.ident (RequestFails f err) p = Some p1"
    and new: "portal_act (services_portal fmt) ManagementService.ident Replaced p1 = Some p2"
  shows "(mounted (tab_world p1) \<longrightarrow>
            services_page.error (page (tab_world p1)) = Some (message_of (services_failure_text f) (cause err))
            \<and> services_page.services (page (tab_world p1)) = services_page.services (page (tab_world p)))
     \<and> (if ends_session err then
          local_storage (tab_browser p1) session_key = None \<and> location_href (tab_browser p1) = ''/login''
          \<and> user (tab_auth p2) = None
          \<and> auth_gate_render (auth_state.loading (tab_auth p2)) (user (tab_auth p2)) c = GateNothing
          \<and> auth_gate_effect (auth_state.loading (tab_auth p2)) (user (tab_auth p2)) = Some (NavReplace ''/login'')
        else tab_browser p1 = tab_browser p \<and> tab_auth p1 = tab_auth p \<and> leaving p1 = leaving p)"
proof -
  obtain w where w: "act (services_ops (user (tab_auth p)) fmt) ManagementService.ident
      (failure_of f (cause err)) (tab_world p) = Some w"
    and p1: "p1 = reject err (p\<lparr>tab_world := w\<rparr>)"
    using fail by (rule services_failure_step)
  have shown: "mounted (tab_world p1) \<longrightarrow>
      services_page.error (page (tab_world p1)) = Some (message_of (services_failure_text f) (cause err))
      \<and> services_page.services (page (tab_world p1)) = services_page.services (page (tab_world p))"
    using services_failure_page [OF w] p1 by (simp add: reject_def)
  show ?thesis
  proof (cases "ends_session err")
    case True
    with replaced_user [OF new] p1 have "user (tab_auth p2) = None" "\<not> auth_state.loading (tab_auth p2)"
      by (simp_all add: rejected_session)
    with True shown p1 show ?thesis
      by (simp add: rejected_session auth_gate_render_def auth_gate_effect_def canAccessPortal_def)
  next
    case False
    with shown p1 show ?thesis by (simp add: not_rejected_session)
  qed
qed

definition forbidden :: http_error where
  "forbidden = \<lparr>cause = ErrorObj ''Forbidden'', http_error.status = Some 403\<rparr>"

text \<open>The stored session of the owner.\<close>

definition owner_browser :: browser where
  "owner_browser =
     \<lparr>local_storage = [session_key \<mapsto> json_stringify (JObj [(''user'', JObj owner_user)])],
      location_href = ''/admin/services''\<rparr>"

theorem services_rejected_in_portal_witness:
  "\<exists>p1 p2. portal_act (services_portal id) ManagementService.ident (RequestFails TheLoad forbidden)
        (enter_portal owner_browser owner_user services_init []) = Some p1
     \<and> portal_act (services_portal id) ManagementService.ident Replaced p1 = Some p2
     \<and> services_page.error (page (tab_world p1)) = Some ''Forbidden''
     \<and> local_storage (tab_browser p1) session_key = None \<and> user (tab_auth p2) = None"
proof -
  let ?p = "enter_portal owner_browser owner_user services_init []"
  obtain p1 where p1: "portal_act (services_portal id) ManagementService.ident (RequestFails TheLoad forbidden) ?p = Some p1"
      and m: "mounted (tab_world p1)"
    by (simp add: enter_portal_def start_world_def reject_def)
  obtain p2 where p2: "portal_act (services_portal id) ManagementService.ident Replaced p1 = Some p2" by simp
  have "ends_session forbidden" by (simp add: ends_session_def forbidden_def)
  with services_rejected_in_portal [OF p1 p2, where c = "()"] m
  have "services_page.error (page (tab_world p1)) = Some ''Forbidden''"
    and "local_storage (tab_browser p1) session_key = None" and "user (tab_auth p2) = None"
    by (simp_all add: forbidden_def)
  with p1 p2 show ?thesis by blast
qed

end
