(* ===== verification/Branding.thy ===== *)
theory Branding
  imports Vdom
begin

section \<open>Logo and favicon\<close>

text \<open>
  \<open>components/brand/brand-logo.tsx\<close> and \<open>theme-favicon.tsx\<close>, the same in both portals. The favicon component
  renders nothing; its effect rewrites the \<open>link\<close> elements in the head of the document each time the theme
  that next-themes resolves changes. The head is modelled as the list of its \<open>link\<close> elements in
  document order. A selector \<open>link[rel='r'][sizes='s']\<close> compares the attributes as texts;
  \<open>link.sizes = s\<close> sets the attribute. The hosts in front of a path, which the property \<open>href\<close> adds, are left
  out: the code looks at the end of it only.
\<close>

subsection \<open>The favicon\<close>

record link_element =
  rel :: js_string
  sizes :: "js_string option"
  link_type :: "js_string option"
  href :: js_string

definition faviconMap :: "bool \<Rightarrow> js_string" where
  "faviconMap dark =
     (if dark then ''/brand/seabaas_favicon_dark.png'' else ''/brand/seabaas_favicon_light.png'')"

definition cacheBust :: js_string where
  "cacheBust = ''20260209''"

text \<open>The test of \<open>querySelector\<close>; without \<open>sizes\<close> the selector has no second part.\<close>

definition selects :: "js_string \<Rightarrow> js_string option \<Rightarrow> link_element \<Rightarrow> bool" where
  "selects r sz l \<longleftrightarrow> rel l = r \<and> (case sz of None \<Rightarrow> True | Some s \<Rightarrow> truthy_str s \<longrightarrow> sizes l = Some s)"

text \<open>Both \<open>sizes\<close> and \<open>type\<close> are set only when they are given.\<close>

definition dress :: "js_string option \<Rightarrow> js_string \<Rightarrow> link_element \<Rightarrow> link_element" where
  "dress ty h l =
     l\<lparr>link_type := (case ty of None \<Rightarrow> link_type l | Some t \<Rightarrow> (if truthy_str t then Some t else link_type l)),
       href := h\<rparr>"

definition new_link :: "js_string \<Rightarrow> js_string option \<Rightarrow> link_element" where
  "new_link r sz =
     \<lparr>rel = r, sizes = (case sz of None \<Rightarrow> None | Some s \<Rightarrow> (if truthy_str s then Some s else None)),
      link_type = None, href = []\<rparr>"

fun update_first :: "('a \<Rightarrow> bool) \<Rightarrow> ('a \<Rightarrow> 'a) \<Rightarrow> 'a list \<Rightarrow> 'a list" where
  "update_first P f [] = []"
| "update_first P f (x # xs) = (if P x then f x # xs else x # update_first P f xs)"

definition setLink ::
  "js_string \<Rightarrow> js_string \<Rightarrow> js_string option \<Rightarrow> js_string option \<Rightarrow> link_element list \<Rightarrow> link_element list" where
  "setLink r h sz ty head =
     (if \<not> list_ex (selects r sz) head then head @ [dress ty h (new_link r sz)]
      else update_first (selects r sz) (dress ty h) head)"

definition js_ends_with :: "js_string \<Rightarrow> js_string \<Rightarrow> bool" where
  "js_ends_with s p \<longleftrightarrow> length p \<le> length s \<and> drop (length s - length p) s = p"

definition removeLegacyFavicon :: "link_element list \<Rightarrow> link_element list" where
  "removeLegacyFavicon head =
     filter (\<lambda>l. \<not> (rel l = ''icon'' \<and> (js_ends_with (href l) ''/favicon.ico'' \<or> js_ends_with (href l) ''favicon.ico''))) head"

text \<open>The effect; its argument is \<open>resolvedTheme\<close>, which is undefined before next-themes knows it.\<close>

definition favicon_href :: "js_string option \<Rightarrow> js_string" where
  "favicon_href resolvedTheme = faviconMap (resolvedTheme = Some ''dark'') @ ''?v='' @ cacheBust"

definition favicon_effect :: "js_string option \<Rightarrow> link_element list \<Rightarrow> link_element list" where
  "favicon_effect resolvedTheme head =
     (let h = favicon_href resolvedTheme; png = Some ''image/png''
      in setLink ''apple-touch-icon'' h None png
           (setLink ''shortcut icon'' h None png
             (setLink ''icon'' h (Some ''32x32'') png
               (setLink ''icon'' h (Some ''16x16'') png
                 (removeLegacyFavicon head)))))"

text \<open>The \<open>link\<close> elements that \<open>app/layout.tsx\<close> writes into the head itself.\<close>

definition layout_links :: "link_element list" where
  "layout_links =
     [\<lparr>rel = ''icon'', sizes = Some ''16x16'', link_type = Some ''image/png'', href = ''/brand/seabaas_favicon_light.png''\<rparr>,
      \<lparr>rel = ''icon'', sizes = Some ''32x32'', link_type = Some ''image/png'', href = ''/brand/seabaas_favicon_light.png''\<rparr>,
      \<lparr>rel = ''apple-touch-icon'', sizes = None, link_type = Some ''image/png'', href = ''/brand/seabaas_favicon_light.png''\<rparr>]"

subsection \<open>The logo\<close>

record brand_logo =
  logo_mounted :: bool
  logo_dark :: bool

definition brand_logo_init :: brand_logo where
  "brand_logo_init = \<lparr>logo_mounted = False, logo_dark = False\<rparr>"

text \<open>
  The first effect runs once; the second after every change of \<open>resolvedTheme\<close>, and looks whether the
  document has the class \<open>dark\<close>.
\<close>

definition logo_mount_effect :: "brand_logo \<Rightarrow> brand_logo" where
  "logo_mount_effect s = s\<lparr>logo_mounted := True\<rparr>"

definition logo_theme_effect :: "bool \<Rightarrow> brand_logo \<Rightarrow> brand_logo" where
  "logo_theme_effect has_dark_class s = s\<lparr>logo_dark := has_dark_class\<rparr>"

definition logo_src :: "bool \<Rightarrow> bool \<Rightarrow> js_string" where
  "logo_src icon dark =
     (if dark then (if icon then ''/brand/seabaas_favicon_dark.png'' else ''/brand/seabaas_logo_dark_full.png'')
      else (if icon then ''/brand/seabaas_favicon_light.png'' else ''/brand/seabaas_logo_light_full.png''))"

text \<open>What is rendered: nothing before it is mounted, then an image of its source and size.\<close>

definition BrandLogo :: "bool \<Rightarrow> brand_logo \<Rightarrow> (js_string \<times> nat) option" where
  "BrandLogo icon s =
     (if \<not> logo_mounted s then None else Some (logo_src icon (logo_dark s), if icon then 64 else 360))"

subsection \<open>Facts\<close>

text \<open>The first element a selector finds.\<close>

definition found :: "js_string \<Rightarrow> js_string option \<Rightarrow> link_element list \<Rightarrow> link_element option" where
  "found r sz head = List.find (selects r sz) head"

definition dressed :: "js_string \<Rightarrow> link_element option \<Rightarrow> bool" where
  "dressed h l = (case l of None \<Rightarrow> False | Some x \<Rightarrow> href x = h \<and> link_type x = Some ''image/png'')"

lemma find_append: "List.find P (xs @ ys) = (case List.find P xs of None \<Rightarrow> List.find P ys | Some x \<Rightarrow> Some x)"
  by (induction xs) simp_all

lemma find_None_ex: "List.find P xs = None \<longleftrightarrow> \<not> list_ex P xs"
  by (induction xs) simp_all

lemma selects_update [simp]: "selects r sz (l\<lparr>link_type := a, href := b\<rparr>) = selects r sz l"
  by (simp add: selects_def split: option.splits)

lemma selects_new [simp]: "selects r sz (new_link r sz)"
  by (simp add: selects_def new_link_def split: option.splits)

lemma dressed_setLink_self: "dressed h (found r sz (setLink r h sz (Some ''image/png'') head))"
proof (cases "list_ex (selects r sz) head")
  case True
  then have "List.find (selects r sz) (update_first (selects r sz) f head) = Some (f (the (found r sz head)))"
    if "\<And>x. selects r sz (f x) = selects r sz x" for f
    using that by (induction head) (auto simp: found_def)
  from this [of "dress (Some ''image/png'') h"] True show ?thesis
    by (simp add: setLink_def found_def dressed_def dress_def truthy_str_def)
qed (simp add: setLink_def found_def find_append find_None_ex [symmetric] dressed_def dress_def truthy_str_def)

text \<open>Another element set to the same \<open>href\<close> does not undo it.\<close>

lemma dressed_setLink:
  "dressed h (found r sz head) \<Longrightarrow> dressed h (found r sz (setLink r' h sz' (Some ''image/png'') head))"
  by (induction head)
    (auto simp: setLink_def found_def dressed_def dress_def truthy_str_def split: if_splits option.splits)

text \<open>Setting what is set already changes nothing.\<close>

lemma setLink_dressed:
  "dressed h (found r sz head) \<Longrightarrow> setLink r h sz (Some ''image/png'') head = head"
  by (induction head)
    (auto simp: setLink_def found_def dressed_def dress_def truthy_str_def split: if_splits option.splits)

definition legacy :: "link_element \<Rightarrow> bool" where
  "legacy l \<longleftrightarrow>
     rel l = ''icon'' \<and> (js_ends_with (href l) ''/favicon.ico'' \<or> js_ends_with (href l) ''favicon.ico'')"

lemma favicon_href_not_legacy:
  "\<not> js_ends_with (favicon_href th) ''/favicon.ico''" "\<not> js_ends_with (favicon_href th) ''favicon.ico''"
proof -
  have "\<not> js_ends_with (faviconMap d @ ''?v='' @ cacheBust) t" if "t \<in> {''/favicon.ico'', ''favicon.ico''}" for d t
    using that by (cases d) (auto simp: faviconMap_def cacheBust_def js_ends_with_def)
  then show "\<not> js_ends_with (favicon_href th) ''/favicon.ico''" "\<not> js_ends_with (favicon_href th) ''favicon.ico''"
    by (simp_all add: favicon_href_def)
qed

lemma setLink_legacy:
  "\<not> list_ex legacy head \<Longrightarrow> \<not> list_ex legacy (setLink r (favicon_href th) sz ty head)"
  by (induction head)
    (auto simp: setLink_def legacy_def dress_def favicon_href_not_legacy split: if_splits)

lemma removeLegacy_legacy: "\<not> list_ex legacy (removeLegacyFavicon head)"
  by (induction head) (auto simp: removeLegacyFavicon_def legacy_def)

lemma removeLegacy_same: "\<not> list_ex legacy head \<Longrightarrow> removeLegacyFavicon head = head"
  by (induction head) (auto simp: removeLegacyFavicon_def legacy_def)

lemma favicon_effect_dressed:
  fixes head :: "link_element list" and th :: "js_string option"
  defines "out \<equiv> favicon_effect th head"
  shows "dressed (favicon_href th) (found ''icon'' (Some ''16x16'') out)"
    "dressed (favicon_href th) (found ''icon'' (Some ''32x32'') out)"
    "dressed (favicon_href th) (found ''shortcut icon'' None out)"
    "dressed (favicon_href th) (found ''apple-touch-icon'' None out)"
    "\<not> list_ex legacy out"
  by (simp_all add: out_def favicon_effect_def Let_def dressed_setLink_self dressed_setLink setLink_legacy
      removeLegacy_legacy)

text \<open>What the effect leaves alone.\<close>

definition of_rel :: "js_string \<Rightarrow> link_element list \<Rightarrow> link_element list" where
  "of_rel r head = filter (\<lambda>l. rel l = r) head"

lemma rel_dress [simp]: "rel (dress ty h l) = rel l" "rel (new_link r sz) = r"
  by (simp_all add: dress_def new_link_def)

lemma filter_setLink: "\<not> P r \<Longrightarrow> filter (\<lambda>l. P (rel l)) (setLink r h sz ty head) = filter (\<lambda>l. P (rel l)) head"
proof -
  assume "\<not> P r"
  then have "filter (\<lambda>l. P (rel l)) (update_first (selects r sz) (dress ty h) head) = filter (\<lambda>l. P (rel l)) head"
    by (induction head) (auto simp: selects_def)
  with \<open>\<not> P r\<close> show ?thesis by (simp add: setLink_def)
qed

lemma filter_removeLegacy: "\<not> P ''icon'' \<Longrightarrow> filter (\<lambda>l. P (rel l)) (removeLegacyFavicon head) = filter (\<lambda>l. P (rel l)) head"
  by (auto simp: removeLegacyFavicon_def intro!: filter_cong)

lemma of_rel_other:
  "r \<noteq> r' \<Longrightarrow> of_rel r (setLink r' h sz ty head) = of_rel r head"
  "r \<noteq> ''icon'' \<Longrightarrow> of_rel r (removeLegacyFavicon head) = of_rel r head"
  unfolding of_rel_def by (rule filter_setLink filter_removeLegacy; simp)+

lemma of_rel_self: "tl (of_rel r (setLink r h None ty head)) = tl (of_rel r head)"
proof -
  have "of_rel r (update_first (selects r None) (dress ty h) head)
      = (case of_rel r head of [] \<Rightarrow> [] | l # ls \<Rightarrow> dress ty h l # ls)"
    by (induction head) (auto simp: of_rel_def selects_def)
  moreover have "\<not> list_ex (selects r None) head \<Longrightarrow> of_rel r head = []"
    by (auto simp: of_rel_def selects_def list_ex_iff filter_empty_conv)
  ultimately show ?thesis
    by (auto simp: setLink_def of_rel_def split: list.split)
qed

lemma favicon_frame:
  "tl (of_rel ''shortcut icon'' (favicon_effect th head)) = tl (of_rel ''shortcut icon'' head)
   \<and> tl (of_rel ''apple-touch-icon'' (favicon_effect th head)) = tl (of_rel ''apple-touch-icon'' head)
   \<and> filter (\<lambda>l. rel l \<notin> {''icon'', ''shortcut icon'', ''apple-touch-icon''}) (favicon_effect th head)
     = filter (\<lambda>l. rel l \<notin> {''icon'', ''shortcut icon'', ''apple-touch-icon''}) head"
proof (intro conjI)
  let ?P = "\<lambda>r. r \<notin> {''icon'', ''shortcut icon'', ''apple-touch-icon''}"
  show "filter (\<lambda>l. ?P (rel l)) (favicon_effect th head) = filter (\<lambda>l. ?P (rel l)) head"
    unfolding favicon_effect_def Let_def
    by (subst filter_setLink [of ?P] filter_removeLegacy [of ?P], simp)+ (rule refl)
qed (simp_all add: favicon_effect_def Let_def of_rel_other of_rel_self)

subsection \<open>Properties\<close>

text \<open>
  C39: After the effect of the favicon component, whatever the head held before, the icon in both sizes, the
  shortcut icon and the touch icon that a selector finds first are the file of the theme; no element of
  relation \<open>icon\<close> has an address that ends in \<open>favicon.ico\<close>; running the effect again changes nothing. But
  shortcut icons and touch icons after the first stay as they are, with a \<open>favicon.ico\<close> as well, and so
  do all elements of other relations.
\<close>

theorem favicon_effect_correct:
  "dressed (favicon_href th) (found ''icon'' (Some ''16x16'') (favicon_effect th head))
   \<and> dressed (favicon_href th) (found ''icon'' (Some ''32x32'') (favicon_effect th head))
   \<and> dressed (favicon_href th) (found ''shortcut icon'' None (favicon_effect th head))
   \<and> dressed (favicon_href th) (found ''apple-touch-icon'' None (favicon_effect th head))
   \<and> \<not> list_ex (\<lambda>l. rel l = ''icon'' \<and> js_ends_with (href l) ''favicon.ico'') (favicon_effect th head)
   \<and> favicon_effect th (favicon_effect th head) = favicon_effect th head
   \<and> tl (of_rel ''shortcut icon'' (favicon_effect th head)) = tl (of_rel ''shortcut icon'' head)
   \<and> tl (of_rel ''apple-touch-icon'' (favicon_effect th head)) = tl (of_rel ''apple-touch-icon'' head)
   \<and> filter (\<lambda>l. rel l \<notin> {''icon'', ''shortcut icon'', ''apple-touch-icon''}) (favicon_effect th head)
     = filter (\<lambda>l. rel l \<notin> {''icon'', ''shortcut icon'', ''apple-touch-icon''}) head"
proof -
  note d = favicon_effect_dressed [of th head]
  have "favicon_effect th (favicon_effect th head) = favicon_effect th head"
    unfolding favicon_effect_def [of th "favicon_effect th head"] Let_def
    by (simp only: removeLegacy_same [OF d(5)] setLink_dressed [OF d(1)] setLink_dressed [OF d(2)]
        setLink_dressed [OF d(3)] setLink_dressed [OF d(4)])
  moreover have "\<not> list_ex (\<lambda>l. rel l = ''icon'' \<and> js_ends_with (href l) ''favicon.ico'') (favicon_effect th head)"
    using d(5) by (auto simp: list_ex_iff legacy_def)
  ultimately show ?thesis using d(1-4) favicon_frame [of th head] by blast
qed

text \<open>
  Only the first of two elements with the same attributes is rewritten. The metadata of \<open>app/layout.tsx\<close>
  names the same icons once more, for which Next.js writes \<open>link\<close> elements of their own; they keep the
  light icon.
\<close>

lemma favicon_duplicates_stay:
  "favicon_effect (Some ''dark'') (layout_links @ layout_links) =
     map (\<lambda>l. l\<lparr>href := favicon_href (Some ''dark'')\<rparr>) layout_links @ layout_links
     @ [\<lparr>rel = ''shortcut icon'', sizes = None, link_type = Some ''image/png'', href = favicon_href (Some ''dark'')\<rparr>]"
  by code_simp

end
