(* ===== verification/Dev_Session.thy ===== *)
theory Dev_Session
  imports Admin_Auth Dev_Auth
begin

section \<open>The developer's session in localStorage\<close>

text \<open>
  What \<open>AuthProvider.tsx\<close> of the developer portal keeps in \<open>localStorage\<close> and restores from it when
  the session of next-auth has no user; unlike the admin portal's provider it does not guard the restore.
\<close>

text \<open>A stored text from which no session can be read.\<close>

definition unreadable :: "browser \<Rightarrow> bool" where
  "unreadable b \<longleftrightarrow>
     (case local_storage b session_key of
        None \<Rightarrow> False
      | Some raw \<Rightarrow> truthy_str raw \<and> (json_parse raw = None \<or> json_parse raw = Some JNull))"

lemma dev_effect_throws:
  "\<not> truthy (session_prop s ''user'') \<Longrightarrow>
     (\<exists>t. dev_auth_effect now (SessionKnown s) b a = Inl t) \<longleftrightarrow> unreadable b"
  by (auto simp: dev_auth_effect_def unreadable_def split: option.splits json.splits)

lemma dev_effect_restores:
  assumes "\<not> truthy (session_prop s ''user'')" and "json_ok v" and "v \<noteq> JNull"
    and "local_storage b session_key = Some (json_stringify v)"
  shows "dev_auth_effect now (SessionKnown s) b a = Inr (a\<lparr>dev_auth.user := get_prop v ''user'', dev_auth.loading := False\<rparr>)"
  using assms json_stringify_not_Nil [OF assms(2)]
  by (auto simp: dev_auth_effect_def json_parse_stringify truthy_str_def split: json.splits)

text \<open>
  C23: What a load of the developer portal shows. If the session of next-auth has a user, as the portal's own
  session route always gives one, it is that user, with defaults for what is missing, and what is in
  \<open>localStorage\<close> is not read, so a stored sign-in is not restored. Only without a user there the portal restores from
  \<open>localStorage\<close>: after a sign-in with any session a later load finds the same user as the sign-in did; the
  effect throws exactly when the stored text is not JSON or is \<open>null\<close>, and then it has changed nothing, so the
  portal stays in its loading state, and so does every later load.
\<close>

theorem dev_restore:
  assumes ok: "json_ok v" and "v \<noteq> JNull"
  shows "if truthy (session_prop s ''user'')
    then (\<forall>b'. dev_auth_effect now (SessionKnown s) b' dev_auth_init
            = Inr \<lparr>user = Some (dev_session_user now (the (session_prop s ''user''))), loading = False\<rparr>)
    else (\<exists>b' a'. dev_signIn True (Some v) b a = (Inr (), b', a')
            \<and> dev_auth_effect now (SessionKnown s) b' dev_auth_init
                = Inr \<lparr>user = user a', loading = False\<rparr>)
     \<and> ((\<exists>t. dev_auth_effect now (SessionKnown s) b a = Inl t) \<longleftrightarrow> unreadable b)
     \<and> (unreadable b \<longrightarrow> (\<forall>now' a'. \<exists>t. dev_auth_effect now' (SessionKnown s) b a' = Inl t)
          \<and> dev_gate_render dev_auth_init c = nothing \<and> dev_gate_effect dev_auth_init = None)"
proof (cases "truthy (session_prop s ''user'')")
  case True
  then show ?thesis by (simp add: dev_auth_effect_def dev_auth_init_def)
next
  case none: False
  let ?b = "b\<lparr>local_storage := (local_storage b)(session_key \<mapsto> json_stringify v)\<rparr>"
  have "dev_signIn True (Some v) b a = (Inr (), ?b, a\<lparr>user := get_prop v ''user''\<rparr>)"
    using assms(2) by (simp add: dev_signIn_def)
  moreover have "dev_auth_effect now (SessionKnown s) ?b dev_auth_init = Inr \<lparr>user = get_prop v ''user'', loading = False\<rparr>"
    using dev_effect_restores [OF none ok assms(2), of ?b] by (simp add: dev_auth_init_def)
  moreover have "dev_gate_render dev_auth_init c = nothing" "dev_gate_effect dev_auth_init = None"
    by (simp_all add: dev_gate_render_def dev_gate_effect_def dev_auth_init_def)
  ultimately show ?thesis using none dev_effect_throws [OF none] by simp
qed

theorem dev_restore_witness:
  "(\<exists>t. dev_auth_effect [] (SessionKnown None) \<lparr>local_storage = [session_key \<mapsto> ''oops''], location_href = []\<rparr> dev_auth_init = Inl t)
   \<and> (\<exists>a. dev_auth_effect [] (SessionKnown (Some (JObj [(''user'', JObj [(''id'', JStr ''u'')])])))
          \<lparr>local_storage = [session_key \<mapsto> ''oops''], location_href = []\<rparr> dev_auth_init = Inr a
        \<and> \<not> loading a \<and> user a \<noteq> None)"
proof
  let ?b = "\<lparr>local_storage = [session_key \<mapsto> ''oops''], location_href = []\<rparr>"
  have ok: "json_ok (JObj [])" "JObj [] \<noteq> JNull" by simp_all
  have n: "\<not> truthy (session_prop None ''user'')" by (simp add: session_prop_def truthy_def)
  have "json_parse ''oops'' = None" by code_simp
  then have u: "unreadable ?b" by (simp add: unreadable_def truthy_str_def)
  from dev_restore [OF ok, where s = None and now = "[]" and b = ?b and a = dev_auth_init and c = nothing] n u
  show "\<exists>t. dev_auth_effect [] (SessionKnown None) ?b dev_auth_init = Inl t" by (simp only: if_False) blast
next
  let ?s = "Some (JObj [(''user'', JObj [(''id'', JStr ''u'')])])"
  have ok: "json_ok (JObj [])" "JObj [] \<noteq> JNull" by simp_all
  have "truthy (session_prop ?s ''user'')" by (simp add: session_prop_def get_prop_def truthy_def)
  with dev_restore [OF ok, where s = ?s and now = "[]" and c = nothing]
  show "\<exists>a. dev_auth_effect [] (SessionKnown ?s) \<lparr>local_storage = [session_key \<mapsto> ''oops''], location_href = []\<rparr> dev_auth_init
        = Inr a \<and> \<not> loading a \<and> user a \<noteq> None" by simp
qed

end
