(* ===== verification/Detail_Consistency.thy ===== *)
theory Detail_Consistency
  imports Detail_Page
begin

section \<open>What a detail page shows and what the server has\<close>

text \<open>
  \<open>Detail_Page\<close> lets answers carry anything. Here the server has a state, the entity it stores: a load is
  answered with what it stores then, a save stores a value and is answered with it, and nobody
  else writes the entity. Then the page and the server agree whenever nothing is in flight, unless the
  answer to a save was lost or a delete was served. \<open>of_load\<close> is the entity in the answer to a load.
\<close>

record ('s, 'd, 'e) served_detail =
  client :: "'s detail_world"
  store :: 'e
  load_answer :: "'d option"
  save_answer :: "'e option"
  diverged :: bool

definition start_served :: "'s \<Rightarrow> 'e \<Rightarrow> ('s, 'd, 'e) served_detail" where
  "start_served s0 e0 =
     \<lparr>client = start_detail s0, store = e0, load_answer = None, save_answer = None, diverged = False\<rparr>"

inductive sstep ::
  "('s, 'u, 'd, 'e) detail_ops \<Rightarrow> ('d \<Rightarrow> 'e) \<Rightarrow> ('s, 'd, 'e) served_detail \<Rightarrow> ('s, 'd, 'e) served_detail \<Rightarrow> bool"
  for ops :: "('s, 'u, 'd, 'e) detail_ops" and of_load :: "'d \<Rightarrow> 'e"
where
  s_user: "dact ops (DUser d n) (client x) = Some w \<Longrightarrow> sstep ops of_load x (x\<lparr>client := w\<rparr>)"
| s_serve_load: "phase (client x) = Waiting \<Longrightarrow> load_answer x = None \<Longrightarrow> of_load a = store x \<Longrightarrow>
     sstep ops of_load x (x\<lparr>load_answer := Some a\<rparr>)"
| s_load: "load_answer x = Some a \<Longrightarrow> dact ops (DLoads a) (client x) = Some w \<Longrightarrow>
     sstep ops of_load x (x\<lparr>client := w\<rparr>)"
| s_load_fails: "dact ops (DLoadFails t) (client x) = Some w \<Longrightarrow> sstep ops of_load x (x\<lparr>client := w\<rparr>)"
| s_serve_save: "saves (client x) \<noteq> [] \<Longrightarrow> save_answer x = None \<Longrightarrow>
     sstep ops of_load x (x\<lparr>store := e, save_answer := Some e\<rparr>)"
| s_save: "save_answer x = Some e \<Longrightarrow> dact ops (DSaves 0 e) (client x) = Some w \<Longrightarrow>
     sstep ops of_load x (x\<lparr>client := w, save_answer := None\<rparr>)"
| s_save_fails: "dact ops (DSaveFails 0 t) (client x) = Some w \<Longrightarrow>
     sstep ops of_load x
       (x\<lparr>client := w, save_answer := None, diverged := diverged x \<or> save_answer x \<noteq> None\<rparr>)"
| s_serve_delete: "deletes (client x) \<noteq> [] \<Longrightarrow> sstep ops of_load x (x\<lparr>store := e, diverged := True\<rparr>)"
| s_delete: "q \<in> set (deletes (client x)) \<Longrightarrow>
     sstep ops of_load x
       (x\<lparr>client := (client x)\<lparr>deletes := remove1 q (deletes (client x)), went := went (client x) @ [dop_delete_ok ops]\<rparr>\<rparr>)"
| s_delete_fails: "q \<in> set (deletes (client x)) \<Longrightarrow>
     sstep ops of_load x
       (x\<lparr>client := (client x)\<lparr>deletes := remove1 q (deletes (client x)),
            dpage := (if dmounted (client x) then dop_delete_err ops t (dpage (client x)) else dpage (client x))\<rparr>\<rparr>)"
| s_unmount: "dmounted (client x) \<Longrightarrow> sstep ops of_load x (x\<lparr>client := (client x)\<lparr>dmounted := False\<rparr>\<rparr>)"

inductive sreachable ::
  "('s, 'u, 'd, 'e) detail_ops \<Rightarrow> ('d \<Rightarrow> 'e) \<Rightarrow> ('s, 'd, 'e) served_detail \<Rightarrow> ('s, 'd, 'e) served_detail \<Rightarrow> bool"
  for ops :: "('s, 'u, 'd, 'e) detail_ops" and of_load :: "'d \<Rightarrow> 'e" and x0 :: "('s, 'd, 'e) served_detail"
where
  s_here: "sreachable ops of_load x0 x0"
| s_further: "sreachable ops of_load x0 x \<Longrightarrow> sstep ops of_load x y \<Longrightarrow> sreachable ops of_load x0 y"

text \<open>Each step is one of the client by itself, or does not touch it.\<close>

lemma sstep_client: "sstep ops of_load x y \<Longrightarrow> client y = client x \<or> dstep ops (client x) (client y)"
  by (erule sstep.cases; simp del: dact.simps split del: if_split;
      blast intro: dact_dstep dstep.d_delete_arrives dstep.d_delete_fails dstep.d_unmount)

lemma sreachable_client: "sreachable ops of_load (start_served s0 e0) x \<Longrightarrow> dreachable ops (start_detail s0) (client x)"
proof (induction rule: sreachable.induct)
  case s_here
  show ?case by (simp add: start_served_def dreachable.d_here)
next
  case (s_further x y)
  with sstep_client [OF s_further.hyps(2)] show ?case by (auto intro: dreachable.d_further)
qed

text \<open>Named steps, for examples.\<close>

datatype ('d, 'e) served_action =
    SUser dom_event nat
  | SServeLoad 'd
  | SLoad
  | SServeSave 'e
  | SSave

fun sact ::
  "('s, 'u, 'd, 'e) detail_ops \<Rightarrow> ('d, 'e) served_action \<Rightarrow> ('s, 'd, 'e) served_detail \<Rightarrow>
     ('s, 'd, 'e) served_detail option" where
  "sact ops (SUser d n) x = map_option (\<lambda>w. x\<lparr>client := w\<rparr>) (dact ops (DUser d n) (client x))"
| "sact ops (SServeLoad a) x =
     (if phase (client x) = Waiting \<and> load_answer x = None then Some (x\<lparr>load_answer := Some a\<rparr>) else None)"
| "sact ops SLoad x =
     (case load_answer x of None \<Rightarrow> None
      | Some a \<Rightarrow> map_option (\<lambda>w. x\<lparr>client := w\<rparr>) (dact ops (DLoads a) (client x)))"
| "sact ops (SServeSave e) x =
     (if saves (client x) \<noteq> [] \<and> save_answer x = None then Some (x\<lparr>store := e, save_answer := Some e\<rparr>) else None)"
| "sact ops SSave x =
     (case save_answer x of None \<Rightarrow> None
      | Some e \<Rightarrow> map_option (\<lambda>w. x\<lparr>client := w, save_answer := None\<rparr>) (dact ops (DSaves 0 e) (client x)))"

fun srun ::
  "('s, 'u, 'd, 'e) detail_ops \<Rightarrow> ('d, 'e) served_action list \<Rightarrow> ('s, 'd, 'e) served_detail \<Rightarrow>
     ('s, 'd, 'e) served_detail option" where
  "srun ops [] x = Some x"
| "srun ops (a # as) x = Option.bind (sact ops a x) (srun ops as)"

fun honest :: "('d \<Rightarrow> 'e) \<Rightarrow> 'e \<Rightarrow> ('d, 'e) served_action list \<Rightarrow> bool" where
  "honest of_load e [] = True"
| "honest of_load e (SServeLoad a # as) = (of_load a = e \<and> honest of_load e as)"
| "honest of_load e (SServeSave e' # as) = honest of_load e' as"
| "honest of_load e (a # as) = honest of_load e as"

lemma srun_reachable:
  "srun ops as x = Some y \<Longrightarrow> honest of_load (store x) as \<Longrightarrow> sreachable ops of_load x0 x \<Longrightarrow> sreachable ops of_load x0 y"
proof (induction "as" arbitrary: x)
  case (Cons a "as")
  from Cons.prems(1) obtain z where z: "sact ops a x = Some z" and rest: "srun ops as z = Some y"
    by (auto simp: Option.bind_eq_Some_conv)
  have "sstep ops of_load x z \<and> honest of_load (store z) as"
  proof (cases a)
    case (SServeLoad d)
    with z Cons.prems(2) show ?thesis by (auto intro: s_serve_load split: if_splits)
  qed (use z Cons.prems(2) in \<open>auto intro: sstep.intros split: if_splits option.splits\<close>)
  with Cons.IH [OF rest] Cons.prems(3) show ?case by (blast intro: s_further)
qed simp

locale served_detail_page = detail_page ops entity busy form s0 allowed
  for ops :: "('s, 'u, 'd, 'e) detail_ops" and entity busy form s0 allowed +
  fixes of_load :: "'d \<Rightarrow> 'e"
  assumes load_ok_entity: "entity (dop_load_ok ops a s) = Some (of_load a)"
begin

text \<open>
  Between the request and the answer of a save the server may be one value ahead; otherwise page and server
  agree once the load has arrived.
\<close>

definition agrees :: "('s, 'd, 'e) served_detail \<Rightarrow> bool" where
  "agrees x \<longleftrightarrow>
     saves_inv (client x)
     \<and> (save_answer x \<noteq> None \<longrightarrow> saves (client x) \<noteq> [])
     \<and> (save_answer x \<noteq> None \<and> \<not> diverged x \<longrightarrow> save_answer x = Some (store x))
     \<and> (phase (client x) = Waiting \<and> \<not> diverged x \<longrightarrow>
          (load_answer x = None \<or> map_option of_load (load_answer x) = Some (store x)))
     \<and> (dmounted (client x) \<and> phase (client x) = Arrived \<and> save_answer x = None \<and> \<not> diverged x \<longrightarrow>
          entity (dpage (client x)) = Some (store x))"

lemma saves_single: "saves_inv w \<Longrightarrow> q \<in> set (saves w) \<Longrightarrow> saves w = [q]"
  by (cases "saves w") (auto simp: saves_inv_def)

lemma saves_waiting: "saves_inv w \<Longrightarrow> saves w \<noteq> [] \<Longrightarrow> phase w = Arrived"
  by (auto simp: saves_inv_def)

lemma user_keeps:
  assumes "dact ops (DUser d n) w = Some w'"
  shows "phase w' = phase w" "dmounted w' = dmounted w" "entity (dpage w') = entity (dpage w)"
    "saves w \<noteq> [] \<Longrightarrow> saves w' \<noteq> []"
  using assms ui_entity [OF nth_mem, of n d "dpage w"] by (auto simp: Let_def split: if_splits prod.splits)

lemma agrees_step:
  assumes inv: "agrees x" and st: "sstep ops of_load x y"
  shows "agrees y"
proof -
  have s: "saves_inv (client y)"
    using sstep_client [OF st] inv saves_inv_step by (auto simp: agrees_def)
  have sx: "saves_inv (client x)" using inv by (simp add: agrees_def)
  from st show ?thesis
  proof cases
    case (s_user d n w)
    then show ?thesis using inv s user_keeps [OF s_user(2)] by (auto simp: agrees_def)
  next
    case (s_load a w)
    then have "phase (client x) = Waiting" by (auto split: if_splits)
    moreover from this have "saves (client x) = []" using sx by (auto simp: saves_inv_def)
    ultimately show ?thesis using inv s s_load by (auto simp: agrees_def load_ok_entity split: if_splits)
  next
    case (s_serve_save e)
    then show ?thesis using inv s saves_waiting [OF sx] by (auto simp: agrees_def)
  next
    case (s_save e w)
    then obtain q where q: "saves (client x) = [q]"
      using sx by (cases "saves (client x)") (auto simp: saves_inv_def split: if_splits)
    with saves_waiting [OF sx] have "phase (client x) = Arrived" by simp
    with q show ?thesis using inv s s_save save_ok by (auto simp: agrees_def)
  next
    case (s_save_fails t w)
    then obtain q where q: "saves (client x) = [q]"
      using sx by (cases "saves (client x)") (auto simp: saves_inv_def split: if_splits)
    with saves_waiting [OF sx] have "phase (client x) = Arrived" by simp
    with q show ?thesis using inv s s_save_fails save_err by (auto simp: agrees_def)
  qed (use inv s in \<open>auto simp: agrees_def delete_err split: if_splits\<close>)
qed

lemma agrees_reachable: "sreachable ops of_load (start_served s0 e0) x \<Longrightarrow> agrees x"
proof (induction rule: sreachable.induct)
  case s_here
  have "saves_inv (start_detail s0)" by (rule saves_reachable) (rule dreachable.d_here)
  then show ?case by (simp add: agrees_def start_served_def) (simp add: start_detail_def)
qed (rule agrees_step)

lemma consistent:
  assumes "sreachable ops of_load (start_served s0 e0) x" and "dmounted (client x)"
    and "phase (client x) = Arrived" and "saves (client x) = []" and "\<not> diverged x"
  shows "entity (dpage (client x)) = Some (store x)"
  using agrees_reachable [OF assms(1)] assms(2-5) by (auto simp: agrees_def)

end

end
