(* ===== verification/Detail_Entities.thy ===== *)
theory Detail_Entities
  imports Detail_Consistency Product_Detail Service_Detail Endpoint_Detail
begin

section \<open>The detail pages of the admin portal and the entities they show\<close>

text \<open>
  The three detail pages as served pages (\<open>Detail_Consistency\<close>): the entity is the first component of what
  their loads deliver.
\<close>

interpretation served_product:
  served_detail_page "product_detail_ops usr ld" product product_detail.saving product_detail.formState
    "product_detail_init pid" "product_detail_request usr" fst for usr ld pid
  by unfold_locales (simp add: product_detail_ops_def product_detail_load_ok_def split: prod.splits)

interpretation served_service:
  served_detail_page "service_detail_ops usr fmt" service_detail.service service_detail.saving
    service_detail.formState "service_detail_init sid" "service_detail_request usr" fst for usr fmt sid
  by unfold_locales (simp add: service_detail_ops_def service_detail_load_ok_def split: prod.splits)

interpretation served_endpoint:
  served_detail_page "endpoint_detail_ops usr" endpoint endpoint_detail.saving endpoint_detail.formState
    "endpoint_detail_init eid" "endpoint_detail_request usr" fst for usr eid
  by unfold_locales (simp add: endpoint_detail_ops_def endpoint_detail_load_ok_def split: prod.splits)

text \<open>The load has arrived, no save is in flight, no answer to one was lost and no delete was served.\<close>

definition settled_detail :: "('s, 'd, 'e) served_detail \<Rightarrow> bool" where
  "settled_detail x \<longleftrightarrow>
     dmounted (client x) \<and> phase (client x) = Arrived \<and> saves (client x) = [] \<and> \<not> diverged x"

lemma products_agree:
  "sreachable (product_detail_ops usr ld) fst (start_served (product_detail_init pid) e0) x \<Longrightarrow>
     settled_detail x \<Longrightarrow> product (dpage (client x)) = Some (store x)"
  using served_product.consistent by (simp add: settled_detail_def)

lemma endpoints_agree:
  "sreachable (endpoint_detail_ops usr) fst (start_served (endpoint_detail_init eid) e0) x \<Longrightarrow>
     settled_detail x \<Longrightarrow> endpoint (dpage (client x)) = Some (store x)"
  using served_endpoint.consistent by (simp add: settled_detail_def)

text \<open>
  C17: The service detail page shows what is stored: whenever the load has arrived and no save is in flight,
  the service of the page is the one of the server, however often it was edited and saved and
  in whatever order the answers came, unless the answer to a save was lost or a delete was served.
\<close>

theorem service_detail_agrees:
  "sreachable (service_detail_ops usr fmt) fst (start_served (service_detail_init sid) e0) x \<Longrightarrow>
     settled_detail x \<Longrightarrow> service_detail.service (dpage (client x)) = Some (store x)"
  using served_service.consistent by (simp add: settled_detail_def)

theorem service_detail_agrees_witness:
  "\<exists>x. srun (service_detail_ops (Some owner_user) id)
        [SServeLoad (plain_service [''u''], []), SLoad, SUser (Click ''Save changes'') 0,
         SServeSave (plain_service [''v'']), SSave]
        (start_served (service_detail_init (Some ''s1'')) (plain_service [''u''])) = Some x
     \<and> store x = plain_service [''v''] \<and> service_detail.service (dpage (client x)) = Some (store x)"
proof -
  let ?as = "[SServeLoad (plain_service [''u''], []), SLoad, SUser (Click ''Save changes'') 0,
         SServeSave (plain_service [''v'']), SSave]"
  let ?x0 = "start_served (service_detail_init (Some ''s1'')) (plain_service [''u''])
    :: (service_detail, ManagementService \<times> ManagementEndpoint list, ManagementService) served_detail"
  let ?run = "srun (service_detail_ops (Some owner_user) id) ?as ?x0"
  have "map_option (\<lambda>x. (settled_detail x, store x = plain_service [''v''])) ?run = Some (True, True)"
    by code_simp
  then obtain x where x: "?run = Some x" and e: "(settled_detail x, store x = plain_service [''v'']) = (True, True)"
    by (rule map_option_SomeE)
  have "sreachable (service_detail_ops (Some owner_user) id) fst ?x0 x"
    by (rule srun_reachable [OF x _ s_here]) (simp add: start_served_def)
  with service_detail_agrees e x show ?thesis by blast
qed

end
