(* ===== verification/Browser_Hooks.thy ===== *)
theory Browser_Hooks
  imports Vdom
begin

section \<open>Hooks that read the browser: useMediaQuery and useMounted\<close>

text \<open>
  Models \<open>hooks/useMediaQuery.ts\<close>, \<open>hooks/useMounted.ts\<close> and \<open>components/layout/ThemeToggle.tsx\<close>,
  which the two portals share word for word. Every call of \<open>matchMedia\<close> gives an object of its own; a listener on
  it is known by the number of that call. React runs the effect after the render that has a new
  query, the cleanup of the previous one first. Between the two the hook still returns the answer to the query before.
\<close>

subsection \<open>useMediaQuery\<close>

text \<open>\<open>rendered\<close> is the query of the last render, \<open>watched\<close> object and query of the last effect.\<close>

record media_hook =
  media :: "js_string \<Rightarrow> bool"
  listeners :: "(nat \<times> js_string) list"
  calls :: nat
  rendered :: js_string
  watched :: "(nat \<times> js_string) option"
  matching :: bool

definition useMediaQuery :: "(js_string \<Rightarrow> bool) \<Rightarrow> js_string \<Rightarrow> media_hook" where
  "useMediaQuery m query =
     \<lparr>media = m, listeners = [], calls = 0, rendered = query, watched = None, matching = False\<rparr>"

definition media_effect :: "media_hook \<Rightarrow> media_hook" where
  "media_effect h =
     (let m = (calls h, rendered h)
      in h\<lparr>matching := media h (rendered h), listeners := listeners h @ [m], calls := calls h + 1,
           watched := Some m\<rparr>)"

definition media_cleanup :: "media_hook \<Rightarrow> media_hook" where
  "media_cleanup h =
     (case watched h of
        None \<Rightarrow> h
      | Some m \<Rightarrow> h\<lparr>listeners := removeAll m (listeners h), watched := None\<rparr>)"

text \<open>The browser reports a change of a query to the listeners on it; each reads \<open>media.matches\<close>.\<close>

definition media_change :: "js_string \<Rightarrow> bool \<Rightarrow> media_hook \<Rightarrow> media_hook" where
  "media_change q b h =
     (let h' = h\<lparr>media := (media h)(q := b)\<rparr>
      in if \<exists>l \<in> set (listeners h). snd l = q then h'\<lparr>matching := b\<rparr> else h')"

inductive media_reachable :: "media_hook \<Rightarrow> media_hook \<Rightarrow> bool" for h0 where
  m_here: "media_reachable h0 h0"
| m_render: "media_reachable h0 h \<Longrightarrow> media_reachable h0 (h\<lparr>rendered := q\<rparr>)"
| m_effect: "media_reachable h0 h \<Longrightarrow> map_option snd (watched h) \<noteq> Some (rendered h) \<Longrightarrow>
     media_reachable h0 (media_effect (media_cleanup h))"
| m_change: "media_reachable h0 h \<Longrightarrow> media_reachable h0 (media_change q b h)"
| m_unmount: "media_reachable h0 h \<Longrightarrow> media_reachable h0 (media_cleanup h)"

definition media_inv :: "media_hook \<Rightarrow> bool" where
  "media_inv h \<longleftrightarrow>
     listeners h = (case watched h of None \<Rightarrow> [] | Some m \<Rightarrow> [m])
     \<and> (\<forall>m. watched h = Some m \<longrightarrow> matching h = media h (snd m))"

lemma media_inv_cleanup: "media_inv h \<Longrightarrow> media_inv (media_cleanup h)"
  by (auto simp: media_inv_def media_cleanup_def split: option.splits)

lemma media_inv_effect: "media_inv h \<Longrightarrow> media_inv (media_effect (media_cleanup h))"
  by (auto simp: media_inv_def media_cleanup_def media_effect_def Let_def split: option.splits)

lemma media_inv_change: "media_inv h \<Longrightarrow> media_inv (media_change q b h)"
  by (auto simp: media_inv_def media_change_def Let_def split: option.splits)

lemma media_inv_reachable: "media_reachable (useMediaQuery m query) h \<Longrightarrow> media_inv h"
proof (induction rule: media_reachable.induct)
  case m_here
  show ?case by (simp add: media_inv_def useMediaQuery_def)
next
  case (m_render h q)
  then show ?case by (simp add: media_inv_def)
qed (simp_all add: media_inv_cleanup media_inv_effect media_inv_change)

text \<open>
  However the query and the media change, \<open>useMediaQuery\<close> listens to one query at most, the one of its last
  effect, and returns whether that one matches now; a component that is unmounted leaves no listener.
\<close>

theorem useMediaQuery_correct:
  "media_reachable (useMediaQuery m query) h \<Longrightarrow>
     length (listeners h) \<le> 1
     \<and> (watched h \<noteq> None \<longrightarrow> matching h = media h (snd (the (watched h))) \<and> listeners h = [the (watched h)])
     \<and> listeners (media_cleanup h) = []"
  by (drule media_inv_reachable) (auto simp: media_inv_def media_cleanup_def split: option.splits)

theorem useMediaQuery_correct_witness:
  "\<exists>h. media_reachable (useMediaQuery (\<lambda>_. False) ''(min-width: 1px)'') h
     \<and> watched h \<noteq> None \<and> matching h \<and> listeners h = [the (watched h)]"
proof -
  let ?start = "useMediaQuery (\<lambda>_. False) ''(min-width: 1px)''"
  let ?h = "media_change ''(min-width: 1px)'' True (media_effect (media_cleanup ?start))"
  have r: "media_reachable ?start ?h"
    by (rule m_change [OF m_effect [OF m_here]]) (simp add: useMediaQuery_def)
  have w: "watched ?h = Some (0, ''(min-width: 1px)'')" "media ?h ''(min-width: 1px)''"
    by (simp_all add: useMediaQuery_def media_cleanup_def media_effect_def media_change_def Let_def)
  with useMediaQuery_correct [OF r] have "matching ?h" "listeners ?h = [the (watched ?h)]" by simp_all
  with r w show ?thesis by (intro exI [of _ ?h]) simp
qed

subsection \<open>useMounted and the theme toggle of the layout\<close>

text \<open>\<open>False\<close> at the first render, on the server too; the effect sets it once and nothing clears it.\<close>

definition useMounted :: bool where
  "useMounted = False"

definition useMounted_effect :: "bool \<Rightarrow> bool" where
  "useMounted_effect mounted = True"

text \<open>
  The toggle renders no button before \<open>useMounted\<close> says so. A press sets the other theme; the argument
  is \<open>resolvedTheme\<close>, which next-themes leaves undefined at first.
\<close>

definition ThemeToggle :: "bool \<Rightarrow> js_string option \<Rightarrow> js_string node" where
  "ThemeToggle mounted resolvedTheme =
     (if \<not> mounted then nothing
      else Btn ''Toggle theme'' False (Some (if resolvedTheme = Some ''dark'' then ''light'' else ''dark'')))"

text \<open>Each press changes between dark and light; there is none to press before the effect.\<close>

lemma ThemeToggle_alternates:
  "t \<in> {''light'', ''dark''} \<Longrightarrow>
     dispatch (Click ''Toggle theme'') (ThemeToggle (useMounted_effect useMounted) (Some t))
     = [if t = ''light'' then ''dark'' else ''light'']"
  "dispatch d (ThemeToggle useMounted resolvedTheme) = []"
  by (auto simp: ThemeToggle_def useMounted_effect_def useMounted_def dispatch.simps)

end
