(* ===== verification/Backend_Products.thy ===== *)
theory Backend_Products
  imports Products_Page Product_Detail
begin

section \<open>The products of the middleware API\<close>

text \<open>
  Models \<open>Gateway.Middleware.Api/Endpoints/ProductsEndpoints.cs\<close> and
  \<open>Gateway.Data/Repositories/Entities/ProductEntityRepository.cs\<close> over the table \<open>products\<close> of
  \<open>database/migrations/001_initial_schema.sql\<close>, for the requests of the admin portal: the rows in memory stand for
  the table, an exception of the database for status 500. The validators of the API are not part of it:
  FluentValidation runs them for controllers only, and these are minimal endpoints. Property names are the
  exact ones, as the portal sends them. \<open>new\<close> and \<open>now\<close> are what the database generates, \<open>guid\<close> is the
  route's test of an identifier.
\<close>

subsection \<open>Binding the body\<close>

text \<open>A property of type \<open>string?\<close> or \<open>bool?\<close>; \<open>None\<close> where the binding fails with status 400.\<close>

definition bind_text :: "json option \<Rightarrow> js_string option option" where
  "bind_text v =
     (case v of None \<Rightarrow> Some None | Some JNull \<Rightarrow> Some None | Some (JStr s) \<Rightarrow> Some (Some s) | _ \<Rightarrow> None)"

definition bind_flag :: "json option \<Rightarrow> bool option option" where
  "bind_flag v =
     (case v of None \<Rightarrow> Some None | Some JNull \<Rightarrow> Some None | Some (JBool b) \<Rightarrow> Some (Some b) | _ \<Rightarrow> None)"

text \<open>\<open>ProductCreateRequest\<close> and \<open>ProductUpdateRequest\<close> have the same properties.\<close>

record product_request_dto =
  dto_name :: "js_string option"
  dto_description :: "js_string option"
  dto_ownerTeam :: "js_string option"
  dto_isEnabled :: "bool option"

definition bind_product :: "json option \<Rightarrow> product_request_dto option" where
  "bind_product b =
     (case b of
        Some (JObj kvs) \<Rightarrow>
          (case (bind_text (map_of kvs ''name''), bind_text (map_of kvs ''description''),
                 bind_text (map_of kvs ''ownerTeam''), bind_flag (map_of kvs ''isEnabled'')) of
             (Some n, Some d, Some t, Some e) \<Rightarrow>
               Some \<lparr>dto_name = n, dto_description = d, dto_ownerTeam = t, dto_isEnabled = e\<rparr>
           | _ \<Rightarrow> None)
      | _ \<Rightarrow> None)"

subsection \<open>The table\<close>

text \<open>
  What PostgreSQL stores for a text of a column: no zero byte; \<open>VARCHAR(n)\<close> drops blanks beyond its
  length and refuses anything else there.
\<close>

definition pg_text :: "js_string \<Rightarrow> js_string option" where
  "pg_text s = (if CHR 0x00 \<in> set s then None else Some s)"

definition pg_varchar :: "nat \<Rightarrow> js_string \<Rightarrow> js_string option" where
  "pg_varchar n s =
     (if CHR 0x00 \<in> set s then None
      else if length s \<le> n then Some s
      else if set (drop n s) \<subseteq> {CHR '' ''} then Some (take n s)
      else None)"

definition product_columns ::
  "js_string \<Rightarrow> js_string \<Rightarrow> js_string \<Rightarrow> (js_string \<times> js_string \<times> js_string) option" where
  "product_columns n d t =
     (case (pg_varchar 100 n, pg_text d, pg_varchar 100 t) of
        (Some n', Some d', Some t') \<Rightarrow> Some (n', d', t')
      | _ \<Rightarrow> None)"

datatype reply =
    ProductList "ManagementProduct list"
  | OneProduct nat ManagementProduct
  | NoBody nat

definition product_by_id :: "js_string \<Rightarrow> ManagementProduct list \<Rightarrow> ManagementProduct option" where
  "product_by_id i rows = find (\<lambda>p. ManagementProduct.ident p = i) rows"

definition insert_product ::
  "js_string \<Rightarrow> js_string \<Rightarrow> product_request_dto \<Rightarrow> ManagementProduct list \<Rightarrow> reply \<times> ManagementProduct list" where
  "insert_product new now dto rows =
     (case (dto_name dto, dto_description dto, dto_ownerTeam dto) of
        (Some n, Some d, Some t) \<Rightarrow>
          (case product_columns n d t of
             None \<Rightarrow> (NoBody 500, rows)
           | Some (n', d', t') \<Rightarrow>
               (if new \<in> ManagementProduct.ident ` set rows \<or> n' \<in> ManagementProduct.name ` set rows
                then (NoBody 500, rows)
                else let p = \<lparr>ManagementProduct.ident = new, name = n', description = d', ownerTeam = t',
                              isEnabled = (case dto_isEnabled dto of None \<Rightarrow> True | Some b \<Rightarrow> b),
                              createdAt = now, updatedAt = now\<rparr>
                     in (OneProduct 201 p, rows @ [p])))
      | _ \<Rightarrow> (NoBody 500, rows))"

text \<open>\<open>UPDATE ... WHERE id = @Id\<close>, and \<open>request.X ?? existing.X\<close>.\<close>

definition set_row :: "js_string \<Rightarrow> ManagementProduct \<Rightarrow> ManagementProduct list \<Rightarrow> ManagementProduct list" where
  "set_row i p rows = map (\<lambda>r. if ManagementProduct.ident r = i then p else r) rows"

definition or_existing :: "'a option \<Rightarrow> 'a \<Rightarrow> 'a" where
  "or_existing x e = (case x of None \<Rightarrow> e | Some v \<Rightarrow> v)"

definition update_product ::
  "js_string \<Rightarrow> js_string \<Rightarrow> product_request_dto \<Rightarrow> ManagementProduct list \<Rightarrow> reply \<times> ManagementProduct list" where
  "update_product i now dto rows =
     (case product_by_id i rows of
        None \<Rightarrow> (NoBody 404, rows)
      | Some existing \<Rightarrow>
          (case product_columns (or_existing (dto_name dto) (ManagementProduct.name existing))
                  (or_existing (dto_description dto) (ManagementProduct.description existing))
                  (or_existing (dto_ownerTeam dto) (ManagementProduct.ownerTeam existing)) of
             None \<Rightarrow> (NoBody 500, rows)
           | Some (n', d', t') \<Rightarrow>
               (if \<exists>p \<in> set rows. ManagementProduct.ident p \<noteq> i \<and> ManagementProduct.name p = n'
                then (NoBody 500, rows)
                else let p = existing\<lparr>ManagementProduct.name := n', ManagementProduct.description := d',
                              ManagementProduct.ownerTeam := t',
                              ManagementProduct.isEnabled := or_existing (dto_isEnabled dto) (ManagementProduct.isEnabled existing),
                              ManagementProduct.updatedAt := now\<rparr>
                     in (OneProduct 200 p, set_row i p rows))))"

text \<open>A delete only disables the row; the trigger of the table renews \<open>updated_at\<close>.\<close>

definition disable_product :: "js_string \<Rightarrow> js_string \<Rightarrow> ManagementProduct list \<Rightarrow> reply \<times> ManagementProduct list" where
  "disable_product i now rows =
     (if i \<in> ManagementProduct.ident ` set rows
      then (NoBody 204,
            map (\<lambda>r. if ManagementProduct.ident r = i
                     then r\<lparr>ManagementProduct.isEnabled := False, ManagementProduct.updatedAt := now\<rparr> else r) rows)
      else (NoBody 404, rows))"

subsection \<open>The routes\<close>

definition product_id_of :: "(js_string \<Rightarrow> bool) \<Rightarrow> js_string \<Rightarrow> js_string option" where
  "product_id_of guid u =
     (let i = drop (length ''/products/'') u
      in if js_starts_with u ''/products/'' \<and> guid i then Some i else None)"

definition serve_products ::
  "(js_string \<Rightarrow> bool) \<Rightarrow> js_string \<Rightarrow> js_string \<Rightarrow> http_request \<Rightarrow> ManagementProduct list \<Rightarrow>
     reply \<times> ManagementProduct list" where
  "serve_products guid new now q rows =
     (if url q = ''/products'' then
        (case rmethod q of
           GET \<Rightarrow>
             (case bind_flag (map_of (params q) ''enabledOnly'') of
                None \<Rightarrow> (NoBody 400, rows)
              | Some enabledOnly \<Rightarrow>
                  (ProductList (if enabledOnly = Some True then filter ManagementProduct.isEnabled rows else rows), rows))
         | POST \<Rightarrow>
             (case bind_product (body q) of
                None \<Rightarrow> (NoBody 400, rows)
              | Some dto \<Rightarrow> insert_product new now dto rows)
         | _ \<Rightarrow> (NoBody 405, rows))
      else
        (case product_id_of guid (url q) of
           None \<Rightarrow> (NoBody 404, rows)
         | Some i \<Rightarrow>
             (case rmethod q of
                GET \<Rightarrow>
                  (case product_by_id i rows of
                     None \<Rightarrow> (NoBody 404, rows)
                   | Some p \<Rightarrow> (OneProduct 200 p, rows))
              | PUT \<Rightarrow>
                  (case bind_product (body q) of
                     None \<Rightarrow> (NoBody 400, rows)
                   | Some dto \<Rightarrow> update_product i now dto rows)
              | DELETE \<Rightarrow> disable_product i now rows
              | POST \<Rightarrow> (NoBody 405, rows))))"

text \<open>
  The routes themselves. Outside of development their group asks for an authenticated user (\<open>Program.cs\<close>), by a bearer token in
  the header \<open>Authorization\<close>. A request of the portal's client has no such header, so there is nothing of
  it to test here.
\<close>

definition middleware ::
  "bool \<Rightarrow> (js_string \<Rightarrow> bool) \<Rightarrow> js_string \<Rightarrow> js_string \<Rightarrow> http_request \<Rightarrow> ManagementProduct list \<Rightarrow>
     reply \<times> ManagementProduct list" where
  "middleware development guid new now q rows =
     (if \<not> development \<and> (url q = ''/products'' \<or> product_id_of guid (url q) \<noteq> None)
      then (NoBody 401, rows)
      else serve_products guid new now q rows)"

text \<open>
  What the client makes of a reply: 2xx resolves, anything else rejects with the status. The text of the error is
  axios's.
\<close>

fun reply_status :: "reply \<Rightarrow> nat" where
  "reply_status (ProductList ps) = 200"
| "reply_status (OneProduct st p) = st"
| "reply_status (NoBody st) = st"

definition reply_error :: "(nat \<Rightarrow> js_string) \<Rightarrow> reply \<Rightarrow> http_error option" where
  "reply_error axios_text r =
     (if 200 \<le> reply_status r \<and> reply_status r < 300 then None
      else Some \<lparr>cause = ErrorObj (axios_text (reply_status r)), status = Some (int (reply_status r))\<rparr>)"

text \<open>
  The way through the browser. \<open>origin\<close> is that of the portal's page, or \<open>None\<close> if the base URL of the client has the
  same one; the default of \<open>lib/config/env.ts\<close> is the port of the middleware, so another. The API gives the headers
  for another origin (CORS) in development only, and only to the origins of its policy. Without them the browser
  keeps the reply from the script: axios rejects with an error that has no response, with its text for status 0. A
  request other than a \<open>GET\<close>, which carries JSON or has a method of its own, is not even sent then, as its preflight
  fails.
\<close>

definition portal_origins :: "js_string list" where
  "portal_origins =
     [''http://localhost:3000'', ''http://127.0.0.1:3000'', ''http://localhost:3001'', ''http://127.0.0.1:3001'',
      ''http://localhost:3002'', ''http://127.0.0.1:3002'', ''http://localhost:3030'', ''http://127.0.0.1:3030'']"

definition origin_allowed :: "bool \<Rightarrow> js_string option \<Rightarrow> bool" where
  "origin_allowed development origin =
     (case origin of None \<Rightarrow> True | Some o' \<Rightarrow> development \<and> o' \<in> set portal_origins)"

definition no_response :: "(nat \<Rightarrow> js_string) \<Rightarrow> http_error" where
  "no_response axios_text = \<lparr>cause = ErrorObj (axios_text 0), status = None\<rparr>"

definition exchange ::
  "(nat \<Rightarrow> js_string) \<Rightarrow> bool \<Rightarrow> js_string option \<Rightarrow> (js_string \<Rightarrow> bool) \<Rightarrow> js_string \<Rightarrow> js_string \<Rightarrow> http_request \<Rightarrow>
     ManagementProduct list \<Rightarrow> (http_error + reply) \<times> ManagementProduct list" where
  "exchange axios_text development origin guid new now q rows =
     (if origin_allowed development origin then
        (case middleware development guid new now q rows of (r, rows') \<Rightarrow>
           (case reply_error axios_text r of None \<Rightarrow> Inr r | Some err \<Rightarrow> Inl err, rows'))
      else (Inl (no_response axios_text),
            if rmethod q = GET then snd (middleware development guid new now q rows) else rows))"

text \<open>In development, from a port of the policy or the same origin, the portal gets what the API answers.\<close>

lemma exchange_in_development:
  "origin \<in> insert None (Some ` set portal_origins) \<Longrightarrow>
     exchange axios_text True origin guid new now q rows
     = (case serve_products guid new now q rows of (r, rows') \<Rightarrow>
          (case reply_error axios_text r of None \<Rightarrow> Inr r | Some err \<Rightarrow> Inl err, rows'))"
  by (auto simp: exchange_def origin_allowed_def middleware_def)

subsection \<open>What the requests of the portal bind to\<close>

lemma bind_simps [simp]:
  "bind_text None = Some None" "bind_text (Some (JStr s)) = Some (Some s)"
  "bind_flag None = Some None" "bind_flag (Some (JBool b)) = Some (Some b)"
  by (simp_all add: bind_text_def bind_flag_def)

lemma or_existing_Some [simp]: "or_existing (Some v) e = v"
  by (simp add: or_existing_def)

definition form_dto :: "js_string \<Rightarrow> js_string \<Rightarrow> js_string \<Rightarrow> bool \<Rightarrow> product_request_dto" where
  "form_dto n d t e =
     \<lparr>dto_name = Some (js_trim n), dto_description = Some (js_trim d), dto_ownerTeam = Some (js_trim t),
      dto_isEnabled = Some e\<rparr>"

lemma bind_create:
  "bind_product (Some (product_payload f))
   = Some (form_dto (Products_Page.product_form.name f) (Products_Page.product_form.description f)
       (Products_Page.product_form.ownerTeam f) (Products_Page.product_form.isEnabled f))"
  by (simp add: bind_product_def product_payload_def form_dto_def)

lemma bind_update:
  "bind_product (Some (product_update_payload f))
   = Some (form_dto (Product_Detail.product_form.name f) (Product_Detail.product_form.description f)
       (Product_Detail.product_form.ownerTeam f) (Product_Detail.product_form.isEnabled f))"
  by (simp add: bind_product_def product_update_payload_def form_dto_def)

lemma product_id_of_url [simp]: "product_id_of guid (''/products/'' @ i) = (if guid i then Some i else None)"
  by (simp add: product_id_of_def js_starts_with_def)

lemma entity_url [simp]: "''/products/'' @ i \<noteq> ''/products''"
  by simp

lemma served_create:
  "serve_products guid new now (createProduct (product_payload f)) rows
   = insert_product new now (form_dto (Products_Page.product_form.name f) (Products_Page.product_form.description f)
       (Products_Page.product_form.ownerTeam f) (Products_Page.product_form.isEnabled f)) rows"
  by (simp add: serve_products_def createProduct_def http_post_def bind_create)

lemma served_update:
  "guid i \<Longrightarrow> serve_products guid new now (updateProduct i (product_update_payload f)) rows
   = update_product i now (form_dto (Product_Detail.product_form.name f) (Product_Detail.product_form.description f)
       (Product_Detail.product_form.ownerTeam f) (Product_Detail.product_form.isEnabled f)) rows"
  using entity_url [of i] product_id_of_url [of guid i]
  by (simp only: serve_products_def updateProduct_def http_put_def http_request.simps bind_update if_False if_True
      option.case http_method.case)

lemma served_get:
  "guid i \<Longrightarrow> serve_products guid new now (getProduct i) rows
   = (case product_by_id i rows of None \<Rightarrow> (NoBody 404, rows) | Some p \<Rightarrow> (OneProduct 200 p, rows))"
  using entity_url [of i] product_id_of_url [of guid i]
  by (simp only: serve_products_def getProduct_def http_get_def http_request.simps if_False if_True
      option.case http_method.case)

lemma served_delete:
  "guid i \<Longrightarrow> serve_products guid new now (deleteProduct i) rows = disable_product i now rows"
  using entity_url [of i] product_id_of_url [of guid i]
  by (simp only: serve_products_def deleteProduct_def http_delete_def http_request.simps if_False if_True
      option.case http_method.case)

lemma served_list: "serve_products guid new now (getProducts False) rows = (ProductList rows, rows)"
  by (simp add: serve_products_def getProducts_def http_get_def defined_props_def bool_param_def)

subsection \<open>The table stays one\<close>

text \<open>Identifiers and names are unique, as the constraints of the table say.\<close>

definition product_table :: "ManagementProduct list \<Rightarrow> bool" where
  "product_table rows \<longleftrightarrow>
     distinct (map ManagementProduct.ident rows) \<and> distinct (map ManagementProduct.name rows)"

lemma product_by_id_Some:
  "product_by_id i rows = Some p \<Longrightarrow> p \<in> set rows \<and> ManagementProduct.ident p = i"
  by (auto simp: product_by_id_def find_Some_iff)

lemma product_by_id_None: "product_by_id i rows = None \<longleftrightarrow> i \<notin> ManagementProduct.ident ` set rows"
  by (auto simp: product_by_id_def find_None_iff)

lemma product_by_id_distinct:
  "distinct (map ManagementProduct.ident rows) \<Longrightarrow> p \<in> set rows \<Longrightarrow> product_by_id (ManagementProduct.ident p) rows = Some p"
  by (induction rows) (auto simp: product_by_id_def)

text \<open>Replacing the row of an identifier.\<close>

lemma ident_set_row [simp]:
  "ManagementProduct.ident p = i \<Longrightarrow>
     map ManagementProduct.ident (set_row i p rows) = map ManagementProduct.ident rows"
  by (simp add: set_row_def)

lemma product_by_set_row:
  "ManagementProduct.ident p = i \<Longrightarrow>
     product_by_id j (set_row i p rows)
     = (if j = i \<and> i \<in> ManagementProduct.ident ` set rows then Some p else product_by_id j rows)"
  by (induction rows) (auto simp: product_by_id_def set_row_def)

lemma set_row_same: "i \<notin> ManagementProduct.ident ` set rows \<Longrightarrow> set_row i p rows = rows"
  unfolding set_row_def by (rule map_idI) auto

lemma set_row_twice [simp]: "ManagementProduct.ident p = i \<Longrightarrow> set_row i p' (set_row i p rows) = set_row i p' rows"
  by (simp add: set_row_def)

lemma set_row_elem: "x \<in> set (set_row i p rows) \<Longrightarrow> x = p \<or> x \<in> set rows"
  by (auto simp: set_row_def split: if_splits)

lemma name_set_row_distinct:
  "distinct (map ManagementProduct.ident rows) \<Longrightarrow> distinct (map ManagementProduct.name rows) \<Longrightarrow>
   \<forall>r \<in> set rows. ManagementProduct.ident r \<noteq> i \<longrightarrow> ManagementProduct.name r \<noteq> ManagementProduct.name p \<Longrightarrow>
     distinct (map ManagementProduct.name (set_row i p rows))"
proof (induction rows)
  case (Cons r rows)
  show ?case
  proof (cases "ManagementProduct.ident r = i")
    case True
    with Cons.prems(1) have no: "i \<notin> ManagementProduct.ident ` set rows" by auto
    then have "set_row i p rows = rows" by (rule set_row_same)
    then have "set_row i p (r # rows) = p # rows" using True by (simp add: set_row_def)
    moreover have "ManagementProduct.ident x \<noteq> i" if "x \<in> set rows" for x
      using that no by (metis image_eqI)
    ultimately show ?thesis using Cons.prems by auto
  next
    case False
    then have "set_row i p (r # rows) = r # set_row i p rows" by (simp add: set_row_def)
    moreover have "ManagementProduct.name r \<notin> ManagementProduct.name ` set (set_row i p rows)"
      using False Cons.prems set_row_elem [of _ i p rows] by fastforce
    moreover have "distinct (map ManagementProduct.name (set_row i p rows))" using Cons by simp
    ultimately show ?thesis by simp
  qed
qed (simp add: set_row_def)

lemma insert_product_table:
  "product_table rows \<Longrightarrow> product_table (snd (insert_product new now dto rows))"
  by (auto simp: insert_product_def product_table_def Let_def split: option.splits prod.splits)

lemma update_product_table:
  assumes "product_table rows" shows "product_table (snd (update_product i now dto rows))"
proof (cases "product_by_id i rows")
  case None
  with assms show ?thesis by (simp add: update_product_def)
next
  case (Some existing)
  then have "ManagementProduct.ident existing = i" using product_by_id_Some by blast
  with assms Some show ?thesis
    by (auto simp: update_product_def product_table_def Let_def intro!: name_set_row_distinct split: option.split)
qed

lemma disable_product_columns:
  "map ManagementProduct.ident (snd (disable_product i now rows)) = map ManagementProduct.ident rows"
  "map ManagementProduct.name (snd (disable_product i now rows)) = map ManagementProduct.name rows"
  by (auto simp: disable_product_def)

lemma serve_products_table:
  "product_table rows \<Longrightarrow> product_table (snd (serve_products guid new now q rows))"
  using insert_product_table [of rows] update_product_table [of rows] disable_product_columns [of _ now rows]
  by (simp add: serve_products_def product_table_def split: option.split http_method.split)

end
