(* ===== verification/Backend_Portal.thy ===== *)
theory Backend_Portal
  imports Backend_Products Portal_World
begin

section \<open>The admin portal on its backend\<close>

text \<open>
  \<open>List_Page\<close> and \<open>Detail_Consistency\<close> let the server answer anything of the right type. Here it is the one of
  \<open>Backend_Products\<close>: what a save stores, what two saves of two administrators leave behind, and what the products page
  can come to hold. Each request is served at once; the handler of an update reads the row and writes it back,
  and as the bodies of the portal carry all columns, what it reads does not matter for what it writes.
\<close>

subsection \<open>A save and the row it stores\<close>

lemma pg_text_trim: "pg_text s = (if CHR 0x00 \<in> set s then None else Some s)"
  by (simp add: pg_text_def)

lemma is_ws_blank: "is_ws (CHR '' '')"
  by (simp add: is_ws_def)

text \<open>A trimmed text is never cut: it does not end in a blank.\<close>

lemma pg_varchar_trim:
  "pg_varchar n (js_trim s) = (if length (js_trim s) \<le> n \<and> CHR 0x00 \<notin> set (js_trim s) then Some (js_trim s) else None)"
proof -
  have "\<not> set (drop n (js_trim s)) \<subseteq> {CHR '' ''}" if "n < length (js_trim s)"
  proof
    assume "set (drop n (js_trim s)) \<subseteq> {CHR '' ''}"
    moreover have "last (js_trim s) \<in> set (drop n (js_trim s))"
      using that last_drop [of n "js_trim s"] by (metis last_in_set drop_eq_Nil not_le)
    ultimately have "is_ws (last (js_trim s))" using is_ws_blank by auto
    moreover have "js_trim s \<noteq> []" using that by auto
    ultimately show False using trimmed_js_trim [of s] by (simp add: trimmed_iff)
  qed
  then show ?thesis by (auto simp: pg_varchar_def not_le)
qed

text \<open>What the columns of a product hold of the texts of a form.\<close>

definition fits :: "js_string \<Rightarrow> js_string \<Rightarrow> js_string \<Rightarrow> bool" where
  "fits n d t \<longleftrightarrow>
     length (js_trim n) \<le> 100 \<and> length (js_trim t) \<le> 100
     \<and> CHR 0x00 \<notin> set (js_trim n) \<union> set (js_trim d) \<union> set (js_trim t)"

lemma product_columns_trim:
  "product_columns (js_trim n) (js_trim d) (js_trim t)
   = (if fits n d t then Some (js_trim n, js_trim d, js_trim t) else None)"
  by (simp add: product_columns_def pg_varchar_trim pg_text_def fits_def)

definition saved_product ::
  "js_string \<Rightarrow> Product_Detail.product_form \<Rightarrow> ManagementProduct \<Rightarrow> ManagementProduct" where
  "saved_product now f p =
     p\<lparr>ManagementProduct.name := js_trim (Product_Detail.product_form.name f),
       ManagementProduct.description := js_trim (Product_Detail.product_form.description f),
       ManagementProduct.ownerTeam := js_trim (Product_Detail.product_form.ownerTeam f),
       ManagementProduct.isEnabled := Product_Detail.product_form.isEnabled f,
       ManagementProduct.updatedAt := now\<rparr>"

text \<open>The form fits into the table and its name is not that of another product.\<close>

definition storable :: "ManagementProduct list \<Rightarrow> js_string \<Rightarrow> Product_Detail.product_form \<Rightarrow> bool" where
  "storable rows i f \<longleftrightarrow>
     fits (Product_Detail.product_form.name f) (Product_Detail.product_form.description f)
       (Product_Detail.product_form.ownerTeam f)
     \<and> \<not> (\<exists>p \<in> set rows. ManagementProduct.ident p \<noteq> i
             \<and> ManagementProduct.name p = js_trim (Product_Detail.product_form.name f))"

lemma update_form:
  "update_product i now (form_dto (Product_Detail.product_form.name f) (Product_Detail.product_form.description f)
       (Product_Detail.product_form.ownerTeam f) (Product_Detail.product_form.isEnabled f)) rows
   = (case product_by_id i rows of
        None \<Rightarrow> (NoBody 404, rows)
      | Some p \<Rightarrow>
          (if storable rows i f
           then (OneProduct 200 (saved_product now f p), set_row i (saved_product now f p) rows)
           else (NoBody 500, rows)))"
  by (auto simp: update_product_def form_dto_def product_columns_trim storable_def saved_product_def Let_def
      split: option.split)

lemma saved_product_ident [simp]: "ManagementProduct.ident (saved_product now f p) = ManagementProduct.ident p"
  by (simp add: saved_product_def)

definition trimmed_form :: "Product_Detail.product_form \<Rightarrow> Product_Detail.product_form" where
  "trimmed_form f =
     f\<lparr>Product_Detail.product_form.name := js_trim (Product_Detail.product_form.name f),
       Product_Detail.product_form.description := js_trim (Product_Detail.product_form.description f),
       Product_Detail.product_form.ownerTeam := js_trim (Product_Detail.product_form.ownerTeam f)\<rparr>"

lemma form_of_saved: "product_form_of (saved_product now f p) = trimmed_form f"
  by (simp add: product_form_of_def saved_product_def trimmed_form_def)

text \<open>
  C6: Saving a product and loading it again gives the form that was saved, trimmed: for a stored product the
  backend either stores exactly the form, under the same identifier and time of creation, and answers every
  later load with it, or, when the form does not fit into the table or its name is taken, refuses it with status 500 and
  stores nothing. No other product changes.
\<close>

theorem product_save_end_to_end:
  assumes "guid i" and "product_by_id i rows = Some p"
    and "serve_products guid new now (updateProduct i (product_update_payload f)) rows = (r, rows')"
  shows "(if storable rows i f
          then r = OneProduct 200 (saved_product now f p)
             \<and> serve_products guid new' now' (getProduct i) rows' = (OneProduct 200 (saved_product now f p), rows')
             \<and> product_form_of (saved_product now f p) = trimmed_form f
          else r = NoBody 500 \<and> rows' = rows)
     \<and> (\<forall>j. j \<noteq> i \<longrightarrow> product_by_id j rows' = product_by_id j rows)"
proof -
  have i: "ManagementProduct.ident p = i" "i \<in> ManagementProduct.ident ` set rows"
    using product_by_id_Some [OF assms(2)] by auto
  have r: "(r, rows') = (if storable rows i f
      then (OneProduct 200 (saved_product now f p), set_row i (saved_product now f p) rows) else (NoBody 500, rows))"
    using assms(3) by (simp only: served_update [of guid i, OF assms(1)] update_form assms(2) option.case)
  show ?thesis
  proof (cases "storable rows i f")
    case True
    with r have r: "r = OneProduct 200 (saved_product now f p)" "rows' = set_row i (saved_product now f p) rows"
      by simp_all
    have "product_by_id i rows' = Some (saved_product now f p)"
      using i by (simp add: r product_by_set_row)
    moreover have "\<forall>j. j \<noteq> i \<longrightarrow> product_by_id j rows' = product_by_id j rows"
      using i by (simp add: r product_by_set_row)
    ultimately show ?thesis using True r by (simp add: served_get [of guid i, OF assms(1)] form_of_saved)
  next
    case False
    with r show ?thesis by simp
  qed
qed

definition edited_form :: Product_Detail.product_form where
  "edited_form =
     \<lparr>Product_Detail.product_form.name = '' N2 '', description = ''D'', ownerTeam = ''T'', isEnabled = False\<rparr>"

theorem product_save_end_to_end_witness:
  "\<exists>rows'. serve_products (\<lambda>_. True) [] ''t'' (updateProduct ''p1'' (product_update_payload edited_form)) [sample_product]
       = (OneProduct 200 (saved_product ''t'' edited_form sample_product), rows')
     \<and> serve_products (\<lambda>_. True) [] [] (getProduct ''p1'') rows'
       = (OneProduct 200 (saved_product ''t'' edited_form sample_product), rows')
     \<and> ManagementProduct.name (saved_product ''t'' edited_form sample_product) = ''N2''"
proof -
  obtain r rows' where s: "serve_products (\<lambda>_. True) [] ''t'' (updateProduct ''p1'' (product_update_payload edited_form))
      [sample_product] = (r, rows')"
    by fastforce
  have "product_by_id ''p1'' [sample_product] = Some sample_product"
    by (simp add: product_by_id_def sample_product_def)
  moreover have "storable [sample_product] ''p1'' edited_form" by code_simp
  moreover have "ManagementProduct.name (saved_product ''t'' edited_form sample_product) = ''N2''" by code_simp
  ultimately show ?thesis using product_save_end_to_end [OF _ _ s, where new' = "[]" and now' = "[]"] s by auto
qed

subsection \<open>Two administrators\<close>

text \<open>Another request for the product leaves the table as it was but for its row, of which only saved columns differ.\<close>

lemma storable_set_row [simp]: "ManagementProduct.ident p = i \<Longrightarrow> storable (set_row i p rows) i f = storable rows i f"
  by (auto simp: storable_def set_row_def)

lemma saved_saved [simp]:
  "saved_product now f (saved_product now' f' p) = saved_product now f p"
  "saved_product now f (p\<lparr>ManagementProduct.isEnabled := b, ManagementProduct.updatedAt := t\<rparr>) = saved_product now f p"
  by (simp_all add: saved_product_def)

lemma disable_set_row:
  assumes "distinct (map ManagementProduct.ident rows)" and "product_by_id i rows = Some p"
  shows "snd (disable_product i now rows)
    = set_row i (p\<lparr>ManagementProduct.isEnabled := False, ManagementProduct.updatedAt := now\<rparr>) rows"
proof -
  have "r = p" if "r \<in> set rows" "ManagementProduct.ident r = i" for r
    using that assms product_by_id_distinct by fastforce
  moreover have "i \<in> ManagementProduct.ident ` set rows" using product_by_id_Some [OF assms(2)] by auto
  ultimately show ?thesis by (auto simp: disable_product_def set_row_def)
qed

definition touches :: "js_string \<Rightarrow> http_request \<Rightarrow> bool" where
  "touches i q \<longleftrightarrow> q = deleteProduct i \<or> (\<exists>f. q = updateProduct i (product_update_payload f))"

lemma touched_rows:
  assumes "guid i" and "product_table rows" and "touches i q" and "product_by_id i rows = Some p"
  shows "\<exists>p'. ManagementProduct.ident p' = i
     \<and> snd (serve_products guid new now q rows) \<in> {rows, set_row i p' rows}
     \<and> (\<forall>now f. saved_product now f p' = saved_product now f p)"
proof -
  note i = product_by_id_Some [OF assms(4)]
  from assms(3) show ?thesis unfolding touches_def
  proof (elim disjE exE)
    assume q: "q = deleteProduct i"
    have "snd (serve_products guid new now q rows)
        = set_row i (p\<lparr>ManagementProduct.isEnabled := False, ManagementProduct.updatedAt := now\<rparr>) rows"
      using assms(2,4) by (simp add: q served_delete [of guid i, OF assms(1)] disable_set_row product_table_def)
    with i show ?thesis
      by (intro exI [of _ "p\<lparr>ManagementProduct.isEnabled := False, ManagementProduct.updatedAt := now\<rparr>"]) simp
  next
    fix f assume q: "q = updateProduct i (product_update_payload f)"
    have "snd (serve_products guid new now q rows) \<in> {rows, set_row i (saved_product now f p) rows}"
      by (simp add: q served_update [of guid i, OF assms(1)] update_form assms(4))
    with i show ?thesis by (intro exI [of _ "saved_product now f p"]) simp
  qed
qed

text \<open>
  C7: The last save wins and nobody is told: a save that the backend serves after another save of the same
  product, from a page that was loaded before, or after its delete, is answered as if the other request had not been,
  and when it is stored it leaves the table that there would be without it. So the earlier edit is lost, and a
  deleted product is enabled again when the page that knows nothing of the delete says so.
\<close>

theorem product_last_save_wins:
  assumes "guid i" and "product_table rows" and "touches i q" and "product_by_id i rows \<noteq> None"
    and "serve_products guid new' now' q rows = (r, between)"
    and "serve_products guid new now (updateProduct i (product_update_payload f)) rows = (alone, rows')"
  shows "fst (serve_products guid new now (updateProduct i (product_update_payload f)) between) = alone
     \<and> (storable rows i f \<longrightarrow>
          snd (serve_products guid new now (updateProduct i (product_update_payload f)) between) = rows')"
proof -
  obtain p where p: "product_by_id i rows = Some p" using assms(4) by blast
  then have i: "ManagementProduct.ident p = i" "i \<in> ManagementProduct.ident ` set rows"
    using product_by_id_Some [OF p] by auto
  obtain p' where p': "ManagementProduct.ident p' = i" "between \<in> {rows, set_row i p' rows}"
      "\<And>now f. saved_product now f p' = saved_product now f p"
    using touched_rows [of guid i rows q p new' now', OF assms(1-3) p] by (auto simp: assms(5))
  show ?thesis
  proof (cases "between = rows")
    case True
    then show ?thesis by (simp add: assms(6))
  next
    case False
    with p' have b: "between = set_row i p' rows" by simp
    then have "product_by_id i between = Some p'" using p' i by (simp add: product_by_set_row)
    with p p' i b assms(6) show ?thesis
      by (auto simp: served_update [of guid i, OF assms(1)] update_form split: if_splits)
  qed
qed

theorem product_last_save_wins_witness:
  "snd (serve_products (\<lambda>_. True) [] ''t'' (updateProduct ''p1'' (product_update_payload (product_form_of sample_product)))
      (snd (serve_products (\<lambda>_. True) [] ''s'' (deleteProduct ''p1'') [sample_product])))
   = [sample_product\<lparr>ManagementProduct.updatedAt := ''t''\<rparr>]"
proof -
  let ?save = "updateProduct ''p1'' (product_update_payload (product_form_of sample_product))"
  obtain r between where b: "serve_products (\<lambda>_. True) [] ''s'' (deleteProduct ''p1'') [sample_product] = (r, between)"
    by fastforce
  obtain alone rows' where a: "serve_products (\<lambda>_. True) [] ''t'' ?save [sample_product] = (alone, rows')" by fastforce
  have "snd (serve_products (\<lambda>_. True) [] ''t'' ?save [sample_product])
      = [sample_product\<lparr>ManagementProduct.updatedAt := ''t''\<rparr>]"
    by code_simp
  then have "rows' = [sample_product\<lparr>ManagementProduct.updatedAt := ''t''\<rparr>]" by (simp only: a snd_conv)
  moreover have "product_table [sample_product]" by (simp add: product_table_def)
  moreover have "touches ''p1'' (deleteProduct ''p1'')" by (simp add: touches_def)
  moreover have "product_by_id ''p1'' [sample_product] \<noteq> None" by (simp add: product_by_id_def sample_product_def)
  moreover have "storable [sample_product] ''p1'' (product_form_of sample_product)" by code_simp
  ultimately show ?thesis using product_last_save_wins [OF _ _ _ _ b a] b by simp
qed

end
