(* ===== verification/Backend_Pages.thy ===== *)
theory Backend_Pages
  imports Backend_Portal Portal_Pages
begin

section \<open>The products page on its backend, and the portal in production\<close>

text \<open>
  The world of \<open>List_Page\<close>, whose server stores any row under a fresh key, with the server of \<open>Backend_Products\<close> in
  its place: it serves the requests that the page has really sent. A refused create fails with the error of the client.
\<close>

record products_system =
  sys :: "(products_page, ManagementProduct, ManagementService list) world"
  in_flight :: "http_request list"

definition start_products :: "ManagementProduct list \<Rightarrow> products_system" where
  "start_products rows0 = \<lparr>sys = start_world products_init rows0, in_flight = []\<rparr>"

text \<open>The steps of \<open>List_Page\<close> that are not the server's own.\<close>

fun not_stored :: "('row, 'aux) action \<Rightarrow> bool" where
  "not_stored (ServerStores i r) = False"
| "not_stored _ = True"

text \<open>Requests in flight, beside the creates of the world: an answer removes its own, the page adds what it sends.\<close>

fun still_in_flight ::
  "('row, 'aux) action \<Rightarrow> ('s, 'row, 'aux) world \<Rightarrow> ('s, 'row, 'aux) world \<Rightarrow> http_request list \<Rightarrow> http_request list" where
  "still_in_flight (CreateArrives i) w w' reqs = remove_nth i reqs"
| "still_in_flight (CreateFails i t) w w' reqs = remove_nth i reqs"
| "still_in_flight a w w' reqs = reqs @ drop (length (sent w)) (sent w')"

datatype system_event =
    OfPage "(ManagementProduct, ManagementService list) action"
  | BackendServes nat js_string js_string

fun system_act ::
  "auth_user option \<Rightarrow> (js_string \<Rightarrow> bool) \<Rightarrow> (nat \<Rightarrow> js_string) \<Rightarrow> system_event \<Rightarrow> products_system \<Rightarrow>
     products_system option" where
  "system_act usr guid axios_text (OfPage a) y =
     (if not_stored a
      then map_option (\<lambda>w. y\<lparr>sys := w, in_flight := still_in_flight a (sys y) w (in_flight y)\<rparr>)
             (act (products_ops usr) ManagementProduct.ident a (sys y))
      else None)"
| "system_act usr guid axios_text (BackendServes i new now) y =
     (if i < length (in_flight y) \<and> creates (sys y) ! i = None then
        (case serve_products guid new now (in_flight y ! i) (db (sys y)) of (r, rows') \<Rightarrow>
           (case reply_error axios_text r of
              Some err \<Rightarrow>
                map_option (\<lambda>w. y\<lparr>sys := w, in_flight := remove_nth i (in_flight y)\<rparr>)
                  (act (products_ops usr) ManagementProduct.ident (CreateFails i (cause err)) (sys y))
            | None \<Rightarrow>
                (case r of
                   OneProduct st p \<Rightarrow>
                     Some (y\<lparr>sys := (sys y)\<lparr>creates := (creates (sys y))[i := Some p], db := rows'\<rparr>\<rparr>)
                 | _ \<Rightarrow> None)))
      else None)"

inductive system_reachable ::
  "auth_user option \<Rightarrow> (js_string \<Rightarrow> bool) \<Rightarrow> (nat \<Rightarrow> js_string) \<Rightarrow> products_system \<Rightarrow> products_system \<Rightarrow> bool"
  for usr guid axios_text y0
where
  sys_here: "system_reachable usr guid axios_text y0 y0"
| sys_further: "system_reachable usr guid axios_text y0 y \<Longrightarrow> system_act usr guid axios_text e y = Some y' \<Longrightarrow>
     system_reachable usr guid axios_text y0 y'"

fun system_run ::
  "auth_user option \<Rightarrow> (js_string \<Rightarrow> bool) \<Rightarrow> (nat \<Rightarrow> js_string) \<Rightarrow> system_event list \<Rightarrow> products_system \<Rightarrow>
     products_system option" where
  "system_run usr guid axios_text [] y = Some y"
| "system_run usr guid axios_text (e # es) y =
     Option.bind (system_act usr guid axios_text e y) (system_run usr guid axios_text es)"

lemma system_run_reachable:
  "system_run usr guid txt es y = Some y' \<Longrightarrow> system_reachable usr guid txt y0 y \<Longrightarrow> system_reachable usr guid txt y0 y'"
proof (induction es arbitrary: y)
  case (Cons e es)
  then obtain z where "system_act usr guid txt e y = Some z" "system_run usr guid txt es z = Some y'"
    by (auto simp: Option.bind_eq_Some_conv simp del: system_act.simps)
  with Cons show ?case by (blast intro: sys_further)
qed simp

subsection \<open>A create that is served\<close>

definition created_product :: "js_string \<Rightarrow> js_string \<Rightarrow> Products_Page.product_form \<Rightarrow> ManagementProduct" where
  "created_product new now f =
     \<lparr>ManagementProduct.ident = new, name = js_trim (Products_Page.product_form.name f),
      description = js_trim (Products_Page.product_form.description f),
      ownerTeam = js_trim (Products_Page.product_form.ownerTeam f),
      isEnabled = Products_Page.product_form.isEnabled f, createdAt = now, updatedAt = now\<rparr>"

definition insertable :: "js_string \<Rightarrow> Products_Page.product_form \<Rightarrow> ManagementProduct list \<Rightarrow> bool" where
  "insertable new f rows \<longleftrightarrow>
     fits (Products_Page.product_form.name f) (Products_Page.product_form.description f)
       (Products_Page.product_form.ownerTeam f)
     \<and> new \<notin> ManagementProduct.ident ` set rows
     \<and> js_trim (Products_Page.product_form.name f) \<notin> ManagementProduct.name ` set rows"

lemma create_form:
  "serve_products guid new now (createProduct (product_payload f)) rows
   = (if insertable new f rows then (OneProduct 201 (created_product new now f), rows @ [created_product new now f])
      else (NoBody 500, rows))"
  by (auto simp: served_create insert_product_def form_dto_def product_columns_trim insertable_def created_product_def Let_def)

subsection \<open>The system is a list page\<close>

lemma act_reqs:
  assumes "act ops key a w = Some w'" and "not_stored a" and "length reqs = length (creates w)"
    and "set reqs \<subseteq> set (sent w)"
  shows "length (still_in_flight a w w' reqs) = length (creates w')"
    and "set (still_in_flight a w w' reqs) \<subseteq> set (sent w')" and "db w' = db w" and "set (sent w) \<subseteq> set (sent w')"
  using assms
  by (cases a; auto simp: remove_nth_def Let_def dest: in_set_takeD in_set_dropD split: if_splits prod.splits option.splits load_state.splits)+

definition created_from :: "http_request list \<Rightarrow> ManagementProduct list \<Rightarrow> ManagementProduct list \<Rightarrow> bool" where
  "created_from reqs rows0 rows \<longleftrightarrow>
     (\<forall>p \<in> set rows. p \<in> set rows0
        \<or> (\<exists>f new now. createProduct (product_payload f) \<in> set reqs \<and> p = created_product new now f))"

definition system_inv :: "auth_user option \<Rightarrow> ManagementProduct list \<Rightarrow> products_system \<Rightarrow> bool" where
  "system_inv usr rows0 y \<longleftrightarrow>
     reachable (products_ops usr) ManagementProduct.ident (start_world products_init rows0) (sys y)
     \<and> length (in_flight y) = length (creates (sys y)) \<and> set (in_flight y) \<subseteq> set (sent (sys y))
     \<and> product_table (db (sys y)) \<and> created_from (sent (sys y)) rows0 (db (sys y))"

lemma created_from_more: "created_from reqs rows0 rows \<Longrightarrow> set reqs \<subseteq> set reqs' \<Longrightarrow> created_from reqs' rows0 rows"
  by (fastforce simp: created_from_def)

lemma created_from_snoc:
  "createProduct (product_payload f) \<in> set reqs \<Longrightarrow> created_from reqs rows0 rows \<Longrightarrow>
     created_from reqs rows0 (rows @ [created_product new now f])"
  unfolding created_from_def by auto

lemma system_inv_page:
  assumes inv: "system_inv usr rows0 y" and a: "not_stored a"
    and w: "act (products_ops usr) ManagementProduct.ident a (sys y) = Some w"
  shows "system_inv usr rows0 (y\<lparr>sys := w, in_flight := still_in_flight a (sys y) w (in_flight y)\<rparr>)"
proof -
  note l = act_reqs [OF w a, of "in_flight y"]
  have "reachable (products_ops usr) ManagementProduct.ident (start_world products_init rows0) w"
    using inv act_wstep [OF w] by (auto simp: system_inv_def intro: reachable.further)
  with inv l created_from_more [of "sent (sys y)" rows0 "db (sys y)" "sent w"] show ?thesis
    by (simp add: system_inv_def)
qed

text \<open>Every request in flight is a create of a form.\<close>

lemma in_flight_create:
  assumes "system_inv usr rows0 y" and "i < length (in_flight y)"
  shows "\<exists>f. in_flight y ! i = createProduct (product_payload f)"
proof -
  have "in_flight y ! i \<in> set (sent (sys y))" using assms(1) nth_mem [OF assms(2)] by (auto simp: system_inv_def)
  with assms(1) products_list.safe_traffic [of usr rows0 "sys y"] show ?thesis
    by (auto simp: system_inv_def product_request_def)
qed

lemma system_inv_backend:
  assumes inv: "system_inv usr rows0 y"
    and y': "system_act usr guid axios_text (BackendServes i new now) y = Some y'"
  shows "system_inv usr rows0 y'"
proof -
  have i: "i < length (in_flight y)" "creates (sys y) ! i = None" using y' by (auto split: if_splits)
  obtain f where f: "in_flight y ! i = createProduct (product_payload f)" using in_flight_create [OF inv i(1)] ..
  show ?thesis
  proof (cases "insertable new f (db (sys y))")
    case True
    let ?p = "created_product new now f"
    let ?w = "(sys y)\<lparr>creates := (creates (sys y))[i := Some ?p], db := db (sys y) @ [?p]\<rparr>"
    have "y' = y\<lparr>sys := ?w\<rparr>" using y' i f True by (simp add: create_form reply_error_def)
    moreover have "wstep (products_ops usr) ManagementProduct.ident (sys y) ?w"
      using True inv i by (intro serve_create) (auto simp: insertable_def created_product_def system_inv_def)
    then have "reachable (products_ops usr) ManagementProduct.ident (start_world products_init rows0) ?w"
      using inv by (auto simp: system_inv_def intro: reachable.further)
    moreover have "product_table (db (sys y) @ [?p])"
      using True inv by (auto simp: system_inv_def product_table_def insertable_def created_product_def)
    moreover have "in_flight y ! i \<in> set (sent (sys y))" using inv nth_mem [OF i(1)] by (auto simp: system_inv_def)
    then have "createProduct (product_payload f) \<in> set (sent (sys y))" by (simp only: f)
    then have "created_from (sent (sys y)) rows0 (db (sys y) @ [?p])"
      using inv by (intro created_from_snoc) (simp_all add: system_inv_def)
    ultimately show ?thesis using inv by (simp add: system_inv_def)
  next
    case False
    then have "map_option (\<lambda>w. y\<lparr>sys := w, in_flight := remove_nth i (in_flight y)\<rparr>)
        (act (products_ops usr) ManagementProduct.ident (CreateFails i (ErrorObj (axios_text 500))) (sys y)) = Some y'"
      using y' i f by (simp add: create_form reply_error_def del: act.simps)
    then obtain w where w: "act (products_ops usr) ManagementProduct.ident
          (CreateFails i (ErrorObj (axios_text 500))) (sys y) = Some w"
        "y\<lparr>sys := w, in_flight := remove_nth i (in_flight y)\<rparr> = y'"
      by (rule map_option_SomeE)
    have "not_stored (CreateFails i (ErrorObj (axios_text 500)))" by simp
    from system_inv_page [OF inv this w(1)] show ?thesis by (simp only: w(2) still_in_flight.simps)
  qed
qed

lemma system_invariant:
  assumes "product_table rows0" and "system_reachable usr guid axios_text (start_products rows0) y"
  shows "system_inv usr rows0 y"
  using assms(2)
proof (induction rule: system_reachable.induct)
  case sys_here
  show ?case using assms(1) reachable.here
    by (simp add: system_inv_def start_products_def created_from_def) (simp add: start_world_def)
next
  case (sys_further y e y')
  show ?case
  proof (cases e)
    case (OfPage a)
    then obtain w where "not_stored a" "act (products_ops usr) ManagementProduct.ident a (sys y) = Some w"
        "y' = y\<lparr>sys := w, in_flight := still_in_flight a (sys y) w (in_flight y)\<rparr>"
      using sys_further.hyps(2) by (auto split: if_splits simp del: act.simps)
    with system_inv_page [OF sys_further.IH] show ?thesis by simp
  next
    case (BackendServes i new now)
    with system_inv_backend [OF sys_further.IH] sys_further.hyps(2) show ?thesis by blast
  qed
qed

text \<open>
  C5: The products page on the real backend is the list page of \<open>List_Page\<close>, so all that holds of that one
  holds here; and whatever the user does and in whatever order requests are served, the table keeps
  unique identifiers and names, and each product in it was there before or is exactly what a
  permitted create of the page carried: the trimmed texts of a form that was filled in.
\<close>

theorem products_on_backend:
  assumes "product_table rows0" and "system_reachable usr guid axios_text (start_products rows0) y"
  shows "reachable (products_ops usr) ManagementProduct.ident (start_world products_init rows0) (sys y)
     \<and> product_table (db (sys y))
     \<and> (\<forall>p \<in> set (db (sys y)). p \<in> set rows0
          \<or> (\<exists>f new now. createProduct (product_payload f) \<in> set (sent (sys y))
               \<and> product_request usr (createProduct (product_payload f)) \<and> p = created_product new now f))"
proof -
  have inv: "system_inv usr rows0 y" using assms by (rule system_invariant)
  moreover have "\<forall>q \<in> set (sent (sys y)). product_request usr q"
    using inv products_list.safe_traffic by (auto simp: system_inv_def)
  ultimately show ?thesis by (fastforce simp: system_inv_def created_from_def)
qed

theorem products_on_backend_witness:
  "\<exists>y. system_run (Some owner_user) (\<lambda>_. True) (\<lambda>_. [])
        (map OfPage create_product_actions @ [BackendServes 0 ''p2'' ''t'']) (start_products []) = Some y
     \<and> db (sys y) = [created_product ''p2'' ''t'' \<lparr>Products_Page.product_form.name = ''N'', description = ''D'',
          ownerTeam = ''T'', isEnabled = True\<rparr>]
     \<and> product_table (db (sys y))"
proof -
  let ?run = "system_run (Some owner_user) (\<lambda>_. True) (\<lambda>_. [])
        (map OfPage create_product_actions @ [BackendServes 0 ''p2'' ''t'']) (start_products [])"
  let ?rows = "[created_product ''p2'' ''t'' \<lparr>Products_Page.product_form.name = ''N'', description = ''D'',
          ownerTeam = ''T'', isEnabled = True\<rparr>]"
  have "map_option (\<lambda>y. db (sys y)) ?run = Some ?rows" by code_simp
  then obtain y where y: "?run = Some y" "db (sys y) = ?rows" by (rule map_option_SomeE)
  have "product_table []" by (simp add: product_table_def)
  with products_on_backend [OF _ system_run_reachable [OF y(1) sys_here]] y show ?thesis by blast
qed

subsection \<open>Production\<close>

definition product_route :: "(js_string \<Rightarrow> bool) \<Rightarrow> http_request \<Rightarrow> bool" where
  "product_route guid q \<longleftrightarrow> url q = ''/products'' \<or> product_id_of guid (url q) \<noteq> None"

lemma exchange_in_production:
  assumes "product_route guid q"
  shows "exchange axios_text False origin guid new now q rows
    = (Inl (if origin = None then \<lparr>cause = ErrorObj (axios_text 401), status = Some 401\<rparr> else no_response axios_text), rows)"
  using assms by (cases origin) (auto simp: exchange_def origin_allowed_def middleware_def product_route_def reply_error_def)

fun products_failure_text :: "failing \<Rightarrow> js_string" where
  "products_failure_text TheLoad = ''Failed to load products.''"
| "products_failure_text (TheCreate i) = ''Failed to create product.''"

lemma products_failure_page:
  "act (products_ops usr) key (failure_of f t) w = Some w' \<Longrightarrow> mounted w' \<Longrightarrow>
     products_page.error (page w') = Some (message_of (products_failure_text f) t)
     \<and> products_page.products (page w') = products_page.products (page w)"
  by (cases f) (auto simp: products_ops_def products_load_err_def products_create_err_def
      split: load_state.splits if_splits)

text \<open>What a failing request does in the portal, to the page and to the session.\<close>

lemma products_rejected:
  assumes p1: "portal_act products_ops ManagementProduct.ident (RequestFails f err) p = Some p1"
    and p2: "portal_act products_ops ManagementProduct.ident Replaced p1 = Some p2"
  shows "mounted (tab_world p1) \<Longrightarrow>
            products_page.error (page (tab_world p1)) = Some (message_of (products_failure_text f) (cause err))
            \<and> products_page.products (page (tab_world p1)) = products_page.products (page (tab_world p))"
    and "ends_session err \<Longrightarrow>
            local_storage (tab_browser p1) session_key = None \<and> location_href (tab_browser p1) = ''/login''
            \<and> user (tab_auth p2) = None
            \<and> auth_gate_effect (auth_state.loading (tab_auth p2)) (user (tab_auth p2)) = Some (NavReplace ''/login'')"
    and "\<not> ends_session err \<Longrightarrow>
            tab_browser p1 = tab_browser p \<and> tab_auth p1 = tab_auth p \<and> leaving p1 = leaving p"
proof -
  obtain w where w: "act (products_ops (user (tab_auth p))) ManagementProduct.ident (failure_of f (cause err)) (tab_world p) = Some w"
    and r: "p1 = reject err (p\<lparr>tab_world := w\<rparr>)"
    using p1 by auto
  have t: "tab_world p1 = w" by (simp add: r reject_def)
  show "mounted (tab_world p1) \<Longrightarrow>
      products_page.error (page (tab_world p1)) = Some (message_of (products_failure_text f) (cause err))
      \<and> products_page.products (page (tab_world p1)) = products_page.products (page (tab_world p))"
    using products_failure_page [OF w] t by simp
  show "ends_session err \<Longrightarrow>
      local_storage (tab_browser p1) session_key = None \<and> location_href (tab_browser p1) = ''/login''
      \<and> user (tab_auth p2) = None
      \<and> auth_gate_effect (auth_state.loading (tab_auth p2)) (user (tab_auth p2)) = Some (NavReplace ''/login'')"
    using replaced_user [OF p2] by (simp add: r rejected_session auth_gate_effect_def canAccessPortal_def)
  show "\<not> ends_session err \<Longrightarrow>
      tab_browser p1 = tab_browser p \<and> tab_auth p1 = tab_auth p \<and> leaving p1 = leaving p"
    by (simp add: r not_rejected_session)
qed

text \<open>
  C8: Outside of development the admin portal cannot be used: no request for products succeeds and none changes
  the table, since the client sends no token. How it fails depends on where the API is. Behind the portal's own
  origin it is answered with status 401, and the first such answer signs the user out and leads to the login page.
  At any other origin, as with the default base URL, the browser withholds the answer for want of CORS
  headers: no status reaches the interceptor, so the session stays, nobody is led to the login page, and the
  page shows the error of axios beside the rows it had.
\<close>

theorem production_refuses_portal:
  assumes route: "product_route guid q"
    and answer: "exchange axios_text False origin guid new now q rows = (answer, rows')"
  shows "rows' = rows \<and> (\<exists>err. answer = Inl err \<and> status err = (if origin = None then Some 401 else None)
     \<and> (\<forall>f p p1 p2. portal_act products_ops ManagementProduct.ident (RequestFails f err) p = Some p1 \<longrightarrow>
           portal_act products_ops ManagementProduct.ident Replaced p1 = Some p2 \<longrightarrow>
         (mounted (tab_world p1) \<longrightarrow>
            products_page.error (page (tab_world p1)) = Some (message_of (products_failure_text f) (cause err))
            \<and> products_page.products (page (tab_world p1)) = products_page.products (page (tab_world p)))
         \<and> (if origin = None then
              local_storage (tab_browser p1) session_key = None \<and> location_href (tab_browser p1) = ''/login''
              \<and> user (tab_auth p2) = None
              \<and> auth_gate_effect (auth_state.loading (tab_auth p2)) (user (tab_auth p2)) = Some (NavReplace ''/login'')
            else tab_browser p1 = tab_browser p \<and> tab_auth p1 = tab_auth p \<and> leaving p1 = leaving p)))"
proof (cases "origin = None")
  case True
  let ?err = "\<lparr>cause = ErrorObj (axios_text 401), status = Some 401\<rparr>"
  have "answer = Inl ?err" "rows' = rows" "ends_session ?err"
    using answer True by (simp_all add: exchange_in_production [OF route] ends_session_def)
  with True show ?thesis by (auto intro!: exI [of _ ?err] dest: products_rejected simp del: portal_act.simps)
next
  case False
  let ?err = "no_response axios_text"
  have "answer = Inl ?err" "rows' = rows" "\<not> ends_session ?err" "status ?err = None"
    using answer False by (simp_all add: exchange_in_production [OF route] ends_session_def no_response_def)
  with False show ?thesis by (auto intro!: exI [of _ ?err] dest: products_rejected simp del: portal_act.simps)
qed

theorem production_refuses_portal_witness:
  "\<exists>err p1. fst (exchange (\<lambda>_. ''Network Error'') False (Some ''http://localhost:3000'') (\<lambda>_. True) [] []
          (hd products_load_requests) []) = Inl err
     \<and> portal_act products_ops ManagementProduct.ident (RequestFails TheLoad err)
          (enter_portal owner_browser owner_user products_init []) = Some p1
     \<and> tab_browser p1 = owner_browser \<and> \<not> leaving p1
     \<and> products_page.error (page (tab_world p1)) = Some ''Network Error''"
proof -
  let ?q = "hd products_load_requests" and ?p = "enter_portal owner_browser owner_user products_init [] ::
      (products_page, ManagementProduct, ManagementService list) portal"
  have route: "product_route (\<lambda>_. True) ?q"
    by (simp add: product_route_def products_load_requests_def getProducts_def http_get_def)
  let ?x = "exchange (\<lambda>_. ''Network Error'') False (Some ''http://localhost:3000'') (\<lambda>_. True) [] [] ?q []"
  let ?err = "no_response (\<lambda>_. ''Network Error'')"
  have x: "?x = (Inl ?err, [])" by (simp add: exchange_in_production [OF route])
  obtain p1 where p1: "portal_act products_ops ManagementProduct.ident (RequestFails TheLoad ?err) ?p = Some p1"
      "mounted (tab_world p1)"
    by (simp add: enter_portal_def start_world_def reject_def)
  obtain p2 where p2: "portal_act products_ops ManagementProduct.ident Replaced p1 = Some p2" by simp
  obtain err where err: "Inl ?err = Inl err"
      "\<forall>f p p1 p2. portal_act products_ops ManagementProduct.ident (RequestFails f err) p = Some p1 \<longrightarrow>
           portal_act products_ops ManagementProduct.ident Replaced p1 = Some p2 \<longrightarrow>
         (mounted (tab_world p1) \<longrightarrow>
            products_page.error (page (tab_world p1)) = Some (message_of (products_failure_text f) (cause err))
            \<and> products_page.products (page (tab_world p1)) = products_page.products (page (tab_world p)))
         \<and> tab_browser p1 = tab_browser p \<and> tab_auth p1 = tab_auth p \<and> leaving p1 = leaving p"
    using production_refuses_portal [OF route x] by (simp del: portal_act.simps)
  from err(1) have e: "err = ?err" by simp
  note failed = err(2) [unfolded e, rule_format, OF p1(1) p2]
  have "tab_browser p1 = tab_browser ?p \<and> leaving p1 = leaving ?p
      \<and> products_page.error (page (tab_world p1)) = Some (message_of (products_failure_text TheLoad) (cause ?err))"
    using failed p1(2) by simp
  moreover have "tab_browser ?p = owner_browser" "\<not> leaving ?p" by (simp_all add: enter_portal_def)
  moreover have "message_of (products_failure_text TheLoad) (cause ?err) = ''Network Error''" by (simp add: no_response_def)
  moreover have "fst ?x = Inl ?err" by (simp only: x fst_conv)
  ultimately show ?thesis using p1(1) by metis
qed

end
