(* ===== verification/Backend_Services.thy ===== *)
theory Backend_Services
  imports Backend_Products Service_Detail
begin

section \<open>The environment of a service between the portal and the backend\<close>

text \<open>
  \<open>EnvironmentType\<close> of \<open>Gateway.Core/Enums/Enums.cs\<close> on its way: the middleware API answers with it as a number, as
  System.Text.Json writes enumerations unless it is told otherwise, while \<open>types/management.ts\<close>
  declares a string; and \<open>ServiceUpdateRequest\<close> takes a string (\<open>ServicesEndpoints.cs\<close>). The service detail page
  passes the value on unseen.
\<close>

datatype EnvironmentType = Dev | UAT | Prod

definition environment_names :: "(js_string \<times> EnvironmentType) list" where
  "environment_names = [(''Dev'', Dev), (''UAT'', UAT), (''Prod'', Prod)]"

text \<open>The number of a constant is its position.\<close>

fun environment_json :: "EnvironmentType \<Rightarrow> json" where
  "environment_json Dev = JInt 0"
| "environment_json UAT = JInt 1"
| "environment_json Prod = JInt 2"

text \<open>
  \<open>Enum.TryParse\<close> with \<open>ignoreCase\<close>, for the name of a constant; numerals and lists of names, which it takes too,
  are no options of the portal.
\<close>

definition parse_environment :: "js_string \<Rightarrow> EnvironmentType option" where
  "parse_environment v = map_of (map (\<lambda>(n, e). (js_lower n, e)) environment_names) (js_lower (js_trim v))"

definition ParseEnum :: "js_string \<Rightarrow> EnvironmentType \<Rightarrow> EnvironmentType" where
  "ParseEnum v fallback = (case parse_environment v of None \<Rightarrow> fallback | Some e \<Rightarrow> e)"

text \<open>
  The property of an update request and the environment that the handler hands to the repository for a service
  with the environment \<open>existing\<close>; \<open>None\<close> is status 400. The SQL statement behind is not modelled here.
\<close>

definition updated_environment :: "json option \<Rightarrow> EnvironmentType \<Rightarrow> EnvironmentType option" where
  "updated_environment v existing =
     map_option (\<lambda>x. case x of None \<Rightarrow> existing | Some s \<Rightarrow> ParseEnum s existing) (bind_text v)"

subsection \<open>The page on the value it gets\<close>

lemma payload_environment:
  "get_prop (service_update_payload f) ''environment'' = Some (env_json (service_form.environment f))"
  by (simp add: service_update_payload_def Let_def get_prop_def)

lemma environment_options:
  "u \<in> set (dispatch (Choose ''service-env'' v) (service_config_node s)) \<Longrightarrow>
     v \<in> {''Dev'', ''Uat'', ''Staging'', ''Prod''}"
  by (auto simp: service_config_node_def Let_def)

lemma parse_options:
  "parse_environment ''Dev'' = Some Dev" "parse_environment ''Uat'' = Some UAT"
  "parse_environment ''Prod'' = Some Prod" "parse_environment ''Staging'' = None"
  by code_simp+

lemma chosen_environment:
  "v \<in> {''Dev'', ''Uat'', ''Staging'', ''Prod''} \<Longrightarrow>
     updated_environment (Some (JStr v)) existing
         = Some (if v = ''Dev'' then Dev else if v = ''Uat'' then UAT else if v = ''Prod'' then Prod else existing)
     \<and> (parse_environment v = None \<longleftrightarrow> v = ''Staging'')"
  by (elim insertE emptyE) (simp_all add: updated_environment_def ParseEnum_def parse_options)

text \<open>
  C9: Portal and backend disagree on the environment of a service. The backend's answer is a number, so a save that leaves
  the environment alone sends a number back and is refused, whatever else was edited; and no
  service is ever marked as production. When the user does choose one of the options, the handler takes it over,
  but for \<open>Staging\<close>, which it does not know: then the old one stays and the save succeeds.
\<close>

theorem service_environment_mismatch:
  assumes "map_option env_json (ManagementService.environment svc) = Some (environment_json e)"
    and "service_form.environment f = service_form.environment (service_form_of fmt svc)"
    and "u \<in> set (dispatch (Choose ''service-env'' v) (service_config_node s))"
  shows "updated_environment (get_prop (service_update_payload f) ''environment'') existing = None
     \<and> (\<exists>label. environment_badge (ManagementService.environment svc) = (''info'', label))
     \<and> (\<exists>f'. service_detail_handle s u = (s\<lparr>formState := f'\<rparr>, [])
           \<and> updated_environment (get_prop (service_update_payload f') ''environment'') existing
             = Some (if v = ''Dev'' then Dev else if v = ''Uat'' then UAT else if v = ''Prod'' then Prod else existing))
     \<and> (parse_environment v = None \<longleftrightarrow> v = ''Staging'')"
proof -
  have env: "ManagementService.environment svc = Some (EnvNumber (case e of Dev \<Rightarrow> 0 | UAT \<Rightarrow> 1 | Prod \<Rightarrow> 2))"
    using assms(1) by (cases e) (auto elim!: env_json.elims)
  have "service_form.environment f = EnvNumber (case e of Dev \<Rightarrow> 0 | UAT \<Rightarrow> 1 | Prod \<Rightarrow> 2)"
    using assms(2) by (simp add: service_form_of_def loaded_environment_def env)
  then have "updated_environment (get_prop (service_update_payload f) ''environment'') existing = None"
    by (simp add: payload_environment updated_environment_def bind_text_def)
  moreover have "\<exists>label. environment_badge (ManagementService.environment svc) = (''info'', label)"
  proof -
    have "js_lower (int_dec 1) = ''1''" "js_lower (int_dec 2) = ''2''" by code_simp+
    then show ?thesis by (cases e) (simp_all add: environment_badge_def env)
  qed
  moreover have "u = SetFormState (\<lambda>prev. prev\<lparr>service_form.environment := EnvText v\<rparr>)"
    using assms(3) by (auto simp: service_config_node_def Let_def)
  then have "\<exists>f'. service_detail_handle s u = (s\<lparr>formState := f'\<rparr>, [])
      \<and> updated_environment (get_prop (service_update_payload f') ''environment'') existing
        = updated_environment (Some (JStr v)) existing"
    by (intro exI [of _ "(formState s)\<lparr>service_form.environment := EnvText v\<rparr>"]) (simp add: payload_environment)
  moreover note chosen_environment [of v existing, OF environment_options [OF assms(3)]]
  ultimately show ?thesis by metis
qed

theorem service_environment_mismatch_witness:
  "updated_environment (get_prop (service_update_payload (service_form_of id (plain_service []))) ''environment'') Prod = None
   \<and> (\<exists>f'. updated_environment (get_prop (service_update_payload f') ''environment'') Prod = Some Prod)"
proof -
  have n: "map_option env_json (ManagementService.environment (plain_service [])) = Some (environment_json Prod)"
    by (simp add: plain_service_def)
  have "SetFormState (\<lambda>prev. prev\<lparr>service_form.environment := EnvText ''Staging''\<rparr>)
      \<in> set (dispatch (Choose ''service-env'' ''Staging'') (service_config_node (service_detail_init None)))"
    by (simp add: service_config_node_def Let_def)
  from service_environment_mismatch [OF n refl this, of id Prod] show ?thesis by auto
qed

end
