(* ===== verification/Ui_Primitives.thy ===== *)
theory Ui_Primitives
  imports Branding
begin

section \<open>User-interface primitives and the root of the document\<close>

text \<open>
  Models \<open>components/ui\<close> of the developer portal, which the admin portal shares but for the variants of its
  button, and \<open>app/layout.tsx\<close> and \<open>app/providers.tsx\<close> of both. A primitive takes \<open>className\<close> out of its
  properties, puts it behind its own classes and spreads the other properties over the element it renders.
  \<open>cn\<close> (\<open>lib/utils/cn.ts\<close>: \<open>twMerge(clsx(inputs))\<close>, two libraries) is a parameter; an input that is
  \<open>undefined\<close> is \<open>None\<close>. An attribute that is \<open>undefined\<close> is absent.
\<close>

subsection \<open>Elements\<close>

text \<open>\<open>Value\<close> is any property else: a handler, a number, children.\<close>

datatype 'a attr = Text js_string | Flag bool | Value 'a

type_synonym 'a attrs = "js_string \<rightharpoonup> 'a attr"

text \<open>\<open>Hole\<close> stands where a component puts the children it is given.\<close>

datatype 'a element = Element js_string "'a attrs" "'a element list" | Hole "'a attr option"

type_synonym cn = "js_string option list \<Rightarrow> js_string"

definition text_of :: "'a attr option \<Rightarrow> js_string option" where
  "text_of v = (case v of Some (Text s) \<Rightarrow> Some s | _ \<Rightarrow> None)"

text \<open>\<open>({ className, ...props }) => <x className={cn(base, className)} {...props} />\<close>.\<close>

definition wrap :: "cn \<Rightarrow> js_string option list \<Rightarrow> 'a attrs \<Rightarrow> 'a attrs" where
  "wrap cn base props =
     [''className'' \<mapsto> Text (cn (base @ [text_of (props ''className'')]))] ++ props(''className'' := None)"

definition or_default :: "'a option \<Rightarrow> 'a \<Rightarrow> 'a" where
  "or_default v d = (case v of None \<Rightarrow> d | Some x \<Rightarrow> x)"

subsection \<open>Tables\<close>

definition Table :: "cn \<Rightarrow> 'a attrs \<Rightarrow> 'a element" where
  "Table cn props =
     Element ''div'' [''className'' \<mapsto> Text ''w-full overflow-auto'']
       [Element ''table'' (wrap cn [Some ''w-full caption-bottom text-sm''] props) []]"

definition TableHeader :: "cn \<Rightarrow> 'a attrs \<Rightarrow> 'a element" where
  "TableHeader cn props =
     Element ''thead'' (wrap cn [Some (''border-b'')] props) []"

definition TableBody :: "cn \<Rightarrow> 'a attrs \<Rightarrow> 'a element" where
  "TableBody cn props =
     Element ''tbody'' (wrap cn [Some (''[&_tr:last-child]:border-0'')] props) []"

definition TableFooter :: "cn \<Rightarrow> 'a attrs \<Rightarrow> 'a element" where
  "TableFooter cn props =
     Element ''tfoot'' (wrap cn [Some (''border-t bg-muted/50 font-medium [&>tr]:last:border-b-0'')] props) []"

definition TableRow :: "cn \<Rightarrow> 'a attrs \<Rightarrow> 'a element" where
  "TableRow cn props =
     Element ''tr'' (wrap cn [Some (''border-b transition-colors hover:bg-muted/50 data-[state=selected]:bg-muted'')] props) []"

definition TableHead :: "cn \<Rightarrow> 'a attrs \<Rightarrow> 'a element" where
  "TableHead cn props =
     Element ''th'' (wrap cn [Some (''h-10 px-2 text-left align-middle font-medium text-muted-foreground''
        @ '' [&:has([role=checkbox])]:pr-0'')] props) []"

definition TableCell :: "cn \<Rightarrow> 'a attrs \<Rightarrow> 'a element" where
  "TableCell cn props =
     Element ''td'' (wrap cn [Some (''p-2 align-middle [&:has([role=checkbox])]:pr-0'')] props) []"

definition TableCaption :: "cn \<Rightarrow> 'a attrs \<Rightarrow> 'a element" where
  "TableCaption cn props =
     Element ''caption'' (wrap cn [Some (''mt-4 text-sm text-muted-foreground'')] props) []"

subsection \<open>Dialogs\<close>

text \<open>
  The content renders its children before its own button for closing, in a portal behind the overlay. Children written
  between the tags of an element take the place of the property.
\<close>

definition DialogOverlay :: "cn \<Rightarrow> 'a attrs \<Rightarrow> 'a element" where
  "DialogOverlay cn props =
     Element ''DialogPrimitive.Overlay'' (wrap cn [Some (''fixed inset-0 z-50 bg-black/80 data-[state=open]:animate-in''
        @ '' data-[state=closed]:animate-out data-[state=closed]:fade-out-0''
        @ '' data-[state=open]:fade-in-0'')] props) []"

definition DialogContent :: "cn \<Rightarrow> 'a attrs \<Rightarrow> 'a element" where
  "DialogContent cn props =
     Element ''DialogPrimitive.Portal'' Map.empty
       [DialogOverlay cn Map.empty,
        Element ''DialogPrimitive.Content''
          ((wrap cn [Some (''fixed left-[50%] top-[50%] z-50 grid w-full max-w-lg translate-x-[-50%]''
            @ '' translate-y-[-50%] gap-4 border border-slate-200 bg-white p-6 shadow-lg duration-200''
            @ '' data-[state=open]:animate-in data-[state=closed]:animate-out''
            @ '' data-[state=closed]:fade-out-0 data-[state=open]:fade-in-0''
            @ '' data-[state=closed]:zoom-out-95 data-[state=open]:zoom-in-95''
            @ '' data-[state=closed]:slide-out-to-left-1/2 data-[state=closed]:slide-out-to-top-[48%]''
            @ '' data-[state=open]:slide-in-from-left-1/2 data-[state=open]:slide-in-from-top-[48%]''
            @ '' sm:rounded-lg dark:border-slate-800 dark:bg-slate-950'')] props)(''children'' := None))
          [Hole (props ''children''),
           Element ''DialogPrimitive.Close''
             [''className'' \<mapsto> Text (''absolute right-4 top-4 rounded-sm opacity-70 ring-offset-white transition-opacity''
                @ '' hover:opacity-100 focus:outline-none focus:ring-2 focus:ring-slate-950''
                @ '' focus:ring-offset-2 disabled:pointer-events-none dark:ring-offset-slate-950''
                @ '' dark:focus:ring-slate-300'')]
             [Element ''X'' [''className'' \<mapsto> Text ''h-4 w-4''] [],
              Element ''span'' [''className'' \<mapsto> Text ''sr-only'', ''children'' \<mapsto> Text ''Close''] []]]]"

definition DialogHeader :: "cn \<Rightarrow> 'a attrs \<Rightarrow> 'a element" where
  "DialogHeader cn props =
     Element ''div'' (wrap cn [Some (''flex flex-col space-y-1.5 text-center sm:text-left'')] props) []"

definition DialogFooter :: "cn \<Rightarrow> 'a attrs \<Rightarrow> 'a element" where
  "DialogFooter cn props =
     Element ''div'' (wrap cn [Some (''flex flex-col-reverse sm:flex-row sm:justify-end sm:space-x-2'')] props) []"

definition DialogTitle :: "cn \<Rightarrow> 'a attrs \<Rightarrow> 'a element" where
  "DialogTitle cn props =
     Element ''DialogPrimitive.Title'' (wrap cn [Some (''text-lg font-semibold leading-none tracking-tight'')] props) []"

definition DialogDescription :: "cn \<Rightarrow> 'a attrs \<Rightarrow> 'a element" where
  "DialogDescription cn props =
     Element ''DialogPrimitive.Description'' (wrap cn [Some (''text-sm text-slate-500 dark:text-slate-400'')] props) []"

subsection \<open>Cards\<close>

definition Card :: "cn \<Rightarrow> 'a attrs \<Rightarrow> 'a element" where
  "Card cn props =
     Element ''div'' (wrap cn [Some (''rounded-2xl border border-border bg-card text-card-foreground p-6 shadow-sm''
        @ '' dark:shadow-none'')] props) []"

definition CardHeader :: "cn \<Rightarrow> 'a attrs \<Rightarrow> 'a element" where
  "CardHeader cn props =
     Element ''div'' (wrap cn [Some (''mb-4 flex flex-col gap-1'')] props) []"

definition CardTitle :: "cn \<Rightarrow> 'a attrs \<Rightarrow> 'a element" where
  "CardTitle cn props =
     Element ''h3'' (wrap cn [Some (''text-lg font-semibold text-foreground'')] props) []"

definition CardDescription :: "cn \<Rightarrow> 'a attrs \<Rightarrow> 'a element" where
  "CardDescription cn props =
     Element ''p'' (wrap cn [Some (''text-sm text-muted-foreground'')] props) []"

definition CardContent :: "cn \<Rightarrow> 'a attrs \<Rightarrow> 'a element" where
  "CardContent cn props =
     Element ''div'' (wrap cn [Some (''space-y-4'')] props) []"

definition CardFooter :: "cn \<Rightarrow> 'a attrs \<Rightarrow> 'a element" where
  "CardFooter cn props =
     Element ''div'' (wrap cn [Some (''mt-6 flex items-center justify-between'')] props) []"

subsection \<open>Fields\<close>

definition Input :: "cn \<Rightarrow> 'a attrs \<Rightarrow> 'a element" where
  "Input cn props =
     Element ''input'' (wrap cn [Some (''h-10 w-full rounded-lg border border-input bg-background px-3 text-sm text-foreground''
        @ '' placeholder:text-muted-foreground shadow-sm focus:outline-none focus:ring-2''
        @ '' focus:ring-ring focus:ring-offset-2 ring-offset-background disabled:cursor-not-allowed''
        @ '' disabled:opacity-50'')] props) []"

definition Label :: "cn \<Rightarrow> 'a attrs \<Rightarrow> 'a element" where
  "Label cn props =
     Element ''label'' (wrap cn [Some (''text-sm font-medium text-foreground'')] props) []"

definition Textarea :: "cn \<Rightarrow> 'a attrs \<Rightarrow> 'a element" where
  "Textarea cn props =
     Element ''textarea'' (wrap cn [Some (''min-h-[120px] w-full rounded-lg border border-input bg-background px-3 py-2 text-sm''
        @ '' text-foreground placeholder:text-muted-foreground shadow-sm focus:outline-none''
        @ '' focus:ring-2 focus:ring-ring focus:ring-offset-2 ring-offset-background''
        @ '' disabled:cursor-not-allowed disabled:opacity-50'')] props) []"

definition Separator :: "cn \<Rightarrow> 'a attrs \<Rightarrow> 'a element" where
  "Separator cn props =
     Element ''div'' (wrap cn [Some (''h-px w-full bg-border'')] props) []"

definition Switch :: "cn \<Rightarrow> 'a attrs \<Rightarrow> 'a element" where
  "Switch cn props =
     Element ''SwitchPrimitives.Root''
       ((wrap cn [Some (''peer inline-flex h-6 w-11 shrink-0 cursor-pointer items-center rounded-full border-2''
          @ '' border-transparent transition-colors focus-visible:outline-none focus-visible:ring-2''
          @ '' focus-visible:ring-slate-950 focus-visible:ring-offset-2''
          @ '' focus-visible:ring-offset-white disabled:cursor-not-allowed disabled:opacity-50''
          @ '' data-[state=checked]:bg-slate-950 data-[state=unchecked]:bg-slate-200''
          @ '' dark:focus-visible:ring-slate-300 dark:focus-visible:ring-offset-slate-950''
          @ '' dark:data-[state=checked]:bg-slate-50 dark:data-[state=unchecked]:bg-slate-800'')] props)(''children'' := None))
       [Element ''SwitchPrimitives.Thumb''
          [''className'' \<mapsto> Text (cn [Some (''pointer-events-none block h-5 w-5 rounded-full bg-white shadow-lg ring-0''
              @ '' transition-transform data-[state=checked]:translate-x-5''
              @ '' data-[state=unchecked]:translate-x-0 dark:bg-slate-950'')])] []]"

subsection \<open>Buttons and badges\<close>

text \<open>
  Button and badge also take \<open>variant\<close>, \<open>size\<close> and \<open>asChild\<close> out of their properties, which their types
  declare as texts and a boolean. A default stands for a property that is \<open>undefined\<close>; an unknown variant
  gives no class.
\<close>

definition is_on :: "'a attr option \<Rightarrow> bool" where
  "is_on v = (case v of None \<Rightarrow> False | Some (Flag b) \<Rightarrow> b | Some (Text s) \<Rightarrow> truthy_str s | Some (Value x) \<Rightarrow> True)"

definition button_variants :: "(js_string \<times> js_string) list" where
  "button_variants =
     [(''default'', ''bg-primary text-primary-foreground hover:bg-primary/90''),
      (''secondary'', ''bg-secondary text-secondary-foreground hover:bg-secondary/90''),
      (''outline'', ''border border-input bg-background hover:bg-muted''),
      (''ghost'', ''text-foreground hover:bg-muted''),
      (''destructive'', ''bg-destructive text-destructive-foreground hover:bg-destructive/90''),
      (''link'', ''text-primary underline-offset-4 hover:underline'')]"

definition admin_button_variants :: "(js_string \<times> js_string) list" where
  "admin_button_variants =
     [(''default'', ''bg-primary text-primary-foreground shadow-sm hover:bg-primary/90''),
      (''secondary'', ''bg-secondary text-secondary-foreground shadow-sm hover:bg-secondary/90''),
      (''outline'', ''border border-input bg-card text-foreground shadow-sm hover:bg-muted/60''),
      (''ghost'', ''text-foreground hover:bg-muted/60''),
      (''destructive'', ''bg-destructive text-destructive-foreground hover:bg-destructive/90''),
      (''link'', ''text-primary underline-offset-4 hover:underline'')]"

definition button_sizes :: "(js_string \<times> js_string) list" where
  "button_sizes =
     [(''sm'', ''h-9 px-3 text-sm''),
      (''md'', ''h-10 px-4 text-sm''),
      (''lg'', ''h-11 px-6 text-base''),
      (''icon'', ''h-10 w-10'')]"

definition Button :: "(js_string \<times> js_string) list \<Rightarrow> cn \<Rightarrow> 'a attrs \<Rightarrow> 'a element" where
  "Button variants cn props =
     Element (if is_on (props ''asChild'') then ''Slot'' else ''button'')
       (wrap cn
         [Some (''inline-flex items-center justify-center gap-2 rounded-lg font-medium transition-colors''
            @ '' focus-visible:outline-none focus-visible:ring-2 focus-visible:ring-ring''
            @ '' focus-visible:ring-offset-2 ring-offset-background disabled:pointer-events-none''
            @ '' disabled:opacity-50''),
          map_of variants (or_default (text_of (props ''variant'')) ''default''),
          map_of button_sizes (or_default (text_of (props ''size'')) ''md'')]
         (props(''variant'' := None, ''size'' := None, ''asChild'' := None))) []"

definition badge_variants :: "(js_string \<times> js_string) list" where
  "badge_variants =
     [(''neutral'', ''bg-muted text-muted-foreground''),
      (''success'', ''bg-success/15 text-success''),
      (''warning'', ''bg-warning/15 text-warning''),
      (''danger'', ''bg-destructive/15 text-destructive''),
      (''info'', ''bg-accent/20 text-accent'')]"

definition badge_span :: "cn \<Rightarrow> 'a attrs \<Rightarrow> 'a element" where
  "badge_span cn props =
     Element ''span''
       (wrap cn
         [Some ''inline-flex items-center rounded-full px-2.5 py-1 text-xs font-semibold'',
          map_of badge_variants (or_default (text_of (props ''variant'')) ''neutral'')]
         (props(''variant'' := None))) []"

definition Skeleton :: "js_string option \<Rightarrow> 'a element" where
  "Skeleton className =
     Element ''div'' [''className'' \<mapsto> Text (''animate-pulse rounded-lg bg-muted '' @ or_default className [])] []"

definition Loading :: "'a element" where
  "Loading =
     Element ''div'' [''className'' \<mapsto> Text ''space-y-4 px-6 py-8'']
       [Skeleton (Some ''h-8 w-64''), Skeleton (Some ''h-64 w-full'')]"

subsection \<open>Every primitive hands its properties on\<close>

text \<open>The element of a tree that carries the properties: the first of the tag.\<close>

fun host :: "js_string \<Rightarrow> 'a element \<Rightarrow> 'a attrs option" where
  "host t (Hole h) = None"
| "host t (Element t' as es) =
     (if t' = t then Some as
      else case List.find (\<lambda>x. x \<noteq> None) (map (host t) es) of None \<Rightarrow> None | Some x \<Rightarrow> x)"

definition primitives :: "cn \<Rightarrow> 'a attrs \<Rightarrow> (js_string \<times> 'a element) list" where
  "primitives cn props =
     [(''table'', Table cn props), (''thead'', TableHeader cn props), (''tbody'', TableBody cn props),
      (''tfoot'', TableFooter cn props), (''tr'', TableRow cn props), (''th'', TableHead cn props),
      (''td'', TableCell cn props), (''caption'', TableCaption cn props),
      (''DialogPrimitive.Overlay'', DialogOverlay cn props), (''div'', DialogHeader cn props),
      (''div'', DialogFooter cn props), (''DialogPrimitive.Title'', DialogTitle cn props),
      (''DialogPrimitive.Description'', DialogDescription cn props), (''div'', Card cn props),
      (''div'', CardHeader cn props), (''h3'', CardTitle cn props), (''p'', CardDescription cn props),
      (''div'', CardContent cn props), (''div'', CardFooter cn props), (''input'', Input cn props),
      (''label'', Label cn props), (''textarea'', Textarea cn props), (''div'', Separator cn props)]"

definition hands_on :: "cn \<Rightarrow> 'a attrs \<Rightarrow> js_string list \<Rightarrow> js_string \<times> 'a element \<Rightarrow> bool" where
  "hands_on cn props but x \<longleftrightarrow>
     (\<exists>as base. host (fst x) (snd x) = Some as
        \<and> as ''className'' = Some (Text (cn (base @ [text_of (props ''className'')])))
        \<and> (\<forall>k. k \<notin> set (''className'' # but) \<longrightarrow> as k = props k))"

lemma wrap_other: "k \<noteq> ''className'' \<Longrightarrow> wrap cn base props k = props k"
  by (simp add: wrap_def map_add_def split: option.split)

lemma wrap_class: "wrap cn base props ''className'' = Some (Text (cn (base @ [text_of (props ''className'')])))"
  by (simp add: wrap_def map_add_def)

lemma hands_on_host: "host t e = Some (wrap cn base props) \<Longrightarrow> hands_on cn props [] (t, e)"
  using wrap_class [of cn base props] by (auto simp: hands_on_def wrap_other)

lemma hands_on_element [simp]: "hands_on cn props [] (t, Element t (wrap cn base props) es)"
  by (rule hands_on_host) simp

lemma primitives_hand_on: "list_all (hands_on cn props []) (primitives cn props)"
proof -
  have "hands_on cn props [] (''table'', Table cn props)"
    by (rule hands_on_host) (simp add: Table_def)
  then show ?thesis
    by (simp add: primitives_def TableHeader_def TableBody_def TableFooter_def TableRow_def TableHead_def
        TableCell_def TableCaption_def DialogOverlay_def DialogHeader_def DialogFooter_def DialogTitle_def
        DialogDescription_def Card_def CardHeader_def CardTitle_def CardDescription_def CardContent_def
        CardFooter_def Input_def Label_def Textarea_def Separator_def)
qed

lemma hands_on_inner:
  assumes "host t e = Some (wrap cn base props')" and "props' ''className'' = props ''className''"
    and "\<And>k. k \<notin> set but \<Longrightarrow> props' k = props k"
  shows "hands_on cn props but (t, e)"
  using assms wrap_class [of cn base props'] by (auto simp: hands_on_def wrap_other)

lemma wrap_without:
  "k \<noteq> ''className'' \<Longrightarrow> (wrap cn base props)(k := None) = wrap cn base (props(k := None))"
  by (auto simp: wrap_def map_add_def fun_eq_iff)

text \<open>
  The properties each primitive takes out for itself; it hands on all others, so handlers, \<open>disabled\<close> and
  \<open>type\<close> reach the element, and its class is \<open>cn\<close> of the primitive's classes with the given one last.
\<close>

lemma consuming_primitives:
  "hands_on cn props [''variant'', ''size'', ''asChild'']
     (if is_on (props ''asChild'') then ''Slot'' else ''button'', Button variants cn props)"
  "hands_on cn props [''variant''] (''span'', badge_span cn props)"
  "hands_on cn props [''children''] (''DialogPrimitive.Content'', DialogContent cn props)"
  "hands_on cn props [''children''] (''SwitchPrimitives.Root'', Switch cn props)"
     apply (rule hands_on_inner [where props' = "props(''variant'' := None, ''size'' := None, ''asChild'' := None)"];
       simp add: Button_def)
    apply (rule hands_on_inner [where props' = "props(''variant'' := None)"]; simp add: badge_span_def)
   apply (rule hands_on_inner [where props' = "props(''children'' := None)"];
     simp add: DialogContent_def DialogOverlay_def wrap_without)
  apply (rule hands_on_inner [where props' = "props(''children'' := None)"]; simp add: Switch_def wrap_without)
  done

subsection \<open>The root of the document\<close>

definition link_node :: "link_element \<Rightarrow> 'a element" where
  "link_node l =
     Element ''link''
       (\<lambda>k. if k = ''rel'' then Some (Text (rel l)) else if k = ''href'' then Some (Text (href l))
            else if k = ''sizes'' then map_option Text (sizes l)
            else if k = ''type'' then map_option Text (link_type l) else None) []"

definition Providers :: "'a element" where
  "Providers =
     Element ''QueryClientProvider'' Map.empty
       [Element ''SessionProvider'' Map.empty [Element ''AuthProvider'' Map.empty [Hole None]],
        Element ''ReactQueryDevtools'' [''initialIsOpen'' \<mapsto> Flag False] []]"

definition admin_Providers :: "'a element" where
  "admin_Providers =
     Element ''QueryClientProvider'' Map.empty
       [Element ''AuthProvider'' Map.empty [Hole None],
        Element ''ReactQueryDevtools'' [''initialIsOpen'' \<mapsto> Flag False] []]"

text \<open>\<open>fonts\<close> is the text of the two font variables, which Next.js generates.\<close>

definition RootLayout :: "js_string \<Rightarrow> 'a element \<Rightarrow> 'a element" where
  "RootLayout fonts providers =
     Element ''html'' [''lang'' \<mapsto> Text ''en'', ''suppressHydrationWarning'' \<mapsto> Flag True]
       [Element ''head'' Map.empty (map link_node layout_links),
        Element ''body'' [''className'' \<mapsto> Text (fonts @ '' antialiased'')]
          [Element ''ThemeProvider''
             [''attribute'' \<mapsto> Text ''class'', ''defaultTheme'' \<mapsto> Text ''system'', ''enableSystem'' \<mapsto> Flag True]
             [Element ''ThemeFavicon'' Map.empty [], providers]]]"

text \<open>Every hole, or every element of a tag, is below an element of another tag.\<close>

fun all_under :: "js_string \<Rightarrow> js_string option \<Rightarrow> 'a element \<Rightarrow> bool" where
  "all_under out inn (Hole h) = (inn \<noteq> None)"
| "all_under out inn (Element t as es) = (t = out \<or> inn \<noteq> Some t \<and> list_all (all_under out inn) es)"

text \<open>
  So \<open>useAuth\<close> does not throw on any page, and the hooks of next-auth and next-themes find their providers.
\<close>

lemma pages_under_providers:
  "all_under ''AuthProvider'' None (RootLayout fonts Providers)"
  "all_under ''AuthProvider'' None (RootLayout fonts admin_Providers)"
  "all_under ''SessionProvider'' (Some ''AuthProvider'') (RootLayout fonts Providers)"
  "all_under ''ThemeProvider'' (Some ''ThemeFavicon'') (RootLayout fonts Providers)"
  "all_under ''ThemeProvider'' (Some ''ThemeFavicon'') (RootLayout fonts admin_Providers)"
  by (simp_all add: RootLayout_def Providers_def admin_Providers_def layout_links_def link_node_def)

end
