(* ===== verification/Spec2Isabelle.thy ===== *)
theory Spec2Isabelle
  imports Ip_Validation Admin_Api Admin_Auth Products_Page Services_Page Endpoints_Page Clients_Page
    Client_Permissions_Page User_Profiles_Page Destinations_Page Product_Detail Service_Detail
    Endpoint_Detail Dashboard_Page Apis_Page Dev_Auth Org_Clients_Page
    Ip_Restrictions_Page Endpoint_Requests_Page Admin_Traffic Registration Timers Widgets Apps_Demo
    Portal_Links Portal_Pages Branding Dev_Session Detail_Entities Browser_Hooks
    Backend_Pages Backend_Services Ui_Primitives
begin

text \<open>
  A verification development for the two web portals of the API gateway, the administration portal
  \<open>src/gateway-portal-admin\<close> and the developer portal \<open>src/gateway-portal-developer\<close>
  (Next.js, TypeScript).

  \<^bold>\<open>The program.\<close> An administrator signs in (\<open>lib/auth/AuthProvider.tsx\<close>, routes under
  \<open>app/api/auth\<close>); the session lives in memory and in \<open>localStorage\<close>. \<open>AuthGate\<close>,
  \<open>PermissionGate\<close> and \<open>Sidebar\<close> decide by \<open>routeGuards.ts\<close> what he sees. Each page
  under \<open>app/(protected)/admin\<close> is a React component: it keeps its state in \<open>useState\<close>,
  loads its rows in an effect through \<open>lib/api/admin.ts\<close> and \<open>lib/api/client.ts\<close>, and its event
  handlers send creates, updates and deletes and put the answers into the state. The interceptor of
  the client ends the session when the backend rejects it. In the developer portal the user comes from
  the next-auth session (\<open>app/api/auth/session\<close> and \<open>[...nextauth]\<close>) or from \<open>localStorage\<close>;
  \<open>useTenant\<close> reads the organisation from that session, and the pages for its clients, IP restrictions and
  endpoint requests fetch through \<open>lib/api/org.ts\<close> whenever it changes. The API catalogue
  (\<open>app/(protected)/apis/page.tsx\<close>) loads the public endpoints once and computes what it shows
  from filters; \<open>ipValidation.ts\<close> checks addresses. Login, registration and the demo of apps and keys
  exist in both portals.

  \<^bold>\<open>Theories and code.\<close>
  \<^item> \<open>Prelude\<close>: JavaScript strings as lists of 8-bit characters (\<open>js_string\<close>) with \<open>trim\<close>,
    \<open>toLowerCase\<close>, \<open>split\<close>, \<open>join\<close>, \<open>includes\<close>; numerals; objects used as dictionaries.
  \<^item> \<open>Js_Json\<close>: JSON values, property access, \<open>JSON.stringify\<close> and \<open>JSON.parse\<close>.
  \<^item> \<open>Vdom\<close>: what a component renders, as a tree of nodes that carry the handlers' messages;
    \<open>dispatch\<close> gives the messages a user's event reaches (a disabled control and an incomplete form
    give none). Here are \<open>FormDialog\<close>, \<open>ConfirmDialog\<close>, \<open>SectionHeader\<close>, \<open>StatCard\<close> and
    \<open>EmptyState\<close> of \<open>components/common\<close>.
  \<^item> \<open>Management_Types\<close> (\<open>types/management.ts\<close>), \<open>Http_Client\<close> (\<open>lib/api/client.ts\<close>),
    \<open>Admin_Api\<close> (\<open>lib/api/admin.ts\<close>: every function as the request it builds, and
    \<open>parseJsonArray\<close>).
  \<^item> \<open>Route_Guards\<close>: \<open>routeGuards.ts\<close>, the two gates, \<open>permissions.ts\<close>, \<open>navigation.ts\<close>,
    \<open>Sidebar.tsx\<close>. A guard returns an option, \<open>None\<close> where the code throws.
  \<^item> \<open>Admin_Auth\<close>: \<open>AuthProvider.tsx\<close> and the login, OAuth and session routes; \<open>auth_step\<close> puts
    them and the interceptor together as a state machine over browser and provider state.
  \<^item> \<open>List_Page\<close>: the world of a page that lists and creates rows (\<open>wstep\<close>, \<open>reachable\<close>), the
    contract of its operations (locales \<open>list_page\<close> and \<open>gated_list_page\<close>) and its consequences
    (\<open>safe_traffic\<close>, \<open>shown_rows\<close>); \<open>List_Progress\<close>: the steps of server and network alone, which end
    (\<open>env_run\<close>, \<open>due\<close>, locale \<open>settling_page\<close>), and the session a gated page refines
    (\<open>session_of\<close>, \<open>session_step\<close>). Interpreted by \<open>Products_Page\<close>, \<open>Services_Page\<close>,
    \<open>Endpoints_Page\<close>, \<open>Clients_Page\<close>, \<open>Client_Permissions_Page\<close>, \<open>User_Profiles_Page\<close> and
    \<open>Destinations_Page\<close>, each the model of the page of that name.
  \<^item> \<open>Detail_Page\<close>: the same for a page that loads, saves and deletes one entity (\<open>dstep\<close>,
    \<open>dreachable\<close>, locale \<open>detail_page\<close>, \<open>saves_safe\<close>, \<open>form_kept\<close>). Interpreted by
    \<open>Product_Detail\<close>, \<open>Service_Detail\<close> and \<open>Endpoint_Detail\<close>. \<open>Detail_Consistency\<close> gives such a page
    a server that stores the entity (\<open>sstep\<close>, locale \<open>served_detail_page\<close>, \<open>consistent\<close>); interpreted
    for the three pages in \<open>Detail_Entities\<close>.
  \<^item> \<open>Dashboard_Page\<close>: the admin dashboard; \<open>Apis_Page\<close>: the developer's API catalogue;
    \<open>Ip_Validation\<close>: the regular expressions as a matcher over character classes, and the
    validation functions.
  \<^item> \<open>Payload_Types\<close>: the payload types of \<open>types/management.ts\<close> as structural types of JSON values;
    \<open>Admin_Traffic\<close>: all requests the admin pages can send, against these types and the permissions.
  \<^item> \<open>Dev_Auth\<close>: \<open>AuthProvider.tsx\<close>, \<open>AuthGate.tsx\<close>, \<open>useTenant.ts\<close> and the next-auth, session and
    login routes of the developer portal; \<open>dev_step\<close> puts them together.
  \<^item> \<open>Org_Api\<close>: \<open>lib/api/org.ts\<close> and the developer portal's \<open>client.ts\<close>; \<open>Tenant_Page\<close>: the world of a
    page that fetches the rows of the current tenant (\<open>tstep\<close>, \<open>treachable\<close>, locale \<open>tenant_page\<close> with
    \<open>reads_only\<close>, \<open>own_rows\<close>, \<open>no_tenant_no_rows\<close>). Interpreted by \<open>Org_Clients_Page\<close>,
    \<open>Ip_Restrictions_Page\<close> and \<open>Endpoint_Requests_Page\<close>; this theory puts them under the sessions the
    portal really makes.
  \<^item> \<open>Login_Page\<close>: the login pages of both portals, and the admin one with its provider as a state
    machine (\<open>login_reachable\<close>); \<open>Registration\<close>: the registration pages and routes, and the pages for
    forgotten passwords.
  \<^item> \<open>Timers\<close>: \<open>debounce\<close>, \<open>useDebounce\<close> and \<open>useClipboard\<close> over the browser's timers; \<open>Widgets\<close>: sidebar
    of the developer portal, top bar of the admin portal, theme button, \<open>relativeTime\<close>,
    \<open>useApiLoading\<close>; \<open>Apps_Demo\<close>: apps, keys and console.
  \<^item> \<open>Static_Widgets\<close>: cards, choices, headers and tables of the pages over constant data;
    \<open>Admin_Records\<close>: \<open>types/admin.ts\<close>; \<open>Admin_Static_Pages\<close> (users, roles,
    groups, SSO, SCIM, keys, tenants, audit logs) and \<open>Admin_Operations_Pages\<close> (settings, alerts, metrics,
    bulk operations, specifications, maintenance, announcements, traces, profile, status, billing, support):
    what each renders, for \<open>Portal_Links\<close>.
  \<^item> \<open>Dev_Static_Pages\<close>: dashboard, profile, app details and settings, documentation and top bar of the
    developer portal; the home and error pages and \<open>AppShell\<close> of both portals.
  \<^item> \<open>Portal_Routes\<close>: the pages of both portals as their directories name them, and which paths they
    serve (\<open>routed\<close>); \<open>Portal_Links\<close>: the links of all pages of the admin portal, and of most pages of
    the developer portal, against these tables.
  \<^item> \<open>Portal_World\<close>: a list page in its portal, i.e. the steps of \<open>List_Page\<close> together with the interceptor,
    the session in memory and the browser, with sign-ins by credentials and through a provider
    (\<open>portal_step\<close>, \<open>portal_reachable\<close>); \<open>Portal_Pages\<close>: the services
    page in it.
  \<^item> \<open>Branding\<close>: the favicon component over the elements of the document's head, and the logo;
    \<open>Dev_Session\<close>: the restore of a session in the developer portal; \<open>Browser_Hooks\<close>: \<open>useMediaQuery\<close> over
    the browser's listeners, \<open>useMounted\<close> and the theme toggle of the layout; \<open>Ui_Primitives\<close>: the wrappers
    under \<open>components/ui\<close> as elements with attributes, which properties they hand on and which \<open>Button\<close> and
    \<open>Badge\<close> consume, the root layout and the providers.
  \<^item> \<open>Backend_Products\<close>: the handlers and queries of the middleware API for products (C\#:
    \<open>ProductsEndpoints.cs\<close>, \<open>ProductEntityRepository.cs\<close>, the table of \<open>001_initial_schema.sql\<close>) as a function from
    requests of the portal and rows to replies and rows (\<open>serve_products\<close>, \<open>middleware\<close>), and what of a reply the
    browser lets the client see, by the CORS policy of \<open>Program.cs\<close> (\<open>exchange\<close>); \<open>Backend_Portal\<close>: the
    product detail page's saves against it; \<open>Backend_Pages\<close>: the products page with this backend in place of the
    abstract server (\<open>system_act\<close>, \<open>system_reachable\<close>), and the portal in production; \<open>Backend_Services\<close>: the
    environment of a service in the backend's answers and in what its update handler takes over. As the backend
    gives a number where \<open>types/management.ts\<close> says \<open>string\<close>, the environment is an \<open>env_value\<close> in the pages too.

  In each page theory the record has a field per \<open>useState\<close>; \<open>x_load_ok\<close>, \<open>x_load_err\<close>,
  \<open>x_create_ok\<close>, \<open>x_create_err\<close> and so on are the code after an \<open>await\<close> (the \<open>finally\<close> included),
  \<open>x_handle\<close> is the synchronous part of each handler with the requests it sends, \<open>x_payload\<close> is
  the body of a request, and \<open>x_view\<close>, \<open>x_table\<close>, \<open>x_row\<close>, \<open>x_form_fields\<close> are the rendered
  tree. The theorems about a page quantify over every order of user events and answers.

  \<^bold>\<open>What is shown.\<close> Pages: at most one create or save is in flight, only requests the user
  may send leave the page and their bodies are clean, what is shown is what the server has, no row
  twice, each one once all is answered, and what a create of the products page that races the load shows in each
  order; without the user all comes to rest, and the
  gated pages refine a session over the stored rows. Detail pages: no update before the load, and
  when
  saving what was loaded sends the same values back. Traffic: every request is permitted and well typed, but for a
  numeric environment. Session: memory
  and storage agree after every history, and a rejected call ends the session. Guards: what they
  grant, and what the sidebar links to. Lists and search: counts, filters, grouping.
  \<open>Ip_Validation\<close>: the accepted language as a grammar, by which it is larger than CIDR notation, and the partition of a list. Developer portal: who is signed
  in, that its organisation pages only read, whose rows they show, and that with the sessions of this
  portal they show none. Sign-in and registration: what the forms let through, what the routes answer
  and where the pages lead. Timers: a debounced call runs once, with the last arguments, not too early.
  Catalogue: the dependency array of its effect suffices for what is shown to be up to date. Routes: every
  link of the admin portal leads to a page, but for the ones named. Portal: a mounted page belongs to the user who entered it,
  memory and storage agree until a rejection makes the browser leave, and what a rejected call of the
  services page does to all parts. Detail pages with a server: what is shown is what is stored. Favicon:
  what the effect makes of any head. Backend: a saved product is loaded again as saved, the last save wins, the
  products page on it is the one with the abstract server, outside of development no call
  succeeds (what the user sees then depends on the origin of the API), and portal and backend disagree on the
  environment of a service.

  \<^bold>\<open>Bounds and fuel.\<close> \<open>json_parse\<close> is a recursive-descent parser with the fuel
  \<open>2 * length s + 2\<close>; \<open>parse_fuel_enough\<close> shows that more fuel never changes its answer, and
  \<open>json_parse_stringify\<close> that it reads back what was written. Every other loop of the code is a
  recursion over a list. Numbers of the code that are counts, weights and times are \<open>nat\<close> or \<open>int\<close>; the
  only arithmetic on them is counting and the rounding division of \<open>relativeTime\<close>. The environment of a
  list page can take at most \<open>due w\<close> steps, and \<open>due w\<close> is at most 4 in a reachable state.

  \<^bold>\<open>Assumptions.\<close> Strings are over the 256 characters of Latin-1. Where it is abstract, the backend answers with
  bodies of the declared types (\<open>Backend_Services\<close> shows a column for which it does not); it may answer at any time, or never, and stores what it is asked to
  under a fresh identifier. Identifiers are not names of properties every JavaScript object has
  (\<open>toString\<close>), since the code looks them up in plain objects. A number input delivers whole
  numbers. The parameter \<open>fmt\<close> is \<open>String\<close> on a number of a JSON text, \<open>ld\<close> is the locale's date format
  and \<open>lc\<close> its collation, which the code leaves to the platform. An open dialog does not hide the
  page behind it from events, which allows more than Radix does, so that every statement about all
  histories still covers the real ones. Libraries: what is relied on of next-auth and of the routing of
  Next.js is the hypothesis \<open>documented\<close>, with an instance; \<open>email_ok\<close> stands for zod's check of an
  address; react-hook-form validates at a submit and, once one was settled, at a change, and disables
  nothing by itself; a timer of the browser runs at its due time or later. An identifier is one segment of a
  path. Characters outside Latin-1 in the constant texts are written in ASCII
  (an arrow as a hyphen and a greater-than sign). Next.js 16 passes \<open>params\<close> as a promise, so a page that reads a property of it
  without awaiting it reads \<open>undefined\<close> (\<open>None\<close> in the models of those pages).

  \<^bold>\<open>Not modelled.\<close> Of the backend (C\#) all but the products and the environment of services, and of an update of
  a service the SQL behind its handler: it is only the environment of the step relations. Fonts, icons and style sheets, class names but for those of the primitives;
  the libraries below the primitives; formatting through \<open>Intl\<close>, which is a parameter; what the browser does at a
  submit of the support form, which has no handler. Files that the two portals share word for word are modelled once.
\<close>

section \<open>The organisation pages in the portal as it is\<close>

text \<open>
  The sessions of the developer portal: what its session route answers, or what its next-auth callback
  makes of a session whose user has no \<open>tenantId\<close> (next-auth documents name, email and
  image); or none. The tenants they give the pages:
\<close>

definition portal_tenant :: "js_string option \<Rightarrow> bool" where
  "portal_tenant t \<longleftrightarrow>
     t = None
     \<or> (\<exists>now. t = tenant_key (useTenant (Some (dev_session_route now))))
     \<or> (\<exists>now session token. get_prop (the (map_of session ''user'')) ''tenantId'' = None
          \<and> t = tenant_key (useTenant (Some (JObj (session_callback now session token)))))"

lemma tenant_without_id:
  "session_prop (Some v) ''user'' = Some u \<Longrightarrow> get_prop u ''tenantId'' = None \<Longrightarrow>
     \<not> named_tenant (tenant_key (useTenant (Some v)))"
  by (simp add: useTenant_def tenant_key_def or_else_def truthy_def)

lemma portal_tenant_unnamed: "portal_tenant t \<Longrightarrow> \<not> named_tenant t"
proof -
  have "\<not> named_tenant (tenant_key (useTenant (Some (dev_session_route now))))" for now
    by (rule tenant_without_id) (auto simp: dev_session_route_def)
  moreover have "\<not> named_tenant (tenant_key (useTenant (Some (JObj (session_callback now session token)))))"
    if no: "get_prop (the (map_of session ''user'')) ''tenantId'' = None" for now session token
  proof (cases "map_of (session_callback now session token) ''user''")
    case None
    then show ?thesis
      by (simp add: useTenant_def tenant_key_def or_else_def truthy_def get_prop_def)
  next
    case (Some u)
    with session_callback_other [of "''tenantId''" now session token] no
    have "get_prop u ''tenantId'' = None" by simp
    with Some show ?thesis by (intro tenant_without_id) auto
  qed
  ultimately show "portal_tenant t \<Longrightarrow> \<not> named_tenant t" by (auto simp: portal_tenant_def)
qed

text \<open>
  C10: The sessions of the developer portal carry no tenant, neither the one of its session route nor one
  its next-auth callback makes; so its three organisation pages never send a request and show no client,
  no approval and no endpoint request, whatever the server holds and the user does.
\<close>

theorem org_pages_without_tenant:
  assumes "treachable (org_clients_ops ld) portal_tenant clients_of org_clients_init w1"
    and "treachable ip_ops portal_tenant approvals_of ip_page_init w2"
    and "treachable (requests_ops ld) portal_tenant requests_of requests_init w3"
  shows "tsent w1 = [] \<and> org_clients_page.clients (tpage w1) = [] \<and> \<not> org_clients_page.loading (tpage w1)
     \<and> tsent w2 = [] \<and> approvals (tpage w2) = [] \<and> \<not> ip_page.loading (tpage w2)
     \<and> tsent w3 = [] \<and> requests (tpage w3) = [] \<and> \<not> requests_page.loading (tpage w3)"
  using org_clients.no_tenant_no_rows [OF portal_tenant_unnamed assms(1)]
    ip_restrictions.no_tenant_no_rows [OF portal_tenant_unnamed assms(2)]
    endpoint_requests.no_tenant_no_rows [OF portal_tenant_unnamed assms(3)]
  by simp

theorem org_pages_without_tenant_witness:
  "tsent (start_tenant (org_clients_ops id) org_clients_init (Some [])) = []
   \<and> approvals (tpage (start_tenant ip_ops ip_page_init None)) = []
   \<and> requests (tpage (start_tenant (requests_ops id) requests_init None)) = []"
proof -
  have none: "portal_tenant None" by (simp add: portal_tenant_def)
  have "portal_tenant (tenant_key (useTenant (Some (dev_session_route ''t''))))"
    by (auto simp: portal_tenant_def)
  moreover have "tenant_key (useTenant (Some (dev_session_route ''t''))) = Some []"
    by (simp add: useTenant_def tenant_key_def dev_session_route_def or_else_def truthy_def)
  ultimately have "portal_tenant (Some [])" by simp
  then show ?thesis
    using org_pages_without_tenant [OF t_here [of portal_tenant "Some []"] t_here [of portal_tenant, OF none]
        t_here [of portal_tenant, OF none]]
    by blast
qed

end
